(* ===== verification/Js_Base.thy ===== *)
theory Js_Base
  imports Complex_Main "HOL-Library.Word" "HOL-Library.Sublist"
begin

text \<open>
  The prelude of the development: the part of the JavaScript language that the panel's sources
  use on every line. A string is a list of UTF-16 code units, as in the language; a value is one
  of the seven kinds of values the panel handles; an object keeps its own properties in insertion
  order. The collections \<open>js_simps\<close> (evaluation of the value operations), \<open>proc_simps\<close>
  (execution of asynchronous code), \<open>stays_intros\<close> (processes that keep an invariant) and \<open>panel_defs\<close> (definitions of the panel's own operations)
  carry the proofs of the component theories.
\<close>

named_theorems js_simps \<open>evaluation of JavaScript value operations\<close>
named_theorems proc_simps \<open>execution of asynchronous functions\<close>
named_theorems stays_intros \<open>processes that keep an invariant\<close>
named_theorems panel_defs \<open>definitions of the panel's operations\<close>

section \<open>Strings\<close>

type_synonym code_unit = "16 word"
type_synonym jstring = "code_unit list"

text \<open>\<open>js ''abc''\<close> is the JavaScript string of an ASCII literal.\<close>

definition js :: "string \<Rightarrow> jstring" where
  "js s = map of_char s"

lemma unat_of_char [simp]: "unat (of_char c :: code_unit) = of_char c"
proof -
  have "(of_char c :: nat) < 2 ^ 16"
    by (rule less_trans [OF nat_of_char_less_256]) simp
  then have "unat (of_nat (of_char c) :: code_unit) = of_char c"
    by (simp add: unat_of_nat)
  then show ?thesis by (simp add: of_nat_of_char)
qed

lemma of_char_code_unit_eq_iff [simp]: "(of_char c :: code_unit) = of_char d \<longleftrightarrow> c = d"
proof
  assume "(of_char c :: code_unit) = of_char d"
  then have "unat (of_char c :: code_unit) = unat (of_char d :: code_unit)" by simp
  then show "c = d" by simp
qed simp

lemma js_eq_iff [simp]: "js a = js b \<longleftrightarrow> a = b"
proof -
  have "inj (of_char :: char \<Rightarrow> code_unit)" by (rule injI) simp
  then show ?thesis by (simp add: js_def inj_map_eq_map)
qed

lemma js_Nil [simp]: "js [] = []"
  and js_eq_Nil_iff [simp]: "js a = [] \<longleftrightarrow> a = []"
  and Nil_eq_js_iff [simp]: "[] = js a \<longleftrightarrow> a = []"
  by (auto simp: js_def)

lemma js_append: "js (a @ b) = js a @ js b"
  by (simp add: js_def)

lemma js_Cons: "js (c # cs) = of_char c # js cs"
  by (simp add: js_def)

lemma length_js [simp]: "length (js s) = length s"
  by (simp add: js_def)

text \<open>The code units outside ASCII that the panel's literals contain.\<close>

definition ellipsis :: jstring where "ellipsis = [0x2026]"
definition em_dash :: jstring where "em_dash = [0x2014]"
definition right_arrow :: jstring where "right_arrow = [0x2192]"
definition middle_dot :: jstring where "middle_dot = [0xB7]"
definition bullet :: jstring where "bullet = [0x2022]"
definition apostrophe :: jstring where "apostrophe = [0x2019]"
definition infinity_sign :: jstring where "infinity_sign = [0x221E]"

lemmas special_strings = ellipsis_def em_dash_def right_arrow_def middle_dot_def bullet_def
  apostrophe_def infinity_sign_def

text \<open>
  \<open>WhiteSpace\<close> and \<open>LineTerminator\<close> of the language: what \<open>trim\<close> strips and \<open>\s\<close> matches.
\<close>

definition js_space :: "code_unit \<Rightarrow> bool" where
  "js_space c \<longleftrightarrow>
     c \<in> set [0x09, 0x0A, 0x0B, 0x0C, 0x0D, 0x20, 0xA0, 0x1680, 0x2000, 0x2001, 0x2002, 0x2003,
            0x2004, 0x2005, 0x2006, 0x2007, 0x2008, 0x2009, 0x200A, 0x2028, 0x2029, 0x202F,
            0x205F, 0x3000, 0xFEFF]"

definition trim_start :: "jstring \<Rightarrow> jstring" where
  "trim_start s = dropWhile js_space s"

definition trim :: "jstring \<Rightarrow> jstring" where
  "trim s = rev (dropWhile js_space (rev (trim_start s)))"

definition trimmed :: "jstring \<Rightarrow> bool" where
  "trimmed s \<longleftrightarrow> s = [] \<or> (\<not> js_space (hd s) \<and> \<not> js_space (last s))"

lemma trim_Nil [simp]: "trim [] = []"
  by (simp add: trim_def trim_start_def)

lemma dropWhile_id: "(xs \<noteq> [] \<Longrightarrow> \<not> P (hd xs)) \<Longrightarrow> dropWhile P xs = xs"
  by (cases xs) auto

lemma trim_trimmed [simp]: "trimmed s \<Longrightarrow> trim s = s"
  by (auto simp: trimmed_def trim_def trim_start_def hd_rev dropWhile_id)

lemma hd_rev_dropWhile_rev:
  "rev (dropWhile P (rev xs)) \<noteq> [] \<Longrightarrow> hd (rev (dropWhile P (rev xs))) = hd xs"
proof -
  assume ne: "rev (dropWhile P (rev xs)) \<noteq> []"
  have "xs = rev (dropWhile P (rev xs)) @ rev (takeWhile P (rev xs))"
    by (metis rev_append rev_rev_ident takeWhile_dropWhile_id)
  with ne show ?thesis by (metis hd_append)
qed

lemma trimmed_trim [simp]: "trimmed (trim s)"
proof (cases "trim s = []")
  case True
  then show ?thesis by (simp add: trimmed_def)
next
  case False
  let ?d = "dropWhile js_space s"
  have ne: "rev (dropWhile js_space (rev ?d)) \<noteq> []"
    using False by (simp add: trim_def trim_start_def)
  then have "?d \<noteq> []" by (metis dropWhile.simps(1) rev.simps(1))
  have "hd (trim s) = hd ?d"
    using hd_rev_dropWhile_rev [OF ne] by (simp add: trim_def trim_start_def)
  moreover have "\<not> js_space (hd ?d)"
    using \<open>?d \<noteq> []\<close> by (rule hd_dropWhile)
  moreover have "last (trim s) = hd (dropWhile js_space (rev ?d))"
    using ne by (simp add: trim_def trim_start_def last_rev del: rev_is_Nil_conv dropWhile_eq_Nil_conv)
  moreover have "\<not> js_space (hd (dropWhile js_space (rev ?d)))"
    using ne by (intro hd_dropWhile) (simp del: dropWhile_eq_Nil_conv)
  ultimately show ?thesis by (simp add: trimmed_def)
qed

lemma trim_idem [simp]: "trim (trim s) = trim s"
  by simp

text \<open>\<open>s.replace(/\/$/, "")\<close>: one trailing slash is dropped.\<close>

definition drop_trailing_slash :: "jstring \<Rightarrow> jstring" where
  "drop_trailing_slash s = (if s \<noteq> [] \<and> last s = 0x2F then butlast s else s)"

text \<open>
  ASCII letter case: what \<open>toLowerCase\<close> does to the two back-off kinds and what the
  case-insensitive regular expression of the token prefix compares.
\<close>

definition ascii_lower :: "code_unit \<Rightarrow> code_unit" where
  "ascii_lower c = (if 0x41 \<le> c \<and> c \<le> 0x5A then c + 0x20 else c)"

definition to_lower_case :: "jstring \<Rightarrow> jstring" where
  "to_lower_case s = map ascii_lower s"

section \<open>Values\<close>

text \<open>
  A number is a double. \<open>Num\<close> holds the exact rational value of a finite one (the two zeros are
  one value here: no operation the panel uses tells them apart).
\<close>

datatype jsnum = NaN | PosInf | NegInf | Num rat

datatype jsval =
    JUndef
  | JNull
  | JBool bool
  | JNum jsnum
  | JStr jstring
  | JArr "jsval list"
  | JObj "(jstring \<times> jsval) list"

abbreviation jint :: "int \<Rightarrow> jsval" where
  "jint n \<equiv> JNum (Num (of_int n))"

abbreviation jlit :: "string \<Rightarrow> jsval" where
  "jlit s \<equiv> JStr (js s)"

text \<open>Truthiness, \<open>||\<close> and \<open>??\<close>.\<close>

fun truthy :: "jsval \<Rightarrow> bool" where
  "truthy JUndef = False"
| "truthy JNull = False"
| "truthy (JBool b) = b"
| "truthy (JNum n) = (n \<noteq> NaN \<and> n \<noteq> Num 0)"
| "truthy (JStr s) = (s \<noteq> [])"
| "truthy (JArr xs) = True"
| "truthy (JObj kvs) = True"

definition js_or :: "jsval \<Rightarrow> jsval \<Rightarrow> jsval" where
  "js_or a b = (if truthy a then a else b)"

definition js_nullish :: "jsval \<Rightarrow> bool" where
  "js_nullish v \<longleftrightarrow> v = JUndef \<or> v = JNull"

definition js_coalesce :: "jsval \<Rightarrow> jsval \<Rightarrow> jsval" where
  "js_coalesce a b = (if js_nullish a then b else a)"

text \<open>\<open>||\<close> between two strings.\<close>

definition str_or :: "jstring \<Rightarrow> jstring \<Rightarrow> jstring" where
  "str_or a b = (if a = [] then b else a)"

lemma str_or_simps [simp]: "str_or [] b = b" "a \<noteq> [] \<Longrightarrow> str_or a b = a"
  by (auto simp: str_or_def)

section \<open>Own properties\<close>

text \<open>
  An object's own properties, in the order the language enumerates them: the array-index keys
  ascending, then the other keys in the order of their creation. A write replaces the value in
  place, or creates the property.
\<close>

definition index_key :: "jstring \<Rightarrow> int option" where
  "index_key k =
     (if k \<noteq> [] \<and> list_all (\<lambda>c. 0x30 \<le> c \<and> c \<le> 0x39) k \<and> (k = [0x30] \<or> hd k \<noteq> 0x30)
      then let n = foldl (\<lambda>n c. 10 * n + (uint c - 0x30)) 0 k
           in if n < 2 ^ 32 - 1 then Some n else None
      else None)"

definition index_below :: "int \<Rightarrow> jstring \<times> 'v \<Rightarrow> bool" where
  "index_below n kv = (case index_key (fst kv) of None \<Rightarrow> False | Some m \<Rightarrow> m < n)"

fun obj_get :: "(jstring \<times> 'v) list \<Rightarrow> jstring \<Rightarrow> 'v option" where
  "obj_get [] k = None"
| "obj_get ((k', v) # kvs) k = (if k' = k then Some v else obj_get kvs k)"

fun obj_replace :: "(jstring \<times> 'v) list \<Rightarrow> jstring \<Rightarrow> 'v \<Rightarrow> (jstring \<times> 'v) list" where
  "obj_replace [] k v = []"
| "obj_replace ((k', v') # kvs) k v =
     (if k' = k then (k, v) # kvs else (k', v') # obj_replace kvs k v)"

definition obj_create :: "(jstring \<times> 'v) list \<Rightarrow> jstring \<Rightarrow> 'v \<Rightarrow> (jstring \<times> 'v) list" where
  "obj_create kvs k v =
     (case index_key k of
        None \<Rightarrow> kvs @ [(k, v)]
      | Some n \<Rightarrow> takeWhile (index_below n) kvs @ [(k, v)] @ dropWhile (index_below n) kvs)"

definition obj_set :: "(jstring \<times> 'v) list \<Rightarrow> jstring \<Rightarrow> 'v \<Rightarrow> (jstring \<times> 'v) list" where
  "obj_set kvs k v = (if obj_get kvs k = None then obj_create kvs k v else obj_replace kvs k v)"

definition obj_delete :: "(jstring \<times> 'v) list \<Rightarrow> jstring \<Rightarrow> (jstring \<times> 'v) list" where
  "obj_delete kvs k = filter (\<lambda>(k', _). k' \<noteq> k) kvs"

definition obj_keys :: "(jstring \<times> 'v) list \<Rightarrow> jstring list" where
  "obj_keys kvs = map fst kvs"

lemma obj_get_None_iff: "obj_get kvs k = None \<longleftrightarrow> k \<notin> set (obj_keys kvs)"
  by (induction kvs k rule: obj_get.induct) (auto simp: obj_keys_def)

lemma obj_get_append:
  "obj_get (xs @ ys) k = (case obj_get xs k of None \<Rightarrow> obj_get ys k | Some v \<Rightarrow> Some v)"
  by (induction xs k rule: obj_get.induct) auto

lemma obj_keys_create: "set (obj_keys (obj_create kvs k v)) = insert k (set (obj_keys kvs))"
proof -
  have "set kvs = set (takeWhile P kvs) \<union> set (dropWhile P kvs)" for P
    by (metis set_append takeWhile_dropWhile_id)
  then show ?thesis
    by (auto simp: obj_create_def obj_keys_def image_Un split: option.split)
qed

lemma obj_keys_replace: "obj_keys (obj_replace kvs k v) = obj_keys kvs"
  by (induction kvs k v rule: obj_replace.induct) (auto simp: obj_keys_def)

lemma obj_get_replace:
  "obj_get (obj_replace kvs k v) k' =
     (if k' = k \<and> obj_get kvs k \<noteq> None then Some v else obj_get kvs k')"
  by (induction kvs k v rule: obj_replace.induct) auto

lemma obj_get_create:
  "obj_get kvs k = None \<Longrightarrow>
   obj_get (obj_create kvs k v) k' = (if k' = k then Some v else obj_get kvs k')"
proof (cases "index_key k")
  case None
  assume "obj_get kvs k = None"
  with None show ?thesis
    by (auto simp: obj_create_def obj_get_append split: option.split)
next
  case (Some n)
  assume new: "obj_get kvs k = None"
  let ?t = "takeWhile (index_below n) kvs" and ?d = "dropWhile (index_below n) kvs"
  have eq: "obj_get kvs j = (case obj_get ?t j of None \<Rightarrow> obj_get ?d j | Some w \<Rightarrow> Some w)" for j
    by (metis obj_get_append takeWhile_dropWhile_id)
  from new eq [of k] have "obj_get ?t k = None" by (auto split: option.splits)
  with Some eq [of k'] show ?thesis
    by (auto simp: obj_create_def obj_get_append split: option.splits)
qed

lemma obj_get_set [simp]:
  "obj_get (obj_set kvs k v) k' = (if k' = k then Some v else obj_get kvs k')"
  by (auto simp: obj_set_def obj_get_create obj_get_replace)

lemma obj_keys_set: "set (obj_keys (obj_set kvs k v)) = insert k (set (obj_keys kvs))"
  by (auto simp: obj_set_def obj_keys_create obj_keys_replace obj_get_None_iff)

lemma distinct_obj_keys_set:
  "distinct (obj_keys kvs) \<Longrightarrow> distinct (obj_keys (obj_set kvs k v))"
proof -
  assume d: "distinct (obj_keys kvs)"
  have "distinct (obj_keys (obj_create kvs k v))" if "k \<notin> set (obj_keys kvs)"
  proof (cases "index_key k")
    case None
    with d that show ?thesis by (auto simp: obj_create_def obj_keys_def)
  next
    case (Some n)
    let ?t = "takeWhile (index_below n) kvs" and ?d = "dropWhile (index_below n) kvs"
    have eq: "obj_keys kvs = map fst ?t @ map fst ?d"
      by (metis map_append obj_keys_def takeWhile_dropWhile_id)
    from d that Some show ?thesis unfolding eq by (auto simp: obj_create_def obj_keys_def)
  qed
  with d show ?thesis by (simp add: obj_set_def obj_keys_replace obj_get_None_iff)
qed

lemma obj_set_fresh:
  "k \<notin> set (obj_keys kvs) \<Longrightarrow> index_key k = None \<Longrightarrow> obj_set kvs k v = kvs @ [(k, v)]"
  by (simp add: obj_set_def obj_create_def obj_get_None_iff)

lemma obj_get_delete [simp]:
  "obj_get (obj_delete kvs k) k' = (if k' = k then None else obj_get kvs k')"
  by (induction kvs) (auto simp: obj_delete_def)

section \<open>Errors\<close>

text \<open>
  What a \<open>catch\<close> receives: an \<open>Error\<close> object of the language or the platform with its name and
  message, an \<open>ApiError\<close> of \<open>lib/api.ts\<close>, or some other thrown value.
\<close>

datatype jserr =
    Exn (err_name: jstring) (err_message: jstring)
  | ApiError (api_message: jstring) (api_status: int) (api_body: jsval)
  | Thrown jsval

definition type_error :: "jstring \<Rightarrow> jserr" where
  "type_error m = Exn (js ''TypeError'') m"

definition read_error :: "jsval \<Rightarrow> string \<Rightarrow> jserr" where
  "read_error v k = type_error
     (js ''Cannot read properties of '' @ (if v = JNull then js ''null'' else js ''undefined'') @
      js '' (reading '' @ [0x27] @ js k @ [0x27] @ js '')'')"

text \<open>
  \<open>v.k\<close>: reading a property of \<open>null\<close> or \<open>undefined\<close> throws; a property the value does not have
  is \<open>undefined\<close>. \<open>opt_prop\<close> is \<open>v?.k\<close>.
\<close>

fun opt_prop :: "jsval \<Rightarrow> string \<Rightarrow> jsval" where
  "opt_prop (JObj kvs) k = (case obj_get kvs (js k) of None \<Rightarrow> JUndef | Some v \<Rightarrow> v)"
| "opt_prop _ k = JUndef"

definition get_prop :: "jsval \<Rightarrow> string \<Rightarrow> jserr + jsval" where
  "get_prop v k = (if js_nullish v then Inl (read_error v k) else Inr (opt_prop v k))"

text \<open>The elements of an array; \<open>xs || []\<close> where \<open>xs\<close> is declared as an optional array.\<close>

fun elems :: "jsval \<Rightarrow> jsval list" where
  "elems (JArr xs) = xs"
| "elems _ = []"

lemma js_or_simps [js_simps]:
  "js_or JUndef b = b" "js_or JNull b = b" "js_or (JStr s) b = (if s = [] then b else JStr s)"
  "js_or (JArr xs) b = JArr xs" "js_or (JObj kvs) b = JObj kvs"
  "js_or (JBool c) b = (if c then JBool True else b)"
  by (auto simp: js_or_def)

lemma js_coalesce_simps [js_simps]:
  "js_coalesce JUndef b = b" "js_coalesce JNull b = b" "js_coalesce (JStr s) b = JStr s"
  "js_coalesce (JArr xs) b = JArr xs" "js_coalesce (JObj kvs) b = JObj kvs"
  "js_coalesce (JBool c) b = JBool c" "js_coalesce (JNum n) b = JNum n"
  by (auto simp: js_coalesce_def js_nullish_def)

lemma get_prop_obj [js_simps]: "get_prop (JObj kvs) k = Inr (opt_prop (JObj kvs) k)"
  by (simp add: get_prop_def js_nullish_def)

lemma get_prop_undef [js_simps]:
  "get_prop JUndef k = Inl (read_error JUndef k)" "get_prop JNull k = Inl (read_error JNull k)"
  by (simp_all add: get_prop_def js_nullish_def)

end
