(* ===== verification/Js_Number.thy ===== *)
theory Js_Number
  imports Js_Base "HOL-Library.Log_Nat"
begin

text \<open>
  Numbers: doubles with round-to-nearest-even, the conversions \<open>Number(s)\<close>, \<open>parseInt(s, 10)\<close>,
  \<open>String(n)\<close> and \<open>n.toFixed(1)\<close>, and the arithmetic the panel does. A finite number is held as its
  exact rational value; every operation that could leave the doubles rounds with \<open>fl\<close>.
\<close>

section \<open>Rounding\<close>

definition pow2 :: "int \<Rightarrow> rat" where
  "pow2 e = (if 0 \<le> e then 2 ^ nat e else 1 / 2 ^ nat (- e))"

text \<open>The integer nearest to \<open>x\<close>, the even one of two.\<close>

definition round_even :: "rat \<Rightarrow> int" where
  "round_even x =
     (let n = \<lfloor>x\<rfloor>; d = x - of_int n
      in if d < 1 / 2 then n else if d > 1 / 2 then n + 1 else if even n then n else n + 1)"

text \<open>The binary exponent of the last of 53 significant bits of \<open>x > 0\<close>, at least \<open>-1074\<close>.\<close>

definition ulp_exp :: "rat \<Rightarrow> int" where
  "ulp_exp x =
     (let (p, q) = quotient_of x; k = bitlen p - bitlen q
      in max (- 1074) ((if pow2 k \<le> x then k else k - 1) - 52))"

definition fl_pos :: "rat \<Rightarrow> jsnum" where
  "fl_pos x =
     (let e = ulp_exp x; y = of_int (round_even (x / pow2 e)) * pow2 e
      in if pow2 1024 \<le> y then PosInf else Num y)"

fun num_neg :: "jsnum \<Rightarrow> jsnum" where
  "num_neg NaN = NaN"
| "num_neg PosInf = NegInf"
| "num_neg NegInf = PosInf"
| "num_neg (Num x) = Num (- x)"

text \<open>The double nearest to \<open>x\<close>. An integer of at most 53 bits is one.\<close>

definition fl :: "rat \<Rightarrow> jsnum" where
  "fl x =
     (if x = of_int \<lfloor>x\<rfloor> \<and> \<bar>x\<bar> \<le> 2 ^ 53 then Num x
      else if 0 < x then fl_pos x else num_neg (fl_pos (- x)))"

lemma fl_of_int [simp]: "\<bar>n\<bar> \<le> 2 ^ 53 \<Longrightarrow> fl (of_int n) = Num (of_int n)"
proof -
  assume "\<bar>n\<bar> \<le> 2 ^ 53"
  then have "(of_int \<bar>n\<bar> :: rat) \<le> of_int (2 ^ 53)" by (simp only: of_int_le_iff)
  then have "\<bar>of_int n :: rat\<bar> \<le> 2 ^ 53" by simp
  then show ?thesis by (simp add: fl_def)
qed

lemma fl_of_nat [simp]: "n \<le> 2 ^ 53 \<Longrightarrow> fl (of_nat n) = Num (of_nat n)"
  using fl_of_int [of "int n"] by simp

section \<open>Arithmetic\<close>

fun num_add :: "jsnum \<Rightarrow> jsnum \<Rightarrow> jsnum" where
  "num_add (Num x) (Num y) = fl (x + y)"
| "num_add NaN _ = NaN"
| "num_add _ NaN = NaN"
| "num_add PosInf NegInf = NaN"
| "num_add NegInf PosInf = NaN"
| "num_add PosInf _ = PosInf"
| "num_add _ PosInf = PosInf"
| "num_add NegInf _ = NegInf"
| "num_add _ NegInf = NegInf"

text \<open>Products with a positive integer constant, the only ones the panel forms.\<close>

fun num_scale :: "nat \<Rightarrow> jsnum \<Rightarrow> jsnum" where
  "num_scale k (Num x) = fl (of_nat k * x)"
| "num_scale k n = n"

fun num_div :: "jsnum \<Rightarrow> nat \<Rightarrow> jsnum" where
  "num_div (Num x) k = fl (x / of_nat k)"
| "num_div n k = n"

fun num_ceil :: "jsnum \<Rightarrow> jsnum" where
  "num_ceil (Num x) = Num (of_int \<lceil>x\<rceil>)"
| "num_ceil n = n"

fun num_less :: "jsnum \<Rightarrow> jsnum \<Rightarrow> bool" where
  "num_less (Num x) (Num y) = (x < y)"
| "num_less NaN _ = False"
| "num_less _ NaN = False"
| "num_less PosInf _ = False"
| "num_less _ NegInf = False"
| "num_less NegInf _ = True"
| "num_less _ PosInf = True"

text \<open>\<open>Math.max(0, n)\<close> and \<open>Math.max(1, n)\<close>.\<close>

definition max_num :: "rat \<Rightarrow> jsnum \<Rightarrow> jsnum" where
  "max_num m n = (if n = NaN then NaN else if num_less n (Num m) then Num m else n)"

definition num_finite :: "jsnum \<Rightarrow> bool" where
  "num_finite n \<longleftrightarrow> (\<exists>x. n = Num x)"

lemma num_finite_code [code, simp]:
  "num_finite NaN = False" "num_finite PosInf = False" "num_finite NegInf = False"
  "num_finite (Num x) = True"
  by (auto simp: num_finite_def)

section \<open>Decimal text\<close>

definition digit_char :: "int \<Rightarrow> code_unit" where
  "digit_char d = of_int (0x30 + d)"

definition is_digit :: "code_unit \<Rightarrow> bool" where
  "is_digit c \<longleftrightarrow> 0x30 \<le> c \<and> c \<le> 0x39"

definition digit_val :: "code_unit \<Rightarrow> int" where
  "digit_val c = uint c - 0x30"

function int_digits :: "int \<Rightarrow> int list" where
  "int_digits n = (if n < 10 then [n] else int_digits (n div 10) @ [n mod 10])"
  by pat_completeness auto
termination
  by (relation "measure nat") auto

declare int_digits.simps [simp del]

text \<open>The decimal digits of \<open>0 \<le> n\<close>, and the text of an integer.\<close>

definition show_digits :: "int \<Rightarrow> jstring" where
  "show_digits n = map digit_char (int_digits n)"

definition show_int :: "int \<Rightarrow> jstring" where
  "show_int n = (if n < 0 then js ''-'' @ show_digits (- n) else show_digits n)"

definition digits_value :: "jstring \<Rightarrow> int" where
  "digits_value s = foldl (\<lambda>n c. 10 * n + digit_val c) 0 s"

lemma int_digits_range: "0 \<le> n \<Longrightarrow> d \<in> set (int_digits n) \<Longrightarrow> 0 \<le> d \<and> d < 10"
proof (induction n rule: int_digits.induct)
  case (1 n)
  then show ?case by (cases "n < 10") (auto simp: int_digits.simps [of n])
qed

lemma int_digits_not_Nil [simp]: "int_digits n \<noteq> []"
  by (subst int_digits.simps) simp

lemma uint_digit_char: "0 \<le> d \<Longrightarrow> d < 10 \<Longrightarrow> uint (digit_char d) = 0x30 + d"
  unfolding digit_char_def by (subst uint_word_of_int) simp

lemma is_digit_uint: "is_digit c \<longleftrightarrow> 0x30 \<le> uint c \<and> uint c \<le> 0x39"
  by (simp add: is_digit_def word_le_def)

lemma is_digit_digit_char [simp]: "0 \<le> d \<Longrightarrow> d < 10 \<Longrightarrow> is_digit (digit_char d)"
  by (simp add: is_digit_uint uint_digit_char)

lemma digit_val_digit_char [simp]: "0 \<le> d \<Longrightarrow> d < 10 \<Longrightarrow> digit_val (digit_char d) = d"
  by (simp add: digit_val_def uint_digit_char)

lemma show_digits_not_Nil [simp]: "show_digits n \<noteq> []"
  by (simp add: show_digits_def)

lemma show_digits_digits: "0 \<le> n \<Longrightarrow> c \<in> set (show_digits n) \<Longrightarrow> is_digit c"
  by (auto simp: show_digits_def dest: int_digits_range)

lemma digits_value_snoc: "digits_value (s @ [c]) = 10 * digits_value s + digit_val c"
  by (simp add: digits_value_def)

lemma digits_value_show_digits [simp]: "0 \<le> n \<Longrightarrow> digits_value (show_digits n) = n"
proof (induction n rule: int_digits.induct)
  case (1 n)
  show ?case
  proof (cases "n < 10")
    case True
    with 1 show ?thesis
      by (simp add: show_digits_def int_digits.simps [of n] digits_value_def)
  next
    case False
    have "show_digits n = show_digits (n div 10) @ [digit_char (n mod 10)]"
      using False by (simp add: show_digits_def int_digits.simps [of n])
    then show ?thesis using 1 False by (simp add: digits_value_snoc)
  qed
qed

lemma show_digits_inj: "0 \<le> m \<Longrightarrow> 0 \<le> n \<Longrightarrow> show_digits m = show_digits n \<longleftrightarrow> m = n"
  by (metis digits_value_show_digits)

lemma not_is_digit_minus [simp]: "\<not> is_digit 0x2D"
  by (simp add: is_digit_def)

lemma hd_show_digits: "0 \<le> n \<Longrightarrow> is_digit (hd (show_digits n))"
  by (meson hd_in_set show_digits_digits show_digits_not_Nil)

lemma js_minus: "js ''-'' = [0x2D]"
  by (simp add: js_def)

lemma show_int_not_Nil [simp]: "show_int n \<noteq> []"
  by (simp add: show_int_def)

lemma show_int_inj [simp]: "show_int m = show_int n \<longleftrightarrow> m = n"
proof
  assume eq: "show_int m = show_int n"
  have sign: "hd (show_int k) = 0x2D \<longleftrightarrow> k < 0" for k
    using hd_show_digits [of k] by (auto simp: show_int_def js_minus)
  from eq sign have "m < 0 \<longleftrightarrow> n < 0" by metis
  with eq show "m = n"
    by (auto simp: show_int_def show_digits_inj split: if_splits)
qed simp

section \<open>String(n)\<close>

definition pow10 :: "int \<Rightarrow> rat" where
  "pow10 e = (if 0 \<le> e then 10 ^ nat e else 1 / 10 ^ nat (- e))"

text \<open>The \<open>n\<close> with \<open>10 ^ (n - 1) \<le> x < 10 ^ n\<close>, for \<open>x > 0\<close>.\<close>

definition dec_exp :: "rat \<Rightarrow> int" where
  "dec_exp x =
     (let (p, q) = quotient_of x;
          k = int (length (int_digits p)) - int (length (int_digits q))
      in if pow10 k \<le> x then k + 1 else k)"

text \<open>
  The shortest digit string that reads back as \<open>x\<close>: for \<open>k\<close> digits, the nearer of the two
  candidates that rounds to \<open>x\<close>.
\<close>

definition shortest_at :: "rat \<Rightarrow> int \<Rightarrow> nat \<Rightarrow> int option" where
  "shortest_at x n k =
     (let u = pow10 (n - int k); lo = \<lfloor>x / u\<rfloor>; hi = lo + 1;
          ok = (\<lambda>s. fl (of_int s * u) = Num x)
      in if ok lo \<and> (\<not> ok hi \<or> x - of_int lo * u \<le> of_int hi * u - x) then Some lo
         else if ok hi then Some hi else None)"

definition shortest :: "rat \<Rightarrow> int \<times> nat \<times> int" where
  "shortest x =
     (let n = dec_exp x;
          (s, k) = (case find (\<lambda>k. shortest_at x n k \<noteq> None) [1..<18] of
                      Some k \<Rightarrow> (the (shortest_at x n k), k)
                    | None \<Rightarrow> (\<lfloor>x / pow10 (n - 17)\<rfloor>, 17))
      in if s = 10 ^ k then (10 ^ (k - 1), k, n + 1) else (s, k, n))"

definition show_pos :: "rat \<Rightarrow> jstring" where
  "show_pos x =
     (let (s, k, n) = shortest x; ds = show_digits s in
      if int k \<le> n \<and> n \<le> 21 then ds @ replicate (nat (n - int k)) 0x30
      else if 0 < n \<and> n \<le> 21 then take (nat n) ds @ js ''.'' @ drop (nat n) ds
      else if - 6 < n \<and> n \<le> 0 then js ''0.'' @ replicate (nat (- n)) 0x30 @ ds
      else take 1 ds @ (if k = 1 then [] else js ''.'' @ drop 1 ds) @ js ''e'' @
           (if 0 < n then js ''+'' else js ''-'') @ show_digits \<bar>n - 1\<bar>)"

fun num_string :: "jsnum \<Rightarrow> jstring" where
  "num_string NaN = js ''NaN''"
| "num_string PosInf = js ''Infinity''"
| "num_string NegInf = js ''-Infinity''"
| "num_string (Num x) =
     (if x = of_int \<lfloor>x\<rfloor> \<and> \<bar>x\<bar> \<le> 2 ^ 53 then show_int \<lfloor>x\<rfloor>
      else if 0 < x then show_pos x else js ''-'' @ show_pos (- x))"

lemma num_string_of_int [simp]: "\<bar>n\<bar> \<le> 2 ^ 53 \<Longrightarrow> num_string (Num (of_int n)) = show_int n"
proof -
  assume "\<bar>n\<bar> \<le> 2 ^ 53"
  then have "(of_int \<bar>n\<bar> :: rat) \<le> of_int (2 ^ 53)" by (simp only: of_int_le_iff)
  then have "\<bar>of_int n :: rat\<bar> \<le> 2 ^ 53" by simp
  then show ?thesis by simp
qed

section \<open>Number(s) and parseInt(s, 10)\<close>

text \<open>The longest prefix of digits.\<close>

definition span_digits :: "jstring \<Rightarrow> jstring \<times> jstring" where
  "span_digits s = (takeWhile is_digit s, dropWhile is_digit s)"

text \<open>\<open>parseInt(s, 10)\<close>: leading white space, a sign, then the longest prefix of digits.\<close>

definition parse_int :: "jstring \<Rightarrow> jsnum" where
  "parse_int s =
     (let t = trim_start s;
          neg = (t \<noteq> [] \<and> hd t = 0x2D);
          u = (if t \<noteq> [] \<and> (hd t = 0x2D \<or> hd t = 0x2B) then tl t else t);
          ds = takeWhile is_digit u
      in if ds = [] then NaN
         else let n = fl (of_int (digits_value ds)) in if neg then num_neg n else n)"

text \<open>An optional exponent part; the whole rest must be consumed.\<close>

definition parse_exponent :: "jstring \<Rightarrow> int option" where
  "parse_exponent s =
     (if s = [] then Some 0
      else if hd s = 0x65 \<or> hd s = 0x45 then
        (let t = tl s;
             neg = (t \<noteq> [] \<and> hd t = 0x2D);
             u = (if t \<noteq> [] \<and> (hd t = 0x2D \<or> hd t = 0x2B) then tl t else t)
         in if u \<noteq> [] \<and> list_all is_digit u
            then Some (if neg then - digits_value u else digits_value u) else None)
      else None)"

text \<open>\<open>StrUnsignedDecimalLiteral\<close>: \<open>Infinity\<close>, or digits with a point and an exponent.\<close>

definition parse_decimal :: "jstring \<Rightarrow> jsnum" where
  "parse_decimal s =
     (if s = js ''Infinity'' then PosInf
      else let (ip, r) = span_digits s;
               (fp, r') = (if r \<noteq> [] \<and> hd r = 0x2E then span_digits (tl r) else ([], r))
           in if ip = [] \<and> fp = [] then NaN
              else case parse_exponent r' of
                     None \<Rightarrow> NaN
                   | Some e \<Rightarrow> fl (of_int (digits_value (ip @ fp)) * pow10 (e - int (length fp))))"

definition hex_val :: "code_unit \<Rightarrow> int option" where
  "hex_val c =
     (if is_digit c then Some (uint c - 0x30)
      else if 0x61 \<le> c \<and> c \<le> 0x66 then Some (uint c - 0x57)
      else if 0x41 \<le> c \<and> c \<le> 0x46 then Some (uint c - 0x37) else None)"

definition parse_radix :: "int \<Rightarrow> jstring \<Rightarrow> jsnum" where
  "parse_radix b s =
     (if s \<noteq> [] \<and> list_all (\<lambda>c. case hex_val c of None \<Rightarrow> False | Some d \<Rightarrow> d < b) s
      then fl (of_int (foldl (\<lambda>n c. b * n + the (hex_val c)) 0 s)) else NaN)"

text \<open>\<open>Number(s)\<close>.\<close>

definition string_to_number :: "jstring \<Rightarrow> jsnum" where
  "string_to_number s =
     (let t = trim s; p = to_lower_case (take 2 t) in
      if t = [] then Num 0
      else if p = js ''0x'' then parse_radix 16 (drop 2 t)
      else if p = js ''0o'' then parse_radix 8 (drop 2 t)
      else if p = js ''0b'' then parse_radix 2 (drop 2 t)
      else if hd t = 0x2D then num_neg (parse_decimal (tl t))
      else if hd t = 0x2B then parse_decimal (tl t)
      else parse_decimal t)"

section \<open>Conversions of values\<close>

text \<open>
  \<open>String(v)\<close>. An array joins its elements with commas, \<open>null\<close> and \<open>undefined\<close> elements being
  empty; an object without a \<open>toString\<close> of its own is \<open>[object Object]\<close>.
\<close>

fun intersperse :: "jstring \<Rightarrow> jstring list \<Rightarrow> jstring" where
  "intersperse sep [] = []"
| "intersperse sep [x] = x"
| "intersperse sep (x # y # xs) = x @ sep @ intersperse sep (y # xs)"

fun to_string :: "jsval \<Rightarrow> jstring" where
  "to_string JUndef = js ''undefined''"
| "to_string JNull = js ''null''"
| "to_string (JBool b) = (if b then js ''true'' else js ''false'')"
| "to_string (JNum n) = num_string n"
| "to_string (JStr s) = s"
| "to_string (JArr xs) =
     intersperse (js '','') (map (\<lambda>v. if js_nullish v then [] else to_string v) xs)"
| "to_string (JObj kvs) = js ''[object Object]''"

text \<open>\<open>xs.join(sep)\<close>.\<close>

definition js_join :: "jsval list \<Rightarrow> jstring \<Rightarrow> jstring" where
  "js_join xs sep = intersperse sep (map (\<lambda>v. if js_nullish v then [] else to_string v) xs)"

text \<open>\<open>Number(v)\<close>; an array or object converts through its string.\<close>

fun to_number :: "jsval \<Rightarrow> jsnum" where
  "to_number JUndef = NaN"
| "to_number JNull = Num 0"
| "to_number (JBool b) = (if b then Num 1 else Num 0)"
| "to_number (JNum n) = n"
| "to_number (JStr s) = string_to_number s"
| "to_number v = string_to_number (to_string v)"

text \<open>\<open>Number(v) || d\<close> for a number \<open>d\<close>.\<close>

definition number_or :: "jsval \<Rightarrow> rat \<Rightarrow> jsnum" where
  "number_or v d = (let n = to_number v in if n = NaN \<or> n = Num 0 then Num d else n)"

text \<open>\<open>a + b\<close> on values that are numbers or strings.\<close>

fun js_plus :: "jsval \<Rightarrow> jsval \<Rightarrow> jsval" where
  "js_plus (JStr a) b = JStr (a @ to_string b)"
| "js_plus a (JStr b) = JStr (to_string a @ b)"
| "js_plus a b = JNum (num_add (to_number a) (to_number b))"

text \<open>\<open>n.toFixed(1)\<close>: the larger of two equally near tenths; from \<open>10 ^ 21\<close> on, \<open>String(n)\<close>.\<close>

definition fixed1_pos :: "rat \<Rightarrow> jstring" where
  "fixed1_pos x =
     (if 10 ^ 21 \<le> x then num_string (Num x)
      else let n = \<lfloor>x * 10 + 1 / 2\<rfloor> in show_int (n div 10) @ js ''.'' @ show_int (n mod 10))"

fun to_fixed1 :: "jsnum \<Rightarrow> jstring" where
  "to_fixed1 (Num x) = (if x < 0 then js ''-'' @ fixed1_pos (- x) else fixed1_pos x)"
| "to_fixed1 n = num_string n"

lemma number_or_simps [js_simps]:
  "number_or JUndef d = Num d" "number_or JNull d = Num d"
  "number_or (JNum NaN) d = Num d" "number_or (JNum (Num 0)) d = Num d"
  "x \<noteq> 0 \<Longrightarrow> number_or (JNum (Num x)) d = Num x"
  by (auto simp: number_or_def)

lemma number_or_not_NaN [simp]: "number_or v d \<noteq> NaN"
  by (auto simp: number_or_def Let_def)

lemma number_or_truthy: "d \<noteq> 0 \<Longrightarrow> number_or v d \<noteq> NaN \<and> number_or v d \<noteq> Num 0"
  by (auto simp: number_or_def Let_def)

section \<open>How near a double is\<close>

lemma pow2_power_int: "pow2 e = power_int 2 e"
  by (simp add: pow2_def power_int_def field_simps)

lemma pow2_pos [simp]: "0 < pow2 e"
  by (simp add: pow2_power_int)

lemma pow2_not_0 [simp]: "pow2 e \<noteq> 0"
  using pow2_pos [of e] by linarith

lemma pow2_nonneg [simp]: "0 \<le> pow2 e"
  using pow2_pos [of e] by linarith

lemma pow2_less_iff [simp]: "pow2 a < pow2 b \<longleftrightarrow> a < b"
proof -
  have "pow2 m < pow2 n" if "m < n" for m n
    using power_int_strict_increasing [OF that, of "2 :: rat"] by (simp add: pow2_power_int)
  then show ?thesis by (metis less_asym not_less_iff_gr_or_eq)
qed

lemma pow2_le_iff [simp]: "pow2 a \<le> pow2 b \<longleftrightarrow> a \<le> b"
  by (simp add: linorder_not_less [symmetric])

lemma pow2_of_bitlen:
  assumes "0 < p"
  shows "pow2 (bitlen p - 1) \<le> of_int p" "of_int p < pow2 (bitlen p)"
proof -
  have b: "2 ^ nat (bitlen p - 1) \<le> p" "p < 2 ^ nat (bitlen p)" using bitlen_bounds [OF assms] by auto
  have n: "0 \<le> bitlen p - 1" using assms by (simp add: bitlen_alt_def)
  have "of_int (2 ^ nat (bitlen p - 1)) \<le> (of_int p :: rat)" using b(1) by (simp only: of_int_le_iff)
  then show "pow2 (bitlen p - 1) \<le> of_int p" using n by (simp add: pow2_def)
  have "(of_int p :: rat) < of_int (2 ^ nat (bitlen p))" using b(2) by (simp only: of_int_less_iff)
  then show "of_int p < pow2 (bitlen p)" using n by (simp add: pow2_def)
qed

lemma pow2_diff: "pow2 (a - b) = pow2 a / pow2 b"
  by (simp add: pow2_power_int power_int_diff)

lemma ulp_exp_bound:
  assumes "0 < x"
  shows "ulp_exp x = - 1074 \<or> pow2 (ulp_exp x + 52) \<le> x"
proof -
  obtain p q where pq: "quotient_of x = (p, q)" by (cases "quotient_of x")
  have q: "0 < q" using quotient_of_denom_pos [OF pq] .
  have x: "x = of_int p / of_int q" using quotient_of_div [OF pq] .
  have p: "0 < p" using assms x q by (simp add: zero_less_divide_iff)
  let ?k = "bitlen p - bitlen q"
  have "pow2 (?k - 1) = pow2 (bitlen p - 1) / pow2 (bitlen q)" by (simp add: pow2_diff [symmetric] diff_right_commute)
  also have "\<dots> \<le> of_int p / of_int q"
    using pow2_of_bitlen [OF p] pow2_of_bitlen [OF q] q p by (intro frac_le) auto
  finally have "pow2 (?k - 1) \<le> x" using x by simp
  then show ?thesis by (auto simp: ulp_exp_def pq max_def Let_def split: if_splits)
qed

lemma round_even_close: "\<bar>of_int (round_even x) - x\<bar> \<le> 1 / 2"
proof -
  have "of_int \<lfloor>x\<rfloor> \<le> x" "x < of_int \<lfloor>x\<rfloor> + 1" by linarith+
  moreover have "round_even x = \<lfloor>x\<rfloor> \<and> x - of_int \<lfloor>x\<rfloor> \<le> 1 / 2 \<or>
      round_even x = \<lfloor>x\<rfloor> + 1 \<and> 1 / 2 \<le> x - of_int \<lfloor>x\<rfloor>"
    by (auto simp: round_even_def Let_def not_less)
  ultimately show ?thesis by (auto simp: abs_le_iff)
qed

lemma fl_pos_close:
  assumes "0 < x" "x < 2 ^ 30"
  shows "\<exists>y. fl_pos x = Num y \<and> \<bar>y - x\<bar> \<le> 1 / 2 ^ 24"
proof -
  let ?e = "ulp_exp x" and ?u = "pow2 (ulp_exp x)"
  let ?y = "of_int (round_even (x / ?u)) * ?u"
  have e: "?e \<le> - 23"
  proof (cases "?e = - 1074")
    case False
    then have "pow2 (?e + 52) \<le> x" using ulp_exp_bound [OF assms(1)] by simp
    then have "pow2 (?e + 52) < pow2 30" using assms(2) by (simp add: pow2_def [of 30])
    then show ?thesis by simp
  qed simp
  then have u: "?u \<le> pow2 (- 23)" by simp
  have "\<bar>?y - x\<bar> = \<bar>of_int (round_even (x / ?u)) - x / ?u\<bar> * ?u"
  proof -
    have "?y - x = (of_int (round_even (x / ?u)) - x / ?u) * ?u" by (simp add: left_diff_distrib)
    then show ?thesis by (simp add: abs_mult abs_of_pos)
  qed
  also have "\<dots> \<le> 1 / 2 * ?u" using round_even_close by (intro mult_right_mono) auto
  also have "\<dots> \<le> 1 / 2 ^ 24" using u by (simp add: pow2_def)
  finally have c: "\<bar>?y - x\<bar> \<le> 1 / 2 ^ 24" .
  have "?y < pow2 1024"
  proof -
    have "?y - x \<le> 1 / 2 ^ 24" using c by (rule order_trans [OF abs_ge_self])
    then have "?y < x + 1" by simp
    also have "x + 1 \<le> pow2 31" using assms(2) by (simp add: pow2_def)
    also have "pow2 31 < pow2 1024" by simp
    finally show ?thesis .
  qed
  then show ?thesis using c by (simp add: fl_pos_def Let_def)
qed

lemma fl_close:
  assumes "0 < x" "x < 2 ^ 30"
  shows "\<exists>y. fl x = Num y \<and> \<bar>y - x\<bar> \<le> 1 / 2 ^ 24"
  using fl_pos_close [OF assms] assms(1) by (auto simp: fl_def)

lemma between_ints:
  fixes k x y a :: rat
  assumes "k + a \<le> x" "x + a \<le> k + 1" "1 / 100000 \<le> a" "\<bar>y - x\<bar> \<le> 1 / 2 ^ 24"
  shows "k < y \<and> y < k + 1"
proof -
  have "y - x \<le> 1 / 2 ^ 24" "x - y \<le> 1 / 2 ^ 24" using assms(4) by (simp_all only: abs_le_iff minus_diff_eq)
  then show ?thesis using assms(1-3) by simp
qed

text \<open>
  Rounding a quotient up: below \<open>2 ^ 30\<close> the ceiling of the rounded quotient of an integer by a small
  divisor is the ceiling of the exact one.
\<close>

lemma ceil_div_exact:
  assumes "0 < n" "0 < d" "d \<le> 100000" "of_int n / of_nat d < (2 ^ 30 :: rat)"
  shows "num_ceil (num_div (Num (of_int n)) d) = Num (of_int \<lceil>of_int n / of_nat d :: rat\<rceil>)"
proof -
  let ?x = "of_int n / of_nat d :: rat"
  have x: "0 < ?x" using assms by simp
  have "\<exists>y. fl ?x = Num y \<and> \<lceil>y\<rceil> = \<lceil>?x\<rceil>"
  proof (cases "?x = of_int \<lfloor>?x\<rfloor>")
    case True
    have "\<bar>?x\<bar> \<le> 2 ^ 53" using x assms(4) by simp
    then have "fl ?x = Num ?x" using True unfolding fl_def by simp
    then show ?thesis by blast
  next
    case False
    obtain y where y: "fl ?x = Num y" "\<bar>y - ?x\<bar> \<le> 1 / 2 ^ 24" using fl_close [OF x assms(4)] by blast
    define k where "k = \<lfloor>?x\<rfloor>"
    have k: "of_int k < ?x" "?x < of_int k + 1"
      using False unfolding k_def by linarith+
    have d0: "(0 :: rat) < of_nat d" using assms(2) by simp
    have "of_int k * of_nat d < (of_int n :: rat)" using k(1) d0 by (simp add: field_simps)
    then have "(of_int (k * int d) :: rat) < of_int n" by simp
    then have "k * int d < n" by (simp only: of_int_less_iff)
    then have "k * int d + 1 \<le> n" by simp
    then have "of_int (k * int d + 1) \<le> (of_int n :: rat)" by (simp only: of_int_le_iff)
    then have "of_int (k * int d + 1) / of_nat d \<le> ?x" using d0 by (intro divide_right_mono) simp_all
    then have lo: "of_int k + 1 / of_nat d \<le> ?x" using d0 by (simp add: add_divide_distrib)
    have "of_int n < (of_int k + 1) * (of_nat d :: rat)" using k(2) d0 by (simp add: field_simps)
    then have "(of_int n :: rat) < of_int ((k + 1) * int d)" by (simp add: algebra_simps)
    then have "n < (k + 1) * int d" by (simp only: of_int_less_iff)
    then have "n + 1 \<le> (k + 1) * int d" by simp
    then have "of_int (n + 1) \<le> (of_int ((k + 1) * int d) :: rat)" by (simp only: of_int_le_iff)
    then have "of_int (n + 1) / of_nat d \<le> (of_int ((k + 1) * int d) / of_nat d :: rat)"
      using d0 by (intro divide_right_mono) simp_all
    then have hi: "?x + 1 / of_nat d \<le> of_int k + 1" using d0 by (simp add: add_divide_distrib)
    have "(1 :: rat) / 100000 \<le> 1 / of_nat d" using assms(2,3) by (intro divide_left_mono) simp_all
    then have "of_int k < y \<and> y < of_int k + 1" by (rule between_ints [OF lo hi _ y(2)])
    then have "\<lceil>y\<rceil> = k + 1" "\<lceil>?x\<rceil> = k + 1" using k by (simp_all add: ceiling_eq_iff)
    then show ?thesis using y(1) by simp
  qed
  then show ?thesis by auto
qed

lemma ceil_quotient:
  fixes n d :: int
  assumes "0 < d"
  shows "n \<le> d * \<lceil>of_int n / of_int d :: rat\<rceil>" "d * (\<lceil>of_int n / of_int d :: rat\<rceil> - 1) < n"
proof -
  let ?c = "\<lceil>of_int n / of_int d :: rat\<rceil>"
  have d: "(0 :: rat) < of_int d" using assms by simp
  have "of_int n / of_int d \<le> (of_int ?c :: rat)" by (rule le_of_int_ceiling)
  then have "(of_int n :: rat) \<le> of_int (d * ?c)" unfolding pos_divide_le_eq [OF d] by (simp add: mult.commute)
  then show "n \<le> d * ?c" by (simp only: of_int_le_iff)
  have "of_int ?c - 1 < (of_int n / of_int d :: rat)" using ceiling_correct by blast
  then have "(of_int (d * (?c - 1)) :: rat) < of_int n"
    unfolding pos_less_divide_eq [OF d] by (simp add: mult.commute)
  then show "d * (?c - 1) < n" by (simp only: of_int_less_iff)
qed

end
