(* ===== verification/Js_Text.thy ===== *)
theory Js_Text
  imports Js_Number
begin

text \<open>
  The textual formats the panel reads and writes: \<open>JSON.stringify\<close> and \<open>JSON.parse\<close>,
  \<open>encodeURIComponent\<close>, and the query strings of \<open>URLSearchParams\<close>. The parser recurses on fuel; a
  text of \<open>n\<close> code units needs at most \<open>2 * n + 2\<close>, since a call either consumes a code unit or is
  the step from a list of elements to its first element.
\<close>

section \<open>Surrogates\<close>

definition high_surrogate :: "code_unit \<Rightarrow> bool" where
  "high_surrogate c \<longleftrightarrow> 0xD800 \<le> c \<and> c \<le> 0xDBFF"

definition low_surrogate :: "code_unit \<Rightarrow> bool" where
  "low_surrogate c \<longleftrightarrow> 0xDC00 \<le> c \<and> c \<le> 0xDFFF"

definition hex_digit :: "int \<Rightarrow> code_unit" where
  "hex_digit d = (if d < 10 then of_int (0x30 + d) else of_int (0x57 + d))"

definition hex_digit_upper :: "int \<Rightarrow> code_unit" where
  "hex_digit_upper d = (if d < 10 then of_int (0x30 + d) else of_int (0x37 + d))"

section \<open>JSON.stringify\<close>

definition unicode_escape :: "code_unit \<Rightarrow> jstring" where
  "unicode_escape c =
     (let n = uint c in
      [0x5C, 0x75, hex_digit (n div 4096), hex_digit (n div 256 mod 16),
       hex_digit (n div 16 mod 16), hex_digit (n mod 16)])"

definition quote_unit :: "code_unit \<Rightarrow> jstring" where
  "quote_unit c =
     (if c = 0x08 then js [CHR 0x5C, CHR ''b''] else if c = 0x09 then js [CHR 0x5C, CHR ''t'']
      else if c = 0x0A then js [CHR 0x5C, CHR ''n''] else if c = 0x0C then js [CHR 0x5C, CHR ''f'']
      else if c = 0x0D then js [CHR 0x5C, CHR ''r''] else if c = 0x22 then [0x5C, 0x22]
      else if c = 0x5C then [0x5C, 0x5C]
      else if c < 0x20 \<or> high_surrogate c \<or> low_surrogate c then unicode_escape c
      else [c])"

fun quote_units :: "jstring \<Rightarrow> jstring" where
  "quote_units [] = []"
| "quote_units [c] = quote_unit c"
| "quote_units (c # d # s) =
     (if high_surrogate c \<and> low_surrogate d then c # d # quote_units s
      else quote_unit c @ quote_units (d # s))"

definition json_quote :: "jstring \<Rightarrow> jstring" where
  "json_quote s = [0x22] @ quote_units s @ [0x22]"

text \<open>The brackets around the items of an array or object, one per line when there is a gap.\<close>

definition json_wrap ::
    "code_unit \<Rightarrow> code_unit \<Rightarrow> jstring \<Rightarrow> jstring \<Rightarrow> jstring list \<Rightarrow> jstring" where
  "json_wrap l r gap ind items =
     (if items = [] then [l, r]
      else if gap = [] then [l] @ intersperse (js '','') items @ [r]
      else [l, 0x0A] @ ind @ gap @ intersperse (js '','' @ [0x0A] @ ind @ gap) items @
           [0x0A] @ ind @ [r])"

text \<open>\<open>None\<close> is \<open>undefined\<close>: a property with that value is left out, an array element is \<open>null\<close>.\<close>

fun json_ser :: "jstring \<Rightarrow> jstring \<Rightarrow> jsval \<Rightarrow> jstring option" where
  "json_ser gap ind JUndef = None"
| "json_ser gap ind JNull = Some (js ''null'')"
| "json_ser gap ind (JBool b) = Some (if b then js ''true'' else js ''false'')"
| "json_ser gap ind (JNum n) = Some (if num_finite n then num_string n else js ''null'')"
| "json_ser gap ind (JStr s) = Some (json_quote s)"
| "json_ser gap ind (JArr xs) =
     Some (json_wrap 0x5B 0x5D gap ind
       (map (\<lambda>v. case json_ser gap (ind @ gap) v of None \<Rightarrow> js ''null'' | Some t \<Rightarrow> t) xs))"
| "json_ser gap ind (JObj kvs) =
     Some (json_wrap 0x7B 0x7D gap ind
       (concat (map (\<lambda>kv. case json_ser gap (ind @ gap) (snd kv) of
                            None \<Rightarrow> []
                          | Some t \<Rightarrow> [json_quote (fst kv) @
                                       (if gap = [] then js '':'' else js '': '') @ t]) kvs)))"

definition json_stringify :: "jsval \<Rightarrow> jstring option" where
  "json_stringify v = json_ser [] [] v"

text \<open>\<open>JSON.stringify(v, null, 2)\<close>.\<close>

definition json_pretty :: "jsval \<Rightarrow> jstring option" where
  "json_pretty v = json_ser (js ''  '') [] v"

section \<open>JSON.parse\<close>

definition json_ws :: "code_unit \<Rightarrow> bool" where
  "json_ws c \<longleftrightarrow> c = 0x20 \<or> c = 0x09 \<or> c = 0x0A \<or> c = 0x0D"

definition skip_ws :: "jstring \<Rightarrow> jstring" where
  "skip_ws s = dropWhile json_ws s"

definition hex4 :: "code_unit \<Rightarrow> code_unit \<Rightarrow> code_unit \<Rightarrow> code_unit \<Rightarrow> code_unit option" where
  "hex4 a b c d =
     (case (hex_val a, hex_val b, hex_val c, hex_val d) of
        (Some i, Some j, Some k, Some l) \<Rightarrow> Some (of_int (4096 * i + 256 * j + 16 * k + l))
      | _ \<Rightarrow> None)"

definition unescape :: "code_unit \<Rightarrow> code_unit option" where
  "unescape c =
     (if c = 0x22 \<or> c = 0x5C \<or> c = 0x2F then Some c
      else if c = 0x62 then Some 0x08 else if c = 0x66 then Some 0x0C
      else if c = 0x6E then Some 0x0A else if c = 0x72 then Some 0x0D
      else if c = 0x74 then Some 0x09 else None)"

text \<open>The rest of a string literal after its opening quote.\<close>

fun parse_string :: "jstring \<Rightarrow> (jstring \<times> jstring) option" where
  "parse_string [] = None"
| "parse_string (c # s) =
     (if c = 0x22 then Some ([], s)
      else if c = 0x5C then
        (case s of
           [] \<Rightarrow> None
         | e # t \<Rightarrow>
             if e = 0x75 then
               (case t of
                  w # x # y # z # u \<Rightarrow>
                    (case hex4 w x y z of
                       None \<Rightarrow> None
                     | Some d \<Rightarrow> map_option (\<lambda>(ds, r). (d # ds, r)) (parse_string u))
                | _ \<Rightarrow> None)
             else (case unescape e of
                     None \<Rightarrow> None
                   | Some d \<Rightarrow> map_option (\<lambda>(ds, r). (d # ds, r)) (parse_string t)))
      else if c < 0x20 then None
      else map_option (\<lambda>(ds, r). (c # ds, r)) (parse_string s))"

text \<open>A number: an integer part without leading zeros, a fraction, an exponent.\<close>

definition parse_frac :: "jstring \<Rightarrow> (jstring \<times> jstring) option" where
  "parse_frac s =
     (case s of
        c # t \<Rightarrow> if c = 0x2E then
                   (let (ds, r) = span_digits t in if ds = [] then None else Some (ds, r))
                 else Some ([], s)
      | [] \<Rightarrow> Some ([], []))"

definition parse_exp :: "jstring \<Rightarrow> (int \<times> jstring) option" where
  "parse_exp s =
     (case s of
        c # t \<Rightarrow>
          if c = 0x65 \<or> c = 0x45 then
            (let neg = (t \<noteq> [] \<and> hd t = 0x2D);
                 u = (if t \<noteq> [] \<and> (hd t = 0x2D \<or> hd t = 0x2B) then tl t else t);
                 (ds, r) = span_digits u
             in if ds = [] then None
                else Some (if neg then - digits_value ds else digits_value ds, r))
          else Some (0, s)
      | [] \<Rightarrow> Some (0, []))"

definition parse_unsigned :: "jstring \<Rightarrow> (jsnum \<times> jstring) option" where
  "parse_unsigned s =
     (let (ds, r) = span_digits s in
      if ds = [] \<or> (hd ds = 0x30 \<and> ds \<noteq> [0x30]) then None
      else case parse_frac r of
             None \<Rightarrow> None
           | Some (fs, r') \<Rightarrow>
               (case parse_exp r' of
                  None \<Rightarrow> None
                | Some (e, r'') \<Rightarrow>
                    Some (fl (of_int (digits_value (ds @ fs)) * pow10 (e - int (length fs))), r'')))"

definition parse_number :: "jstring \<Rightarrow> (jsnum \<times> jstring) option" where
  "parse_number s =
     (case s of
        c # t \<Rightarrow> if c = 0x2D then map_option (\<lambda>(n, r). (num_neg n, r)) (parse_unsigned t)
                 else parse_unsigned s
      | [] \<Rightarrow> None)"

definition parse_literal :: "string \<Rightarrow> jsval \<Rightarrow> jstring \<Rightarrow> (jsval \<times> jstring) option" where
  "parse_literal w v s =
     (if take (length w) s = js w then Some (v, drop (length w) s) else None)"

definition parse_atom :: "jstring \<Rightarrow> (jsval \<times> jstring) option" where
  "parse_atom s =
     (case s of
        [] \<Rightarrow> None
      | c # t \<Rightarrow>
          if c = 0x22 then map_option (\<lambda>(x, r). (JStr x, r)) (parse_string t)
          else if c = 0x74 then parse_literal ''true'' (JBool True) s
          else if c = 0x66 then parse_literal ''false'' (JBool False) s
          else if c = 0x6E then parse_literal ''null'' JNull s
          else map_option (\<lambda>(n, r). (JNum n, r)) (parse_number s))"

fun parse_value :: "nat \<Rightarrow> jstring \<Rightarrow> (jsval \<times> jstring) option"
  and parse_elements :: "nat \<Rightarrow> jstring \<Rightarrow> (jsval list \<times> jstring) option"
  and parse_members ::
    "nat \<Rightarrow> (jstring \<times> jsval) list \<Rightarrow> jstring \<Rightarrow> ((jstring \<times> jsval) list \<times> jstring) option"
where
  "parse_value 0 s = None"
| "parse_value (Suc f) s =
     (case skip_ws s of
        [] \<Rightarrow> None
      | c # t \<Rightarrow>
          if c = 0x5B then
            (case skip_ws t of
               [] \<Rightarrow> None
             | d # r \<Rightarrow> if d = 0x5D then Some (JArr [], r)
                        else map_option (\<lambda>(vs, r). (JArr vs, r)) (parse_elements f t))
          else if c = 0x7B then
            (case skip_ws t of
               [] \<Rightarrow> None
             | d # r \<Rightarrow> if d = 0x7D then Some (JObj [], r)
                        else map_option (\<lambda>(kvs, r). (JObj kvs, r)) (parse_members f [] t))
          else parse_atom (c # t))"
| "parse_elements 0 s = None"
| "parse_elements (Suc f) s =
     (case parse_value f s of
        None \<Rightarrow> None
      | Some (v, r) \<Rightarrow>
          (case skip_ws r of
             [] \<Rightarrow> None
           | c # t \<Rightarrow>
               if c = 0x5D then Some ([v], t)
               else if c = 0x2C then map_option (\<lambda>(vs, u). (v # vs, u)) (parse_elements f t)
               else None))"
| "parse_members 0 kvs s = None"
| "parse_members (Suc f) kvs s =
     (case skip_ws s of
        [] \<Rightarrow> None
      | c # t \<Rightarrow>
          if c \<noteq> 0x22 then None
          else case parse_string t of
                 None \<Rightarrow> None
               | Some (k, r) \<Rightarrow>
                   (case skip_ws r of
                      [] \<Rightarrow> None
                    | d # u \<Rightarrow>
                        if d \<noteq> 0x3A then None
                        else case parse_value f u of
                               None \<Rightarrow> None
                             | Some (v, w) \<Rightarrow>
                                 (case skip_ws w of
                                    [] \<Rightarrow> None
                                  | e # x \<Rightarrow>
                                      if e = 0x7D then Some (obj_set kvs k v, x)
                                      else if e = 0x2C then parse_members f (obj_set kvs k v) x
                                      else None)))"

definition json_parse :: "jstring \<Rightarrow> jsval option" where
  "json_parse s =
     (case parse_value (2 * length s + 2) s of
        None \<Rightarrow> None
      | Some (v, r) \<Rightarrow> if skip_ws r = [] then Some v else None)"

section \<open>encodeURIComponent\<close>

text \<open>The code points of a string; \<open>None\<close> when it has a surrogate without its partner.\<close>

definition pair_point :: "code_unit \<Rightarrow> code_unit \<Rightarrow> int" where
  "pair_point c d = 0x10000 + (uint c - 0xD800) * 0x400 + (uint d - 0xDC00)"

fun code_points :: "jstring \<Rightarrow> int list option" where
  "code_points [] = Some []"
| "code_points [c] = (if high_surrogate c \<or> low_surrogate c then None else Some [uint c])"
| "code_points (c # d # s) =
     (if high_surrogate c \<and> low_surrogate d then map_option (Cons (pair_point c d)) (code_points s)
      else if high_surrogate c \<or> low_surrogate c then None
      else map_option (Cons (uint c)) (code_points (d # s)))"

definition utf8 :: "int \<Rightarrow> int list" where
  "utf8 p =
     (if p < 0x80 then [p]
      else if p < 0x800 then [0xC0 + p div 64, 0x80 + p mod 64]
      else if p < 0x10000 then [0xE0 + p div 4096, 0x80 + p div 64 mod 64, 0x80 + p mod 64]
      else [0xF0 + p div 262144, 0x80 + p div 4096 mod 64, 0x80 + p div 64 mod 64,
            0x80 + p mod 64])"

definition percent :: "int \<Rightarrow> jstring" where
  "percent b = [0x25, hex_digit_upper (b div 16), hex_digit_upper (b mod 16)]"

definition alnum :: "int \<Rightarrow> bool" where
  "alnum p \<longleftrightarrow> 0x30 \<le> p \<and> p \<le> 0x39 \<or> 0x41 \<le> p \<and> p \<le> 0x5A \<or> 0x61 \<le> p \<and> p \<le> 0x7A"

definition uri_unreserved :: "int \<Rightarrow> bool" where
  "uri_unreserved p \<longleftrightarrow>
     alnum p \<or> p \<in> set [0x2D, 0x5F, 0x2E, 0x21, 0x7E, 0x2A, 0x27, 0x28, 0x29]"

definition uri_encode_point :: "int \<Rightarrow> jstring" where
  "uri_encode_point p =
     (if uri_unreserved p then [of_int p] else concat (map percent (utf8 p)))"

definition encode_uri_component :: "jstring \<Rightarrow> jserr + jstring" where
  "encode_uri_component s =
     (case code_points s of
        None \<Rightarrow> Inl (Exn (js ''URIError'') (js ''URI malformed''))
      | Some ps \<Rightarrow> Inr (concat (map uri_encode_point ps)))"

section \<open>URLSearchParams\<close>

text \<open>The parameters convert to scalar values first: a lone surrogate becomes U+FFFD.\<close>

fun scalar_values :: "jstring \<Rightarrow> int list" where
  "scalar_values [] = []"
| "scalar_values [c] = [if high_surrogate c \<or> low_surrogate c then 0xFFFD else uint c]"
| "scalar_values (c # d # s) =
     (if high_surrogate c \<and> low_surrogate d then pair_point c d # scalar_values s
      else (if high_surrogate c \<or> low_surrogate c then 0xFFFD else uint c) # scalar_values (d # s))"

definition form_encode_point :: "int \<Rightarrow> jstring" where
  "form_encode_point p =
     (if p = 0x20 then [0x2B]
      else if alnum p \<or> p \<in> set [0x2A, 0x2D, 0x2E, 0x5F] then [of_int p]
      else concat (map percent (utf8 p)))"

definition form_encode :: "jstring \<Rightarrow> jstring" where
  "form_encode s = concat (map form_encode_point (scalar_values s))"

type_synonym search_params = "(jstring \<times> jstring) list"

text \<open>\<open>qs.set(k, v)\<close>: the first entry of the name takes the value, the others go.\<close>

fun params_set :: "search_params \<Rightarrow> jstring \<Rightarrow> jstring \<Rightarrow> search_params" where
  "params_set [] k v = [(k, v)]"
| "params_set ((k', v') # ps) k v =
     (if k' = k then (k, v) # filter (\<lambda>(j, _). j \<noteq> k) ps else (k', v') # params_set ps k v)"

definition params_string :: "search_params \<Rightarrow> jstring" where
  "params_string ps =
     intersperse (js ''&'') (map (\<lambda>(k, v). form_encode k @ js ''='' @ form_encode v) ps)"

end
