(* ===== verification/Js_Async.thy ===== *)
theory Js_Async
  imports Js_Text
begin

text \<open>
  Asynchronous functions. A call of an \<open>async\<close> function is a process over the program's state: it
  updates and reads the state, and it stops wherever the source has an \<open>await\<close>. Between two stops
  it runs without interruption, as the event loop guarantees; at a stop any other process of the
  program may go on. \<open>go\<close> is one schedule of a process, computable against a given server;
  \<open>wakes\<close> and \<open>loop_step\<close> are all the schedules. The locale \<open>event_loop\<close> proves once that an
  invariant which every handler keeps from stop to stop holds in every state the loop can reach,
  and that every request the loop issues satisfies what the handlers promise of theirs.
\<close>

section \<open>Requests and replies\<close>

datatype http_method = GET | POST | PUT | DELETE

record request =
  req_url :: jstring
  req_method :: http_method
  req_headers :: "(jstring \<times> jstring) list"
  req_body :: "jstring option"

text \<open>What the program asks of its environment, and what it can be told.\<close>

datatype query = Fetch request | WriteClipboard jstring

text \<open>
  A reply is a failure (the promise rejects) or a response: status, status text, and the body text
  or the failure of reading it.
\<close>

datatype reply = Failed jserr | Response int jstring "jserr + jstring"

section \<open>Processes\<close>

text \<open>
  \<open>Await q k\<close> stops until the reply to \<open>q\<close> is there, \<open>Yield p\<close> until the event loop comes back to it
  (every \<open>await\<close> lets other processes run, even on a settled promise). \<open>Spawn p k\<close> is a call whose
  promise is dropped (\<open>void p()\<close>): \<open>p\<close> runs to its first stop, then \<open>k\<close> goes on. \<open>All ps k\<close> is
  \<open>await Promise.all([...])\<close>.
\<close>

datatype (dead 's) proc =
    Ret "jserr + jsval"
  | Do "'s \<Rightarrow> 's" "'s proc"
  | Read "'s \<Rightarrow> 's proc"
  | Await query "reply \<Rightarrow> 's proc"
  | Yield "'s proc"
  | Spawn "'s proc" "'s proc"
  | All "'s proc list" "jserr + jsval list \<Rightarrow> 's proc"

abbreviation return_undef :: "'s proc" where
  "return_undef \<equiv> Ret (Inr JUndef)"

primrec bind :: "'s proc \<Rightarrow> (jserr + jsval \<Rightarrow> 's proc) \<Rightarrow> 's proc" where
  "bind (Ret r) g = g r"
| "bind (Do f p) g = Do f (bind p g)"
| "bind (Read h) g = Read (\<lambda>s. bind (h s) g)"
| "bind (Await q k) g = Await q (\<lambda>r. bind (k r) g)"
| "bind (Yield p) g = Yield (bind p g)"
| "bind (Spawn p k) g = Spawn p (bind k g)"
| "bind (All ps k) g = All ps (\<lambda>r. bind (k r) g)"

text \<open>
  \<open>await p\<close> in a \<open>try\<close> block: \<open>ok\<close> takes the value, \<open>err\<close> is the \<open>catch\<close> clause. \<open>await\<close> without a
  \<open>try\<close> passes the error on.
\<close>

definition try_await :: "'s proc \<Rightarrow> (jsval \<Rightarrow> 's proc) \<Rightarrow> (jserr \<Rightarrow> 's proc) \<Rightarrow> 's proc" where
  "try_await p ok err = bind p (\<lambda>r. Yield (case r of Inl e \<Rightarrow> err e | Inr v \<Rightarrow> ok v))"

definition await :: "'s proc \<Rightarrow> (jsval \<Rightarrow> 's proc) \<Rightarrow> 's proc" where
  "await p ok = try_await p ok (\<lambda>e. Ret (Inl e))"

definition try_all ::
    "'s proc list \<Rightarrow> (jsval list \<Rightarrow> 's proc) \<Rightarrow> (jserr \<Rightarrow> 's proc) \<Rightarrow> 's proc" where
  "try_all ps ok err = All ps (\<lambda>r. case r of Inl e \<Rightarrow> err e | Inr vs \<Rightarrow> ok vs)"

text \<open>A value that is read in a \<open>try\<close> block and may throw.\<close>

definition try_value :: "jserr + 'a \<Rightarrow> ('a \<Rightarrow> 's proc) \<Rightarrow> (jserr \<Rightarrow> 's proc) \<Rightarrow> 's proc" where
  "try_value x ok err = (case x of Inl e \<Rightarrow> err e | Inr v \<Rightarrow> ok v)"

lemma try_value_simps [simp, proc_simps]:
  "try_value (Inl e) ok err = err e" "try_value (Inr v) ok err = ok v"
  by (simp_all add: try_value_def)

lemma bind_assoc: "bind (bind p f) g = bind p (\<lambda>r. bind (f r) g)"
  by (induction p) simp_all

lemma bind_Ret [simp]: "bind p Ret = p"
  by (induction p) simp_all

lemma bind_try_await:
  "bind (try_await p ok err) g = try_await p (\<lambda>v. bind (ok v) g) (\<lambda>e. bind (err e) g)"
  by (simp add: try_await_def bind_assoc) (rule arg_cong [where f = "bind p"], rule ext, simp split: sum.split)

section \<open>One schedule\<close>

text \<open>
  \<open>srv q w\<close> is the environment's reply to \<open>q\<close> in its own state \<open>w\<close>. \<open>go\<close> runs a process up to its first
  stop and gives what is left of it. A spawned process is finished after the one that spawned it;
  the members of \<open>Promise.all\<close> start in order and are finished in order, and the first that fails
  lets the waiting process go on before the others are finished.
\<close>

type_synonym ('s, 'w) rest = "'s \<Rightarrow> 'w \<Rightarrow> (jserr + jsval) \<times> 's \<times> 'w"
type_synonym ('s, 'w) start = "'s \<Rightarrow> 's \<times> ('s, 'w) rest"

fun start_all :: "('s, 'w) start list \<Rightarrow> 's \<Rightarrow> 's \<times> ('s, 'w) rest list" where
  "start_all [] s = (s, [])"
| "start_all (g # gs) s = (let (s1, r) = g s; (s2, rs) = start_all gs s1 in (s2, r # rs))"

fun finish_rest :: "('s, 'w) rest list \<Rightarrow> 's \<Rightarrow> 'w \<Rightarrow> 's \<times> 'w" where
  "finish_rest [] s w = (s, w)"
| "finish_rest (r # rs) s w = (let (_, s1, w1) = r s w in finish_rest rs s1 w1)"

fun finish_all ::
    "(jserr + jsval list \<Rightarrow> ('s, 'w) rest) \<Rightarrow> ('s, 'w) rest list \<Rightarrow> jsval list \<Rightarrow> ('s, 'w) rest" where
  "finish_all k [] vs s w = k (Inr (rev vs)) s w"
| "finish_all k (r # rs) vs s w =
     (case r s w of
        (Inl e, s1, w1) \<Rightarrow>
          (let (x, s2, w2) = k (Inl e) s1 w1; (s3, w3) = finish_rest rs s2 w2 in (x, s3, w3))
      | (Inr v, s1, w1) \<Rightarrow> finish_all k rs (v # vs) s1 w1)"

primrec go :: "(query \<Rightarrow> 'w \<Rightarrow> reply \<times> 'w) \<Rightarrow> 's proc \<Rightarrow> ('s, 'w) start" where
  "go srv (Ret r) s = (s, \<lambda>s w. (r, s, w))"
| "go srv (Do f p) s = go srv p (f s)"
| "go srv (Read g) s = go srv (g s) s"
| "go srv (Await q k) s =
     (s, \<lambda>s w. let (r, w1) = srv q w; (s1, rest) = go srv (k r) s in rest s1 w1)"
| "go srv (Yield p) s = (s, \<lambda>s w. let (s1, rest) = go srv p s in rest s1 w)"
| "go srv (Spawn p k) s =
     (let (s1, restp) = go srv p s; (s2, restk) = go srv k s1
      in (s2, \<lambda>s w. let (r, s3, w3) = restk s w; (_, s4, w4) = restp s3 w3 in (r, s4, w4)))"
| "go srv (All ps k) s =
     (let (s1, rs) = start_all (map (\<lambda>p. go srv p) ps) s
      in (s1, finish_all (\<lambda>r s w. let (s2, rest) = go srv (k r) s in rest s2 w) rs []))"

definition run ::
    "(query \<Rightarrow> 'w \<Rightarrow> reply \<times> 'w) \<Rightarrow> 's proc \<Rightarrow> 's \<Rightarrow> 'w \<Rightarrow> (jserr + jsval) \<times> 's \<times> 'w" where
  "run srv p s w = (let (s1, rest) = go srv p s in rest s1 w)"

lemma run_simps [simp, proc_simps]:
  "run srv (Ret r) s w = (r, s, w)"
  "run srv (Do f p) s w = run srv p (f s) w"
  "run srv (Read g) s w = run srv (g s) s w"
  "run srv (Await q k) s w = (let (r, w1) = srv q w in run srv (k r) s w1)"
  "run srv (Yield p) s w = run srv p s w"
  by (simp_all add: run_def split: prod.split)

text \<open>
  A sequential process neither spawns nor joins. Running one and then another composes.
\<close>

primrec sequential :: "'s proc \<Rightarrow> bool" where
  "sequential (Ret r) = True"
| "sequential (Do f p) = sequential p"
| "sequential (Read g) = (\<forall>s. sequential (g s))"
| "sequential (Await q k) = (\<forall>r. sequential (k r))"
| "sequential (Yield p) = sequential p"
| "sequential (Spawn p k) = False"
| "sequential (All ps k) = False"

lemma sequential_bind [intro]:
  "sequential p \<Longrightarrow> (\<And>r. sequential (g r)) \<Longrightarrow> sequential (bind p g)"
  by (induction p) auto

lemma sequential_try_await [intro]:
  "sequential p \<Longrightarrow> (\<And>v. sequential (ok v)) \<Longrightarrow> (\<And>e. sequential (err e)) \<Longrightarrow>
   sequential (try_await p ok err)"
  by (auto simp: try_await_def split: sum.split)

lemma sequential_try_value [intro]:
  "(\<And>v. sequential (ok v)) \<Longrightarrow> (\<And>e. sequential (err e)) \<Longrightarrow> sequential (try_value x ok err)"
  by (simp add: try_value_def split: sum.split)

lemma run_bind:
  "sequential p \<Longrightarrow>
   run srv (bind p g) s w = (case run srv p s w of (r, s1, w1) \<Rightarrow> run srv (g r) s1 w1)"
proof (induction p arbitrary: s w)
  case (Await q k)
  then show ?case by (simp split: prod.split)
qed simp_all

lemma run_try_await:
  "sequential p \<Longrightarrow>
   run srv (try_await p ok err) s w =
     (case run srv p s w of
        (Inl e, s1, w1) \<Rightarrow> run srv (err e) s1 w1
      | (Inr v, s1, w1) \<Rightarrow> run srv (ok v) s1 w1)"
  by (simp add: try_await_def run_bind split: prod.split sum.split)

text \<open>
  \<open>frames obs p\<close>: no update of \<open>p\<close> changes the observation \<open>obs\<close>. Such a process leaves it as it is in
  the schedule of \<open>run\<close>, also where it is spawned.
\<close>

primrec frames :: "('s \<Rightarrow> 'o) \<Rightarrow> 's proc \<Rightarrow> bool" where
  "frames obs (Ret r) = True"
| "frames obs (Do f p) = ((\<forall>s. obs (f s) = obs s) \<and> frames obs p)"
| "frames obs (Read g) = (\<forall>s. frames obs (g s))"
| "frames obs (Await q k) = (\<forall>r. frames obs (k r))"
| "frames obs (Yield p) = frames obs p"
| "frames obs (Spawn p k) = (frames obs p \<and> frames obs k)"
| "frames obs (All ps k) = (list_all (\<lambda>b. b) (map (frames obs) ps) \<and> (\<forall>r. frames obs (k r)))"

lemma frames_All [simp]:
  "frames obs (All ps k) \<longleftrightarrow> (\<forall>p\<in>set ps. frames obs p) \<and> (\<forall>r. frames obs (k r))"
  by (simp add: list_all_iff)

declare frames.simps(7) [simp del]

lemma frames_bind [intro]:
  "frames obs p \<Longrightarrow> (\<And>r. frames obs (g r)) \<Longrightarrow> frames obs (bind p g)"
  by (induction p) auto

lemma frames_try_await [intro]:
  "frames obs p \<Longrightarrow> (\<And>v. frames obs (ok v)) \<Longrightarrow> (\<And>e. frames obs (err e)) \<Longrightarrow>
   frames obs (try_await p ok err)"
  by (auto simp: try_await_def split: sum.split)

lemma frames_try_value [intro]:
  "(\<And>v. frames obs (ok v)) \<Longrightarrow> (\<And>e. frames obs (err e)) \<Longrightarrow> frames obs (try_value x ok err)"
  by (simp add: try_value_def split: sum.split)

text \<open>A stopped process in the schedule of \<open>run\<close>, seen through an observation.\<close>

definition rest_frames :: "('s \<Rightarrow> 'o) \<Rightarrow> ('s, 'w) rest \<Rightarrow> bool" where
  "rest_frames obs r \<longleftrightarrow> (\<forall>s w. obs (fst (snd (r s w))) = obs s)"

lemma rest_framesD: "rest_frames obs r \<Longrightarrow> r s w = (x, s1, w1) \<Longrightarrow> obs s1 = obs s"
  by (metis fst_conv rest_frames_def snd_conv)

lemma start_all_frames:
  assumes "\<And>g s t r. g \<in> set gs \<Longrightarrow> g s = (t, r) \<Longrightarrow> obs t = obs s \<and> rest_frames obs r"
    and "start_all gs s = (t, rs)"
  shows "obs t = obs s \<and> (\<forall>r\<in>set rs. rest_frames obs r)"
  using assms
proof (induction gs s arbitrary: t rs rule: start_all.induct)
  case (2 g gs s)
  obtain u r where g: "g s = (u, r)" by (cases "g s")
  obtain v qs where gs: "start_all gs u = (v, qs)" by (cases "start_all gs u")
  have "obs v = obs u \<and> (\<forall>r\<in>set qs. rest_frames obs r)"
    by (rule 2(1) [OF g [symmetric] refl _ gs]) (erule 2(2) [OF list.set_intros(2)])
  moreover have "obs u = obs s \<and> rest_frames obs r" using 2(2) [OF list.set_intros(1) g] .
  ultimately show ?case using 2(3) g gs by auto
qed simp

lemma finish_rest_frames:
  "(\<forall>r\<in>set rs. rest_frames obs r) \<Longrightarrow> finish_rest rs s w = (t, v) \<Longrightarrow> obs t = obs s"
proof (induction rs s w rule: finish_rest.induct)
  case (2 r rs s w)
  obtain x s1 w1 where r: "r s w = (x, s1, w1)" by (cases "r s w")
  have "obs t = obs s1" by (rule 2(1) [OF r [symmetric] refl]) (use 2 r in simp_all)
  moreover have "obs s1 = obs s" using rest_framesD [of obs r, OF _ r] 2(2) by simp
  ultimately show ?case by simp
qed simp

lemma finish_all_frames:
  assumes "\<And>x. rest_frames obs (k x)" and "\<forall>r\<in>set rs. rest_frames obs r"
  shows "rest_frames obs (finish_all k rs vs)"
proof -
  have "obs (fst (snd (finish_all k rs vs s w))) = obs s" for s w
    using assms
  proof (induction k rs vs s w rule: finish_all.induct)
    case (1 k vs s w)
    then show ?case by (simp add: rest_frames_def)
  next
    case (2 k r rs vs s w)
    have k: "rest_frames obs (k x)" for x by (rule "2.prems")
    have rs: "rest_frames obs r" "\<forall>r\<in>set rs. rest_frames obs r" using "2.prems"(2) by simp_all
    obtain x s1 w1 where r: "r s w = (x, s1, w1)" by (cases "r s w")
    show ?case
    proof (cases x)
      case (Inl e)
      obtain y s2 w2 where k2: "k (Inl e) s1 w1 = (y, s2, w2)" by (cases "k (Inl e) s1 w1")
      obtain s3 w3 where f: "finish_rest rs s2 w2 = (s3, w3)" by (cases "finish_rest rs s2 w2")
      show ?thesis
        using rest_framesD [OF rs(1) r] rest_framesD [OF k k2] finish_rest_frames [OF rs(2) f]
        by (simp add: r Inl k2 f)
    next
      case (Inr v)
      have "obs (fst (snd (finish_all k rs (v # vs) s1 w1))) = obs s1"
        by (rule "2.IH" [OF r [unfolded Inr, symmetric] refl refl k rs(2)])
      then show ?thesis using rest_framesD [OF rs(1) r] by (simp add: r Inr)
    qed
  qed
  then show ?thesis by (simp add: rest_frames_def)
qed

lemma go_frames:
  "frames obs p \<Longrightarrow> go srv p s = (t, r) \<Longrightarrow> obs t = obs s \<and> rest_frames obs r"
proof (induction p arbitrary: s t r)
  case (Read g)
  show ?case using Read.IH [OF rangeI, of s s t r] Read.prems by simp
next
  case (Await q k)
  have "obs (fst (snd (case srv q w of (x, w1) \<Rightarrow> case go srv (k x) s of (s1, rest) \<Rightarrow> rest s1 w1))) = obs s" for s w
    using Await.IH [OF rangeI] Await.prems(1)
    by (auto split: prod.split simp: rest_frames_def)
  then show ?case using Await.prems by (auto simp: rest_frames_def)
next
  case (Yield p)
  then show ?case by (auto simp: rest_frames_def split: prod.split)
next
  case (Spawn p k)
  obtain s1 rp where p: "go srv p s = (s1, rp)" by (cases "go srv p s")
  obtain s2 rk where k: "go srv k s1 = (s2, rk)" by (cases "go srv k s1")
  have f: "obs s1 = obs s" "rest_frames obs rp" "obs s2 = obs s1" "rest_frames obs rk"
    using Spawn.IH(1) [OF _ p] Spawn.IH(2) [OF _ k] Spawn.prems(1) by simp_all
  have "obs (fst (snd (case rk u w of (x, u1, w1) \<Rightarrow> case rp u1 w1 of (_, u2, w2) \<Rightarrow> (x, u2, w2)))) =
      obs u" for u w
  proof -
    obtain x u1 w1 where a: "rk u w = (x, u1, w1)" by (cases "rk u w")
    obtain y u2 w2 where b: "rp u1 w1 = (y, u2, w2)" by (cases "rp u1 w1")
    show ?thesis using rest_framesD [OF f(4) a] rest_framesD [OF f(2) b] by (simp add: a b)
  qed
  then show ?case using Spawn.prems(2) f(1,3) by (auto simp: rest_frames_def p k)
next
  case (All ps k)
  obtain s1 rs where a: "start_all (map (\<lambda>p. go srv p) ps) s = (s1, rs)"
    by (cases "start_all (map (\<lambda>p. go srv p) ps) s")
  have "obs s1 = obs s \<and> (\<forall>r\<in>set rs. rest_frames obs r)"
  proof (rule start_all_frames [OF _ a])
    fix g u t r assume "g \<in> set (map (\<lambda>p. go srv p) ps)" and g: "g u = (t, r)"
    then obtain p where p: "p \<in> set ps" and "g = go srv p" by auto
    then show "obs t = obs u \<and> rest_frames obs r"
      using All.IH(1) [OF p] All.prems(1) g by simp
  qed
  moreover have "rest_frames obs (\<lambda>s w. case go srv (k x) s of (s2, rest) \<Rightarrow> rest s2 w)" for x
    using All.IH(2) [of "k x"] All.prems(1) by (auto simp: rest_frames_def split: prod.split)
  ultimately show ?case using All.prems(2) a by (auto intro: finish_all_frames)
qed (auto simp: rest_frames_def)

lemma run_frames: "frames obs p \<Longrightarrow> obs (fst (snd (run srv p s w))) = obs s"
proof -
  assume p: "frames obs p"
  obtain t r where g: "go srv p s = (t, r)" by (cases "go srv p s")
  then show ?thesis using go_frames [OF p g] by (simp add: run_def rest_frames_def)
qed

section \<open>All schedules\<close>

text \<open>
  \<open>adv p s\<close> runs \<open>p\<close> from \<open>s\<close> to its first stop: the state there, what is left of \<open>p\<close>, and the
  processes it spawned on the way.
\<close>

fun adv_all ::
    "('s \<Rightarrow> 's \<times> 's proc \<times> 's proc list) list \<Rightarrow> 's \<Rightarrow> 's \<times> 's proc list \<times> 's proc list" where
  "adv_all [] s = (s, [], [])"
| "adv_all (g # gs) s =
     (let (s1, p, sp) = g s; (s2, ps, sps) = adv_all gs s1 in (s2, p # ps, sp @ sps))"

primrec adv :: "'s proc \<Rightarrow> 's \<Rightarrow> 's \<times> 's proc \<times> 's proc list" where
  "adv (Ret r) s = (s, Ret r, [])"
| "adv (Do f p) s = adv p (f s)"
| "adv (Read g) s = adv (g s) s"
| "adv (Await q k) s = (s, Await q k, [])"
| "adv (Yield p) s = (s, Yield p, [])"
| "adv (Spawn p k) s =
     (let (s1, p1, sp1) = adv p s; (s2, k2, sp2) = adv k s1 in (s2, k2, p1 # sp1 @ sp2))"
| "adv (All ps k) s =
     (let (s1, qs, sp) = adv_all (map (\<lambda>p. adv p) ps) s in (s1, All qs k, sp))"

text \<open>
  A stopped process goes on: with a reply, after a turn of the event loop, or because a member of
  its \<open>Promise.all\<close> does; the join itself happens when all members have returned or one has failed.
\<close>

inductive wakes :: "'s proc \<Rightarrow> 's \<Rightarrow> 's \<Rightarrow> 's proc \<Rightarrow> 's proc list \<Rightarrow> bool" where
  reply: "adv (k r) s = (s1, p1, sp) \<Longrightarrow> wakes (Await q k) s s1 p1 sp"
| turn: "adv p s = (s1, p1, sp) \<Longrightarrow> wakes (Yield p) s s1 p1 sp"
| member: "wakes p s s1 p1 sp \<Longrightarrow>
     wakes (All (xs @ p # ys) k) s s1 (All (xs @ p1 # ys) k) sp"
| joined: "adv (k (Inr vs)) s = (s1, p1, sp) \<Longrightarrow>
     wakes (All (map (\<lambda>v. Ret (Inr v)) vs) k) s s1 p1 sp"
| failed: "adv (k (Inl e)) s = (s1, p1, sp) \<Longrightarrow>
     wakes (All (xs @ Ret (Inl e) # ys) k) s s1 p1 (sp @ xs @ ys)"

text \<open>The loop: the state and the stopped processes.\<close>

inductive loop_step ::
    "('s \<Rightarrow> 'e \<Rightarrow> bool) \<Rightarrow> ('e \<Rightarrow> 's proc) \<Rightarrow> 's \<times> 's proc list \<Rightarrow> 's \<times> 's proc list \<Rightarrow> bool"
  for enabled and handler where
  event: "enabled s e \<Longrightarrow> adv (handler e) s = (s1, p1, sp) \<Longrightarrow>
     loop_step enabled handler (s, pool) (s1, p1 # sp @ pool)"
| wake: "wakes p s s1 p1 sp \<Longrightarrow>
     loop_step enabled handler (s, xs @ p # ys) (s1, p1 # sp @ xs @ ys)"

inductive loop_reach ::
    "('s \<Rightarrow> 'e \<Rightarrow> bool) \<Rightarrow> ('e \<Rightarrow> 's proc) \<Rightarrow> 's \<Rightarrow> 's \<times> 's proc list \<Rightarrow> bool"
  for enabled and handler and s0 where
  start: "loop_reach enabled handler s0 (s0, [])"
| step: "loop_reach enabled handler s0 c \<Longrightarrow> loop_step enabled handler c d \<Longrightarrow>
     loop_reach enabled handler s0 d"

lemma reach_event:
  assumes "adv (handler e) s0 = (s1, p1, sp)" and "enabled s0 e"
  shows "loop_reach enabled handler s0 (s1, p1 # sp)"
proof -
  have "loop_step enabled handler (s0, []) (s1, p1 # sp @ [])"
    using assms by (intro loop_step.event)
  then show ?thesis using loop_reach.step [OF loop_reach.start] by fastforce
qed

text \<open>The queries a stopped process waits for.\<close>

primrec pending :: "'s proc \<Rightarrow> query list" where
  "pending (Ret r) = []"
| "pending (Do f p) = []"
| "pending (Read g) = []"
| "pending (Await q k) = [q]"
| "pending (Yield p) = []"
| "pending (Spawn p k) = []"
| "pending (All ps k) = concat (map pending ps)"

section \<open>Invariants of the loop\<close>

text \<open>
  \<open>keeps I Q p s\<close>: run from \<open>s\<close>, the process \<open>p\<close> reaches its stops in states that satisfy \<open>I\<close>, whatever
  other processes that keep \<open>I\<close> do meanwhile, and every query it issues satisfies \<open>Q\<close>.
\<close>

primrec keeps :: "('s \<Rightarrow> bool) \<Rightarrow> (query \<Rightarrow> bool) \<Rightarrow> 's proc \<Rightarrow> 's \<Rightarrow> bool" where
  "keeps I Q (Ret r) s = I s"
| "keeps I Q (Do f p) s = keeps I Q p (f s)"
| "keeps I Q (Read g) s = keeps I Q (g s) s"
| "keeps I Q (Await q k) s = (I s \<and> Q q \<and> (\<forall>r s'. I s' \<longrightarrow> keeps I Q (k r) s'))"
| "keeps I Q (Yield p) s = (I s \<and> (\<forall>s'. I s' \<longrightarrow> keeps I Q p s'))"
| "keeps I Q (Spawn p k) s = (keeps I Q p s \<and> (\<forall>s'. I s' \<longrightarrow> keeps I Q k s'))"
| "keeps I Q (All ps k) s =
     (I s \<and> list_all (\<lambda>m. \<forall>s'. I s' \<longrightarrow> m s') (map (\<lambda>p. keeps I Q p) ps) \<and>
      (\<forall>r s'. I s' \<longrightarrow> keeps I Q (k r) s'))"

definition stays :: "('s \<Rightarrow> bool) \<Rightarrow> (query \<Rightarrow> bool) \<Rightarrow> 's proc \<Rightarrow> bool" where
  "stays I Q p \<longleftrightarrow> (\<forall>s. I s \<longrightarrow> keeps I Q p s)"

lemma staysI [intro?]: "(\<And>s. I s \<Longrightarrow> keeps I Q p s) \<Longrightarrow> stays I Q p"
  by (simp add: stays_def)

lemma staysD: "stays I Q p \<Longrightarrow> I s \<Longrightarrow> keeps I Q p s"
  by (simp add: stays_def)

lemma keeps_All [simp]:
  "keeps I Q (All ps k) s \<longleftrightarrow>
     I s \<and> (\<forall>p\<in>set ps. stays I Q p) \<and> (\<forall>r. stays I Q (k r))"
  by (auto simp: stays_def list_all_iff)

declare keeps.simps(7) [simp del]

lemma keeps_bind:
  "keeps I Q p s \<Longrightarrow> (\<And>r. stays I Q (g r)) \<Longrightarrow> keeps I Q (bind p g) s"
  by (induction p arbitrary: s) (auto simp: stays_def)

lemma keeps_try_await:
  "keeps I Q p s \<Longrightarrow> (\<And>v. stays I Q (ok v)) \<Longrightarrow> (\<And>e. stays I Q (err e)) \<Longrightarrow>
   keeps I Q (try_await p ok err) s"
  unfolding try_await_def by (rule keeps_bind) (auto simp: stays_def split: sum.split)

lemma keeps_await:
  "keeps I Q p s \<Longrightarrow> (\<And>v. stays I Q (ok v)) \<Longrightarrow> keeps I Q (await p ok) s"
  unfolding await_def by (rule keeps_try_await) (auto simp: stays_def)

lemma keeps_try_all:
  "I s \<Longrightarrow> (\<And>p. p \<in> set ps \<Longrightarrow> stays I Q p) \<Longrightarrow> (\<And>vs. stays I Q (ok vs)) \<Longrightarrow>
   (\<And>e. stays I Q (err e)) \<Longrightarrow> keeps I Q (try_all ps ok err) s"
  by (auto simp: try_all_def stays_def split: sum.split)

lemma keeps_try_value:
  "(\<And>v. x = Inr v \<Longrightarrow> keeps I Q (ok v) s) \<Longrightarrow> (\<And>e. x = Inl e \<Longrightarrow> keeps I Q (err e) s) \<Longrightarrow>
   keeps I Q (try_value x ok err) s"
  by (cases x) simp_all

text \<open>The rules for processes that keep an invariant from wherever it holds.\<close>

lemma stays_Ret [stays_intros]: "stays I Q (Ret r)"
  by (simp add: stays_def)

lemma stays_Do: "(\<And>s. I s \<Longrightarrow> I (f s)) \<Longrightarrow> stays I Q p \<Longrightarrow> stays I Q (Do f p)"
  by (simp add: stays_def)

lemma stays_Read [stays_intros]: "(\<And>s. I s \<Longrightarrow> stays I Q (g s)) \<Longrightarrow> stays I Q (Read g)"
  by (simp add: stays_def)

lemma stays_Await [stays_intros]: "Q q \<Longrightarrow> (\<And>r. stays I Q (k r)) \<Longrightarrow> stays I Q (Await q k)"
  by (simp add: stays_def)

lemma stays_Yield [stays_intros]: "stays I Q p \<Longrightarrow> stays I Q (Yield p)"
  by (simp add: stays_def)

lemma stays_Spawn [stays_intros]: "stays I Q p \<Longrightarrow> stays I Q k \<Longrightarrow> stays I Q (Spawn p k)"
  by (simp add: stays_def)

lemma stays_bind [stays_intros]:
  "stays I Q p \<Longrightarrow> (\<And>r. stays I Q (g r)) \<Longrightarrow> stays I Q (bind p g)"
  by (rule staysI, rule keeps_bind) (simp_all add: staysD)

lemma stays_try_await [stays_intros]:
  "stays I Q p \<Longrightarrow> (\<And>v. stays I Q (ok v)) \<Longrightarrow> (\<And>e. stays I Q (err e)) \<Longrightarrow>
   stays I Q (try_await p ok err)"
  by (rule staysI, rule keeps_try_await) (simp_all add: staysD)

lemma stays_await [stays_intros]:
  "stays I Q p \<Longrightarrow> (\<And>v. stays I Q (ok v)) \<Longrightarrow> stays I Q (await p ok)"
  by (rule staysI, rule keeps_await) (simp_all add: staysD)

lemma stays_try_all [stays_intros]:
  "(\<And>p. p \<in> set ps \<Longrightarrow> stays I Q p) \<Longrightarrow> (\<And>vs. stays I Q (ok vs)) \<Longrightarrow> (\<And>e. stays I Q (err e)) \<Longrightarrow>
   stays I Q (try_all ps ok err)"
  by (rule staysI, rule keeps_try_all) simp_all

lemma stays_try_value [stays_intros]:
  "(\<And>v. x = Inr v \<Longrightarrow> stays I Q (ok v)) \<Longrightarrow> (\<And>e. x = Inl e \<Longrightarrow> stays I Q (err e)) \<Longrightarrow>
   stays I Q (try_value x ok err)"
  by (cases x) simp_all

lemma stays_if [stays_intros]:
  "(c \<Longrightarrow> stays I Q p) \<Longrightarrow> (\<not> c \<Longrightarrow> stays I Q q) \<Longrightarrow> stays I Q (if c then p else q)"
  by simp

lemma stays_option [stays_intros]:
  "(x = None \<Longrightarrow> stays I Q p) \<Longrightarrow> (\<And>v. x = Some v \<Longrightarrow> stays I Q (f v)) \<Longrightarrow>
   stays I Q (case x of None \<Rightarrow> p | Some v \<Rightarrow> f v)"
  by (cases x) simp_all

lemma stays_sum [stays_intros]:
  "(\<And>v. x = Inl v \<Longrightarrow> stays I Q (f v)) \<Longrightarrow> (\<And>v. x = Inr v \<Longrightarrow> stays I Q (g v)) \<Longrightarrow>
   stays I Q (case x of Inl v \<Rightarrow> f v | Inr v \<Rightarrow> g v)"
  by (cases x) simp_all

lemma stays_reply [stays_intros]:
  "(\<And>e. stays I Q (f e)) \<Longrightarrow> (\<And>st t b. stays I Q (g st t b)) \<Longrightarrow>
   stays I Q (case x of Failed e \<Rightarrow> f e | Response st t b \<Rightarrow> g st t b)"
  by (cases x) simp_all

lemma stays_prod [stays_intros]:
  "(\<And>a b. x = (a, b) \<Longrightarrow> stays I Q (f a b)) \<Longrightarrow> stays I Q (case x of (a, b) \<Rightarrow> f a b)"
  by (cases x) simp_all

lemma stays_let [stays_intros]: "stays I Q (f x) \<Longrightarrow> stays I Q (let y = x in f y)"
  by simp

text \<open>What a process leaves behind at its first stop.\<close>

definition settled :: "('s \<Rightarrow> bool) \<Rightarrow> (query \<Rightarrow> bool) \<Rightarrow> 's \<times> 's proc \<times> 's proc list \<Rightarrow> bool" where
  "settled I Q x \<longleftrightarrow>
     (case x of (s, p, sp) \<Rightarrow>
        I s \<and> (\<forall>q\<in>insert p (set sp). stays I Q q \<and> (\<forall>y\<in>set (pending q). Q y)))"

lemma adv_all_settled:
  assumes "\<And>g s. g \<in> set gs \<Longrightarrow> I s \<Longrightarrow> settled I Q (g s)" and "I s"
    and "adv_all gs s = (s1, ps, sps)"
  shows "I s1 \<and> (\<forall>q\<in>set ps \<union> set sps. stays I Q q \<and> (\<forall>y\<in>set (pending q). Q y))"
  using assms
proof (induction gs s arbitrary: s1 ps sps rule: adv_all.induct)
  case (2 g gs s)
  obtain t p sp where g: "g s = (t, p, sp)" by (cases "g s")
  obtain u qs sqs where gs: "adv_all gs t = (u, qs, sqs)" by (cases "adv_all gs t")
  have "settled I Q (g s)" using 2 by simp
  then have t: "I t" and p: "\<forall>q\<in>insert p (set sp). stays I Q q \<and> (\<forall>y\<in>set (pending q). Q y)"
    by (simp_all add: settled_def g)
  have "I u \<and> (\<forall>q\<in>set qs \<union> set sqs. stays I Q q \<and> (\<forall>y\<in>set (pending q). Q y))"
    by (rule 2(1) [OF g [symmetric] refl refl _ t gs]) (use 2(2) in simp)
  with 2(4) g gs p show ?case by (auto simp: ball_Un)
qed simp

lemma adv_settled: "keeps I Q p s \<Longrightarrow> settled I Q (adv p s)"
proof (induction p arbitrary: s)
  case (Spawn p k)
  obtain t p1 sp1 where p: "adv p s = (t, p1, sp1)" by (cases "adv p s")
  obtain u k1 sp2 where k: "adv k t = (u, k1, sp2)" by (cases "adv k t")
  have "settled I Q (adv p s)" using Spawn by simp
  moreover from this have "settled I Q (adv k t)"
    using Spawn by (simp add: settled_def p)
  ultimately show ?case by (auto simp: settled_def p k)
next
  case (All ps k)
  obtain t qs sp where a: "adv_all (map (\<lambda>p. adv p) ps) s = (t, qs, sp)"
    by (cases "adv_all (map (\<lambda>p. adv p) ps) s")
  have "settled I Q (g s')" if "g \<in> set (map (\<lambda>p. adv p) ps)" "I s'" for g s'
    using that All by (auto simp: stays_def)
  then have "I t \<and> (\<forall>q\<in>set qs \<union> set sp. stays I Q q \<and> (\<forall>y\<in>set (pending q). Q y))"
    using All.prems by (intro adv_all_settled [OF _ _ a]) auto
  then show ?case using All.prems by (auto simp: settled_def a stays_def)
qed (auto simp: settled_def stays_def)

lemma wakes_settled:
  assumes "wakes p s s1 p1 sp" and "stays I Q p" and "\<forall>y\<in>set (pending p). Q y" and "I s"
  shows "settled I Q (s1, p1, sp)"
  using assms
proof (induction rule: wakes.induct)
  case (reply k r s s1 p1 sp q)
  then have "keeps I Q (k r) s" by (simp add: stays_def) blast
  then show ?case using reply.hyps adv_settled by metis
next
  case (turn p s s1 p1 sp)
  then have "keeps I Q p s" by (auto simp: stays_def)
  then show ?case using turn.hyps adv_settled by metis
next
  case (member p s s1 p1 sp xs ys k)
  have st: "\<forall>r\<in>set (xs @ p # ys). stays I Q r" "\<forall>r. stays I Q (k r)"
    using member.prems by (auto simp: stays_def)
  then have "settled I Q (s1, p1, sp)" using member by simp
  then show ?case using st member.prems by (auto simp: settled_def stays_def)
next
  case (joined k vs s s1 p1 sp)
  then have "keeps I Q (k (Inr vs)) s" by (auto simp: stays_def)
  then show ?case using joined.hyps adv_settled by metis
next
  case (failed k e s s1 p1 sp xs ys)
  have "keeps I Q (k (Inl e)) s" and st: "\<forall>r\<in>set (xs @ ys). stays I Q r"
    using failed.prems by (auto simp: stays_def)
  then have "settled I Q (s1, p1, sp)" using failed.hyps adv_settled by metis
  then show ?case using st failed.prems by (auto simp: settled_def)
qed

text \<open>
  The contract between the event loop and the handlers of a component. \<open>adv\<close>, \<open>wakes\<close> and
  \<open>loop_step\<close> are fixed; what a component provides is its events, their handlers, an invariant and a
  property of its queries, with the proof that every handler keeps them.
\<close>

locale event_loop =
  fixes enabled :: "'s \<Rightarrow> 'e \<Rightarrow> bool"
    and handler :: "'e \<Rightarrow> 's proc"
    and I :: "'s \<Rightarrow> bool"
    and Q :: "query \<Rightarrow> bool"
  assumes handler_keeps: "enabled s e \<Longrightarrow> I s \<Longrightarrow> keeps I Q (handler e) s"
begin

definition good :: "'s \<times> 's proc list \<Rightarrow> bool" where
  "good c \<longleftrightarrow> I (fst c) \<and> (\<forall>p\<in>set (snd c). stays I Q p \<and> (\<forall>y\<in>set (pending p). Q y))"

lemma good_step: "loop_step enabled handler c d \<Longrightarrow> good c \<Longrightarrow> good d"
proof (induction rule: loop_step.induct)
  case (event s e s1 p1 sp pool)
  then have "settled I Q (s1, p1, sp)"
    using adv_settled [OF handler_keeps] by (metis fst_conv good_def)
  with event.prems show ?case by (auto simp: good_def settled_def)
next
  case (wake p s s1 p1 sp xs ys)
  then have "settled I Q (s1, p1, sp)"
    using wakes_settled [OF wake.hyps] by (simp add: good_def)
  with wake.prems show ?case by (auto simp: good_def settled_def)
qed

lemma good_reach: "loop_reach enabled handler s0 c \<Longrightarrow> I s0 \<Longrightarrow> good c"
proof (induction rule: loop_reach.induct)
  case start
  then show ?case by (simp add: good_def)
next
  case (step c d)
  then show ?case by (blast intro: good_step)
qed

lemma reach_invariant: "loop_reach enabled handler s0 (s, pool) \<Longrightarrow> I s0 \<Longrightarrow> I s"
  using good_reach by (fastforce simp: good_def)

lemma reach_queries:
  "loop_reach enabled handler s0 (s, pool) \<Longrightarrow> I s0 \<Longrightarrow> p \<in> set pool \<Longrightarrow> q \<in> set (pending p) \<Longrightarrow> Q q"
  using good_reach by (fastforce simp: good_def)

end

section \<open>A process on a part of the state\<close>

text \<open>
  A component works on its own part of the program's state: \<open>focus get put p\<close> is the process \<open>p\<close> of a
  component as a process of the program. What the component keeps of its part, the program keeps.
\<close>

primrec focus :: "('t \<Rightarrow> 's) \<Rightarrow> ('s \<Rightarrow> 't \<Rightarrow> 't) \<Rightarrow> 's proc \<Rightarrow> 't proc" where
  "focus get put (Ret r) = Ret r"
| "focus get put (Do f p) = Do (\<lambda>t. put (f (get t)) t) (focus get put p)"
| "focus get put (Read g) = Read (\<lambda>t. focus get put (g (get t)))"
| "focus get put (Await q k) = Await q (\<lambda>r. focus get put (k r))"
| "focus get put (Yield p) = Yield (focus get put p)"
| "focus get put (Spawn p k) = Spawn (focus get put p) (focus get put k)"
| "focus get put (All ps k) = All (map (focus get put) ps) (\<lambda>r. focus get put (k r))"

locale state_part =
  fixes get :: "'t \<Rightarrow> 's" and put :: "'s \<Rightarrow> 't \<Rightarrow> 't"
  assumes get_put: "get (put s t) = s"
begin

lemma keeps_focus: "keeps I Q p (get t) \<Longrightarrow> keeps (\<lambda>t. I (get t)) Q (focus get put p) t"
  by (induction p arbitrary: t) (auto simp: get_put stays_def)

lemma stays_focus: "stays I Q p \<Longrightarrow> stays (\<lambda>t. I (get t)) Q (focus get put p)"
  by (simp add: stays_def keeps_focus)

end

end
