(* ===== verification/Panel_Storage.thy ===== *)
theory Panel_Storage
  imports Js_Async
begin

text \<open>
  The browser as the panel sees it, and the modules \<open>lib/config.ts\<close> and \<open>lib/storage.ts\<close>: the base
  URL of the API, the stored token with its migration from older keys, the selected cell and the
  theme. What the platform computes and the sources do not contain (the origin of a parsed URL, the
  localised text of a date, the avatar picture of a seed, the URL the build gives
  an asset) is a field of the browser.
\<close>

section \<open>The browser\<close>

text \<open>\<open>session_storage = None\<close> is a browser in which the access to \<open>sessionStorage\<close> throws.\<close>

record browser =
  location_protocol :: jstring
  location_origin :: jstring
  url_origin :: "jstring \<Rightarrow> jstring option"
  session_storage :: "(jstring \<rightharpoonup> jstring) option"
  local_storage :: "jstring \<rightharpoonup> jstring"
  prefers_dark :: bool
  root_dark :: bool
  root_theme_mode :: jstring
  locale_string :: "jsnum \<Rightarrow> jstring"
  avatar_uri :: "jstring \<Rightarrow> jstring"
  asset_url :: "string \<Rightarrow> jstring"
  ext_auth_global :: jsval
  panel_mode_global :: "jstring option"
  admin_api_global :: "jstring option"

text \<open>\<open>lib/config.ts\<close>.\<close>

definition opt_or :: "jstring option \<Rightarrow> jstring \<Rightarrow> jstring" where
  "opt_or x d = (case x of None \<Rightarrow> d | Some s \<Rightarrow> str_or s d)"

definition panelMode :: "browser \<Rightarrow> jstring" where
  "panelMode b = opt_or (panel_mode_global b) (js ''embedded'')"

definition adminApiRoot :: "browser \<Rightarrow> jstring" where
  "adminApiRoot b = opt_or (admin_api_global b) (js ''/admin/v1'')"

definition isExternalAuth :: "browser \<Rightarrow> bool" where
  "isExternalAuth b = truthy (ext_auth_global b)"

section \<open>Stores\<close>

definition TOKEN_PREFIX :: jstring where "TOKEN_PREFIX = js ''bettermq_api_token:''"
definition API_BASE_KEY :: jstring where "API_BASE_KEY = js ''bettermq_api_base''"
definition CELL_KEY :: jstring where "CELL_KEY = js ''bettermq_cell_id''"
definition LEGACY_TOKEN_KEY :: jstring where "LEGACY_TOKEN_KEY = js ''bettermq_api_token''"
definition THEME_KEY :: jstring where "THEME_KEY = js ''themeMode''"

lemmas storage_keys = TOKEN_PREFIX_def API_BASE_KEY_def CELL_KEY_def LEGACY_TOKEN_KEY_def THEME_KEY_def

datatype store = SessionStore | LocalStore

definition tokenStore :: "browser \<Rightarrow> store" where
  "tokenStore b = (case session_storage b of None \<Rightarrow> LocalStore | Some _ \<Rightarrow> SessionStore)"

fun get_item :: "store \<Rightarrow> jstring \<Rightarrow> browser \<Rightarrow> jstring option" where
  "get_item SessionStore k b = (case session_storage b of None \<Rightarrow> None | Some m \<Rightarrow> m k)"
| "get_item LocalStore k b = local_storage b k"

fun set_item :: "store \<Rightarrow> jstring \<Rightarrow> jstring \<Rightarrow> browser \<Rightarrow> browser" where
  "set_item SessionStore k v b =
     b\<lparr>session_storage := map_option (\<lambda>m. m(k \<mapsto> v)) (session_storage b)\<rparr>"
| "set_item LocalStore k v b = b\<lparr>local_storage := (local_storage b)(k \<mapsto> v)\<rparr>"

fun remove_item :: "store \<Rightarrow> jstring \<Rightarrow> browser \<Rightarrow> browser" where
  "remove_item SessionStore k b =
     b\<lparr>session_storage := map_option (\<lambda>m. m(k := None)) (session_storage b)\<rparr>"
| "remove_item LocalStore k b = b\<lparr>local_storage := (local_storage b)(k := None)\<rparr>"

section \<open>The base URL of the API\<close>

definition served_over_http :: "browser \<Rightarrow> bool" where
  "served_over_http b \<longleftrightarrow> location_protocol b = js ''http:'' \<or> location_protocol b = js ''https:''"

definition defaultApiBase :: "browser \<Rightarrow> jstring" where
  "defaultApiBase b =
     (if served_over_http b then location_origin b else js ''http://127.0.0.1:8080'')"

definition allowlistedApiBase :: "jstring \<Rightarrow> browser \<Rightarrow> jstring" where
  "allowlistedApiBase raw b =
     (let v = drop_trailing_slash (trim raw) in
      if served_over_http b then
        (if v = [] then location_origin b
         else case url_origin b v of
                None \<Rightarrow> location_origin b
              | Some orig \<Rightarrow> if orig = location_origin b then orig else location_origin b)
      else str_or v (defaultApiBase b))"

definition loadSavedApiBase :: "browser \<Rightarrow> jstring" where
  "loadSavedApiBase b =
     allowlistedApiBase (opt_or (get_item LocalStore API_BASE_KEY b) (defaultApiBase b)) b"

definition saveApiBase :: "jstring \<Rightarrow> browser \<Rightarrow> browser" where
  "saveApiBase base b = set_item LocalStore API_BASE_KEY (allowlistedApiBase base b) b"

section \<open>The token\<close>

definition tokenStorageKey :: "jstring \<Rightarrow> jstring" where
  "tokenStorageKey apiBase = TOKEN_PREFIX @ apiBase"

text \<open>
  The token of a base URL. A token that is only in \<open>localStorage\<close> (under the same key or under the
  key of older versions) moves to the token store.
\<close>

definition loadSavedToken :: "jstring \<Rightarrow> browser \<Rightarrow> jstring \<times> browser" where
  "loadSavedToken apiBase b =
     (let key = tokenStorageKey apiBase;
          t = opt_or (get_item (tokenStore b) key b) []
      in if t \<noteq> [] then (t, b)
         else let t' = opt_or (get_item LocalStore key b)
                         (opt_or (get_item LocalStore LEGACY_TOKEN_KEY b) [])
              in if t' \<noteq> []
                 then (t', remove_item LocalStore LEGACY_TOKEN_KEY
                             (remove_item LocalStore key
                               (set_item (tokenStore b) key t' b)))
                 else ([], b))"

text \<open>\<open>/^bearer\s+/i\<close>, and the text without what it matches.\<close>

definition bearer_prefixed :: "jstring \<Rightarrow> bool" where
  "bearer_prefixed t \<longleftrightarrow>
     to_lower_case (take 6 t) = js ''bearer'' \<and> 6 < length t \<and> js_space (t ! 6)"

definition drop_bearer :: "jstring \<Rightarrow> jstring" where
  "drop_bearer t = dropWhile js_space (drop 6 t)"

definition normalizeToken :: "jstring \<Rightarrow> jstring" where
  "normalizeToken raw =
     (let t = trim raw in if bearer_prefixed t then trim (drop_bearer t) else t)"

definition saveToken :: "jstring \<Rightarrow> jstring \<Rightarrow> browser \<Rightarrow> browser" where
  "saveToken apiBase token b =
     (let t = normalizeToken token in
      if t \<noteq> [] then set_item (tokenStore b) (tokenStorageKey apiBase) t b
      else remove_item (tokenStore b) (tokenStorageKey apiBase) b)"

section \<open>The selected cell and the theme\<close>

definition loadSavedCellId :: "browser \<Rightarrow> jstring" where
  "loadSavedCellId b = opt_or (get_item LocalStore CELL_KEY b) []"

definition saveCellId :: "jstring \<Rightarrow> browser \<Rightarrow> browser" where
  "saveCellId cid b = set_item LocalStore CELL_KEY cid b"

datatype theme_mode = System | Light | Dark

fun theme_text :: "theme_mode \<Rightarrow> jstring" where
  "theme_text System = js ''system''"
| "theme_text Light = js ''light''"
| "theme_text Dark = js ''dark''"

definition readThemeMode :: "browser \<Rightarrow> theme_mode" where
  "readThemeMode b =
     (case get_item LocalStore THEME_KEY b of
        None \<Rightarrow> System
      | Some stored \<Rightarrow>
          if stored = js ''dark'' then Dark
          else if stored = js ''light'' then Light
          else if stored = js ''system'' then System else System)"

definition applyTheme :: "theme_mode \<Rightarrow> browser \<Rightarrow> browser" where
  "applyTheme mode b =
     (let dark = (mode = Dark \<or> mode = System \<and> prefers_dark b)
      in set_item LocalStore THEME_KEY (theme_text mode)
           (b\<lparr>root_dark := dark, root_theme_mode := theme_text mode\<rparr>))"

lemmas storage_defs = tokenStore_def served_over_http_def defaultApiBase_def allowlistedApiBase_def
  loadSavedApiBase_def saveApiBase_def tokenStorageKey_def loadSavedToken_def saveToken_def
  loadSavedCellId_def saveCellId_def readThemeMode_def applyTheme_def opt_or_def

section \<open>What the storage operations keep\<close>

text \<open>The page's location and the configuration are never written.\<close>

definition same_page :: "browser \<Rightarrow> browser \<Rightarrow> bool" where
  "same_page b c \<longleftrightarrow>
     location_protocol c = location_protocol b \<and> location_origin c = location_origin b \<and>
     url_origin c = url_origin b \<and> (session_storage c = None \<longleftrightarrow> session_storage b = None) \<and>
     ext_auth_global c = ext_auth_global b \<and> panel_mode_global c = panel_mode_global b \<and>
     admin_api_global c = admin_api_global b"

lemma same_page_refl [simp]: "same_page b b"
  by (simp add: same_page_def)

lemma same_page_trans [trans]: "same_page a b \<Longrightarrow> same_page b c \<Longrightarrow> same_page a c"
  by (simp add: same_page_def)

lemma same_page_set_item [simp]: "same_page b (set_item st k v b)"
  by (cases st) (auto simp: same_page_def)

lemma same_page_remove_item [simp]: "same_page b (remove_item st k b)"
  by (cases st) (auto simp: same_page_def)

lemma same_page_saveToken [simp]: "same_page b (saveToken base t b)"
  by (simp add: saveToken_def Let_def)

lemma same_page_loadSavedToken [simp]: "same_page b (snd (loadSavedToken base b))"
proof -
  have "same_page b (remove_item r j (remove_item q k (set_item st k v b)))" for r j q k st v
    by (rule same_page_trans [OF same_page_set_item
          same_page_trans [OF same_page_remove_item same_page_remove_item]])
  then show ?thesis
    by (simp add: loadSavedToken_def Let_def del: remove_item.simps set_item.simps get_item.simps)
qed

lemma same_page_saveApiBase [simp]: "same_page b (saveApiBase base b)"
  and same_page_saveCellId [simp]: "same_page b (saveCellId cid b)"
  by (simp_all add: saveApiBase_def saveCellId_def del: set_item.simps)

lemma same_page_applyTheme [simp]: "same_page b (applyTheme m b)"
  by (simp add: applyTheme_def Let_def same_page_def)

lemma served_over_http_page: "same_page b c \<Longrightarrow> served_over_http c = served_over_http b"
  by (simp add: same_page_def served_over_http_def)

section \<open>Origin locking\<close>

text \<open>
  A page served over HTTP talks to its own origin, whatever \<open>localStorage\<close> holds and whatever the URL
  parser makes of it.
\<close>

lemma allowlisted_http: "served_over_http b \<Longrightarrow> allowlistedApiBase raw b = location_origin b"
  by (simp add: allowlistedApiBase_def Let_def split: option.split)

lemma loadSavedApiBase_http: "served_over_http b \<Longrightarrow> loadSavedApiBase b = location_origin b"
  by (simp add: loadSavedApiBase_def allowlisted_http)

section \<open>The token store\<close>

text \<open>
  The contract the API client relies on: in a good browser, what is saved is what is loaded, and
  saving or loading for one base URL leaves the others alone.
\<close>

locale token_store =
  fixes good :: "'b \<Rightarrow> bool"
    and load :: "jstring \<Rightarrow> 'b \<Rightarrow> jstring \<times> 'b"
    and save :: "jstring \<Rightarrow> jstring \<Rightarrow> 'b \<Rightarrow> 'b"
    and norm :: "jstring \<Rightarrow> jstring"
  assumes good_load: "good b \<Longrightarrow> good (snd (load base b))"
    and good_save: "good b \<Longrightarrow> good (save base t b)"
    and load_save: "good b \<Longrightarrow> load base (save base t b) = (norm t, save base t b)"
    and load_other: "good b \<Longrightarrow> base' \<noteq> base \<Longrightarrow>
       fst (load base' (save base t b)) = fst (load base' b)"
    and load_twice: "good b \<Longrightarrow> load base' (snd (load base b)) = load base' b"
begin

lemma load_after_two_saves:
  "good b \<Longrightarrow> fst (load base (save base u (save base t b))) = norm u"
  by (simp add: good_save load_save)

lemma load_save_save_other:
  "good b \<Longrightarrow> base' \<noteq> base \<Longrightarrow> fst (load base (save base' u (save base t b))) = norm t"
  using load_other [OF good_save, of b base base'] by (simp add: load_save)

lemma load_load_save: "good b \<Longrightarrow> fst (load base (snd (load base (save base t b)))) = norm t"
  by (simp add: load_save)

text \<open>A good store is a map from base URLs to tokens: saving updates it, loading reads it.\<close>

lemma abs_save: "good b \<Longrightarrow> (\<lambda>c. fst (load c (save base t b))) = (\<lambda>c. fst (load c b))(base := norm t)"
  by (rule ext) (simp add: load_save load_other)

lemma abs_load: "good b \<Longrightarrow> (\<lambda>c. fst (load c (snd (load base b)))) = (\<lambda>c. fst (load c b))"
  by (simp add: load_twice)

end

text \<open>
  The panel's store is good when \<open>sessionStorage\<close> works and no token is left in \<open>localStorage\<close> to
  migrate.
\<close>

definition migrated :: "browser \<Rightarrow> bool" where
  "migrated b \<longleftrightarrow> session_storage b \<noteq> None \<and>
     (\<forall>base. opt_or (local_storage b (tokenStorageKey base)) [] = []) \<and>
     opt_or (local_storage b LEGACY_TOKEN_KEY) [] = []"

lemma migrated_loadSavedToken:
  "migrated b \<Longrightarrow>
   loadSavedToken base b = (opt_or (get_item SessionStore (tokenStorageKey base) b) [], b)"
proof -
  assume m: "migrated b"
  then have "opt_or (local_storage b (tokenStorageKey base)) d = d" for d
    by (auto simp: migrated_def opt_or_def str_or_def split: option.splits if_splits)
  with m show ?thesis
    by (auto simp: loadSavedToken_def Let_def migrated_def tokenStore_def split: option.splits)
qed

lemma migrated_saveToken: "migrated b \<Longrightarrow> migrated (saveToken base t b)"
  by (auto simp: migrated_def saveToken_def tokenStore_def Let_def split: option.splits)

lemma tokenStorageKey_inj [simp]: "tokenStorageKey a = tokenStorageKey c \<longleftrightarrow> a = c"
  by (simp add: tokenStorageKey_def)

lemma session_saveToken:
  "session_storage b = Some m \<Longrightarrow>
   get_item SessionStore (tokenStorageKey base') (saveToken base t b) =
     (if base' = base then (if normalizeToken t = [] then None else Some (normalizeToken t))
      else m (tokenStorageKey base'))"
  by (simp add: saveToken_def tokenStore_def)

interpretation panel_tokens: token_store migrated loadSavedToken saveToken normalizeToken
proof
  fix b base assume m: "migrated b"
  show "migrated (snd (loadSavedToken base b))"
    using m by (simp add: migrated_loadSavedToken)
next
  fix b base t assume m: "migrated b"
  show "migrated (saveToken base t b)" using m by (rule migrated_saveToken)
  from m obtain s where s: "session_storage b = Some s" by (auto simp: migrated_def)
  show "loadSavedToken base (saveToken base t b) = (normalizeToken t, saveToken base t b)"
    using migrated_loadSavedToken [OF migrated_saveToken [OF m]] session_saveToken [OF s, of base]
    by (simp add: opt_or_def)
next
  fix b and base base' t :: jstring assume m: "migrated b" and ne: "base' \<noteq> base"
  from m obtain s where s: "session_storage b = Some s" by (auto simp: migrated_def)
  show "fst (loadSavedToken base' (saveToken base t b)) = fst (loadSavedToken base' b)"
    using migrated_loadSavedToken [OF migrated_saveToken [OF m]] migrated_loadSavedToken [OF m]
      session_saveToken [OF s, of base'] ne s by simp
next
  fix b and base base' :: jstring assume m: "migrated b"
  show "loadSavedToken base' (snd (loadSavedToken base b)) = loadSavedToken base' b"
    using m by (simp add: migrated_loadSavedToken)
qed

section \<open>Tokens as the user types them\<close>

lemma js_space_space [simp]: "js_space 0x20"
  by (simp add: js_space_def)

lemma trim_pad:
  assumes "list_all js_space u" and "list_all js_space v"
  shows "trim (u @ t @ v) = trim t"
proof -
  have d: "dropWhile js_space (x @ y) = dropWhile js_space y" if "list_all js_space x" for x y
    using that by (simp add: list_all_iff dropWhile_append)
  have "dropWhile js_space (rev v @ z) = dropWhile js_space z" for z
    using assms(2) by (intro d) (simp add: list_all_iff)
  then have r: "rev (dropWhile js_space (rev (y @ v))) = rev (dropWhile js_space (rev y))" for y
    by simp
  show ?thesis
  proof (cases "dropWhile js_space t = []")
    case True
    then have "list_all js_space t" by (simp add: list_all_iff)
    then have "dropWhile js_space (u @ t @ v) = []" using assms by (auto simp: list_all_iff)
    with True show ?thesis unfolding trim_def trim_start_def by (simp only:)
  next
    case False
    then have "\<not> (\<forall>x\<in>set t. js_space x)" by simp
    then have "dropWhile js_space (t @ v) = dropWhile js_space t @ v"
      by (meson dropWhile_append1)
    then show ?thesis using assms(1) by (simp add: trim_def trim_start_def d r del: rev_append)
  qed
qed

lemma trimmed_append:
  "trimmed s \<Longrightarrow> s \<noteq> [] \<Longrightarrow> x \<noteq> [] \<Longrightarrow> \<not> js_space (hd x) \<Longrightarrow> trimmed (x @ y @ s)"
  by (simp add: trimmed_def)

lemma normalizeToken_plain: "trimmed t \<Longrightarrow> \<not> bearer_prefixed t \<Longrightarrow> normalizeToken t = t"
  by (simp add: normalizeToken_def)

lemma trimmed_normalizeToken [simp]: "trimmed (normalizeToken raw)"
  by (simp add: normalizeToken_def Let_def)

lemma normalizeToken_bearer:
  assumes b: "to_lower_case b = js ''bearer''" and w: "w \<noteq> []" "list_all js_space w"
    and t: "trimmed t" "t \<noteq> []" and pad: "list_all js_space u" "list_all js_space v"
  shows "normalizeToken (u @ (b @ w @ t) @ v) = t"
proof -
  have len: "length b = 6" using arg_cong [OF b, of length] by (simp add: to_lower_case_def)
  then obtain c bs where cb: "b = c # bs" by (cases b) auto
  have c: "ascii_lower c = 0x62" using b by (simp add: cb to_lower_case_def js_def)
  have "\<not> js_space c"
  proof
    assume "js_space c"
    then show False using c by (auto simp: js_space_def ascii_lower_def)
  qed
  then have tr: "trimmed (b @ w @ t)" using t by (intro trimmed_append) (simp_all add: cb)
  have "bearer_prefixed (b @ w @ t)"
    using b w len t by (cases w) (simp_all add: bearer_prefixed_def nth_append)
  moreover have "drop_bearer (b @ w @ t) = t"
    using len w t by (simp add: drop_bearer_def list_all_iff dropWhile_append trimmed_def dropWhile_id)
  ultimately show ?thesis
    using tr t trim_pad [OF pad, of "b @ w @ t"] by (simp add: normalizeToken_def)
qed

section \<open>Properties\<close>

text \<open>A page on the broker's own origin with empty stores, for evaluating examples.\<close>

definition fresh_page :: "jstring \<Rightarrow> browser" where
  "fresh_page origin =
     \<lparr>location_protocol = js ''http:'', location_origin = origin, url_origin = (\<lambda>u. Some u),
      session_storage = Some Map.empty, local_storage = Map.empty, prefers_dark = False,
      root_dark = False, root_theme_mode = [], locale_string = num_string, avatar_uri = (\<lambda>k. k), asset_url = js,
      ext_auth_global = JUndef, panel_mode_global = None, admin_api_global = None\<rparr>"

lemma fresh_page_sel [simp]:
  "location_origin (fresh_page u) = u" "local_storage (fresh_page u) = Map.empty"
  "session_storage (fresh_page u) = Some Map.empty" "admin_api_global (fresh_page u) = None"
  "ext_auth_global (fresh_page u) = JUndef"
  by (simp_all add: fresh_page_def)

lemma served_fresh_page [simp]: "served_over_http (fresh_page u)"
  by (simp add: served_over_http_def fresh_page_def)

lemma migrated_fresh_page [simp]: "migrated (fresh_page u)"
  by (simp add: migrated_def fresh_page_def opt_or_def)

text \<open>The token store as its clients see it: a table from base URLs to tokens.\<close>

definition tokens_of :: "browser \<Rightarrow> jstring \<Rightarrow> jstring" where
  "tokens_of b base = fst (loadSavedToken base b)"

datatype token_op = SaveOp jstring jstring | LoadOp jstring

text \<open>A client's calls on the browser, with what the loads returned, and the same calls on the table.\<close>

fun token_calls :: "token_op list \<Rightarrow> browser \<Rightarrow> jstring list \<times> browser" where
  "token_calls [] b = ([], b)"
| "token_calls (SaveOp base t # ops) b = token_calls ops (saveToken base t b)"
| "token_calls (LoadOp base # ops) b =
     (let (t, b1) = loadSavedToken base b; (ts, b2) = token_calls ops b1 in (t # ts, b2))"

fun table_calls :: "token_op list \<Rightarrow> (jstring \<Rightarrow> jstring) \<Rightarrow> jstring list \<times> (jstring \<Rightarrow> jstring)" where
  "table_calls [] m = ([], m)"
| "table_calls (SaveOp base t # ops) m = table_calls ops (m(base := normalizeToken t))"
| "table_calls (LoadOp base # ops) m = (let (ts, m1) = table_calls ops m in (m base # ts, m1))"

lemma tokens_of_save: "migrated b \<Longrightarrow> tokens_of (saveToken base t b) = (tokens_of b)(base := normalizeToken t)"
  using panel_tokens.abs_save [of b base t] by (simp add: tokens_of_def fun_eq_iff)

lemma tokens_of_load: "migrated b \<Longrightarrow> tokens_of (snd (loadSavedToken base b)) = tokens_of b"
  using panel_tokens.abs_load [of b base] by (simp add: tokens_of_def fun_eq_iff)

text \<open>
  C7: the token store implements a table from base URLs to tokens. Any sequence of saves and loads, once
  nothing is left to migrate, returns the tokens that the table returns and leaves the stores in a state
  that stands for the table's last one: a save replaces the entry of its base URL by the normalised token,
  a load changes nothing.
\<close>

theorem token_store_refines:
  assumes "migrated b" and "token_calls ops b = (ts, c)"
  shows "table_calls ops (tokens_of b) = (ts, tokens_of c) \<and> migrated c"
  using assms
proof (induction ops b arbitrary: ts c rule: token_calls.induct)
  case (2 base t ops b)
  have "table_calls ops (tokens_of (saveToken base t b)) = (ts, tokens_of c) \<and> migrated c"
    using 2 by (intro "2.IH" panel_tokens.good_save) simp_all
  then show ?case by (simp only: tokens_of_save [OF "2.prems"(1)] table_calls.simps)
next
  case (3 base ops b)
  obtain t b1 where l: "loadSavedToken base b = (t, b1)" by (cases "loadSavedToken base b")
  obtain us b2 where r: "token_calls ops b1 = (us, b2)" by (cases "token_calls ops b1")
  have m: "migrated b1" using panel_tokens.good_load [OF 3(2), of base] l by simp
  have "table_calls ops (tokens_of b1) = (us, tokens_of b2) \<and> migrated b2"
    by (rule 3(1) [OF l [symmetric] refl m r])
  moreover have "tokens_of b1 = tokens_of b" using tokens_of_load [OF 3(2), of base] l by simp
  moreover have "tokens_of b base = t" by (simp add: tokens_of_def l)
  ultimately show ?case using 3(3) l r by simp
qed simp

theorem token_store_refines_witness:
  "fst (token_calls [SaveOp (js ''u'') (js '' a ''), LoadOp (js ''v''), LoadOp (js ''u'')] (fresh_page (js ''u''))) =
   [[], js ''a'']"
proof -
  let ?ops = "[SaveOp (js ''u'') (js '' a ''), LoadOp (js ''v''), LoadOp (js ''u'')]"
  obtain ts c where r: "token_calls ?ops (fresh_page (js ''u'')) = (ts, c)"
    by (cases "token_calls ?ops (fresh_page (js ''u''))")
  have "tokens_of (fresh_page (js ''u'')) = (\<lambda>_. [])"
    by (simp add: tokens_of_def migrated_loadSavedToken opt_or_def fun_eq_iff)
  moreover have "normalizeToken (js '' a '') = js ''a''" by code_simp
  ultimately show ?thesis
    using token_store_refines [OF migrated_fresh_page r] unfolding r by simp
qed



text \<open>
  C25: where \<open>sessionStorage\<close> works, a load moves a token that only \<open>localStorage\<close> has (under the key of
  the base URL or the key of older versions) to \<open>sessionStorage\<close>: it stays readable by every later load,
  and no copy stays in \<open>localStorage\<close>.
\<close>

theorem token_migration:
  assumes "session_storage b = Some m" and "opt_or (m (tokenStorageKey base)) [] = []"
    and "loadSavedToken base b = (t, c)"
  shows "t = opt_or (local_storage b (tokenStorageKey base)) (opt_or (local_storage b LEGACY_TOKEN_KEY) []) \<and>
     loadSavedToken base c = (t, c) \<and>
     (t \<noteq> [] \<longrightarrow> session_storage c = Some (m(tokenStorageKey base \<mapsto> t))) \<and>
     opt_or (local_storage c (tokenStorageKey base)) [] = [] \<and>
     opt_or (local_storage c LEGACY_TOKEN_KEY) [] = []"
  using assms
  by (auto simp: loadSavedToken_def Let_def tokenStore_def opt_or_def str_or_def
      split: if_splits option.splits)

theorem token_migration_witness:
  "loadSavedToken (js ''u'') (snd (loadSavedToken (js ''u'')
     ((fresh_page (js ''u''))\<lparr>local_storage := [LEGACY_TOKEN_KEY \<mapsto> js ''sk_local_9'']\<rparr>))) =
   (js ''sk_local_9'', (fresh_page (js ''u''))\<lparr>session_storage := Some [tokenStorageKey (js ''u'') \<mapsto> js ''sk_local_9'']\<rparr>)"
proof -
  let ?b = "(fresh_page (js ''u''))\<lparr>local_storage := [LEGACY_TOKEN_KEY \<mapsto> js ''sk_local_9'']\<rparr>"
  have ne: "LEGACY_TOKEN_KEY \<noteq> tokenStorageKey (js ''u'')" by code_simp
  have l: "loadSavedToken (js ''u'') ?b =
    (js ''sk_local_9'', (fresh_page (js ''u''))\<lparr>session_storage := Some [tokenStorageKey (js ''u'') \<mapsto> js ''sk_local_9'']\<rparr>)"
    using ne by (simp add: loadSavedToken_def tokenStore_def fresh_page_def opt_or_def fun_upd_def Let_def fun_eq_iff)
  show ?thesis
    using token_migration [OF _ _ l, of Map.empty] l by (simp add: fresh_page_def opt_or_def)
qed

text \<open>
  C33: where \<open>sessionStorage\<close> is not available and the token store falls back to \<open>localStorage\<close>, the
  migration of a token of an older version removes what it has just written: the first load still
  returns the token, every later load finds none.
\<close>

theorem token_fallback_lost:
  assumes "session_storage b = None" and "opt_or (local_storage b (tokenStorageKey base)) [] = []"
    and "local_storage b LEGACY_TOKEN_KEY = Some t" and "t \<noteq> []"
  shows "fst (loadSavedToken base b) = t \<and>
     fst (loadSavedToken base (snd (loadSavedToken base b))) = []"
  using assms
  by (auto simp: loadSavedToken_def Let_def tokenStore_def opt_or_def str_or_def
      split: if_splits option.splits)

theorem token_fallback_lost_witness:
  "fst (loadSavedToken (js ''u'') (snd (loadSavedToken (js ''u'')
     ((fresh_page (js ''u''))\<lparr>session_storage := None,
        local_storage := [LEGACY_TOKEN_KEY \<mapsto> js ''sk_local_9'']\<rparr>)))) = []"
proof -
  have "LEGACY_TOKEN_KEY \<noteq> tokenStorageKey (js ''u'')" by code_simp
  then show ?thesis
    using token_fallback_lost [of "(fresh_page (js ''u''))\<lparr>session_storage := None,
        local_storage := [LEGACY_TOKEN_KEY \<mapsto> js ''sk_local_9'']\<rparr>" "js ''u''" "js ''sk_local_9''"]
    by (simp add: opt_or_def fresh_page_def)
qed

text \<open>
  C26: a token may be typed with surrounding white space and with \<open>Bearer\<close> in any letter case before it:
  what is stored is the bare token.
\<close>

theorem normalizeToken_typed:
  assumes "to_lower_case b = js ''bearer''" and "w \<noteq> []" and "list_all js_space (w @ u @ v)"
    and "trimmed t" and "t \<noteq> []" and "\<not> bearer_prefixed t"
  shows "normalizeToken (u @ (b @ w @ t) @ v) = t \<and> normalizeToken (u @ t @ v) = t"
  using assms normalizeToken_bearer [of b w t u v] trim_pad [of u v t]
  by (simp add: normalizeToken_def)

theorem normalizeToken_typed_witness:
  "normalizeToken (js '' bEARER  sk_local_7'' @ [0x0A]) = js ''sk_local_7''"
proof -
  have "normalizeToken (js '' '' @ (js ''bEARER'' @ js ''  '' @ js ''sk_local_7'') @ [0x0A]) = js ''sk_local_7''"
    by (rule normalizeToken_typed [THEN conjunct1]; code_simp)
  then show ?thesis by (simp add: js_def)
qed

end
