(* ===== verification/Panel_Api.thy ===== *)
theory Panel_Api
  imports Panel_Storage
begin

text \<open>
  The panel's shared state (the reactive objects \<open>session\<close>, \<open>catalog\<close> and \<open>outbound\<close> and the timers
  of \<open>lib/session.ts\<close>) and the API client \<open>lib/api.ts\<close>. A view extends the record with its own
  refs, so the library's functions apply to every view.
\<close>

section \<open>The shared state\<close>

datatype auth_phase = Loading | Setup | Gate | Reveal | App

record session_state =
  s_phase :: auth_phase
  s_apiBase :: jstring
  s_token :: jstring
  s_revealedToken :: jstring
  s_auth :: jsval
  s_health :: jstring
  s_healthOk :: bool
  s_clusterLabel :: jstring
  s_cluster :: jsval
  s_cells :: "jsval list"
  s_members :: "jsval list"
  s_selectedCellId :: jstring
  s_themeMode :: theme_mode
  s_splitAuth :: bool
  s_joinToken :: jstring
  s_gateMessage :: jstring
  s_isSeed :: bool

record catalog_state =
  c_queues :: "jsval list"
  c_groups :: "jsval list"
  c_flows :: "jsval list"

record outbound_state =
  o_method :: jstring
  o_sign :: bool
  o_headers :: jstring

record panel =
  win :: browser
  session :: session_state
  catalog :: catalog_state
  outbound :: outbound_state
  healthTimer :: bool
  clusterTimer :: bool
  avatar_cache :: "jstring \<rightharpoonup> jstring"

definition upd_win :: "(browser \<Rightarrow> browser) \<Rightarrow> 'a panel_scheme \<Rightarrow> 'a panel_scheme" where
  "upd_win f p = p\<lparr>win := f (win p)\<rparr>"

definition upd_session :: "(session_state \<Rightarrow> session_state) \<Rightarrow> 'a panel_scheme \<Rightarrow> 'a panel_scheme" where
  "upd_session f p = p\<lparr>session := f (session p)\<rparr>"

definition upd_catalog :: "(catalog_state \<Rightarrow> catalog_state) \<Rightarrow> 'a panel_scheme \<Rightarrow> 'a panel_scheme" where
  "upd_catalog f p = p\<lparr>catalog := f (catalog p)\<rparr>"

definition upd_outbound :: "(outbound_state \<Rightarrow> outbound_state) \<Rightarrow> 'a panel_scheme \<Rightarrow> 'a panel_scheme" where
  "upd_outbound f p = p\<lparr>outbound := f (outbound p)\<rparr>"

lemmas upd_defs = upd_win_def upd_session_def upd_catalog_def upd_outbound_def

lemma upd_sel [simp]:
  "win (upd_win f p) = f (win p)" "session (upd_win f p) = session p"
  "catalog (upd_win f p) = catalog p" "outbound (upd_win f p) = outbound p"
  "win (upd_session g p) = win p" "session (upd_session g p) = g (session p)"
  "catalog (upd_session g p) = catalog p" "outbound (upd_session g p) = outbound p"
  "win (upd_catalog h p) = win p" "session (upd_catalog h p) = session p"
  "catalog (upd_catalog h p) = h (catalog p)" "outbound (upd_catalog h p) = outbound p"
  "win (upd_outbound k p) = win p" "session (upd_outbound k p) = session p"
  "catalog (upd_outbound k p) = catalog p" "outbound (upd_outbound k p) = k (outbound p)"
  by (simp_all add: upd_defs)

section \<open>URLs and headers\<close>

definition api_base :: "browser \<Rightarrow> jstring" where
  "api_base b = allowlistedApiBase (loadSavedApiBase b) b"

definition authHeaders :: "browser \<Rightarrow> (jstring \<times> jstring) list \<times> browser" where
  "authHeaders b =
     (let (saved, b') = loadSavedToken (api_base b) b; t = normalizeToken saved
      in (if t \<noteq> [] then [(js ''Authorization'', js ''Bearer '' @ t)] else [], b'))"

definition adminUrl :: "jstring \<Rightarrow> browser \<Rightarrow> jstring" where
  "adminUrl path b =
     (let root = adminApiRoot b;
          base = (if prefix (js ''http'') root then root else api_base b @ root)
      in drop_trailing_slash base @ path)"

definition publicUrl :: "jstring \<Rightarrow> browser \<Rightarrow> jstring" where
  "publicUrl path b = drop_trailing_slash (api_base b) @ path"

section \<open>Requests\<close>

text \<open>A response body: empty text is \<open>null\<close>, text that is not JSON stays text.\<close>

definition parse_response :: "jstring \<Rightarrow> jsval" where
  "parse_response text =
     (if text = [] then JNull
      else case json_parse text of Some v \<Rightarrow> v | None \<Rightarrow> JStr text)"

text \<open>
  \<open>Headers.set\<close> rejects a value with a NUL, a line break or a code unit beyond ISO-8859-1.
\<close>

definition header_value_ok :: "jstring \<Rightarrow> bool" where
  "header_value_ok v \<longleftrightarrow> list_all (\<lambda>c. c \<le> 0xFF \<and> c \<noteq> 0 \<and> c \<noteq> 0x0A \<and> c \<noteq> 0x0D) v"

definition headers_error :: jserr where
  "headers_error = type_error (js ''Failed to execute set on Headers: invalid value'')"

definition status_ok :: "int \<Rightarrow> bool" where
  "status_ok st \<longleftrightarrow> 200 \<le> st \<and> st \<le> 299"

text \<open>The message of a failed request: the body's \<open>error\<close> property, else the status text.\<close>

definition failure_message :: "jstring \<Rightarrow> jsval \<Rightarrow> jstring" where
  "failure_message statusText body =
     (let msg = str_or statusText (js ''request failed'') in
      case body of
        JObj kvs \<Rightarrow>
          (case obj_get kvs (js ''error'') of
             None \<Rightarrow> msg
           | Some err \<Rightarrow> to_string (js_or err (JStr msg)))
      | _ \<Rightarrow> msg)"

definition settle :: "reply \<Rightarrow> jserr + jsval" where
  "settle r =
     (case r of
        Failed e \<Rightarrow> Inl e
      | Response st statusText text \<Rightarrow>
          (case text of
             Inl e \<Rightarrow> Inl e
           | Inr t \<Rightarrow>
               (let body = parse_response t in
                if status_ok st then Inr body
                else Inl (ApiError (failure_message statusText body) st body))))"

definition api_request :: "jstring \<Rightarrow> http_method \<Rightarrow> jstring option \<Rightarrow> 'a panel_scheme proc" where
  "api_request url m body =
     Read (\<lambda>p. let (auth, b') = authHeaders (win p) in
       Do (upd_win (\<lambda>_. b'))
         (if \<not> list_all (\<lambda>(_, v). header_value_ok v) auth then Ret (Inl headers_error)
          else Await (Fetch \<lparr>req_url = url, req_method = m,
                 req_headers = auth @
                   (if opt_or body [] \<noteq> [] then [(js ''Content-Type'', js ''application/json'')] else []),
                 req_body = body\<rparr>)
            (\<lambda>r. Ret (settle r))))"

definition request_data :: "jsval \<Rightarrow> jstring option" where
  "request_data v = json_stringify v"

definition apiGet :: "jstring \<Rightarrow> 'a panel_scheme proc" where
  "apiGet url = api_request url GET None"

definition apiPost :: "jstring \<Rightarrow> jsval \<Rightarrow> 'a panel_scheme proc" where
  "apiPost url v = api_request url POST (request_data v)"

definition apiPut :: "jstring \<Rightarrow> jsval \<Rightarrow> 'a panel_scheme proc" where
  "apiPut url v = api_request url PUT (request_data v)"

definition apiDelete :: "jstring \<Rightarrow> 'a panel_scheme proc" where
  "apiDelete url = api_request url DELETE None"

lemmas api_defs = apiGet_def apiPost_def apiPut_def apiDelete_def

section \<open>Facts\<close>

lemma sequential_api_request [simp]: "sequential (api_request url m body)"
  by (simp add: api_request_def split: prod.split)

lemma sequential_api [simp]:
  "sequential (apiGet url)" "sequential (apiPost url v)" "sequential (apiPut url v)"
  "sequential (apiDelete url)"
  by (simp_all add: api_defs)

lemma api_base_http: "served_over_http b \<Longrightarrow> api_base b = location_origin b"
  by (simp add: api_base_def allowlisted_http)

lemma same_page_authHeaders: "same_page b (snd (authHeaders b))"
  using same_page_loadSavedToken [of b "api_base b"]
  by (simp add: authHeaders_def case_prod_unfold Let_def)

text \<open>
  What every request keeps and promises: an invariant that does not look at the stores is kept by
  the token migration, and the request goes where the caller asked.
\<close>

lemma keeps_api_request:
  assumes "I p" and "\<And>p b'. I p \<Longrightarrow> same_page (win p) b' \<Longrightarrow> I (upd_win (\<lambda>_. b') p)"
    and "\<And>hs. Q (Fetch \<lparr>req_url = url, req_method = m, req_headers = hs, req_body = body\<rparr>)"
  shows "keeps I Q (api_request url m body) p"
proof -
  obtain a b' where a: "authHeaders (win p) = (a, b')" by (cases "authHeaders (win p)")
  have "same_page (win p) b'" using same_page_authHeaders [of "win p"] by (simp add: a)
  with assms show ?thesis by (simp add: api_request_def a)
qed

section \<open>Requests stay on the page's origin\<close>

text \<open>
  \<open>on_page b0\<close>: the page was loaded over HTTP with a relative admin API root, and is still the same
  page. \<open>own_url b0\<close>: the URL starts with the page's origin and a slash.
\<close>

definition admin_relative :: "browser \<Rightarrow> bool" where
  "admin_relative b \<longleftrightarrow> prefix [0x2F] (adminApiRoot b)"

definition on_page :: "browser \<Rightarrow> 'a panel_scheme \<Rightarrow> bool" where
  "on_page b0 p \<longleftrightarrow> served_over_http b0 \<and> admin_relative b0 \<and> same_page b0 (win p)"

definition own_url :: "browser \<Rightarrow> jstring \<Rightarrow> bool" where
  "own_url b0 url \<longleftrightarrow> prefix (drop_trailing_slash (location_origin b0) @ [0x2F]) url"

definition own_origin :: "browser \<Rightarrow> query \<Rightarrow> bool" where
  "own_origin b0 q = (case q of Fetch r \<Rightarrow> own_url b0 (req_url r) | WriteClipboard _ \<Rightarrow> True)"

definition rooted :: "jstring \<Rightarrow> bool" where
  "rooted path \<longleftrightarrow> prefix [0x2F] path"

lemma rooted_js [simp]: "rooted (js (CHR ''/'' # s))" "rooted (js (CHR ''/'' # s) @ t)"
  by (simp_all add: rooted_def js_Cons)

lemma on_page_base:
  assumes "on_page b0 p"
  shows "api_base (win p) = location_origin b0"
proof -
  have "served_over_http (win p)"
    using assms served_over_http_page [of b0 "win p"] by (simp add: on_page_def)
  then show ?thesis using assms by (simp add: api_base_http on_page_def same_page_def)
qed

lemma own_publicUrl: "on_page b0 p \<Longrightarrow> rooted path \<Longrightarrow> own_url b0 (publicUrl path (win p))"
  by (simp add: own_url_def publicUrl_def on_page_base rooted_def)

lemma slash_prefix: "prefix (drop_trailing_slash a @ [0x2F]) (a @ 0x2F # t)"
proof (cases "a \<noteq> [] \<and> last a = 0x2F")
  case True
  then have "a @ 0x2F # t = (butlast a @ [0x2F]) @ 0x2F # t" by (metis append_butlast_last_id)
  then show ?thesis using True unfolding drop_trailing_slash_def by (simp add: prefix_def)
qed (auto simp: drop_trailing_slash_def)

lemma own_adminUrl:
  assumes "on_page b0 p" and "rooted path"
  shows "own_url b0 (adminUrl path (win p))"
proof -
  let ?o = "location_origin b0"
  have root: "prefix [0x2F] (adminApiRoot (win p))"
    using assms(1) by (auto simp: on_page_def admin_relative_def same_page_def adminApiRoot_def)
  have base: "api_base (win p) = ?o"
    using assms(1) by (rule on_page_base)
  obtain r where r: "adminApiRoot (win p) = 0x2F # r" using root by (cases "adminApiRoot (win p)") auto
  have "\<not> prefix (js ''http'') (adminApiRoot (win p))" by (simp add: r js_def)
  then have u: "adminUrl path (win p) = drop_trailing_slash (?o @ 0x2F # r) @ path"
    by (simp add: adminUrl_def base r)
  obtain q where q: "path = 0x2F # q" using assms(2) by (cases path) (auto simp: rooted_def)
  show ?thesis
  proof (cases "r = []")
    case True
    have "drop_trailing_slash (?o @ [0x2F]) = ?o" by (simp add: drop_trailing_slash_def)
    with True show ?thesis using slash_prefix [of ?o q] unfolding own_url_def u by (simp add: q)
  next
    case False
    then obtain r' where "drop_trailing_slash (?o @ 0x2F # r) = ?o @ 0x2F # r'"
      by (cases "last r = 0x2F") (auto simp: drop_trailing_slash_def butlast_append)
    then show ?thesis using slash_prefix [of ?o "r' @ path"] by (simp add: own_url_def u)
  qed
qed

lemma on_page_upd_win: "on_page b0 p \<Longrightarrow> same_page (win p) b' \<Longrightarrow> on_page b0 (upd_win (\<lambda>_. b') p)"
  by (auto simp: on_page_def intro: same_page_trans)

lemma stays_Do_page [stays_intros]:
  "(\<And>s. same_page (win s) (win (f s))) \<Longrightarrow> stays (on_page b0) Q p \<Longrightarrow> stays (on_page b0) Q (Do f p)"
  by (rule stays_Do) (auto simp: on_page_def intro: same_page_trans)

lemma stays_api_request:
  "own_url b0 url \<Longrightarrow> stays (on_page b0) (own_origin b0) (api_request url m body)"
  by (auto intro!: staysI keeps_api_request on_page_upd_win simp: own_origin_def)

lemma stays_api [stays_intros]:
  "own_url b0 url \<Longrightarrow> stays (on_page b0) (own_origin b0) (apiGet url)"
  "own_url b0 url \<Longrightarrow> stays (on_page b0) (own_origin b0) (apiPost url v)"
  "own_url b0 url \<Longrightarrow> stays (on_page b0) (own_origin b0) (apiPut url v)"
  "own_url b0 url \<Longrightarrow> stays (on_page b0) (own_origin b0) (apiDelete url)"
  by (simp_all add: api_defs stays_api_request)

lemmas own_urls [stays_intros] = own_publicUrl own_adminUrl

section \<open>Properties\<close>

lemma header_value_ok_append: "header_value_ok (a @ b) \<longleftrightarrow> header_value_ok a \<and> header_value_ok b"
  by (simp add: header_value_ok_def)

lemma header_value_ok_bearer [simp]: "header_value_ok (js ''Bearer '')"
  by code_simp

lemma api_base_saveToken: "served_over_http b \<Longrightarrow> api_base (saveToken base t b) = location_origin b"
proof -
  assume h: "served_over_http b"
  have pg: "same_page b (saveToken base t b)" by simp
  show ?thesis
    using api_base_http [of "saveToken base t b"] served_over_http_page [OF pg] h pg
    by (simp add: same_page_def)
qed

text \<open>
  C10: on a page served over HTTP, the token that was saved for the page's origin is the one that the next
  request carries, as a bearer token and as the only header of a request without a body.
\<close>

theorem saved_token_sent:
  assumes "served_over_http (win p)" and "migrated (win p)"
    and "trimmed t" and "t \<noteq> []" and "\<not> bearer_prefixed t" and "header_value_ok t"
  shows "\<exists>k p'. adv (apiGet url) (upd_win (saveToken (location_origin (win p)) t) p) =
     (p', Await (Fetch \<lparr>req_url = url, req_method = GET,
        req_headers = [(js ''Authorization'', js ''Bearer '' @ t)], req_body = None\<rparr>) k, [])"
proof -
  let ?b = "saveToken (location_origin (win p)) t (win p)"
  have "loadSavedToken (location_origin (win p)) ?b = (normalizeToken t, ?b)"
    using panel_tokens.load_save [OF assms(2)] by simp
  then have "authHeaders ?b = ([(js ''Authorization'', js ''Bearer '' @ t)], ?b)"
    using assms by (simp add: authHeaders_def api_base_saveToken normalizeToken_plain)
  then show ?thesis
    using assms(6) by (simp add: apiGet_def api_request_def header_value_ok_append opt_or_def)
qed

text \<open>A panel with a given browser, for evaluating examples.\<close>

definition panel_on :: "browser \<Rightarrow> panel" where
  "panel_on b =
     \<lparr>win = b,
      session = \<lparr>s_phase = Loading, s_apiBase = location_origin b, s_token = [], s_revealedToken = [],
        s_auth = JNull, s_health = [], s_healthOk = False, s_clusterLabel = [], s_cluster = JNull,
        s_cells = [], s_members = [], s_selectedCellId = [], s_themeMode = System, s_splitAuth = False,
        s_joinToken = [], s_gateMessage = [], s_isSeed = False\<rparr>,
      catalog = \<lparr>c_queues = [], c_groups = [], c_flows = []\<rparr>,
      outbound = \<lparr>o_method = js ''POST'', o_sign = False, o_headers = []\<rparr>,
      healthTimer = False, clusterTimer = False, avatar_cache = Map.empty\<rparr>"

lemma win_panel_on [simp]: "win (panel_on b) = b"
  by (simp add: panel_on_def)

lemma on_page_fresh [simp]: "on_page (fresh_page u) (panel_on (fresh_page u))"
  by (simp add: on_page_def admin_relative_def adminApiRoot_def fresh_page_def served_over_http_def
      opt_or_def js_Cons)

theorem saved_token_sent_witness:
  "\<exists>k p'. adv (apiGet (js ''http://a/v1/queues''))
     (upd_win (saveToken (js ''http://a'') (js ''sk_local_1'')) (panel_on (fresh_page (js ''http://a'')))) =
   (p', Await (Fetch \<lparr>req_url = js ''http://a/v1/queues'', req_method = GET,
      req_headers = [(js ''Authorization'', js ''Bearer '' @ js ''sk_local_1'')], req_body = None\<rparr>) k, [])"
proof -
  have "trimmed (js ''sk_local_1'')" "\<not> bearer_prefixed (js ''sk_local_1'')" "header_value_ok (js ''sk_local_1'')"
    by code_simp+
  then show ?thesis
    using saved_token_sent [of "panel_on (fresh_page (js ''http://a''))" "js ''sk_local_1''"
        "js ''http://a/v1/queues''"]
    by simp
qed

text \<open>
  C9: what a request gives its caller, for every reply: the failure of the network or of reading the body;
  \<open>null\<close> for an accepted request without a body, else the body's JSON value or its text; for a refused
  request an error with the status and the body, whose message is the body's \<open>error\<close> where it has one,
  else the status text.
\<close>

theorem api_request_result:
  assumes "list_all (\<lambda>h. header_value_ok (snd h)) (fst (authHeaders (win p)))"
    and "srv (Fetch \<lparr>req_url = url, req_method = m, req_headers = fst (authHeaders (win p)) @
       (if opt_or body [] \<noteq> [] then [(js ''Content-Type'', js ''application/json'')] else []),
       req_body = body\<rparr>) w = (r, w')"
  shows "(case r of
      Failed e \<Rightarrow> fst (run srv (api_request url m body) p w) = Inl e
    | Response st statusText (Inl e) \<Rightarrow> fst (run srv (api_request url m body) p w) = Inl e
    | Response st statusText (Inr text) \<Rightarrow>
        (200 \<le> st \<and> st < 300 \<longrightarrow>
           fst (run srv (api_request url m body) p w) =
             Inr (if text = [] then JNull else case json_parse text of None \<Rightarrow> JStr text | Some v \<Rightarrow> v)) \<and>
        (st < 200 \<or> 300 \<le> st \<longrightarrow>
           (\<exists>msg. fst (run srv (api_request url m body) p w) = Inl (ApiError msg st (parse_response text)) \<and>
              (truthy (opt_prop (parse_response text) ''error'') \<longrightarrow>
                 msg = to_string (opt_prop (parse_response text) ''error'')) \<and>
              (\<not> truthy (opt_prop (parse_response text) ''error'') \<and> statusText \<noteq> [] \<longrightarrow> msg = statusText))))"
proof -
  have ok: "list_all (\<lambda>(_, v). header_value_ok v) (fst (authHeaders (win p)))"
    using assms(1) by (simp add: list_all_iff case_prod_unfold)
  have run: "fst (run srv (api_request url m body) p w) = settle r"
    using ok assms(2) by (simp add: api_request_def case_prod_unfold Let_def)
  have msg: "failure_message statusText v =
      (if truthy (opt_prop v ''error'') then to_string (opt_prop v ''error'')
       else str_or statusText (js ''request failed''))" for statusText v
    by (cases v) (auto simp: failure_message_def js_or_def split: option.split)
  show ?thesis unfolding run
    by (auto simp: settle_def status_ok_def parse_response_def msg
        split: reply.split sum.split option.split)
qed

theorem api_request_result_witness:
  "fst (run (\<lambda>_ w. (Response 404 (js ''Not Found'') (Inr (js ''gone'')), w)) (apiGet (js ''http://a/x''))
     (panel_on (fresh_page (js ''http://a''))) (0::nat)) =
   Inl (ApiError (js ''Not Found'') 404 (jlit ''gone''))"
proof -
  let ?p = "panel_on (fresh_page (js ''http://a''))"
  have h: "fst (authHeaders (win ?p)) = []"
    by (simp add: authHeaders_def migrated_loadSavedToken fresh_page_def opt_or_def normalizeToken_def
        bearer_prefixed_def migrated_def)
  have j: "parse_response (js ''gone'') = jlit ''gone''" by code_simp
  show ?thesis
    using api_request_result [of ?p "\<lambda>_ w. (Response 404 (js ''Not Found'') (Inr (js ''gone'')), w)"
        "js ''http://a/x''" GET None "0::nat"] h j
    by (auto simp: apiGet_def)
qed

end
