(* ===== verification/Js_Format.thy ===== *)
theory Js_Format
  imports Js_Text
begin

text \<open>
  Facts about the textual formats: the JSON parser consumes what it reads, its result does not depend on
  the fuel once there is enough, and reading what \<open>JSON.stringify\<close> wrote gives the value back. An encoded
  URL component contains no separator of URLs, and different components have different encodings.
\<close>

section \<open>What the parser consumes\<close>

lemma skip_ws_length: "length (skip_ws s) \<le> length s"
  by (simp add: skip_ws_def length_dropWhile_le)

lemma skip_ws_Cons: "skip_ws s = c # t \<Longrightarrow> length t < length s"
  using skip_ws_length [of s] by simp

lemma parse_string_rest: "parse_string s = Some (x, r) \<Longrightarrow> length r < length s"
proof (induction s arbitrary: x r rule: parse_string.induct)
  case (2 c s)
  then show ?case
    by (fastforce split: if_splits list.splits option.splits)
qed simp

lemma span_digits_rest: "span_digits s = (ds, r) \<Longrightarrow> length s = length ds + length r"
  by (auto simp: span_digits_def) (metis length_append takeWhile_dropWhile_id)

lemma parse_frac_rest: "parse_frac s = Some (ds, r) \<Longrightarrow> length r \<le> length s"
  by (auto simp: parse_frac_def Let_def split: list.splits if_splits prod.splits dest!: span_digits_rest)

lemma parse_exp_rest: "parse_exp s = Some (e, r) \<Longrightarrow> length r \<le> length s"
proof -
  have "length (tl t) \<le> length t" for t :: jstring by simp
  then show "parse_exp s = Some (e, r) \<Longrightarrow> length r \<le> length s"
    by (auto simp: parse_exp_def Let_def split: list.splits if_splits prod.splits dest!: span_digits_rest)
qed

lemma parse_unsigned_rest: "parse_unsigned s = Some (n, r) \<Longrightarrow> length r < length s"
  by (auto simp: parse_unsigned_def Let_def split: if_splits prod.splits option.splits
      dest!: span_digits_rest parse_frac_rest parse_exp_rest simp flip: length_greater_0_conv)

lemma parse_number_rest: "parse_number s = Some (n, r) \<Longrightarrow> length r < length s"
  by (auto simp: parse_number_def split: list.splits if_splits dest!: parse_unsigned_rest)

lemma parse_literal_rest: "parse_literal w v s = Some (x, r) \<Longrightarrow> w \<noteq> [] \<Longrightarrow> length r < length s"
proof -
  assume "parse_literal w v s = Some (x, r)" and w: "w \<noteq> []"
  then have t: "take (length w) s = js w" and r: "r = drop (length w) s"
    by (auto simp: parse_literal_def split: if_splits)
  from t have "length (take (length w) s) = length w" by simp
  with w r show ?thesis by (cases w) auto
qed

lemma parse_atom_rest: "parse_atom s = Some (v, r) \<Longrightarrow> length r < length s"
  by (auto simp: parse_atom_def split: list.splits if_splits
      dest!: parse_string_rest parse_number_rest parse_literal_rest)

lemma parse_rest:
  "parse_value f s = Some (v, r) \<Longrightarrow> length r < length s"
  "parse_elements f s = Some (vs, r) \<Longrightarrow> length r < length s"
  "parse_members f kvs s = Some (kvs', r) \<Longrightarrow> length r < length s"
proof (induction f s and f s and f kvs s arbitrary: v r and vs r and kvs' r
    rule: parse_value_parse_elements_parse_members.induct)
  case (2 f s)
  show ?case
  proof (cases "skip_ws s")
    case (Cons c t)
    have t: "length t < length s" by (rule skip_ws_Cons [OF Cons])
    have "length u < length t" if "skip_ws t = d # u" for d u by (rule skip_ws_Cons [OF that])
    then show ?thesis
      using 2 Cons t skip_ws_length [of s]
      by (fastforce split: if_splits list.splits dest!: parse_atom_rest)
  qed (use 2 in simp)
next
  case (4 f s)
  show ?case
    using 4 by (fastforce split: option.splits list.splits if_splits dest!: skip_ws_Cons)
next
  case (6 f kvs s)
  show ?case
    using 6 by (fastforce split: option.splits list.splits if_splits dest!: skip_ws_Cons parse_string_rest)
qed simp_all

section \<open>Fuel\<close>

lemma parse_fuel_Suc:
  "2 * length s < f \<Longrightarrow> parse_value (Suc f) s = parse_value f s"
  "2 * length s + 1 < f \<Longrightarrow> parse_elements (Suc f) s = parse_elements f s"
  "2 * length s + 1 < f \<Longrightarrow> parse_members (Suc f) kvs s = parse_members f kvs s"
proof (induction f s and f s and f kvs s rule: parse_value_parse_elements_parse_members.induct)
  case (2 f s)
  show ?case
  proof (cases "skip_ws s")
    case Nil
    then show ?thesis by simp
  next
    case (Cons c t)
    note c = Cons
    have t: "2 * length t + 1 < f" using skip_ws_Cons [OF Cons] "2.prems" by simp
    show ?thesis
    proof (cases "skip_ws t")
      case Nil
      then show ?thesis by (simp add: c)
    next
      case (Cons d u)
      have "parse_elements (Suc f) t = parse_elements f t" if "c = 0x5B" "d \<noteq> 0x5D"
        using "2.IH"(1) [OF c that(1) Cons that(2) t] .
      moreover have "parse_members (Suc f) [] t = parse_members f [] t" if "c = 0x7B" "d \<noteq> 0x7D"
        using "2.IH"(2) [OF c _ that(1) Cons that(2) t] that by simp
      ultimately show ?thesis
        unfolding parse_value.simps(2) [of "Suc f"] parse_value.simps(2) [of f] c Cons
        by (simp add: Cons del: parse_elements.simps parse_members.simps)
    qed
  qed
next
  case (4 f s)
  have v: "parse_value (Suc f) s = parse_value f s" using "4.IH"(1) "4.prems" by simp
  show ?case
  proof (cases "parse_value f s")
    case None
    then show ?thesis using v by simp
  next
    case (Some p)
    obtain x r where p: "p = (x, r)" by (cases p)
    show ?thesis
    proof (cases "skip_ws r")
      case Nil
      then show ?thesis by (simp add: v Some p del: parse_value.simps)
    next
      case (Cons c t)
      have "2 * length t + 1 < f"
        using "4.prems" skip_ws_Cons [OF Cons] parse_rest(1) [OF Some [unfolded p]] by simp
      then have "parse_elements (Suc f) t = parse_elements f t" if "c = 0x2C"
        using "4.IH"(2) [OF Some p [symmetric] Cons _ that] that by simp
      then show ?thesis
        unfolding parse_elements.simps(2) [of "Suc f"] parse_elements.simps(2) [of f] v Some p
        by (simp add: Cons del: parse_value.simps parse_elements.simps)
    qed
  qed
next
  case (6 f kvs s)
  show ?case
  proof (cases "skip_ws s")
    case Nil
    then show ?thesis by simp
  next
    case (Cons c t)
    note c = Cons
    show ?thesis
    proof (cases "c = 0x22 \<and> parse_string t \<noteq> None")
      case False
      then have "c \<noteq> 0x22 \<or> parse_string t = None" by blast
      then show ?thesis by (auto simp: c simp del: not_None_eq)
    next
      case True
      then obtain k r where k: "c = 0x22" "parse_string t = Some (k, r)" by auto
      show ?thesis
      proof (cases "skip_ws r")
        case Nil
        then show ?thesis using k by (simp add: c)
      next
        case (Cons d u)
        note d = Cons
        have u: "2 * length u + 2 < f"
          using "6.prems" skip_ws_Cons [OF c] parse_string_rest [OF k(2)] skip_ws_Cons [OF d] by simp
        have v: "parse_value (Suc f) u = parse_value f u" if "d = 0x3A"
          using "6.IH"(1) [OF c _ k(2) refl d] k that u by simp
        show ?thesis
        proof (cases "d = 0x3A \<and> parse_value f u \<noteq> None")
          case False
          then have "d \<noteq> 0x3A \<or> d = 0x3A \<and> parse_value f u = None" by blast
          then show ?thesis using k v by (auto simp: c d simp del: parse_value.simps)
        next
          case True
          then obtain x w where w: "d = 0x3A" "parse_value f u = Some (x, w)" by auto
          show ?thesis
          proof (cases "skip_ws w")
            case Nil
            then show ?thesis using k w v by (simp add: c d del: parse_value.simps)
          next
            case (Cons e y)
            have y: "2 * length y + 1 < f"
              using u parse_rest(1) [OF w(2)] skip_ws_Cons [OF Cons] by simp
            have "parse_members (Suc f) (obj_set kvs k x) y = parse_members f (obj_set kvs k x) y"
              if "e = 0x2C"
              using "6.IH"(2) [OF c _ k(2) refl d _ w(2) refl Cons] k w that y by simp
            then show ?thesis
              unfolding parse_members.simps(2) [of "Suc f"] parse_members.simps(2) [of f]
              using k w v by (simp add: c d Cons del: parse_value.simps parse_members.simps)
          qed
        qed
      qed
    qed
  qed
qed simp_all

lemma parse_value_fuel: "2 * length s < f \<Longrightarrow> f \<le> g \<Longrightarrow> parse_value g s = parse_value f s"
proof (induction g)
  case (Suc g)
  then show ?case by (cases "f \<le> g") (auto simp: parse_fuel_Suc(1) le_Suc_eq simp del: parse_value.simps)
qed simp

text \<open>A result for all large amounts of fuel is the parser's result.\<close>

lemma json_parse_large:
  assumes "\<forall>g\<ge>f. parse_value g s = Some (v, [])"
  shows "json_parse s = Some v"
proof -
  have "parse_value (2 * length s + 2) s = parse_value (max f (2 * length s + 2)) s"
    using parse_value_fuel [of s "2 * length s + 2" "max f (2 * length s + 2)"] by simp
  with assms show ?thesis by (simp add: json_parse_def skip_ws_def del: parse_value.simps)
qed

section \<open>Strings\<close>

lemma uint_small: "0 \<le> n \<Longrightarrow> n < 65536 \<Longrightarrow> uint (of_int n :: code_unit) = n"
  by (subst uint_word_of_int) simp

lemma uint_hex_digit:
  "0 \<le> d \<Longrightarrow> d < 16 \<Longrightarrow> uint (hex_digit d) = (if d < 10 then 0x30 + d else 0x57 + d)"
  using uint_small [of "0x30 + d"] uint_small [of "0x57 + d"] by (simp add: hex_digit_def)

lemma hex_val_hex_digit: "0 \<le> d \<Longrightarrow> d < 16 \<Longrightarrow> hex_val (hex_digit d) = Some d"
  by (simp add: hex_val_def is_digit_uint uint_hex_digit word_le_def)

lemma hex4_digits:
  "0 \<le> i \<Longrightarrow> i < 16 \<Longrightarrow> 0 \<le> j \<Longrightarrow> j < 16 \<Longrightarrow> 0 \<le> k \<Longrightarrow> k < 16 \<Longrightarrow> 0 \<le> l \<Longrightarrow> l < 16 \<Longrightarrow>
   hex4 (hex_digit i) (hex_digit j) (hex_digit k) (hex_digit l) =
     Some (of_int (4096 * i + 256 * j + 16 * k + l))"
  by (simp add: hex4_def hex_val_hex_digit)

lemma hex_split:
  "4096 * (n div 4096) + 256 * (n div 256 mod 16) + 16 * (n div 16 mod 16) + n mod 16 = (n :: int)"
proof -
  have "n div 256 = n div 16 div 16" "n div 4096 = n div 256 div 16"
    using zdiv_zmult2_eq [of 16 n 16] zdiv_zmult2_eq [of 16 n 256] by simp_all
  then show ?thesis
    using div_mult_mod_eq [of n 16] div_mult_mod_eq [of "n div 16" 16] div_mult_mod_eq [of "n div 256" 16]
    by linarith
qed

lemma hex4_unicode:
  "hex4 (hex_digit (uint c div 4096)) (hex_digit (uint c div 256 mod 16))
     (hex_digit (uint c div 16 mod 16)) (hex_digit (uint c mod 16)) = Some (c :: code_unit)"
proof -
  have "uint c \<le> 65535" using uint_lt2p [of c] by simp
  then have "uint c div 4096 < 16" using zdiv_mono1 [of "uint c" 65535 4096] by simp
  moreover have "0 \<le> uint c div 4096" by (simp add: pos_imp_zdiv_nonneg_iff)
  ultimately show ?thesis
    by (subst hex4_digits) (simp_all add: hex_split)
qed

lemma parse_string_plain:
  "c \<noteq> 0x22 \<Longrightarrow> c \<noteq> 0x5C \<Longrightarrow> \<not> c < 0x20 \<Longrightarrow>
   parse_string (c # u) = map_option (\<lambda>(ds, r). (c # ds, r)) (parse_string u)"
  by simp

lemma parse_string_quote_unit:
  "parse_string (quote_unit c @ u) = map_option (\<lambda>(ds, r). (c # ds, r)) (parse_string u)"
proof -
  have "parse_string (unicode_escape c @ u) = map_option (\<lambda>(ds, r). (c # ds, r)) (parse_string u)"
    by (simp add: unicode_escape_def Let_def hex4_unicode)
  then show ?thesis
    by (auto simp: quote_unit_def js_def unescape_def)
qed

lemma surrogate_plain:
  "high_surrogate c \<or> low_surrogate c \<Longrightarrow> c \<noteq> 0x22 \<and> c \<noteq> 0x5C \<and> \<not> c < 0x20"
  unfolding high_surrogate_def low_surrogate_def
  by (auto simp: word_le_nat_alt word_less_nat_alt)

lemma parse_string_quote_units: "parse_string (quote_units s @ 0x22 # u) = Some (s, u)"
proof (induction s rule: quote_units.induct)
  case (3 c d s)
  then show ?case
  proof (cases "high_surrogate c \<and> low_surrogate d")
    case True
    then have "c \<noteq> 0x22 \<and> c \<noteq> 0x5C \<and> \<not> c < 0x20" "d \<noteq> 0x22 \<and> d \<noteq> 0x5C \<and> \<not> d < 0x20"
      using surrogate_plain by blast+
    then show ?thesis
      using 3(1) True by (simp add: parse_string_plain del: parse_string.simps)
  next
    case False
    then show ?thesis using 3(2)
      by (auto simp: parse_string_quote_unit simp del: parse_string.simps)
  qed
qed (simp_all add: parse_string_quote_unit del: parse_string.simps, simp_all)

section \<open>Integers\<close>

text \<open>What may follow a value: the end of the text, or punctuation.\<close>

definition value_ends :: "jstring \<Rightarrow> bool" where
  "value_ends r \<longleftrightarrow> r = [] \<or> hd r \<in> {0x2C, 0x5D, 0x7D}"

lemma value_ends_simps [simp]:
  "value_ends []" "value_ends (0x2C # r)" "value_ends (0x5D # r)" "value_ends (0x7D # r)"
  by (simp_all add: value_ends_def)

lemma span_show_digits:
  assumes "0 \<le> n" "value_ends r"
  shows "span_digits (show_digits n @ r) = (show_digits n, r)"
proof -
  have "\<forall>c\<in>set (show_digits n). is_digit c" using assms(1) show_digits_digits by blast
  moreover have "r = [] \<or> \<not> is_digit (hd r)"
    using assms(2) by (auto simp: value_ends_def is_digit_def)
  ultimately show ?thesis
    by (cases r) (auto simp: span_digits_def takeWhile_append2 dropWhile_append2)
qed

lemma hd_int_digits: "0 < n \<Longrightarrow> 0 < hd (int_digits n)"
proof (induction n rule: int_digits.induct)
  case (1 n)
  then show ?case by (cases "n < 10") (auto simp: int_digits.simps [of n])
qed

lemma hd_show_digits_zero: "0 < n \<Longrightarrow> hd (show_digits n) \<noteq> 0x30"
proof
  assume n: "0 < n" and h: "hd (show_digits n) = 0x30"
  let ?d = "hd (int_digits n)"
  have d: "0 \<le> ?d \<and> ?d < 10" using n int_digits_range [of n ?d] by simp
  have "digit_char ?d = 0x30" using h by (simp add: show_digits_def hd_map)
  then have "?d = digit_val 0x30" using d digit_val_digit_char by metis
  then show False using hd_int_digits [OF n] by (simp add: digit_val_def)
qed

lemma show_digits_0: "show_digits 0 = [0x30]"
  by (simp add: show_digits_def int_digits.simps digit_char_def)

lemma parse_unsigned_show:
  assumes "0 \<le> n" "n \<le> 2 ^ 53" "value_ends r"
  shows "parse_unsigned (show_digits n @ r) = Some (Num (of_int n), r)"
proof -
  have z: "\<not> (hd (show_digits n) = 0x30 \<and> show_digits n \<noteq> [0x30])"
    using assms(1) hd_show_digits_zero [of n] by (cases "n = 0") (auto simp: show_digits_0)
  have "parse_frac r = Some ([], r)" "parse_exp r = Some (0, r)"
    using assms(3) by (auto simp: parse_frac_def parse_exp_def value_ends_def split: list.split)
  then show ?thesis
    using z assms fl_of_int [of n] by (auto simp: parse_unsigned_def span_show_digits pow10_def)
qed

lemma parse_number_show:
  assumes "\<bar>n\<bar> \<le> 2 ^ 53" "value_ends r"
  shows "parse_number (show_int n @ r) = Some (Num (of_int n), r)"
proof (cases "n < 0")
  case True
  then show ?thesis
    using parse_unsigned_show [of "- n" r] assms by (simp add: show_int_def parse_number_def js_minus)
next
  case False
  then have "hd (show_digits n) \<noteq> 0x2D"
    using hd_show_digits [of n] by (auto simp: is_digit_def)
  then show ?thesis
    using False parse_unsigned_show [of n r] assms
    by (cases "show_digits n") (auto simp: show_int_def parse_number_def)
qed

section \<open>Values\<close>

text \<open>
  What a value's JSON text stands for: an \<open>undefined\<close> property is left out, an \<open>undefined\<close> element and a
  number that is not finite are \<open>null\<close>.
\<close>

fun sent :: "jsval \<Rightarrow> jsval" where
  "sent JUndef = JNull"
| "sent JNull = JNull"
| "sent (JBool b) = JBool b"
| "sent (JNum n) = (if num_finite n then JNum n else JNull)"
| "sent (JStr s) = JStr s"
| "sent (JArr xs) = JArr (map sent xs)"
| "sent (JObj kvs) = JObj (map (\<lambda>kv. (fst kv, sent (snd kv))) (filter (\<lambda>kv. snd kv \<noteq> JUndef) kvs))"

text \<open>Properties in the order in which the language keeps them, each key once.\<close>

definition obj_in_order :: "(jstring \<times> 'v) list \<Rightarrow> bool" where
  "obj_in_order kvs \<longleftrightarrow> foldl (\<lambda>m kv. obj_set m (fst kv) (snd kv)) [] kvs = kvs"

text \<open>The values of the panel's payloads: integers of at most 53 bits, objects with ordered properties.\<close>

fun sendable :: "jsval \<Rightarrow> bool" where
  "sendable (JNum n) = (case n of Num x \<Rightarrow> x = of_int \<lfloor>x\<rfloor> \<and> \<bar>x\<bar> \<le> 2 ^ 53 | _ \<Rightarrow> True)"
| "sendable (JArr xs) = (\<forall>v\<in>set xs. sendable v)"
| "sendable (JObj kvs) =
     (obj_in_order (filter (\<lambda>kv. snd kv \<noteq> JUndef) kvs) \<and> (\<forall>kv\<in>set kvs. sendable (snd kv)))"
| "sendable _ = True"

lemma obj_get_map: "obj_get (map (\<lambda>kv. (fst kv, f (snd kv))) kvs) k = map_option f (obj_get kvs k)"
  by (induction kvs) auto

lemma obj_replace_map:
  "obj_replace (map (\<lambda>kv. (fst kv, f (snd kv))) kvs) k (f v) =
   map (\<lambda>kv. (fst kv, f (snd kv))) (obj_replace kvs k v)"
  by (induction kvs k v rule: obj_replace.induct) auto

lemma index_below_map: "index_below n \<circ> (\<lambda>kv. (fst kv, f (snd kv))) = index_below n"
  by (rule ext) (simp add: index_below_def)

lemma obj_create_map:
  "obj_create (map (\<lambda>kv. (fst kv, f (snd kv))) kvs) k (f v) =
   map (\<lambda>kv. (fst kv, f (snd kv))) (obj_create kvs k v)"
  by (simp add: obj_create_def takeWhile_map dropWhile_map index_below_map split: option.split)

lemma obj_set_map:
  "obj_set (map (\<lambda>kv. (fst kv, f (snd kv))) kvs) k (f v) =
   map (\<lambda>kv. (fst kv, f (snd kv))) (obj_set kvs k v)"
  by (simp add: obj_set_def obj_get_map obj_create_map obj_replace_map)

lemma foldl_obj_set_map:
  "foldl (\<lambda>m kv. obj_set m (fst kv) (snd kv)) (map (\<lambda>kv. (fst kv, f (snd kv))) m)
     (map (\<lambda>kv. (fst kv, f (snd kv))) kvs) =
   map (\<lambda>kv. (fst kv, f (snd kv))) (foldl (\<lambda>m kv. obj_set m (fst kv) (snd kv)) m kvs)"
  by (induction kvs arbitrary: m) (simp_all add: obj_set_map)

lemma obj_in_order_map: "obj_in_order kvs \<Longrightarrow> obj_in_order (map (\<lambda>kv. (fst kv, f (snd kv))) kvs)"
  using foldl_obj_set_map [of f "[]" kvs] by (simp add: obj_in_order_def)

text \<open>\<open>reads t v\<close>: the text \<open>t\<close>, with anything that may follow a value, is read as \<open>v\<close>.\<close>

definition reads :: "jstring \<Rightarrow> jsval \<Rightarrow> bool" where
  "reads t v \<longleftrightarrow>
     t \<noteq> [] \<and> \<not> json_ws (hd t) \<and> hd t \<noteq> 0x5D \<and>
     (\<forall>r. value_ends r \<longrightarrow> (\<exists>f. \<forall>g\<ge>f. parse_value g (t @ r) = Some (v, r)))"

lemma skip_ws_id: "t \<noteq> [] \<Longrightarrow> \<not> json_ws (hd t) \<Longrightarrow> skip_ws (t @ r) = t @ r"
  by (cases t) (simp_all add: skip_ws_def)

lemma skip_ws_punct [simp]:
  "skip_ws (0x2C # r) = 0x2C # r" "skip_ws (0x5D # r) = 0x5D # r" "skip_ws (0x7D # r) = 0x7D # r"
  "skip_ws (0x3A # r) = 0x3A # r" "skip_ws (0x22 # r) = 0x22 # r"
  by (simp_all add: skip_ws_def json_ws_def)

lemma reads_atom:
  assumes "t \<noteq> []" "\<not> json_ws (hd t)" "hd t \<notin> {0x5B, 0x5D, 0x7B}"
    and "\<And>r. value_ends r \<Longrightarrow> parse_atom (t @ r) = Some (v, r)"
  shows "reads t v"
proof -
  obtain c u where t: "t = c # u" using assms(1) by (cases t) auto
  have "parse_value g (t @ r) = Some (v, r)" if "value_ends r" "Suc 0 \<le> g" for g r
    using that assms(2,3) assms(4) [OF that(1)] skip_ws_id [OF assms(1,2), of r]
    by (cases g) (auto simp: t)
  then show ?thesis using assms by (auto simp: reads_def)
qed

lemma reads_null: "reads (js ''null'') JNull"
  by (rule reads_atom) (simp_all add: js_def json_ws_def parse_atom_def parse_literal_def)

lemma reads_bool: "reads (if b then js ''true'' else js ''false'') (JBool b)"
  by (cases b; simp, rule reads_atom) (simp_all add: js_def json_ws_def parse_atom_def parse_literal_def)

lemma reads_string: "reads (json_quote s) (JStr s)"
  by (rule reads_atom)
    (simp_all add: json_quote_def json_ws_def parse_atom_def parse_string_quote_units del: parse_string.simps)

lemma show_int_head: "hd (show_int n) = 0x2D \<or> is_digit (hd (show_int n))"
  using hd_show_digits [of n] by (auto simp: show_int_def js_minus)

lemma reads_int:
  assumes "\<bar>n\<bar> \<le> 2 ^ 53"
  shows "reads (show_int n) (JNum (Num (of_int n)))"
proof (rule reads_atom)
  have h: "hd (show_int n) \<notin> {0x20, 0x09, 0x0A, 0x0D, 0x5B, 0x5D, 0x7B, 0x22, 0x74, 0x66, 0x6E}"
    using show_int_head [of n] by (auto simp: is_digit_def)
  then show "\<not> json_ws (hd (show_int n))" "hd (show_int n) \<notin> {0x5B, 0x5D, 0x7B}"
    by (auto simp: json_ws_def)
  show "parse_atom (show_int n @ r) = Some (JNum (Num (of_int n)), r)" if "value_ends r" for r
    using h parse_number_show [OF assms that]
    by (cases "show_int n") (auto simp: parse_atom_def)
qed simp

lemma reads_parse:
  "reads t v \<Longrightarrow> value_ends r \<Longrightarrow> \<exists>f. \<forall>g\<ge>f. parse_value g (t @ r) = Some (v, r)"
  by (simp add: reads_def)

lemma js_punct: "js '','' = [0x2C]" "js '':'' = [0x3A]"
  by (simp_all add: js_def)

lemma parse_elements_reads:
  assumes "list_all2 reads ts vs" and "ts \<noteq> []"
  shows "\<exists>f. \<forall>g\<ge>f. parse_elements g (intersperse [0x2C] ts @ 0x5D # r) = Some (vs, r)"
  using assms
proof (induction ts vs rule: list_all2_induct)
  case (Cons t ts v vs)
  show ?case
  proof (cases ts)
    case Nil
    obtain f where f: "\<And>g. g \<ge> f \<Longrightarrow> parse_value g (t @ 0x5D # r) = Some (v, 0x5D # r)"
      using reads_parse [OF Cons.hyps(1), of "0x5D # r"] by auto
    have "parse_elements g (t @ 0x5D # r) = Some ([v], r)" if "g \<ge> Suc f" for g
      using that f by (cases g) (simp_all del: parse_value.simps)
    then show ?thesis using Nil Cons.hyps(2) by auto
  next
    case (Cons t' ts')
    let ?u = "intersperse [0x2C] ts @ 0x5D # r"
    obtain f1 where f1: "\<And>g. g \<ge> f1 \<Longrightarrow> parse_value g (t @ 0x2C # ?u) = Some (v, 0x2C # ?u)"
      using reads_parse [OF Cons.hyps(1), of "0x2C # ?u"] by auto
    obtain f2 where f2: "\<And>g. g \<ge> f2 \<Longrightarrow> parse_elements g ?u = Some (vs, r)"
      using Cons.IH Cons by auto
    have "parse_elements g (intersperse [0x2C] (t # ts) @ 0x5D # r) = Some (v # vs, r)"
      if g: "g \<ge> Suc (max f1 f2)" for g
    proof -
      obtain h where h: "g = Suc h" "h \<ge> f1" "h \<ge> f2" using g by (cases g) auto
      have "intersperse [0x2C] (t # ts) @ 0x5D # r = t @ 0x2C # ?u" using Cons by simp
      then show ?thesis
        using f1 [OF h(2)] f2 [OF h(3)]
        by (simp add: h(1) parse_elements.simps(2) del: parse_value.simps intersperse.simps)
    qed
    then show ?thesis by blast
  qed
qed simp

lemma hd_intersperse: "ts \<noteq> [] \<Longrightarrow> hd ts \<noteq> [] \<Longrightarrow> hd (intersperse sep ts @ r) = hd (hd ts)"
  by (cases ts rule: intersperse.cases [of "([], _)"]) (auto simp: hd_append split: list.splits)

lemma intersperse_not_Nil: "ts \<noteq> [] \<Longrightarrow> hd ts \<noteq> [] \<Longrightarrow> intersperse sep ts \<noteq> []"
  by (cases ts) (auto split: list.splits intro: intersperse.cases [of "(sep, ts)"])

lemma reads_array:
  assumes "list_all2 reads ts vs"
  shows "reads (json_wrap 0x5B 0x5D [] [] ts) (JArr vs)"
proof (cases "ts = []")
  case True
  then have "vs = []" using assms by simp
  have "parse_value g (0x5B # 0x5D # r) = Some (JArr [], r)" if "g \<ge> Suc 0" for g r
    using that by (cases g) (simp_all add: skip_ws_def json_ws_def)
  then show ?thesis
    using True \<open>vs = []\<close> by (auto simp: reads_def json_wrap_def json_ws_def)
next
  case False
  then have h: "hd ts \<noteq> []" "\<not> json_ws (hd (hd ts))" "hd (hd ts) \<noteq> 0x5D"
    using assms by (cases ts; auto simp: list_all2_Cons1 reads_def)+
  have "\<exists>f. \<forall>g\<ge>f. parse_value g (0x5B # intersperse [0x2C] ts @ 0x5D # r) = Some (JArr vs, r)" for r
  proof -
    let ?t = "intersperse [0x2C] ts @ 0x5D # r"
    obtain f where f: "\<And>g. g \<ge> f \<Longrightarrow> parse_elements g ?t = Some (vs, r)"
      using parse_elements_reads [OF assms False] by blast
    have hd: "hd ?t = hd (hd ts)" using hd_intersperse [OF False h(1)] .
    obtain d u where d: "?t = d # u" "d = hd (hd ts)" using hd by (cases ?t) auto
    then have "skip_ws ?t = d # u" using h by (simp add: skip_ws_def)
    then have "parse_value g (0x5B # ?t) = Some (JArr vs, r)" if "g \<ge> Suc f" for g
      using that f d h by (cases g) (simp_all add: skip_ws_def json_ws_def del: parse_elements.simps)
    then show ?thesis by blast
  qed
  then show ?thesis using False by (auto simp: reads_def json_wrap_def json_ws_def js_punct)
qed

text \<open>A member of an object as text.\<close>

definition member_text :: "jstring \<times> jstring \<Rightarrow> jstring" where
  "member_text kt = json_quote (fst kt) @ [0x3A] @ snd kt"

lemma parse_members_reads:
  assumes "list_all2 (\<lambda>kt kv. fst kt = fst kv \<and> reads (snd kt) (snd kv)) kts kvs" and "kts \<noteq> []"
  shows "\<exists>f. \<forall>g\<ge>f. parse_members g m (intersperse [0x2C] (map member_text kts) @ 0x7D # r) =
     Some (foldl (\<lambda>m kv. obj_set m (fst kv) (snd kv)) m kvs, r)"
  using assms
proof (induction kts kvs arbitrary: m rule: list_all2_induct)
  case (Cons kt kts kv kvs)
  obtain k t where kt: "kt = (k, t)" by (cases kt)
  obtain v where kv: "kv = (k, v)" using Cons.hyps(1) kt by (cases kv) auto
  have t: "reads t v" using Cons.hyps(1) kt kv by simp
  have q: "parse_string (quote_units k @ 0x22 # u) = Some (k, u)" for u
    by (rule parse_string_quote_units)
  have mt: "member_text kt @ u = 0x22 # quote_units k @ 0x22 # 0x3A # t @ u" for u
    by (simp add: member_text_def kt json_quote_def)
  show ?case
  proof (cases kts)
    case Nil
    obtain f where f: "\<And>g. g \<ge> f \<Longrightarrow> parse_value g (t @ 0x7D # r) = Some (v, 0x7D # r)"
      using reads_parse [OF t, of "0x7D # r"] by auto
    have "parse_members g m (member_text kt @ 0x7D # r) = Some (obj_set m k v, r)" if "g \<ge> Suc f" for g
      using that f by (cases g) (simp_all add: mt q del: parse_value.simps parse_string.simps)
    then show ?thesis using Nil Cons.hyps(2) kv by auto
  next
    case (Cons kt' kts')
    let ?u = "intersperse [0x2C] (map member_text kts) @ 0x7D # r"
    obtain f1 where f1: "\<And>g. g \<ge> f1 \<Longrightarrow> parse_value g (t @ 0x2C # ?u) = Some (v, 0x2C # ?u)"
      using reads_parse [OF t, of "0x2C # ?u"] by auto
    obtain f2 where f2: "\<And>g. g \<ge> f2 \<Longrightarrow> parse_members g (obj_set m k v) ?u =
        Some (foldl (\<lambda>m kv. obj_set m (fst kv) (snd kv)) (obj_set m k v) kvs, r)"
      using Cons.IH [of "obj_set m k v"] Cons by auto
    have "parse_members g m (intersperse [0x2C] (map member_text (kt # kts)) @ 0x7D # r) =
        Some (foldl (\<lambda>m kv. obj_set m (fst kv) (snd kv)) m (kv # kvs), r)"
      if g: "g \<ge> Suc (max f1 f2)" for g
    proof -
      obtain h where h: "g = Suc h" "h \<ge> f1" "h \<ge> f2" using g by (cases g) auto
      have "intersperse [0x2C] (map member_text (kt # kts)) @ 0x7D # r = member_text kt @ 0x2C # ?u"
        using Cons by simp
      then show ?thesis
        using f1 [OF h(2)] f2 [OF h(3)]
        by (simp add: h(1) mt q kv parse_members.simps(2) del: parse_value.simps parse_string.simps
            intersperse.simps)
    qed
    then show ?thesis by blast
  qed
qed simp

lemma reads_object:
  assumes "list_all2 (\<lambda>kt kv. fst kt = fst kv \<and> reads (snd kt) (snd kv)) kts kvs" and "obj_in_order kvs"
  shows "reads (json_wrap 0x7B 0x7D [] [] (map member_text kts)) (JObj kvs)"
proof (cases "kts = []")
  case True
  then have "kvs = []" using assms by simp
  have "parse_value g (0x7B # 0x7D # r) = Some (JObj [], r)" if "g \<ge> Suc 0" for g r
    using that by (cases g) (simp_all add: skip_ws_def json_ws_def)
  then show ?thesis
    using True \<open>kvs = []\<close> by (auto simp: reads_def json_wrap_def json_ws_def)
next
  case False
  have "\<exists>f. \<forall>g\<ge>f. parse_value g (0x7B # intersperse [0x2C] (map member_text kts) @ 0x7D # r) =
      Some (JObj kvs, r)" for r
  proof -
    let ?t = "intersperse [0x2C] (map member_text kts) @ 0x7D # r"
    obtain f where f: "\<And>g. g \<ge> f \<Longrightarrow> parse_members g [] ?t = Some (kvs, r)"
      using parse_members_reads [OF assms(1) False, of "[]"] assms(2) by (auto simp: obj_in_order_def)
    have "hd (map member_text kts) \<noteq> []" "hd (hd (map member_text kts)) = 0x22"
      using False by (cases kts; simp add: member_text_def json_quote_def)+
    then have "hd ?t = 0x22" using hd_intersperse [of "map member_text kts"] False by simp
    then obtain u where d: "?t = 0x22 # u" by (cases ?t) auto
    then have "skip_ws ?t = 0x22 # u" by simp
    then have "parse_value g (0x7B # ?t) = Some (JObj kvs, r)" if "g \<ge> Suc f" for g
      using that f d by (cases g) (simp_all add: skip_ws_def json_ws_def del: parse_members.simps)
    then show ?thesis by blast
  qed
  then show ?thesis using False by (auto simp: reads_def json_wrap_def json_ws_def js_punct)
qed

lemma json_ser_None: "json_ser gap ind v = None \<longleftrightarrow> v = JUndef"
  by (cases v) simp_all

lemma json_ser_members:
  "concat (map (\<lambda>kv. case json_ser [] [] (snd kv) of None \<Rightarrow> []
      | Some t \<Rightarrow> [json_quote (fst kv) @ js '':'' @ t]) kvs) =
   map member_text (map (\<lambda>kv. (fst kv, the (json_ser [] [] (snd kv)))) (filter (\<lambda>kv. snd kv \<noteq> JUndef) kvs))"
proof (induction kvs)
  case (Cons kv kvs)
  then show ?case
    using json_ser_None [of "[]" "[]" "snd kv"]
    by (cases "json_ser [] [] (snd kv)") (auto simp: member_text_def js_punct)
qed simp

lemma json_ser_reads:
  "sendable v \<Longrightarrow> v \<noteq> JUndef \<Longrightarrow> \<exists>t. json_ser [] [] v = Some t \<and> reads t (sent v)"
proof (induction v)
  case (JNum n)
  show ?case
  proof (cases n)
    case (Num x)
    define k where "k = \<lfloor>x\<rfloor>"
    have x: "x = of_int k" "\<bar>k\<bar> \<le> 2 ^ 53"
    proof -
      show x: "x = of_int k" using JNum Num by (simp add: k_def)
      have "\<bar>x\<bar> \<le> 2 ^ 53" using JNum Num by simp
      then have "of_int \<bar>k\<bar> \<le> (of_int (2 ^ 53) :: rat)" by (simp add: x)
      then show "\<bar>k\<bar> \<le> 2 ^ 53" by (simp only: of_int_le_iff)
    qed
    then show ?thesis
      using reads_int [OF x(2)] num_string_of_int [OF x(2)] by (simp add: Num x(1) del: num_string.simps)
  qed (use reads_null in simp_all)
next
  case (JArr xs)
  let ?text = "\<lambda>v. case json_ser [] [] v of None \<Rightarrow> js ''null'' | Some t \<Rightarrow> t"
  have "reads (?text v) (sent v)" if "v \<in> set xs" for v
    using JArr that by (cases "v = JUndef") (simp add: reads_null, fastforce)
  then have "list_all2 reads (map ?text xs) (map sent xs)"
    by (simp add: list_all2_conv_all_nth)
  then show ?case using reads_array by simp
next
  case (JObj kvs)
  let ?kvs = "filter (\<lambda>kv. snd kv \<noteq> JUndef) kvs"
  let ?kts = "map (\<lambda>kv. (fst kv, the (json_ser [] [] (snd kv)))) ?kvs"
  let ?sent = "map (\<lambda>kv. (fst kv, sent (snd kv))) ?kvs"
  have "reads (the (json_ser [] [] (snd kv))) (sent (snd kv))" if "kv \<in> set ?kvs" for kv
  proof -
    have "snd kv \<in> snd ` set kvs" "sendable (snd kv)" "snd kv \<noteq> JUndef" using JObj that by auto
    then show ?thesis using JObj.IH [of kv "snd kv"] that by (cases kv) auto
  qed
  then have l: "list_all2 (\<lambda>kt kv. fst kt = fst kv \<and> reads (snd kt) (snd kv)) ?kts ?sent"
    unfolding list.rel_map by (intro list.rel_refl_strong) auto
  have "reads (json_wrap 0x7B 0x7D [] [] (map member_text ?kts)) (JObj ?sent)"
    using JObj.prems(1) by (intro reads_object [OF l] obj_in_order_map) simp
  then show ?case by (simp add: json_ser_members)
qed (use reads_null reads_bool reads_string in auto)

lemma json_parse_stringify:
  assumes "sendable v" and "v \<noteq> JUndef"
  shows "\<exists>t. json_stringify v = Some t \<and> t \<noteq> [] \<and> json_parse t = Some (sent v)"
proof -
  obtain t where t: "json_ser [] [] v = Some t" "reads t (sent v)"
    using json_ser_reads [OF assms] by blast
  then obtain f where "\<forall>g\<ge>f. parse_value g t = Some (sent v, [])"
    using reads_parse [OF t(2), of "[]"] by auto
  then show ?thesis using t json_parse_large by (auto simp: json_stringify_def reads_def)
qed

section \<open>URL encoding\<close>

text \<open>The code units of an encoded component.\<close>

definition uri_unit :: "code_unit \<Rightarrow> bool" where
  "uri_unit c \<longleftrightarrow> c = 0x25 \<or> uri_unreserved (uint c)"

lemma uri_unit_separators:
  "uri_unit c \<Longrightarrow> c \<notin> {0x2F, 0x3F, 0x23, 0x26, 0x3D, 0x20, 0x3A, 0x40, 0x5C}"
  by (auto simp: uri_unit_def uri_unreserved_def alnum_def)

lemma uint_hex_digit_upper:
  "0 \<le> d \<Longrightarrow> d < 16 \<Longrightarrow> uint (hex_digit_upper d) = (if d < 10 then 0x30 + d else 0x37 + d)"
  using uint_small [of "0x30 + d"] uint_small [of "0x37 + d"] by (simp add: hex_digit_upper_def)

lemma hex_digit_upper_inj:
  assumes "0 \<le> d" "d < 16" "0 \<le> e" "e < 16" "hex_digit_upper d = hex_digit_upper e"
  shows "d = e"
proof -
  have "(if d < 10 then 0x30 + d else 0x37 + d) = (if e < 10 then 0x30 + e else 0x37 + e)"
    using uint_hex_digit_upper [OF assms(1,2)] uint_hex_digit_upper [OF assms(3,4)] assms(5) by simp
  then show ?thesis using assms(1-4) by (simp split: if_splits)
qed

lemma div_bounds:
  fixes p :: int
  assumes "0 \<le> p" "0 < k" "p < k * m"
  shows "0 \<le> p div k" "p div k < m"
proof -
  show "0 \<le> p div k" using assms by (simp add: pos_imp_zdiv_nonneg_iff)
  have "k * (p div k) \<le> p" using assms by (simp add: minus_mod_eq_mult_div [symmetric])
  then have "k * (p div k) < k * m" using assms by linarith
  then show "p div k < m" using assms by simp
qed

lemma hex_digit_upper_unit:
  assumes "0 \<le> d" "d < 16"
  shows "uri_unit (hex_digit_upper d)"
proof -
  have "alnum (uint (hex_digit_upper d))"
    unfolding uint_hex_digit_upper [OF assms] alnum_def using assms by (cases "d < 10") simp_all
  then show ?thesis by (simp add: uri_unit_def uri_unreserved_def)
qed

lemma percent_units:
  assumes "0 \<le> b" "b < 256" "c \<in> set (percent b)"
  shows "uri_unit c"
proof -
  have "c = 0x25 \<or> c = hex_digit_upper (b div 16) \<or> c = hex_digit_upper (b mod 16)"
    using assms(3) by (auto simp: percent_def)
  moreover have "uri_unit 0x25" by (simp add: uri_unit_def)
  moreover have "uri_unit (hex_digit_upper (b div 16))"
    using div_bounds [of b 16 16] assms by (intro hex_digit_upper_unit) simp_all
  moreover have "uri_unit (hex_digit_upper (b mod 16))" by (intro hex_digit_upper_unit) simp_all
  ultimately show ?thesis by blast
qed

lemma percent_append_eq:
  assumes "0 \<le> b" "b < 256" "0 \<le> b'" "b' < 256" "percent b @ u = percent b' @ v"
  shows "b = b' \<and> u = v"
proof -
  have r: "0 \<le> b div 16" "b div 16 < 16" "0 \<le> b' div 16" "b' div 16 < 16"
    using assms div_bounds [of b 16 16] div_bounds [of b' 16 16] by simp_all
  have "b div 16 = b' div 16" "b mod 16 = b' mod 16"
    using assms(5) r by (auto simp: percent_def intro: hex_digit_upper_inj)
  then have "b = b'" by (metis div_mult_mod_eq)
  then show ?thesis using assms(5) by simp
qed

text \<open>The bytes of a code point, the first of which gives their number.\<close>

definition scalar :: "int \<Rightarrow> bool" where
  "scalar p \<longleftrightarrow> 0 \<le> p \<and> p < 0x110000"

definition utf8_length :: "int \<Rightarrow> nat" where
  "utf8_length b = (if b < 0x80 then 1 else if b < 0xE0 then 2 else if b < 0xF0 then 3 else 4)"

lemma split64: "p = 64 * (p div 64) + p mod 64" "0 \<le> p mod 64" "p mod 64 < 64" for p :: int
  by simp_all

lemma utf8_shape:
  assumes "scalar p"
  obtains (one) "p < 0x80" "0 \<le> p" "utf8 p = [p]"
  | (two) a b where "p = 64 * a + b" "0x80 \<le> p" "utf8 p = [0xC0 + a, 0x80 + b]"
      "0 \<le> a" "a < 32" "0 \<le> b" "b < 64"
  | (three) a b c where "p = 4096 * a + 64 * b + c" "utf8 p = [0xE0 + a, 0x80 + b, 0x80 + c]"
      "0 \<le> a" "a < 16" "0 \<le> b" "b < 64" "0 \<le> c" "c < 64"
  | (four) a b c d where "p = 262144 * a + 4096 * b + 64 * c + d"
      "utf8 p = [0xF0 + a, 0x80 + b, 0x80 + c, 0x80 + d]"
      "0 \<le> a" "a < 16" "0 \<le> b" "b < 64" "0 \<le> c" "c < 64" "0 \<le> d" "d < 64"
proof -
  have p: "0 \<le> p" "p < 0x110000" using assms by (simp_all add: scalar_def)
  have d1: "p div 4096 = p div 64 div 64" using zdiv_zmult2_eq [of 64 p 64] by simp
  have d2: "p div 262144 = p div 4096 div 64" using zdiv_zmult2_eq [of 64 p 4096] by simp
  note s = split64 [of p] split64 [of "p div 64"] split64 [of "p div 4096"]
  consider "p < 0x80" | "0x80 \<le> p" "p < 0x800" | "0x800 \<le> p" "p < 0x10000" | "0x10000 \<le> p" by linarith
  then show thesis
  proof cases
    case 1
    then show ?thesis using p by (intro one) (simp_all add: utf8_def)
  next
    case 2
    have u: "utf8 p = [0xC0 + p div 64, 0x80 + p mod 64]" using 2 by (simp add: utf8_def)
    show ?thesis
      by (rule two [OF s(1) 2(1) u div_bounds [of p 64 32] s(2,3)]) (use p 2 in simp_all)
  next
    case 3
    have u: "utf8 p = [0xE0 + p div 4096, 0x80 + p div 64 mod 64, 0x80 + p mod 64]"
      using 3 by (simp add: utf8_def)
    have e: "p = 4096 * (p div 4096) + 64 * (p div 64 mod 64) + p mod 64" using s d1 by linarith
    show ?thesis
      by (rule three [OF e u div_bounds [of p 4096 16] s(5,6) s(2,3)]) (use p 3 in simp_all)
  next
    case 4
    have u: "utf8 p = [0xF0 + p div 262144, 0x80 + p div 4096 mod 64, 0x80 + p div 64 mod 64, 0x80 + p mod 64]"
      using 4 by (simp add: utf8_def)
    have e: "p = 262144 * (p div 262144) + 4096 * (p div 4096 mod 64) + 64 * (p div 64 mod 64) + p mod 64"
      using s d1 d2 by linarith
    show ?thesis
      by (rule four [OF e u div_bounds [of p 262144 16] s(8,9) s(5,6) s(2,3)]) (use p 4 in simp_all)
  qed
qed

lemma utf8_bytes: "scalar p \<Longrightarrow> b \<in> set (utf8 p) \<Longrightarrow> 0 \<le> b \<and> b < 256"
  by (erule utf8_shape) auto

lemma utf8_length_hd: "scalar p \<Longrightarrow> length (utf8 p) = utf8_length (hd (utf8 p))"
  by (erule utf8_shape) (auto simp: utf8_length_def)

lemma utf8_inj: "scalar p \<Longrightarrow> scalar q \<Longrightarrow> utf8 p = utf8 q \<Longrightarrow> p = q"
  by (erule utf8_shape [of p]; erule utf8_shape [of q]) simp_all

lemma utf8_not_Nil [simp]: "utf8 p \<noteq> []"
  by (simp add: utf8_def)

lemma percents_append_eq:
  assumes "length bs = length bs'" "\<forall>b\<in>set bs \<union> set bs'. 0 \<le> b \<and> b < 256"
    "concat (map percent bs) @ u = concat (map percent bs') @ v"
  shows "bs = bs' \<and> u = v"
  using assms
proof (induction bs bs' arbitrary: u v rule: list_induct2)
  case (Cons b bs b' bs')
  have "b = b' \<and> concat (map percent bs) @ u = concat (map percent bs') @ v"
    using percent_append_eq [of b b' "concat (map percent bs) @ u" "concat (map percent bs') @ v"] Cons.prems
    by simp
  then show ?case using Cons.IH [of u v] Cons.prems by simp
qed simp

lemma uri_unreserved_range: "uri_unreserved p \<Longrightarrow> 0 \<le> p \<and> p < 0x80 \<and> p \<noteq> 0x25"
  by (auto simp: uri_unreserved_def alnum_def)

lemma utf8_escapes_append_eq:
  assumes "scalar p" "scalar q" "concat (map percent (utf8 p)) @ u = concat (map percent (utf8 q)) @ v"
  shows "p = q \<and> u = v"
proof -
  obtain b bs where p: "utf8 p = b # bs" by (cases "utf8 p") auto
  obtain c cs where q: "utf8 q = c # cs" by (cases "utf8 q") auto
  have r: "\<forall>b\<in>set (utf8 p) \<union> set (utf8 q). 0 \<le> b \<and> b < 256" using assms utf8_bytes by blast
  have "b = c"
    using percent_append_eq [of b c "concat (map percent bs) @ u" "concat (map percent cs) @ v"] assms(3) r
    by (simp add: p q)
  then have "length (utf8 p) = length (utf8 q)"
    using assms utf8_length_hd by (metis list.sel(1) p q)
  then show ?thesis using percents_append_eq [OF _ r assms(3)] utf8_inj assms by blast
qed

text \<open>The code units of a code point.\<close>

definition point_units :: "int \<Rightarrow> jstring" where
  "point_units p =
     (if p < 0x10000 then [of_int p]
      else [of_int (0xD800 + (p - 0x10000) div 0x400), of_int (0xDC00 + (p - 0x10000) mod 0x400)])"

lemma surrogate_range:
  "high_surrogate c \<Longrightarrow> 0xD800 \<le> uint c \<and> uint c \<le> 0xDBFF"
  "low_surrogate c \<Longrightarrow> 0xDC00 \<le> uint c \<and> uint c \<le> 0xDFFF"
  by (simp_all add: high_surrogate_def low_surrogate_def word_le_def)

lemma unit_scalar: "scalar (uint (c :: code_unit))" "point_units (uint c) = [c]"
  using uint_lt2p [of c] by (simp_all add: scalar_def point_units_def)

lemma pair_units:
  assumes "high_surrogate c" "low_surrogate d"
  shows "scalar (pair_point c d)" "point_units (pair_point c d) = [c, d]"
proof -
  have r: "0xD800 \<le> uint c" "uint c \<le> 0xDBFF" "0xDC00 \<le> uint d" "uint d \<le> 0xDFFF"
    using surrogate_range assms by blast+
  show "scalar (pair_point c d)" using r by (simp add: scalar_def pair_point_def)
  let ?h = "uint c - 0xD800" and ?l = "uint d - 0xDC00"
  have l: "0 \<le> ?l" "?l < 0x400" and h: "0 \<le> ?h" using r by simp_all
  have e: "pair_point c d - 0x10000 = ?l + ?h * 0x400" by (simp add: pair_point_def)
  have "(y + x * 0x400) div 0x400 = x" "(y + x * 0x400) mod 0x400 = y" if "0 \<le> y" "y < 0x400" for x y :: int
    using that by simp_all
  note dm = this [OF l, of ?h, folded e]
  have "\<not> pair_point c d < 0x10000" using r by (simp add: pair_point_def)
  then show "point_units (pair_point c d) = [c, d]"
    unfolding point_units_def dm by simp
qed

lemma code_points_units: "code_points s = Some ps \<Longrightarrow> s = concat (map point_units ps) \<and> (\<forall>p\<in>set ps. scalar p)"
proof (induction s arbitrary: ps rule: code_points.induct)
  case (3 c d s)
  then show ?case by (auto simp: unit_scalar pair_units split: if_splits)
qed (auto simp: unit_scalar split: if_splits)

lemma uri_encode_point_append_eq:
  assumes "scalar p" "scalar q" "uri_encode_point p @ u = uri_encode_point q @ v"
  shows "p = q \<and> u = v"
proof -
  have e: "\<exists>bs. concat (map percent (utf8 x)) = 0x25 # bs" for x
    by (cases "utf8 x") (auto simp: percent_def)
  have s: "uint (of_int x :: code_unit) = x" if "uri_unreserved x" for x
    using uri_unreserved_range [OF that] by (intro uint_small) simp_all
  have i: "x = y" if "(of_int x :: code_unit) = of_int y" "uri_unreserved x" "uri_unreserved y" for x y
    by (rule box_equals [OF arg_cong [OF that(1), of uint] s [OF that(2)] s [OF that(3)]])
  have z: "(of_int x :: code_unit) \<noteq> 0x25" if "uri_unreserved x" for x
  proof
    assume "(of_int x :: code_unit) = 0x25"
    then have "uint (of_int x :: code_unit) = uint (0x25 :: code_unit)" by (rule arg_cong)
    then have "x = uint (0x25 :: code_unit)" by (rule box_equals [OF _ s [OF that] refl])
    then show False using uri_unreserved_range [OF that] by simp
  qed
  consider "uri_unreserved p" "uri_unreserved q" | "uri_unreserved p" "\<not> uri_unreserved q"
    | "\<not> uri_unreserved p" "uri_unreserved q" | "\<not> uri_unreserved p" "\<not> uri_unreserved q" by blast
  then show ?thesis
  proof cases
    case 1
    then have "of_int p # u = (of_int q :: code_unit) # v" using assms(3) by (simp add: uri_encode_point_def)
    then show ?thesis using i [OF _ 1] by blast
  next
    case 2
    obtain bs where bs: "concat (map percent (utf8 q)) = 0x25 # bs" using e by blast
    have "of_int p # u = (0x25 :: code_unit) # bs @ v"
      using assms(3) 2 unfolding uri_encode_point_def bs by simp
    then show ?thesis using z [OF 2(1)] by blast
  next
    case 3
    obtain bs where bs: "concat (map percent (utf8 p)) = 0x25 # bs" using e by blast
    have "(0x25 :: code_unit) # bs @ u = of_int q # v"
      using assms(3) 3 unfolding uri_encode_point_def bs by simp
    then show ?thesis using z [OF 3(2)] by (metis list.inject)
  next
    case 4
    then show ?thesis
      using utf8_escapes_append_eq [OF assms(1,2)] assms(3) by (simp add: uri_encode_point_def)
  qed
qed

lemma uri_encode_point_units:
  assumes "scalar p" "c \<in> set (uri_encode_point p)"
  shows "uri_unit c"
proof (cases "uri_unreserved p")
  case True
  then show ?thesis
    using assms uint_small [of p] uri_unreserved_range [OF True] by (simp add: uri_encode_point_def uri_unit_def)
next
  case False
  then obtain b where "b \<in> set (utf8 p)" "c \<in> set (percent b)" using assms by (auto simp: uri_encode_point_def)
  then show ?thesis using percent_units utf8_bytes [OF assms(1)] by blast
qed

lemma uri_encode_points_inj:
  assumes "\<forall>p\<in>set ps \<union> set qs. scalar p"
    "concat (map uri_encode_point ps) = concat (map uri_encode_point qs)"
  shows "ps = qs"
  using assms
proof (induction ps arbitrary: qs)
  case Nil
  have "uri_encode_point q \<noteq> []" for q
    by (cases "utf8 q") (auto simp: uri_encode_point_def percent_def)
  then show ?case using Nil by (cases qs) auto
next
  case (Cons p ps)
  have "uri_encode_point q \<noteq> []" for q
    by (cases "utf8 q") (auto simp: uri_encode_point_def percent_def)
  then obtain q qs' where q: "qs = q # qs'" using Cons.prems(2) by (cases qs) auto
  then have "p = q \<and> concat (map uri_encode_point ps) = concat (map uri_encode_point qs')"
    using uri_encode_point_append_eq Cons.prems by auto
  then show ?case using Cons q by auto
qed

lemma encode_uri_component_points:
  assumes "encode_uri_component s = Inr t"
  obtains ps where "s = concat (map point_units ps)" "t = concat (map uri_encode_point ps)"
    "\<forall>p\<in>set ps. scalar p"
  using assms code_points_units by (auto simp: encode_uri_component_def split: option.splits)

lemma encode_uri_component_units:
  assumes "encode_uri_component s = Inr t" and "c \<in> set t"
  shows "uri_unit c"
  by (rule encode_uri_component_points [OF assms(1)]) (use assms(2) in \<open>auto intro: uri_encode_point_units\<close>)

lemma encode_uri_component_inj:
  assumes "encode_uri_component s = Inr t" and "encode_uri_component s' = Inr t"
  shows "s = s'"
proof -
  obtain ps where p: "s = concat (map point_units ps)" "t = concat (map uri_encode_point ps)"
    "\<forall>p\<in>set ps. scalar p" by (rule encode_uri_component_points [OF assms(1)])
  obtain qs where q: "s' = concat (map point_units qs)" "t = concat (map uri_encode_point qs)"
    "\<forall>p\<in>set qs. scalar p" by (rule encode_uri_component_points [OF assms(2)])
  have "ps = qs" using p q by (intro uri_encode_points_inj) auto
  then show ?thesis using p q by simp
qed

section \<open>Query strings\<close>

definition form_unit :: "code_unit \<Rightarrow> bool" where
  "form_unit c \<longleftrightarrow> c = 0x2B \<or> uri_unit c"

lemma form_unit_separators: "form_unit c \<Longrightarrow> c \<notin> {0x2F, 0x3F, 0x23, 0x26, 0x3D, 0x20}"
  using uri_unit_separators by (auto simp: form_unit_def)

lemma scalar_replacement: "scalar 0xFFFD"
  by (simp add: scalar_def)

lemma scalar_values_scalar: "p \<in> set (scalar_values s) \<Longrightarrow> scalar p"
proof (induction s rule: scalar_values.induct)
  case (3 c d s)
  then show ?case by (auto simp: unit_scalar pair_units scalar_replacement split: if_splits)
qed (auto simp: unit_scalar scalar_replacement split: if_splits)

lemma form_encode_point_units:
  assumes "scalar p" "c \<in> set (form_encode_point p)"
  shows "form_unit c"
proof -
  consider "p = 0x20" | "p \<noteq> 0x20" "alnum p \<or> p \<in> {0x2A, 0x2D, 0x2E, 0x5F}"
    | "p \<noteq> 0x20" "\<not> (alnum p \<or> p \<in> {0x2A, 0x2D, 0x2E, 0x5F})" by blast
  then show ?thesis
  proof cases
    case 1
    then show ?thesis using assms(2) by (simp add: form_encode_point_def form_unit_def)
  next
    case 2
    then have u: "uri_unreserved p" by (auto simp: uri_unreserved_def)
    have "c = of_int p" using assms(2) 2 by (simp add: form_encode_point_def)
    then show ?thesis
      using u uint_small [of p] uri_unreserved_range [OF u] by (simp add: form_unit_def uri_unit_def)
  next
    case 3
    then obtain b where "b \<in> set (utf8 p)" "c \<in> set (percent b)"
      using assms by (auto simp: form_encode_point_def)
    then show ?thesis using percent_units utf8_bytes [OF assms(1)] by (auto simp: form_unit_def)
  qed
qed

lemma form_encode_units: "c \<in> set (form_encode s) \<Longrightarrow> form_unit c"
  by (auto simp: form_encode_def dest: scalar_values_scalar intro: form_encode_point_units)

end
