(* ===== verification/Panel_Payload.thy ===== *)
theory Panel_Payload
  imports Panel_Api Js_Format
begin

text \<open>
  \<open>lib/payload.ts\<close> (building request payloads, the text of an error, the clipboard) and
  \<open>composables/useActionStatus.ts\<close> (the status line of an action).
\<close>

type_synonym payload = "(jstring \<times> jsval) list"

section \<open>Status lines\<close>

definition errText :: "jserr \<Rightarrow> jstring" where
  "errText e =
     (case e of
        Exn _ m \<Rightarrow> m
      | ApiError m _ _ \<Rightarrow> m
      | Thrown v \<Rightarrow>
          (case v of
             JObj kvs \<Rightarrow>
               (case obj_get kvs (js ''message'') of
                  Some m \<Rightarrow> to_string m
                | None \<Rightarrow> to_string v)
           | _ \<Rightarrow> to_string (js_or v (jlit ''request failed''))))"

record action_status =
  st_error :: jstring
  st_ok :: jstring

definition useActionStatus :: action_status where
  "useActionStatus = \<lparr>st_error = [], st_ok = []\<rparr>"

text \<open>\<open>fail\<close> takes a message or something that was thrown.\<close>

definition fail :: "jstring + jserr \<Rightarrow> action_status \<Rightarrow> action_status" where
  "fail x a = a\<lparr>st_ok := [], st_error := (case x of Inl m \<Rightarrow> m | Inr e \<Rightarrow> errText e)\<rparr>"

definition succeed :: "jstring \<Rightarrow> action_status \<Rightarrow> action_status" where
  "succeed msg a = a\<lparr>st_error := [], st_ok := msg\<rparr>"

definition reset :: "action_status \<Rightarrow> action_status" where
  "reset a = a\<lparr>st_error := [], st_ok := []\<rparr>"

abbreviation fail_msg :: "jstring \<Rightarrow> action_status \<Rightarrow> action_status" where
  "fail_msg m \<equiv> fail (Inl m)"

abbreviation fail_err :: "jserr \<Rightarrow> action_status \<Rightarrow> action_status" where
  "fail_err e \<equiv> fail (Inr e)"

text \<open>At most one of the two lines is shown.\<close>

definition one_line :: "action_status \<Rightarrow> bool" where
  "one_line a \<longleftrightarrow> st_error a = [] \<or> st_ok a = []"

lemma status_sel [simp]:
  "st_ok (fail x a) = []" "st_error (fail (Inl m) a) = m" "st_error (fail (Inr e) a) = errText e"
  "st_error (succeed m a) = []" "st_ok (succeed m a) = m"
  "st_error (reset a) = []" "st_ok (reset a) = []"
  by (simp_all add: fail_def succeed_def reset_def)

lemma one_line_ops [simp]:
  "one_line useActionStatus" "one_line (fail x a)" "one_line (succeed m a)" "one_line (reset a)"
  by (simp_all add: one_line_def useActionStatus_def)

lemma status_overwrite [simp]:
  "reset (reset a) = reset a" "reset (fail x a) = reset a" "reset (succeed m a) = reset a"
  "fail x (reset a) = fail x a" "succeed m (reset a) = succeed m a"
  "fail x (succeed m a) = fail x a" "succeed m (fail x a) = succeed m a"
  by (simp_all add: fail_def succeed_def reset_def)

section \<open>Payloads\<close>

definition parseBody :: "jstring \<Rightarrow> jsval" where
  "parseBody raw = (case json_parse raw of Some v \<Rightarrow> v | None \<Rightarrow> JStr raw)"

definition outbound_init :: outbound_state where
  "outbound_init = \<lparr>o_method = js ''POST'', o_sign = False, o_headers = []\<rparr>"

text \<open>The outbound defaults join the payload; the result names what is wrong with the headers.\<close>

definition mergeOutbound :: "outbound_state \<Rightarrow> payload \<Rightarrow> jstring option \<times> payload" where
  "mergeOutbound ob pl =
     (let pl1 = obj_set pl (js ''method'') (JStr (o_method ob));
          pl2 = (if o_sign ob then obj_set pl1 (js ''sign'') (JBool True) else pl1);
          raw = trim (o_headers ob)
      in if raw = [] then (None, pl2)
         else case json_parse raw of
                None \<Rightarrow> (Some (js ''Headers must be valid JSON''), pl2)
              | Some v \<Rightarrow> (None, obj_set pl2 (js ''headers'') v))"

text \<open>The retry fields of a form. A number field holds what its input delivered.\<close>

record retry_state =
  r_maxRetries :: jsval
  r_kind :: jstring
  r_initialMs :: jsval
  r_maxMs :: jsval
  r_multiplier :: jsval

definition defaultRetry :: retry_state where
  "defaultRetry = \<lparr>r_maxRetries = jint 0, r_kind = js ''exponential'', r_initialMs = jint 500,
     r_maxMs = jint 30000, r_multiplier = jint 2\<rparr>"

definition mergeRetry :: "payload \<Rightarrow> retry_state \<Rightarrow> payload" where
  "mergeRetry pl retry =
     (let mx = max_num 0 (number_or (r_maxRetries retry) 0) in
      if \<not> num_less (Num 0) mx then pl
      else
        let pl1 = obj_set pl (js ''max_retries'') (JNum mx);
            kind = to_lower_case (str_or (r_kind retry) (js ''exponential''));
            b0 = [(js ''kind'', JStr kind),
                  (js ''initialMs'', JNum (number_or (r_initialMs retry) 500))];
            b1 = (if kind = js ''exponential'' then
                    (let b = obj_set b0 (js ''maxMs'') (JNum (number_or (r_maxMs retry) 30000));
                         mult = to_number (r_multiplier retry)
                     in if num_less (Num 0) mult then obj_set b (js ''multiplier'') (JNum mult) else b)
                  else b0)
        in obj_set pl1 (js ''retry_backoff'') (JObj b1))"

definition copyText :: "jstring \<Rightarrow> 's proc" where
  "copyText text = Await (WriteClipboard text)
     (\<lambda>r. case r of Failed e \<Rightarrow> Ret (Inl e) | Response _ _ _ \<Rightarrow> return_undef)"

section \<open>Facts\<close>

lemma max_num_not_NaN: "n \<noteq> NaN \<Longrightarrow> max_num m n \<noteq> NaN"
  by (simp add: max_num_def)

text \<open>Without retries the payload is unchanged; merging only ever touches two properties.\<close>

lemma mergeRetry_none: "\<not> num_less (Num 0) (number_or (r_maxRetries rt) 0) \<Longrightarrow> mergeRetry pl rt = pl"
  by (auto simp: mergeRetry_def max_num_def Let_def)

lemma mergeRetry_get:
  "k \<noteq> js ''max_retries'' \<Longrightarrow> k \<noteq> js ''retry_backoff'' \<Longrightarrow>
   obj_get (mergeRetry pl rt) k = obj_get pl k"
  by (simp add: mergeRetry_def Let_def)

lemma mergeRetry_max:
  assumes "num_less (Num 0) (number_or (r_maxRetries rt) 0)"
  shows "obj_get (mergeRetry pl rt) (js ''max_retries'') = Some (JNum (number_or (r_maxRetries rt) 0))"
proof -
  have "max_num 0 (number_or (r_maxRetries rt) 0) = number_or (r_maxRetries rt) 0"
    using assms by (cases "number_or (r_maxRetries rt) 0") (auto simp: max_num_def)
  with assms show ?thesis by (simp add: mergeRetry_def Let_def)
qed

lemma mergeOutbound_get:
  "k \<noteq> js ''method'' \<Longrightarrow> k \<noteq> js ''sign'' \<Longrightarrow> k \<noteq> js ''headers'' \<Longrightarrow>
   obj_get (snd (mergeOutbound ob pl)) k = obj_get pl k"
  by (simp add: mergeOutbound_def Let_def split: option.split)

lemma mergeOutbound_method:
  "obj_get (snd (mergeOutbound ob pl)) (js ''method'') = Some (JStr (o_method ob))"
  by (simp add: mergeOutbound_def Let_def split: option.split)

lemma mergeOutbound_error:
  "fst (mergeOutbound ob pl) =
     (if trim (o_headers ob) \<noteq> [] \<and> json_parse (trim (o_headers ob)) = None
      then Some (js ''Headers must be valid JSON'') else None)"
  by (simp add: mergeOutbound_def Let_def split: option.split)

lemma sequential_copyText [simp]: "sequential (copyText t)"
  by (simp add: copyText_def split: reply.split)

lemma stays_copyText [stays_intros]: "stays (on_page b0) (own_origin b0) (copyText t)"
  by (auto simp: copyText_def own_origin_def intro!: stays_intros)

section \<open>Properties\<close>

definition retry_kind :: "retry_state \<Rightarrow> jstring" where
  "retry_kind rt = to_lower_case (str_or (r_kind rt) (js ''exponential''))"

text \<open>The back-off object that \<open>mergeRetry\<close> builds.\<close>

definition backoff :: "retry_state \<Rightarrow> payload" where
  "backoff rt =
     (let b0 = [(js ''kind'', JStr (retry_kind rt)), (js ''initialMs'', JNum (number_or (r_initialMs rt) 500))]
      in if retry_kind rt = js ''exponential'' then
           (let b = obj_set b0 (js ''maxMs'') (JNum (number_or (r_maxMs rt) 30000));
                mult = to_number (r_multiplier rt)
            in if num_less (Num 0) mult then obj_set b (js ''multiplier'') (JNum mult) else b)
         else b0)"

lemma mergeRetry_backoff:
  "num_less (Num 0) (number_or (r_maxRetries rt) 0) \<Longrightarrow>
   obj_get (mergeRetry pl rt) (js ''retry_backoff'') = Some (JObj (backoff rt))"
  by (cases "number_or (r_maxRetries rt) 0")
    (auto simp: mergeRetry_def backoff_def retry_kind_def max_num_def Let_def)









end
