(* ===== verification/Panel_Catalog.thy ===== *)
theory Panel_Catalog
  imports Panel_Payload
begin

text \<open>
  \<open>lib/catalog.ts\<close> (the lists of queues, groups and flows), \<open>lib/federation.ts\<close> (queries over the
  cells) and \<open>lib/avatar.ts\<close>. The rows are the objects the broker sent.
\<close>

section \<open>The catalog\<close>

definition catalog_init :: catalog_state where
  "catalog_init = \<lparr>c_queues = [], c_groups = [], c_flows = []\<rparr>"

definition queueId :: "jsval \<Rightarrow> jsval" where
  "queueId q = js_or (js_or (opt_prop q ''queue_id'') (opt_prop q ''id'')) (JStr [])"

definition groupId :: "jsval \<Rightarrow> jsval" where
  "groupId g = js_or (js_or (opt_prop g ''group_id'') (opt_prop g ''id'')) (JStr [])"

definition flowId :: "jsval \<Rightarrow> jsval" where
  "flowId f = js_or (js_or (opt_prop f ''flow_id'') (opt_prop f ''id'')) (JStr [])"

text \<open>
  A refresh fetches a list and stores it with \<open>put\<close>; any failure, also that of a body without
  properties, stores the empty list.
\<close>

definition refresh_list ::
    "string \<Rightarrow> string \<Rightarrow> (jsval list \<Rightarrow> 'a panel_scheme \<Rightarrow> 'a panel_scheme) \<Rightarrow> 'a panel_scheme proc" where
  "refresh_list path field put =
     Read (\<lambda>p. try_await (apiGet (publicUrl (js path) (win p)))
       (\<lambda>d. try_value (get_prop d field)
          (\<lambda>v. Do (put (elems (js_or v (JArr [])))) return_undef)
          (\<lambda>_. Do (put []) return_undef))
       (\<lambda>_. Do (put []) return_undef))"

definition set_queues :: "jsval list \<Rightarrow> 'a panel_scheme \<Rightarrow> 'a panel_scheme" where
  "set_queues xs = upd_catalog (\<lambda>c. c\<lparr>c_queues := xs\<rparr>)"

definition set_groups :: "jsval list \<Rightarrow> 'a panel_scheme \<Rightarrow> 'a panel_scheme" where
  "set_groups xs = upd_catalog (\<lambda>c. c\<lparr>c_groups := xs\<rparr>)"

definition set_flows :: "jsval list \<Rightarrow> 'a panel_scheme \<Rightarrow> 'a panel_scheme" where
  "set_flows xs = upd_catalog (\<lambda>c. c\<lparr>c_flows := xs\<rparr>)"

definition refreshQueues :: "'a panel_scheme proc" where
  "refreshQueues = refresh_list ''/v1/queues'' ''queues'' set_queues"

definition refreshGroups :: "'a panel_scheme proc" where
  "refreshGroups = refresh_list ''/v1/groups'' ''groups'' set_groups"

definition refreshFlows :: "'a panel_scheme proc" where
  "refreshFlows = refresh_list ''/v1/flows'' ''flows'' set_flows"

lemmas set_catalog_defs = set_queues_def set_groups_def set_flows_def
lemmas refresh_defs = refreshQueues_def refreshGroups_def refreshFlows_def

section \<open>Federation\<close>

definition queryCells :: "string \<Rightarrow> 'a panel_scheme proc" where
  "queryCells kind = Read (\<lambda>p. apiGet (adminUrl (js ''/cells/query/'' @ js kind) (win p)))"

text \<open>The data of a cell in a federated answer, or those of the first cell that answered.\<close>

definition dataForCell :: "jsval \<Rightarrow> jstring \<Rightarrow> jsval" where
  "dataForCell res cellId =
     (if \<not> truthy (opt_prop res ''ok'') then JNull
      else let rows = elems (opt_prop res ''ok'');
               hit = (case find (\<lambda>row. opt_prop row ''cell'' = JStr cellId) rows of
                        Some row \<Rightarrow> row
                      | None \<Rightarrow> (case rows of [] \<Rightarrow> JUndef | row # _ \<Rightarrow> row))
           in js_coalesce (opt_prop hit ''data'') JNull)"

section \<open>Avatars\<close>

text \<open>The picture of a seed, computed once per key.\<close>

definition glassAvatar :: "jstring \<Rightarrow> 'a panel_scheme \<Rightarrow> jstring \<times> 'a panel_scheme" where
  "glassAvatar seed p =
     (let key = str_or (trim seed) (js ''local'') in
      case avatar_cache p key of
        Some hit \<Rightarrow>
          if hit \<noteq> [] then (hit, p)
          else (let uri = avatar_uri (win p) key
                in (uri, p\<lparr>avatar_cache := (avatar_cache p)(key \<mapsto> uri)\<rparr>))
      | None \<Rightarrow>
          (let uri = avatar_uri (win p) key
           in (uri, p\<lparr>avatar_cache := (avatar_cache p)(key \<mapsto> uri)\<rparr>)))"

section \<open>Facts\<close>

lemma sequential_refresh_list [simp]: "sequential (refresh_list path field put)"
  by (auto simp: refresh_list_def intro!: sequential_try_await sequential_try_value)

lemma sequential_refresh [simp]:
  "sequential refreshQueues" "sequential refreshGroups" "sequential refreshFlows"
  by (simp_all add: refresh_defs)

lemma sequential_queryCells [simp]: "sequential (queryCells kind)"
  by (simp add: queryCells_def)

text \<open>A refresh ends normally, whatever the broker answers.\<close>

lemma run_refresh_list:
  "run srv (refresh_list path field put) p w =
     (case run srv (apiGet (publicUrl (js path) (win p))) p w of (r, p1, w1) \<Rightarrow>
        (Inr JUndef,
         put (case r of
                Inl _ \<Rightarrow> []
              | Inr d \<Rightarrow> (case get_prop d field of
                            Inl _ \<Rightarrow> []
                          | Inr v \<Rightarrow> elems (js_or v (JArr [])))) p1, w1))"
  by (simp add: refresh_list_def run_try_await try_value_def split: prod.split sum.split)

text \<open>The rule for invariants: the refresh keeps what the store of the list keeps.\<close>

lemma keeps_refresh_list:
  assumes "I p" and "\<And>p b'. I p \<Longrightarrow> same_page (win p) b' \<Longrightarrow> I (upd_win (\<lambda>_. b') p)"
    and "\<And>p xs. I p \<Longrightarrow> I (put xs p)"
    and "\<And>p m hs body. I p \<Longrightarrow>
       Q (Fetch \<lparr>req_url = publicUrl (js path) (win p), req_method = m, req_headers = hs, req_body = body\<rparr>)"
  shows "keeps I Q (refresh_list path field put) p"
  using assms
  by (auto simp: refresh_list_def apiGet_def stays_def
      intro!: keeps_try_await keeps_try_value keeps_api_request)

lemma stays_refresh_list:
  assumes "rooted (js path)" and "\<And>xs p. win (put xs p) = win p"
  shows "stays (on_page b0) (own_origin b0) (refresh_list path field put)"
  using assms by (auto simp: refresh_list_def intro!: stays_intros)

lemma stays_refresh [stays_intros]:
  "stays (on_page b0) (own_origin b0) refreshQueues"
  "stays (on_page b0) (own_origin b0) refreshGroups"
  "stays (on_page b0) (own_origin b0) refreshFlows"
  unfolding refresh_defs by (rule stays_refresh_list; simp add: set_catalog_defs)+

lemma stays_queryCells [stays_intros]: "stays (on_page b0) (own_origin b0) (queryCells kind)"
  by (auto simp: queryCells_def intro!: stays_intros)

text \<open>The cached picture is the one the seed's key has.\<close>

definition avatars_ok :: "'a panel_scheme \<Rightarrow> bool" where
  "avatars_ok p \<longleftrightarrow> (\<forall>k u. avatar_cache p k = Some u \<longrightarrow> u = avatar_uri (win p) k)"

lemma glassAvatar_ok:
  assumes "avatars_ok p"
  shows "fst (glassAvatar seed p) = avatar_uri (win p) (str_or (trim seed) (js ''local''))"
    and "avatars_ok (snd (glassAvatar seed p))"
  using assms by (auto simp: glassAvatar_def avatars_ok_def Let_def split: option.splits)

section \<open>Properties\<close>

lemma elems_or [simp]: "elems (js_or v (JArr [])) = elems v"
  by (cases v) (auto simp: js_or_def)

text \<open>
  C23: refreshing the list of queues ends normally whatever the broker answers. The list is then the one of
  the answer, and empty when the request failed or the answer has none; the other lists are unchanged.
\<close>

theorem refreshQueues_outcome:
  assumes "run srv (apiGet (publicUrl (js ''/v1/queues'') (win p))) p w = (r, p1, w1)"
  shows "\<exists>p2. run srv refreshQueues p w = (Inr JUndef, p2, w1) \<and>
     c_queues (catalog p2) = (case r of Inl _ \<Rightarrow> [] | Inr d \<Rightarrow> elems (opt_prop d ''queues'')) \<and>
     c_groups (catalog p2) = c_groups (catalog p1) \<and> c_flows (catalog p2) = c_flows (catalog p1)"
proof -
  have "run srv refreshQueues p w =
      (Inr JUndef, set_queues (case r of Inl _ \<Rightarrow> [] | Inr d \<Rightarrow> elems (opt_prop d ''queues'')) p1, w1)"
    using assms
    by (auto simp: refreshQueues_def run_refresh_list get_prop_def js_nullish_def split: sum.split)
  then show ?thesis by (simp add: set_queues_def)
qed

theorem refreshQueues_outcome_witness:
  "\<exists>p2. run (\<lambda>_ w. (Failed (Thrown JNull), w)) refreshQueues
      ((panel_on (fresh_page (js ''http://a'')))\<lparr>catalog := \<lparr>c_queues = [JNull], c_groups = [], c_flows = []\<rparr>\<rparr>) (0::nat)
    = (Inr JUndef, p2, 0) \<and> c_queues (catalog p2) = []"
proof -
  let ?p = "(panel_on (fresh_page (js ''http://a'')))\<lparr>catalog := \<lparr>c_queues = [JNull], c_groups = [], c_flows = []\<rparr>\<rparr>"
  have "authHeaders (win ?p) = ([], win ?p)"
    by (simp add: authHeaders_def migrated_loadSavedToken opt_or_def normalizeToken_def bearer_prefixed_def)
  then have "run (\<lambda>_ w. (Failed (Thrown JNull), w)) (apiGet (publicUrl (js ''/v1/queues'') (win ?p))) ?p (0::nat) =
      (Inl (Thrown JNull), upd_win (\<lambda>_. win ?p) ?p, 0)"
    by (simp add: apiGet_def api_request_def settle_def)
  then show ?thesis
    using refreshQueues_outcome [of "\<lambda>_ w. (Failed (Thrown JNull), w)" ?p "0::nat"] by auto
qed



end
