(* ===== verification/Panel_Session.thy ===== *)
theory Panel_Session
  imports Panel_Catalog
begin

text \<open>
  \<open>lib/session.ts\<close>: the authentication phases, the token, the registered cells and the polling of
  health and cluster state.
\<close>

section \<open>Initial state\<close>

definition session_init :: "browser \<Rightarrow> session_state" where
  "session_init b =
     \<lparr>s_phase = Loading, s_apiBase = loadSavedApiBase b, s_token = [], s_revealedToken = [],
      s_auth = JNull, s_health = ellipsis, s_healthOk = False, s_clusterLabel = em_dash,
      s_cluster = JNull, s_cells = [], s_members = [], s_selectedCellId = loadSavedCellId b,
      s_themeMode = readThemeMode b, s_splitAuth = False, s_joinToken = [], s_gateMessage = [],
      s_isSeed = False\<rparr>"

text \<open>The modules' initialisers; the session's token is loaded, and migrated, on the way.\<close>

definition panel_init :: "browser \<Rightarrow> panel" where
  "panel_init b =
     (let s = session_init b; (t, b') = loadSavedToken (s_apiBase s) b
      in \<lparr>win = b', session = s\<lparr>s_token := t\<rparr>, catalog = catalog_init, outbound = outbound_init,
          healthTimer = False, clusterTimer = False, avatar_cache = Map.empty\<rparr>)"

section \<open>Cells\<close>

definition find_cell :: "jstring \<Rightarrow> jsval list \<Rightarrow> jsval option" where
  "find_cell cid cells = find (\<lambda>c. opt_prop c ''id'' = JStr cid) cells"

definition selectedCell :: "session_state \<Rightarrow> jsval" where
  "selectedCell s =
     (case find_cell (s_selectedCellId s) (s_cells s) of
        Some c \<Rightarrow> c
      | None \<Rightarrow> (case s_cells s of [] \<Rightarrow> JNull | c # _ \<Rightarrow> c))"

definition setCellId :: "jstring \<Rightarrow> 'a panel_scheme \<Rightarrow> 'a panel_scheme" where
  "setCellId cid p = upd_win (saveCellId cid) (upd_session (\<lambda>s. s\<lparr>s_selectedCellId := cid\<rparr>) p)"

definition setTheme :: "theme_mode \<Rightarrow> 'a panel_scheme \<Rightarrow> 'a panel_scheme" where
  "setTheme mode p = upd_win (applyTheme mode) (upd_session (\<lambda>s. s\<lparr>s_themeMode := mode\<rparr>) p)"

definition setToken :: "jstring \<Rightarrow> 'a panel_scheme \<Rightarrow> 'a panel_scheme" where
  "setToken token p =
     (let p1 = upd_session (\<lambda>s. s\<lparr>s_token := token\<rparr>) p
      in upd_win (saveToken (s_apiBase (session p1)) token) p1)"

section \<open>Polling\<close>

definition store_cells :: "jsval \<Rightarrow> jsval \<Rightarrow> session_state \<Rightarrow> session_state" where
  "store_cells cells members s =
     (let s1 = s\<lparr>s_cells := elems (js_or cells (JArr [])), s_members := elems (js_or members (JArr []))\<rparr>
      in if find_cell (s_selectedCellId s1) (s_cells s1) = None
         then s1\<lparr>s_selectedCellId :=
                to_string (js_or (case s_cells s1 of [] \<Rightarrow> JUndef | c # _ \<Rightarrow> opt_prop c ''id'')
                             (jlit ''local''))\<rparr>
         else s1)"

definition clear_cells :: "session_state \<Rightarrow> session_state" where
  "clear_cells s = s\<lparr>s_cells := [], s_members := []\<rparr>"

definition refreshCells :: "'a panel_scheme proc" where
  "refreshCells =
     Read (\<lambda>p. try_await (apiGet (adminUrl (js ''/cells'') (win p)))
       (\<lambda>reg. try_value (get_prop reg ''cells'')
          (\<lambda>cells. Do (upd_session (store_cells cells (opt_prop reg ''members''))) return_undef)
          (\<lambda>_. Do (upd_session clear_cells) return_undef))
       (\<lambda>_. Do (upd_session clear_cells) return_undef))"

text \<open>A plain \<open>fetch\<close>, without the client's headers and status check.\<close>

definition plain_get :: "jstring \<Rightarrow> request" where
  "plain_get url = \<lparr>req_url = url, req_method = GET, req_headers = [], req_body = None\<rparr>"

definition syntax_error :: jserr where
  "syntax_error = Exn (js ''SyntaxError'') (js ''Unexpected token in JSON'')"

definition response_json :: "jserr + jstring \<Rightarrow> jserr + jsval" where
  "response_json text =
     (case text of
        Inl e \<Rightarrow> Inl e
      | Inr t \<Rightarrow> (case json_parse t of None \<Rightarrow> Inl syntax_error | Some v \<Rightarrow> Inr v))"

definition health_down :: "session_state \<Rightarrow> session_state" where
  "health_down s = s\<lparr>s_healthOk := False, s_health := js ''down''\<rparr>"

definition pollHealth :: "'a panel_scheme proc" where
  "pollHealth =
     Read (\<lambda>p. Await (Fetch (plain_get (publicUrl (js ''/healthz'') (win p))))
       (\<lambda>r. case r of
          Failed _ \<Rightarrow> Do (upd_session health_down) return_undef
        | Response st _ text \<Rightarrow>
            Do (upd_session (\<lambda>s. s\<lparr>s_healthOk := status_ok st\<rparr>))
             (Yield
               (let j = (case response_json text of Inl _ \<Rightarrow> JObj [] | Inr v \<Rightarrow> v) in
                try_value (get_prop j ''version'')
                  (\<lambda>v. Do (upd_session (\<lambda>s. s\<lparr>s_health :=
                          to_string (js_or v (if status_ok st then jlit ''ok'' else jlit ''down''))\<rparr>))
                        return_undef)
                  (\<lambda>_. Do (upd_session health_down) return_undef)))))"

text \<open>\<open>(c.nodes || []).length\<close>, and the label of a cluster status.\<close>

definition node_total :: "jsval \<Rightarrow> jsval" where
  "node_total c =
     js_or (opt_prop c ''node_count'')
       (jint (int (length (elems (js_or (opt_prop c ''nodes'') (JArr []))))))"

definition cluster_label :: "jsval \<Rightarrow> jstring" where
  "cluster_label c =
     (if truthy c \<and> truthy (node_total c) then
        (let n = node_total c; h = js_coalesce (opt_prop c ''healthy_count'') n
         in to_string h @ js ''/'' @ to_string n)
      else js ''standalone'')"

definition pollCluster :: "'a panel_scheme proc" where
  "pollCluster =
     Read (\<lambda>p. try_await (apiGet (publicUrl (js ''/v1/cluster'') (win p)))
       (\<lambda>c. Do (upd_session (\<lambda>s. s\<lparr>s_cluster := c, s_clusterLabel := cluster_label c\<rparr>)) return_undef)
       (\<lambda>_. Do (upd_session (\<lambda>s. s\<lparr>s_cluster := JNull, s_clusterLabel := em_dash\<rparr>)) return_undef))"

section \<open>Authentication\<close>

definition set_phase :: "auth_phase \<Rightarrow> 'a panel_scheme \<Rightarrow> 'a panel_scheme" where
  "set_phase ph = upd_session (\<lambda>s. s\<lparr>s_phase := ph\<rparr>)"

text \<open>The timers poll health and cluster; an old timer is cleared first.\<close>

definition set_timers :: "'a panel_scheme \<Rightarrow> 'a panel_scheme" where
  "set_timers p = p\<lparr>healthTimer := True, clusterTimer := True\<rparr>"

definition startApp :: "'a panel_scheme proc" where
  "startApp =
     Do (set_phase App)
      (Spawn refreshCells (Spawn refreshQueues (Spawn refreshGroups (Spawn refreshFlows
        (Spawn pollHealth (Spawn pollCluster (Do set_timers return_undef)))))))"

definition fetch_json :: "jstring \<Rightarrow> 's proc" where
  "fetch_json url = Await (Fetch (plain_get url))
     (\<lambda>r. Ret (case r of Failed e \<Rightarrow> Inl e | Response _ _ text \<Rightarrow> response_json text))"

text \<open>\<open>===\<close> on two parsed values: equal primitives, and never two objects or two \<open>NaN\<close>.\<close>

fun strict_eq :: "jsval \<Rightarrow> jsval \<Rightarrow> bool" where
  "strict_eq (JNum m) (JNum n) = (m = n \<and> m \<noteq> NaN)"
| "strict_eq (JArr _) _ = False"
| "strict_eq (JObj _) _ = False"
| "strict_eq v w = (v = w)"

definition split_message :: jstring where
  "split_message = js (''Load balancer is returning different auth state from different brokers. '' @
     ''Use one BetterMQ process for local dev.'')"

definition auth_differs :: "jsval \<Rightarrow> jsval \<Rightarrow> bool" where
  "auth_differs a b \<longleftrightarrow>
     \<not> strict_eq (opt_prop a ''configured'') (opt_prop b ''configured'') \<or>
     \<not> strict_eq (opt_prop a ''mode'') (opt_prop b ''mode'')"

definition unreachable :: "'a panel_scheme \<Rightarrow> 'a panel_scheme" where
  "unreachable p = upd_session (\<lambda>s. s\<lparr>s_phase := Gate,
     s_gateMessage := js ''Cannot reach broker at '' @ s_apiBase s @
       js ''. Check that BetterMQ is running.''\<rparr>) p"

definition gate_text :: "jserr \<Rightarrow> jstring" where
  "gate_text e =
     (case e of
        Exn _ m \<Rightarrow> m
      | ApiError m _ _ \<Rightarrow> m
      | Thrown _ \<Rightarrow> js ''Invalid API token for this broker.'')"

definition reject_token :: "jserr \<Rightarrow> 'a panel_scheme \<Rightarrow> 'a panel_scheme" where
  "reject_token e p =
     upd_session (\<lambda>s. s\<lparr>s_phase := Gate, s_gateMessage := gate_text e\<rparr>) (setToken [] p)"

text \<open>What follows once the two configurations agree.\<close>

definition auth_decide :: "jsval \<Rightarrow> 'a panel_scheme proc" where
  "auth_decide a =
     Do (upd_session (\<lambda>s. s\<lparr>s_auth := a\<rparr>))
      (Read (\<lambda>p.
         if isExternalAuth (win p) \<and> opt_prop a ''mode'' = jlit ''control_plane'' then startApp
         else if \<not> truthy (opt_prop a ''configured'') then
           Do (\<lambda>p. set_phase Setup (setToken [] p)) return_undef
         else if s_token (session p) = [] then Do (set_phase Gate) return_undef
         else try_await (apiGet (publicUrl (js ''/v1/queues'') (win p)))
                (\<lambda>_. startApp) (\<lambda>e. Do (reject_token e) return_undef)))"

definition begin_auth :: "'a panel_scheme \<Rightarrow> 'a panel_scheme" where
  "begin_auth p =
     upd_session (\<lambda>s. s\<lparr>s_phase := Loading, s_splitAuth := False, s_gateMessage := []\<rparr>)
       (upd_win (applyTheme (s_themeMode (session p))) p)"

definition initAuth :: "'a panel_scheme proc" where
  "initAuth =
     Do begin_auth
      (Read (\<lambda>p. try_await (fetch_json (publicUrl (js ''/v1/auth/config'') (win p)))
         (\<lambda>a. Read (\<lambda>p. try_await (fetch_json (publicUrl (js ''/v1/auth/config'') (win p)))
            (\<lambda>b. if js_nullish a \<or> js_nullish b then Do unreachable return_undef
                 else if auth_differs a b then
                   Do (upd_session (\<lambda>s. s\<lparr>s_splitAuth := True, s_phase := Gate, s_auth := a,
                         s_gateMessage := split_message\<rparr>)) return_undef
                 else auth_decide a)
            (\<lambda>_. Do unreachable return_undef)))
         (\<lambda>_. Do unreachable return_undef)))"

definition setApiBase :: "jstring \<Rightarrow> 'a panel_scheme proc" where
  "setApiBase base =
     Do (upd_win (saveApiBase base))
      (Do (\<lambda>p. upd_session (\<lambda>s. s\<lparr>s_apiBase := loadSavedApiBase (win p)\<rparr>) p)
       (Do (\<lambda>p. let (t, b') = loadSavedToken (s_apiBase (session p)) (win p)
               in upd_session (\<lambda>s. s\<lparr>s_token := t\<rparr>) (upd_win (\<lambda>_. b') p))
        (Spawn initAuth return_undef)))"

definition reveal_token :: "jstring \<Rightarrow> 'a panel_scheme \<Rightarrow> 'a panel_scheme" where
  "reveal_token t p =
     upd_session (\<lambda>s. s\<lparr>s_revealedToken := t, s_phase := Reveal\<rparr>) (setToken t p)"

text \<open>
  \<open>setupPassword\<close> and \<open>regenerateToken\<close> post the password to their endpoint and reveal the token that
  comes back; the declared type of \<open>res.token\<close> is a string, a missing one is stored as no token.
\<close>

definition token_text :: "jsval \<Rightarrow> jstring" where
  "token_text v = (if js_nullish v then [] else to_string v)"

definition post_password :: "string \<Rightarrow> jstring \<Rightarrow> 'a panel_scheme proc" where
  "post_password path password =
     Read (\<lambda>p. await (apiPost (publicUrl (js path) (win p)) (JObj [(js ''password'', JStr password)]))
       (\<lambda>res. try_value (get_prop res ''token'')
          (\<lambda>t. Do (reveal_token (token_text t)) return_undef)
          (\<lambda>e. Ret (Inl e))))"

definition setupPassword :: "jstring \<Rightarrow> 'a panel_scheme proc" where
  "setupPassword password = post_password ''/v1/local-auth/setup'' password"

definition regenerateToken :: "jstring \<Rightarrow> 'a panel_scheme proc" where
  "regenerateToken password = post_password ''/v1/local-auth/regenerate'' password"

definition finishReveal :: "'a panel_scheme proc" where
  "finishReveal = Do (upd_session (\<lambda>s. s\<lparr>s_revealedToken := []\<rparr>)) startApp"

definition paste_message :: jstring where
  "paste_message = js ''Paste your sk_local_'' @ ellipsis @ js '' token.''"

definition expected_message :: jstring where
  "expected_message =
     js ''Expected a sk_local_'' @ ellipsis @ js '' token from this broker'' @ [0x27] @ js ''s setup.''"

definition plain_error :: "jstring \<Rightarrow> jserr" where
  "plain_error m = Exn (js ''Error'') m"

definition submitGateToken :: "jstring \<Rightarrow> 'a panel_scheme proc" where
  "submitGateToken raw =
     (let t = trim raw in
      if t = [] then Ret (Inl (plain_error paste_message))
      else if \<not> prefix (js ''sk_local_'') t then Ret (Inl (plain_error expected_message))
      else Do (setToken t) return_undef)"

definition setupHint :: "jsval \<Rightarrow> jstring" where
  "setupHint cfg =
     (if \<not> truthy cfg then js ''Choose a password to claim this broker.''
      else if truthy (opt_prop cfg ''setup_open'') then
        (case opt_prop cfg ''setup_closes_in_secs'' of
           JNum secs \<Rightarrow>
             (let mins = max_num 1 (num_ceil (num_div secs 60))
              in js ''Open for about '' @ num_string mins @ js '' more minute'' @
                 (if mins = Num 1 then [] else js ''s'') @
                 js ''. Then restart BetterMQ to open setup again.'')
         | _ \<Rightarrow> js ''Anyone who can open this page can claim admin until a password is set.'')
      else js ''Setup window closed. Restart BetterMQ, then refresh this page.'')"

lemmas session_defs = setCellId_def setTheme_def setToken_def store_cells_def clear_cells_def
  health_down_def set_phase_def set_timers_def unreachable_def reject_token_def begin_auth_def
  reveal_token_def

section \<open>Requests stay on the page's origin\<close>

lemma same_page_set [simp]:
  "same_page (win p) (win (setToken t p))" "same_page (win p) (win (setCellId cid p))"
  "same_page (win p) (win (setTheme mode p))"
  by (simp_all add: session_defs Let_def)

lemma win_session [simp]:
  "win (set_phase ph p) = win p" "win (set_timers p) = win p" "win (unreachable p) = win p"
  by (simp_all add: session_defs)

lemma same_page_session [simp]:
  "same_page (win p) (win (reject_token e p))"
  "same_page (win p) (win (begin_auth p))" "same_page (win p) (win (reveal_token t p))"
  by (simp_all add: session_defs Let_def)

lemma stays_polls [stays_intros]:
  "stays (on_page b0) (own_origin b0) refreshCells"
  "stays (on_page b0) (own_origin b0) pollHealth"
  "stays (on_page b0) (own_origin b0) pollCluster"
  by (auto simp: refreshCells_def pollHealth_def pollCluster_def own_origin_def plain_get_def Let_def
      intro!: stays_intros)

lemma stays_startApp [stays_intros]: "stays (on_page b0) (own_origin b0) startApp"
  by (auto simp: startApp_def intro!: stays_intros)

lemma stays_initAuth [stays_intros]: "stays (on_page b0) (own_origin b0) initAuth"
  by (auto simp: initAuth_def auth_decide_def fetch_json_def own_origin_def plain_get_def
      intro!: stays_intros)

lemma stays_session [stays_intros]:
  "stays (on_page b0) (own_origin b0) (setupPassword pw)"
  "stays (on_page b0) (own_origin b0) (regenerateToken pw)"
  "stays (on_page b0) (own_origin b0) finishReveal"
  "stays (on_page b0) (own_origin b0) (submitGateToken raw)"
  by (auto simp: setupPassword_def regenerateToken_def post_password_def finishReveal_def
      submitGateToken_def intro!: stays_intros)

section \<open>What the polls leave alone\<close>

text \<open>The part of the session that decides which page is shown and with which token.\<close>

definition auth_part :: "'a panel_scheme \<Rightarrow> auth_phase \<times> jstring \<times> jstring \<times> jstring \<times> jstring \<times> bool" where
  "auth_part p =
     (let s = session p in
      (s_phase s, s_token s, s_revealedToken s, s_apiBase s, s_gateMessage s, s_splitAuth s))"

lemma auth_part_upd [simp]:
  "auth_part (upd_win f p) = auth_part p" "auth_part (upd_catalog g p) = auth_part p"
  "auth_part (set_timers p) = auth_part p"
  by (simp_all add: auth_part_def upd_win_def upd_catalog_def set_timers_def)

lemma frames_api [intro]: "frames auth_part (apiGet url)"
  by (auto simp: apiGet_def api_request_def split: prod.split)

lemma frames_refresh [intro]:
  "frames auth_part refreshQueues" "frames auth_part refreshGroups" "frames auth_part refreshFlows"
  by (auto simp: refresh_defs refresh_list_def set_catalog_defs
      intro!: frames_try_await frames_try_value frames_api)

lemma frames_polls [intro]:
  "frames auth_part refreshCells" "frames auth_part pollHealth" "frames auth_part pollCluster"
  by (auto simp: refreshCells_def pollHealth_def pollCluster_def auth_part_def upd_session_def
      store_cells_def clear_cells_def health_down_def Let_def
      intro!: frames_try_await frames_try_value frames_api split: reply.split)

lemma run_startApp:
  "auth_part (fst (snd (run srv startApp p w))) = auth_part (set_phase App p)"
proof -
  have "frames auth_part (Spawn refreshCells (Spawn refreshQueues (Spawn refreshGroups (Spawn refreshFlows
      (Spawn pollHealth (Spawn pollCluster (Do set_timers return_undef)))))))"
    by auto
  from run_frames [OF this, of srv "set_phase App p" w] show ?thesis by (simp add: startApp_def)
qed

section \<open>Authentication\<close>

lemma sequential_fetch_json [simp]: "sequential (fetch_json url)"
  by (simp add: fetch_json_def)

text \<open>The configuration in a reply, if there is one.\<close>

definition config_in :: "reply \<Rightarrow> jsval option" where
  "config_in r =
     (case r of
        Response _ _ (Inr t) \<Rightarrow>
          (case json_parse t of Some v \<Rightarrow> if js_nullish v then None else Some v | None \<Rightarrow> None)
      | _ \<Rightarrow> None)"

lemma run_fetch_json:
  "run srv (fetch_json url) p w =
     (case srv (Fetch (plain_get url)) w of (r, w1) \<Rightarrow>
        (case r of Failed e \<Rightarrow> Inl e | Response _ _ text \<Rightarrow> response_json text, p, w1))"
  by (simp add: fetch_json_def split: prod.split)

lemma config_in_json:
  "(case r of Failed e \<Rightarrow> Inl e | Response _ _ text \<Rightarrow> response_json text) = Inr v \<Longrightarrow>
   config_in r = (if js_nullish v then None else Some v)"
  "(case r of Failed e \<Rightarrow> Inl e | Response _ _ text \<Rightarrow> response_json text) = Inl e \<Longrightarrow> config_in r = None"
  by (auto simp: config_in_def response_json_def split: reply.splits sum.splits option.splits)

definition auth_url :: "'a panel_scheme \<Rightarrow> jstring" where
  "auth_url p = publicUrl (js ''/v1/auth/config'') (win (begin_auth p))"

text \<open>\<open>initAuth\<close> in three steps: two configurations, then the decision.\<close>

lemma run_initAuth:
  assumes "srv (Fetch (plain_get (auth_url p))) w = (r1, w1)"
    and "srv (Fetch (plain_get (auth_url p))) w1 = (r2, w2)"
  shows "fst (snd (run srv initAuth p w)) =
     (case (config_in r1, config_in r2) of
        (Some a, Some b) \<Rightarrow>
          if auth_differs a b then
            upd_session (\<lambda>s. s\<lparr>s_splitAuth := True, s_phase := Gate, s_auth := a,
              s_gateMessage := split_message\<rparr>) (begin_auth p)
          else fst (snd (run srv (auth_decide a) (begin_auth p) w2))
      | _ \<Rightarrow> unreachable (begin_auth p))"
proof -
  let ?j1 = "case r1 of Failed e \<Rightarrow> Inl e | Response _ _ text \<Rightarrow> response_json text"
  let ?j2 = "case r2 of Failed e \<Rightarrow> Inl e | Response _ _ text \<Rightarrow> response_json text"
  have f1: "run srv (fetch_json (auth_url p)) (begin_auth p) w = (?j1, begin_auth p, w1)"
    and f2: "run srv (fetch_json (auth_url p)) (begin_auth p) w1 = (?j2, begin_auth p, w2)"
    using assms by (simp_all add: run_fetch_json)
  show ?thesis
  proof (cases ?j1)
    case (Inl e)
    then show ?thesis using f1 config_in_json(2) [OF Inl]
      by (simp add: initAuth_def auth_url_def run_try_await)
  next
    case j1: (Inr a)
    show ?thesis
    proof (cases ?j2)
      case (Inl e)
      then show ?thesis using f1 f2 j1 config_in_json(2) [OF Inl]
        by (simp add: initAuth_def auth_url_def run_try_await split: option.split)
    next
      case (Inr b)
      then show ?thesis using f1 f2 j1 config_in_json(1) [OF j1] config_in_json(1) [OF Inr]
        by (simp add: initAuth_def auth_url_def run_try_await)
    qed
  qed
qed

text \<open>The state in which the token is tried, and the request that tries it.\<close>

definition trying :: "jsval \<Rightarrow> 'a panel_scheme \<Rightarrow> 'a panel_scheme" where
  "trying a p = upd_session (\<lambda>s. s\<lparr>s_auth := a\<rparr>) (begin_auth p)"

definition try_token :: "'a panel_scheme proc" where
  "try_token = Read (\<lambda>p. apiGet (publicUrl (js ''/v1/queues'') (win p)))"

lemma session_begin_auth [simp]:
  "session (begin_auth p) = (session p)\<lparr>s_phase := Loading, s_splitAuth := False, s_gateMessage := []\<rparr>"
  by (simp add: begin_auth_def)

lemma external_begin_auth [simp]: "isExternalAuth (win (begin_auth p)) = isExternalAuth (win p)"
  by (simp add: begin_auth_def isExternalAuth_def applyTheme_def Let_def)

lemma auth_part_run: "frames auth_part q \<Longrightarrow> run srv q p w = (r, p1, w1) \<Longrightarrow> auth_part p1 = auth_part p"
  using run_frames [of auth_part q srv p w] by simp

lemma phase_startApp: "s_phase (session (fst (snd (run srv startApp p w)))) = App"
  using run_startApp [of srv p w] by (simp add: auth_part_def set_phase_def Let_def)

text \<open>What follows when the two configurations agree.\<close>

lemma run_auth_decide:
  "fst (snd (run srv (auth_decide a) (begin_auth p) w)) =
     (if isExternalAuth (win p) \<and> opt_prop a ''mode'' = jlit ''control_plane''
      then fst (snd (run srv startApp (trying a p) w))
      else if \<not> truthy (opt_prop a ''configured'') then set_phase Setup (setToken [] (trying a p))
      else if s_token (session p) = [] then set_phase Gate (trying a p)
      else case run srv try_token (trying a p) w of
             (Inl e, p1, w1) \<Rightarrow> reject_token e p1
           | (Inr v, p1, w1) \<Rightarrow> fst (snd (run srv startApp p1 w1)))"
  by (simp add: auth_decide_def trying_def [symmetric] try_token_def run_try_await split: prod.split sum.split)
    (simp add: trying_def)


text \<open>A broker without a password, as a server that always gives the same answer.\<close>

definition unconfigured :: "query \<Rightarrow> nat \<Rightarrow> reply \<times> nat" where
  "unconfigured q n =
     (Response 200 [] (Inr (js ''{'' @ [0x22] @ js ''configured'' @ [0x22] @ js '':false}'')), Suc n)"


text \<open>
  C6: a token that the broker refuses is forgotten: the session ends at the gate, without a token, with the
  message of the refusal, and the token store has no token for the base URL any more.
\<close>

lemma authHeaders_migrated: "migrated b \<Longrightarrow> snd (authHeaders b) = b"
  by (simp add: authHeaders_def migrated_loadSavedToken Let_def)

lemma migrated_applyTheme: "migrated b \<Longrightarrow> migrated (applyTheme m b)"
proof -
  have "THEME_KEY \<noteq> LEGACY_TOKEN_KEY" by code_simp
  moreover have "tokenStorageKey base \<noteq> THEME_KEY" for base
    by (simp add: tokenStorageKey_def THEME_KEY_def TOKEN_PREFIX_def js_def)
  ultimately show "migrated b \<Longrightarrow> migrated (applyTheme m b)"
    by (auto simp: migrated_def applyTheme_def Let_def)
qed

lemma run_try_token:
  assumes "migrated (win q)" and "run srv try_token q w = (r, p1, w1)"
  shows "p1 = q"
proof -
  obtain a where a: "authHeaders (win q) = (a, win q)"
    using authHeaders_migrated [OF assms(1)] by (metis prod.collapse)
  have "upd_win (\<lambda>_. win q) q = q" by (simp add: upd_win_def)
  with assms(2) a show ?thesis
    by (auto simp: try_token_def apiGet_def api_request_def split: if_splits prod.splits)
qed

theorem initAuth_rejects:
  assumes "srv (Fetch (plain_get (auth_url p))) w = (r1, w1)"
    and "srv (Fetch (plain_get (auth_url p))) w1 = (r2, w2)"
    and "config_in r1 = Some a" and "config_in r2 = Some b" and "\<not> auth_differs a b"
    and "truthy (opt_prop a ''configured'')" and "\<not> isExternalAuth (win p)"
    and "s_token (session p) \<noteq> []" and "migrated (win p)"
    and "run srv try_token (trying a p) w2 = (Inl e, p1, w3)"
    and "p' = fst (snd (run srv initAuth p w))"
  shows "s_phase (session p') = Gate \<and> s_token (session p') = [] \<and> s_gateMessage (session p') = gate_text e \<and>
     fst (loadSavedToken (s_apiBase (session p)) (win p')) = []"
proof -
  have p': "p' = reject_token e p1"
    unfolding assms(11) run_initAuth [of srv, OF assms(1,2)] run_auth_decide using assms by simp
  have m: "migrated (win (trying a p))"
    using assms(9) by (simp add: trying_def begin_auth_def migrated_applyTheme)
  have p1: "p1 = trying a p" using run_try_token [OF m assms(10)] .
  have "fst (loadSavedToken (s_apiBase (session p)) (saveToken (s_apiBase (session p)) [] (win (trying a p)))) = []"
    using panel_tokens.load_save [OF m] by (simp add: normalizeToken_def bearer_prefixed_def)
  then show ?thesis by (simp add: p' p1 session_defs trying_def)
qed

text \<open>A configured broker that refuses every token.\<close>

definition refusing :: "query \<Rightarrow> nat \<Rightarrow> reply \<times> nat" where
  "refusing q n =
     (if n < 2 then Response 200 [] (Inr (js ''{'' @ [0x22] @ js ''configured'' @ [0x22] @ js '':true}''))
      else Response 401 (js ''Unauthorized'') (Inr []), Suc n)"

theorem initAuth_rejects_witness:
  "s_gateMessage (session (fst (snd (run refusing initAuth
     (upd_session (\<lambda>s. s\<lparr>s_token := js ''sk_local_1''\<rparr>) (panel_on (fresh_page (js ''http://a'')))) 0)))) =
   js ''Unauthorized''"
proof -
  let ?p = "upd_session (\<lambda>s. s\<lparr>s_token := js ''sk_local_1''\<rparr>) (panel_on (fresh_page (js ''http://a'')))"
  let ?a = "JObj [(js ''configured'', JBool True)]"
  let ?r = "Response 200 [] (Inr (js ''{'' @ [0x22] @ js ''configured'' @ [0x22] @ js '':true}''))"
  have c: "config_in ?r = Some ?a" by code_simp
  have m: "migrated (win (trying ?a ?p))"
    by (simp add: trying_def begin_auth_def migrated_applyTheme)
  have "get_item SessionStore k (win (trying ?a ?p)) = None" for k
    by (simp add: trying_def begin_auth_def applyTheme_def Let_def)
  then have "authHeaders (win (trying ?a ?p)) = ([], win (trying ?a ?p))"
    by (simp add: authHeaders_def migrated_loadSavedToken [OF m] opt_or_def normalizeToken_def bearer_prefixed_def)
  then have t: "run refusing try_token (trying ?a ?p) 2 =
      (Inl (ApiError (js ''Unauthorized'') 401 JNull), upd_win (\<lambda>_. win (trying ?a ?p)) (trying ?a ?p), 3)"
    by (simp add: try_token_def apiGet_def api_request_def refusing_def settle_def parse_response_def
        status_ok_def failure_message_def)
  have d: "\<not> auth_differs ?a ?a" by (simp add: auth_differs_def)
  show ?thesis
    using initAuth_rejects [OF _ _ c c d _ _ _ _ t refl, of 0 1]
    by (simp add: refusing_def gate_text_def isExternalAuth_def panel_on_def)
qed

text \<open>
  C12: a refresh of the cells leaves the selection on a registered cell: whenever the registry has cells
  and each has a textual id, the selected id is the id of one of them. An unregistered selection moves to the first.
\<close>

theorem refreshCells_selection:
  assumes "run srv (apiGet (adminUrl (js ''/cells'') (win p))) p w = (Inr reg, p1, w1)"
    and "opt_prop reg ''cells'' = JArr cells" and "cells \<noteq> []"
    and "\<forall>c\<in>set cells. \<exists>i. opt_prop c ''id'' = JStr i \<and> i \<noteq> []"
  shows "\<exists>p2. run srv refreshCells p w = (Inr JUndef, p2, w1) \<and> s_cells (session p2) = cells \<and>
     (\<exists>c\<in>set cells. opt_prop c ''id'' = JStr (s_selectedCellId (session p2))) \<and>
     opt_prop (selectedCell (session p2)) ''id'' = JStr (s_selectedCellId (session p2)) \<and>
     (find_cell (s_selectedCellId (session p1)) cells \<noteq> None \<longrightarrow>
        s_selectedCellId (session p2) = s_selectedCellId (session p1))"
proof -
  let ?s = "store_cells (JArr cells) (opt_prop reg ''members'') (session p1)"
  have reg: "get_prop reg ''cells'' = Inr (JArr cells)"
    using assms(2) by (cases reg) (auto simp: get_prop_def js_nullish_def)
  have run: "run srv refreshCells p w =
      (Inr JUndef, upd_session (store_cells (JArr cells) (opt_prop reg ''members'')) p1, w1)"
    using assms(1) reg by (simp add: refreshCells_def run_try_await)
  obtain c cs where cells: "cells = c # cs" using assms(3) by (cases cells) auto
  obtain i where i: "opt_prop c ''id'' = JStr i" "i \<noteq> []" using assms(4) cells by auto
  have sel: "s_cells ?s = cells \<and> find_cell (s_selectedCellId ?s) cells \<noteq> None"
    using i cells by (auto simp: store_cells_def Let_def js_or_def find_cell_def)
  then obtain d where d: "find_cell (s_selectedCellId ?s) cells = Some d" by auto
  then have "d \<in> set cells" "opt_prop d ''id'' = JStr (s_selectedCellId ?s)"
    by (auto simp: find_cell_def find_Some_iff)
  moreover have "selectedCell ?s = d" using d sel by (simp add: selectedCell_def)
  moreover have "find_cell (s_selectedCellId (session p1)) cells \<noteq> None \<longrightarrow>
      s_selectedCellId ?s = s_selectedCellId (session p1)"
    using cells by (simp add: store_cells_def Let_def js_or_def)
  ultimately show ?thesis using run sel by auto
qed

theorem refreshCells_selection_witness:
  "\<exists>p2. run (\<lambda>_ w. (Response 200 [] (Inr (the (json_stringify (JObj [(js ''cells'', JArr [JObj [(js ''id'', jlit ''a'')]])])))), w))
      refreshCells (panel_on (fresh_page (js ''http://a''))) (0::nat) = (Inr JUndef, p2, 0) \<and>
    s_selectedCellId (session p2) = js ''a''"
proof -
  let ?p = "panel_on (fresh_page (js ''http://a''))"
  let ?reg = "JObj [(js ''cells'', JArr [JObj [(js ''id'', jlit ''a'')]])]"
  let ?srv = "\<lambda>_ w. (Response 200 [] (Inr (the (json_stringify ?reg))), w)"
  have h: "authHeaders (win ?p) = ([], win ?p)"
    by (simp add: authHeaders_def migrated_loadSavedToken opt_or_def normalizeToken_def bearer_prefixed_def)
  have j: "parse_response (the (json_stringify ?reg)) = ?reg" by code_simp
  have r: "run ?srv (apiGet (adminUrl (js ''/cells'') (win ?p))) ?p (0::nat) =
      (Inr ?reg, upd_win (\<lambda>_. win ?p) ?p, 0)"
    using h j by (simp add: apiGet_def api_request_def settle_def status_ok_def)
  show ?thesis
    using refreshCells_selection [OF r, of "[JObj [(js ''id'', jlit ''a'')]]"] by auto
qed

text \<open>
  C30: the hint of the setup page names the whole minutes that are left, rounded up, and never less than
  one: with \<open>m\<close> minutes shown, at most \<open>60 * m\<close> seconds are left and, unless the time is over, more than
  \<open>60 * (m - 1)\<close>. The plural is used for every number but one.
\<close>

theorem setupHint_minutes:
  assumes "truthy (opt_prop cfg ''setup_open'')" and "opt_prop cfg ''setup_closes_in_secs'' = jint s"
    and "0 \<le> s" and "s < 2 ^ 30"
  shows "\<exists>m. setupHint cfg = js ''Open for about '' @ show_int m @ js '' more minute'' @
        (if m = 1 then [] else js ''s'') @ js ''. Then restart BetterMQ to open setup again.'' \<and>
     1 \<le> m \<and> s \<le> 60 * m \<and> (0 < s \<longrightarrow> 60 * (m - 1) < s)"
proof -
  have cfg: "truthy cfg" using assms(1) by (cases cfg) auto
  define m where "m = max 1 \<lceil>of_int s / 60 :: rat\<rceil>"
  have q: "of_int s / 60 < (2 ^ 30 :: rat)"
  proof -
    have "of_int s < (of_int (2 ^ 30) :: rat)" using assms(4) by (simp only: of_int_less_iff)
    then show ?thesis by simp
  qed
  have "num_ceil (num_div (Num (of_int s)) 60) = Num (of_int \<lceil>of_int s / 60 :: rat\<rceil>)"
    using ceil_div_exact [of s 60] assms(3) q by (cases "s = 0") (simp_all add: fl_def)
  then have mins: "max_num 1 (num_ceil (num_div (Num (of_int s)) 60)) = Num (of_int m)"
    by (auto simp: max_num_def m_def max_def)
  have bounds: "1 \<le> m \<and> s \<le> 60 * m \<and> (0 < s \<longrightarrow> 60 * (m - 1) < s)"
  proof -
    have "s \<le> 60 * \<lceil>of_int s / 60 :: rat\<rceil>" "60 * (\<lceil>of_int s / 60 :: rat\<rceil> - 1) < s"
      using ceil_quotient [of 60 s] by simp_all
    then show ?thesis using assms(3) by (auto simp: m_def max_def)
  qed
  have "m \<le> 2 ^ 53"
    using bounds assms(3,4) by (cases "s = 0") (simp_all add: m_def)
  then have "num_string (Num (of_int m)) = show_int m" using bounds by (intro num_string_of_int) simp
  then have "setupHint cfg = js ''Open for about '' @ show_int m @ js '' more minute'' @
        (if m = 1 then [] else js ''s'') @ js ''. Then restart BetterMQ to open setup again.''"
    using assms(1,2) cfg mins by (simp add: setupHint_def Let_def)
  then show ?thesis using bounds by blast
qed

theorem setupHint_minutes_witness:
  "setupHint (JObj [(js ''setup_open'', JBool True), (js ''setup_closes_in_secs'', jint 61)]) =
   js ''Open for about 2 more minutes. Then restart BetterMQ to open setup again.''"
proof -
  let ?c = "JObj [(js ''setup_open'', JBool True), (js ''setup_closes_in_secs'', jint 61)]"
  obtain m where m: "setupHint ?c = js ''Open for about '' @ show_int m @ js '' more minute'' @
        (if m = 1 then [] else js ''s'') @ js ''. Then restart BetterMQ to open setup again.''"
      "1 \<le> m" "61 \<le> 60 * m" "60 * (m - 1) < 61"
    using setupHint_minutes [of ?c 61] by auto
  then have "m = 2" by simp
  moreover have "show_int 2 = js ''2''" by code_simp
  ultimately show ?thesis using m(1) by (simp add: js_append [symmetric])
qed

end
