(* ===== verification/Vue_Template.thy ===== *)
theory Vue_Template
  imports Panel_Session
begin

text \<open>
  Templates. A component's template is a function from its state to a tree of elements and text, as
  the framework's compiler turns it into one. An element keeps the tag of the source (of an HTML
  element or of a component), its attributes and bindings, its listeners and its default slot.
  \<open>v-if\<close> chains and \<open>v-for\<close> are conditionals and maps on the list of children; \<open>v-model\<close> is a
  binding of \<open>modelValue\<close> with a listener of \<open>update:modelValue\<close>. A listener carries the event of the
  component's script it triggers. White space in text is condensed as the compiler does it.
\<close>

section \<open>Trees\<close>

datatype 'e listener = On 'e | OnValue "jsval \<Rightarrow> 'e"

datatype 'e vnode =
    VText jstring
  | VEl string "(string \<times> jsval) list" "(string \<times> 'e listener) list" "'e vnode list"

text \<open>\<open>{{ v }}\<close>: \<open>null\<close> and \<open>undefined\<close> show as nothing, arrays and objects as indented JSON.\<close>

definition interp :: "jsval \<Rightarrow> jstring" where
  "interp v =
     (case v of
        JUndef \<Rightarrow> []
      | JNull \<Rightarrow> []
      | JArr xs \<Rightarrow> opt_or (json_pretty v) []
      | JObj kvs \<Rightarrow> opt_or (json_pretty v) []
      | _ \<Rightarrow> to_string v)"

section \<open>What a tree offers\<close>

definition is_disabled :: "(string \<times> jsval) list \<Rightarrow> bool" where
  "is_disabled attrs = (case map_of attrs ''disabled'' of None \<Rightarrow> False | Some v \<Rightarrow> truthy v)"

fun listens :: "'e listener \<Rightarrow> 'e \<Rightarrow> bool" where
  "listens (On e') e = (e' = e)"
| "listens (OnValue f) e = (\<exists>v. f v = e)"

text \<open>\<open>offers t e\<close>: some element of \<open>t\<close> that is not disabled listens for something that triggers \<open>e\<close>.\<close>

primrec offers :: "'e vnode \<Rightarrow> 'e \<Rightarrow> bool" where
  "offers (VText s) = (\<lambda>e. False)"
| "offers (VEl tag attrs ls cs) =
     (\<lambda>e. (\<not> is_disabled attrs \<and> (\<exists>l\<in>set ls. listens (snd l) e)) \<or> (\<exists>f\<in>set (map offers cs). f e))"

definition offered :: "'e vnode list \<Rightarrow> 'e \<Rightarrow> bool" where
  "offered ts e \<longleftrightarrow> (\<exists>t\<in>set ts. offers t e)"

text \<open>The plain events of a tree, in document order, disabled elements left out.\<close>

primrec clicks :: "'e vnode \<Rightarrow> 'e list" where
  "clicks (VText s) = []"
| "clicks (VEl tag attrs ls cs) =
     (if is_disabled attrs then []
      else concat (map (\<lambda>l. case snd l of On e \<Rightarrow> [e] | OnValue _ \<Rightarrow> []) ls)) @
     concat (map clicks cs)"

text \<open>The text of a tree, in document order.\<close>

primrec texts :: "'e vnode \<Rightarrow> jstring list" where
  "texts (VText s) = [s]"
| "texts (VEl tag attrs ls cs) = concat (map texts cs)"

definition page_texts :: "'e vnode list \<Rightarrow> jstring list" where
  "page_texts ts = concat (map texts ts)"

definition page_clicks :: "'e vnode list \<Rightarrow> 'e list" where
  "page_clicks ts = concat (map clicks ts)"

text \<open>The elements of a tree with a given tag.\<close>

primrec tagged :: "string \<Rightarrow> 'e vnode \<Rightarrow> 'e vnode list" where
  "tagged t (VText s) = []"
| "tagged t (VEl tag attrs ls cs) =
     (if tag = t then [VEl tag attrs ls cs] else []) @ concat (map (tagged t) cs)"

lemma offers_VText [simp]: "offers (VText s) e = False"
  by simp

lemma offers_VEl [simp]:
  "offers (VEl tag attrs ls cs) e \<longleftrightarrow>
     \<not> is_disabled attrs \<and> (\<exists>l\<in>set ls. listens (snd l) e) \<or> offered cs e"
  by (simp add: offered_def)

declare offers.simps [simp del]

lemma offered_simps [simp]:
  "offered [] e = False" "offered (t # ts) e \<longleftrightarrow> offers t e \<or> offered ts e"
  "offered (xs @ ys) e \<longleftrightarrow> offered xs e \<or> offered ys e"
  "offered (if c then xs else ys) e = (if c then offered xs e else offered ys e)"
  by (auto simp: offered_def)

lemma offered_map [simp]: "offered (map f xs) e \<longleftrightarrow> (\<exists>x\<in>set xs. offers (f x) e)"
  by (simp add: offered_def)

lemma offered_concat: "offered (concat tss) e \<longleftrightarrow> (\<exists>ts\<in>set tss. offered ts e)"
  by (auto simp: offered_def)

lemma page_texts_simps [simp]:
  "page_texts [] = []" "page_texts (t # ts) = texts t @ page_texts ts"
  "page_texts (xs @ ys) = page_texts xs @ page_texts ys"
  by (simp_all add: page_texts_def)

lemma page_clicks_simps [simp]:
  "page_clicks [] = []" "page_clicks (t # ts) = clicks t @ page_clicks ts"
  "page_clicks (xs @ ys) = page_clicks xs @ page_clicks ys"
  by (simp_all add: page_clicks_def)

lemma texts_VEl [simp]: "texts (VEl tag attrs ls cs) = page_texts cs"
  by (simp add: page_texts_def)

lemma clicks_VEl [simp]:
  "clicks (VEl tag attrs ls cs) =
     (if is_disabled attrs then []
      else concat (map (\<lambda>l. case snd l of On e \<Rightarrow> [e] | OnValue _ \<Rightarrow> []) ls)) @ page_clicks cs"
  by (simp add: page_clicks_def)

declare texts.simps(2) [simp del] clicks.simps(2) [simp del]

lemma is_disabled_simps [simp]:
  "is_disabled [] = False"
  "is_disabled ((k, v) # as) = (if k = ''disabled'' then truthy v else is_disabled as)"
  by (simp_all add: is_disabled_def)

section \<open>Pages\<close>

text \<open>
  The contract of a page's script with the browser: from any state of the page, whatever other handlers
  do meanwhile, each of its handlers keeps the page and sends requests to the page's own origin only.
  What follows holds in every state that the event loop reaches with events in any order.
\<close>

locale page_script =
  fixes handler :: "'e \<Rightarrow> 'a panel_scheme proc"
  assumes handler_stays: "stays (on_page b0) (own_origin b0) (handler e)"
begin

lemma any_handler_keeps: "on_page b0 s \<Longrightarrow> keeps (on_page b0) (own_origin b0) (handler e) s"
  by (rule staysD [OF handler_stays])

end

sublocale page_script \<subseteq> page_loop: event_loop "\<lambda>_ _. True" handler "on_page b0" "own_origin b0" for b0
  by unfold_locales (rule any_handler_keeps)

text \<open>Every request that is ever pending goes to the page's origin.\<close>

definition confined :: "browser \<Rightarrow> ('e \<Rightarrow> 'a panel_scheme proc) \<Rightarrow> bool" where
  "confined b0 handler \<longleftrightarrow>
     (\<forall>s0 s pool p q. on_page b0 s0 \<longrightarrow> loop_reach (\<lambda>_ _. True) handler s0 (s, pool) \<longrightarrow>
        p \<in> set pool \<longrightarrow> q \<in> set (pending p) \<longrightarrow> own_origin b0 q)"

context page_script
begin

lemma handler_confined: "confined b0 handler"
  unfolding confined_def by (blast intro: page_loop.reach_queries)

end

end
