(* ===== verification/Ui_Base.thy ===== *)
theory Ui_Base
  imports Vue_Template "HOL-Library.Sublist"
begin

text \<open>
  What the components of \<open>components/ui\<close> share. A component is a function of what its parent hands it
  (attributes, listeners, slots) to elements. Attributes that are not declared as its properties fall
  through to its root, where they replace the root's own; a class and a style are combined with the root's.
  The packages that the components call, and the framework's combination of classes and of styles, are the
  fields of an environment: \<open>clsx\<close> and \<open>twMerge\<close> (of which \<open>lib/utils.ts\<close> makes \<open>cn\<close>), \<open>cva\<close>, and the
  properties that an interface of the package behind a component declares. Elements of that package keep
  their tags. A property of the package that is not given, and has no default here, is left out.
\<close>

section \<open>Maps and sets\<close>

text \<open>\<open>Map\<close> and \<open>Set\<close> of the language, as lists in the order of insertion.\<close>

definition set_add :: "'a list \<Rightarrow> 'a \<Rightarrow> 'a list" where
  "set_add s x = (if x \<in> set s then s else s @ [x])"

fun map_set :: "('k \<times> 'v) list \<Rightarrow> 'k \<Rightarrow> 'v \<Rightarrow> ('k \<times> 'v) list" where
  "map_set [] k v = [(k, v)]"
| "map_set ((k', w) # m) k v = (if k' = k then (k, v) # m else (k', w) # map_set m k v)"

definition map_delete :: "('k \<times> 'v) list \<Rightarrow> 'k \<Rightarrow> ('k \<times> 'v) list" where
  "map_delete m k = filter (\<lambda>kv. fst kv \<noteq> k) m"

lemma map_of_map_set [simp]: "map_of (map_set m k v) = (map_of m)(k \<mapsto> v)"
  by (induction m k v rule: map_set.induct) auto

lemma keys_map_set: "set (map fst (map_set m k v)) = insert k (set (map fst m))"
  by (induction m k v rule: map_set.induct) auto

lemma distinct_map_set: "distinct (map fst m) \<Longrightarrow> distinct (map fst (map_set m k v))"
proof (induction m k v rule: map_set.induct)
  case (2 k' w m k v)
  then show ?case using keys_map_set [of m k v] by auto
qed simp

lemma map_of_map_delete [simp]: "map_of (map_delete m k) = (map_of m)(k := None)"
  by (induction m) (auto simp: map_delete_def)

section \<open>Instances\<close>

type_synonym attrs = "(string \<times> jsval) list"

record 'e inst =
  i_attrs :: attrs
  i_on :: "(string \<times> 'e listener) list"
  i_slot :: "'e vnode list"
  i_named :: "(string \<times> 'e vnode list) list"

type_synonym 'e ui = "'e inst \<Rightarrow> 'e vnode list"

abbreviation inst :: "attrs \<Rightarrow> (string \<times> 'e listener) list \<Rightarrow> 'e vnode list \<Rightarrow> 'e inst" where
  "inst as ls cs \<equiv> \<lparr>i_attrs = as, i_on = ls, i_slot = cs, i_named = []\<rparr>"

record kit_env =
  clsx :: "jsval list \<Rightarrow> jsval"
  twMerge :: "jsval \<Rightarrow> jsval"
  cva :: "jsval \<Rightarrow> jsval \<Rightarrow> jsval \<Rightarrow> jsval"
  join_class :: "jsval \<Rightarrow> jsval \<Rightarrow> jsval"
  join_style :: "jsval \<Rightarrow> jsval \<Rightarrow> jsval"
  lib_props :: "string \<Rightarrow> string list"

definition cn :: "kit_env \<Rightarrow> jsval list \<Rightarrow> jsval" where
  "cn E inputs = twMerge E (clsx E inputs)"

text \<open>Attribute names in a template are hyphenated, properties are not.\<close>

definition up_char :: "char \<Rightarrow> char" where
  "up_char c = (let n = of_char c :: nat in if 97 \<le> n \<and> n \<le> 122 then char_of (n - 32) else c)"

definition word_char :: "char \<Rightarrow> bool" where
  "word_char c \<longleftrightarrow> (let n = of_char c :: nat in
     (48 \<le> n \<and> n \<le> 57) \<or> (65 \<le> n \<and> n \<le> 90) \<or> n = 95 \<or> (97 \<le> n \<and> n \<le> 122))"

fun camelize :: "string \<Rightarrow> string" where
  "camelize [] = []"
| "camelize [c] = [c]"
| "camelize (c # d # s) =
     (if c = CHR ''-'' \<and> word_char d then up_char d # camelize s else c # camelize (d # s))"

definition attr :: "attrs \<Rightarrow> string \<Rightarrow> jsval" where
  "attr as p = (case find (\<lambda>kv. camelize (fst kv) = p) as of None \<Rightarrow> JUndef | Some kv \<Rightarrow> snd kv)"

text \<open>A property, with the default it has when it is not given, and a property of type boolean.\<close>

definition given :: "'e inst \<Rightarrow> string \<Rightarrow> jsval" where
  "given i p = attr (i_attrs i) p"

definition given_or :: "'e inst \<Rightarrow> string \<Rightarrow> jsval \<Rightarrow> jsval" where
  "given_or i p d = (if given i p = JUndef then d else given i p)"

definition flag :: "'e inst \<Rightarrow> string \<Rightarrow> bool \<Rightarrow> bool" where
  "flag i p d =
     (case given i p of
        JUndef \<Rightarrow> d
      | JStr s \<Rightarrow> True
      | v \<Rightarrow> truthy v)"

definition slot_or :: "'e inst \<Rightarrow> 'e vnode list \<Rightarrow> 'e vnode list" where
  "slot_or i cs = (if i_slot i = [] then cs else i_slot i)"

definition named_or :: "'e inst \<Rightarrow> string \<Rightarrow> 'e vnode list \<Rightarrow> 'e vnode list" where
  "named_or i s cs = (case map_of (i_named i) s of None \<Rightarrow> cs | Some ts \<Rightarrow> ts)"

section \<open>Falling through\<close>

definition joined :: "kit_env \<Rightarrow> string \<Rightarrow> jsval \<Rightarrow> jsval \<Rightarrow> jsval" where
  "joined E k own v =
     (if k = ''class'' then join_class E own v
      else if k = ''style'' then join_style E own v else v)"

definition merge_attrs :: "kit_env \<Rightarrow> attrs \<Rightarrow> attrs \<Rightarrow> attrs" where
  "merge_attrs E own as =
     map (\<lambda>(k, v). (k, case map_of as k of None \<Rightarrow> v | Some w \<Rightarrow> joined E k v w)) own @
     filter (\<lambda>(k, v). k \<notin> fst ` set own) as"

definition rest :: "string list \<Rightarrow> attrs \<Rightarrow> attrs" where
  "rest ps as = filter (\<lambda>(k, v). camelize k \<notin> set ps) as"

definition root :: "kit_env \<Rightarrow> string \<Rightarrow> string list \<Rightarrow> attrs \<Rightarrow> 'e inst \<Rightarrow> 'e vnode list \<Rightarrow> 'e vnode" where
  "root E tag ps own i cs = VEl tag (merge_attrs E own (rest ps (i_attrs i))) (i_on i) cs"

text \<open>A root that is itself a component of the kit is handed what falls through.\<close>

definition passed :: "kit_env \<Rightarrow> string list \<Rightarrow> attrs \<Rightarrow> 'e inst \<Rightarrow> 'e vnode list \<Rightarrow> 'e inst" where
  "passed E ps own i cs = inst (merge_attrs E own (rest ps (i_attrs i))) (i_on i) cs"

definition is_string :: "jsval \<Rightarrow> bool" where
  "is_string v = (case v of JStr s \<Rightarrow> True | _ \<Rightarrow> False)"

section \<open>Transparency\<close>

text \<open>
  What a component is handed to offer: its listeners, unless it is disabled, and what its slot offers. A
  component is transparent when it offers exactly that, events of its own apart, and shows the texts of its
  slot, all of them and in their order. A component without a slot is handed none.
\<close>

definition handed :: "'e inst \<Rightarrow> 'e \<Rightarrow> bool" where
  "handed i e \<longleftrightarrow> \<not> is_disabled (i_attrs i) \<and> (\<exists>l\<in>set (i_on i). listens (snd l) e) \<or> offered (i_slot i) e"

definition transparent :: "('e \<Rightarrow> bool) \<Rightarrow> bool \<Rightarrow> 'e ui \<Rightarrow> bool" where
  "transparent own void c \<longleftrightarrow>
     (\<forall>i. i_named i = [] \<longrightarrow> (void \<longrightarrow> i_slot i = []) \<longrightarrow>
        (\<forall>e. \<not> own e \<longrightarrow> (offered (c i) e \<longleftrightarrow> handed i e)) \<and>
        subseq (page_texts (i_slot i)) (page_texts (c i)))"

lemma camelize_disabled [simp]: "camelize ''disabled'' = ''disabled''"
  by code_simp

lemma map_of_merge_attrs:
  "k \<notin> fst ` set own \<Longrightarrow> map_of (merge_attrs E own as) k = map_of as k"
proof -
  assume k: "k \<notin> fst ` set own"
  then have "map_of (map (\<lambda>(k, v). (k, case map_of as k of None \<Rightarrow> v | Some w \<Rightarrow> joined E k v w)) own) k = None"
    by (force simp: map_of_eq_None_iff)
  moreover have "map_of (filter (\<lambda>(k, v). k \<notin> fst ` set own) as) k = map_of as k"
    using k by (induction as) force+
  ultimately show ?thesis by (simp add: merge_attrs_def map_add_def)
qed

lemma map_of_rest: "camelize k \<notin> set ps \<Longrightarrow> map_of (rest ps as) k = map_of as k"
  by (induction as) (auto simp: rest_def)

lemma disabled_falls [simp]:
  "''disabled'' \<notin> fst ` set own \<Longrightarrow> ''disabled'' \<notin> set ps \<Longrightarrow>
   is_disabled (merge_attrs E own (rest ps as)) = is_disabled as"
  by (simp add: is_disabled_def map_of_merge_attrs map_of_rest)

lemma offers_root [simp]:
  "''disabled'' \<notin> fst ` set own \<Longrightarrow> ''disabled'' \<notin> set ps \<Longrightarrow>
   offers (root E tag ps own i cs) e \<longleftrightarrow>
     \<not> is_disabled (i_attrs i) \<and> (\<exists>l\<in>set (i_on i). listens (snd l) e) \<or> offered cs e"
  by (simp add: root_def)

lemma texts_root [simp]: "texts (root E tag ps own i cs) = page_texts cs"
  by (simp add: root_def)

lemma passed_simps [simp]:
  "''disabled'' \<notin> fst ` set own \<Longrightarrow> ''disabled'' \<notin> set ps \<Longrightarrow>
   is_disabled (i_attrs (passed E ps own i cs)) = is_disabled (i_attrs i)"
  "i_on (passed E ps own i cs) = i_on i" "i_slot (passed E ps own i cs) = cs" "i_named (passed E ps own i cs) = []"
  by (simp_all add: passed_def)

lemma slot_or_simps [simp]:
  "\<not> offered cs e \<Longrightarrow> offered (slot_or i cs) e = offered (i_slot i) e"
  "page_texts cs = [] \<Longrightarrow> page_texts (slot_or i cs) = page_texts (i_slot i)"
  by (auto simp: slot_or_def)

lemma subseq_self_append [simp]: "subseq xs (xs @ ys)"
  by (rule prefix_imp_subseq) simp

lemma subseq_middle [simp]: "subseq xs (ys @ xs @ zs)"
  by (rule sublist_imp_subseq) auto

lemma named_or_simps [simp]: "i_named i = [] \<Longrightarrow> named_or i s cs = cs"
  by (simp add: named_or_def)

section \<open>Expansion\<close>

text \<open>
  A tree with the components of a kit in place of their tags, and the trees in which the components without
  a slot have no children.
\<close>

primrec expand :: "(string \<Rightarrow> 'e ui option) \<Rightarrow> 'e vnode \<Rightarrow> 'e vnode list" where
  "expand kit (VText s) = [VText s]"
| "expand kit (VEl tag as ls cs) =
     (let slot = concat (map (expand kit) cs)
      in case kit tag of None \<Rightarrow> [VEl tag as ls slot] | Some c \<Rightarrow> c (inst as ls slot))"

definition expand_all :: "(string \<Rightarrow> 'e ui option) \<Rightarrow> 'e vnode list \<Rightarrow> 'e vnode list" where
  "expand_all kit ts = concat (map (expand kit) ts)"

primrec void_ok :: "(string \<Rightarrow> bool) \<Rightarrow> 'e vnode \<Rightarrow> bool" where
  "void_ok void (VText s) = True"
| "void_ok void (VEl tag as ls cs) = ((void tag \<longrightarrow> cs = []) \<and> list_all id (map (void_ok void) cs))"

locale ui_kit =
  fixes kit :: "string \<Rightarrow> 'e ui option" and own :: "'e \<Rightarrow> bool" and void :: "string \<Rightarrow> bool"
  assumes kit_transparent: "kit tag = Some c \<Longrightarrow> transparent own (void tag) c"
begin

lemma expand_node:
  "void_ok void t \<Longrightarrow>
   (\<forall>e. \<not> own e \<longrightarrow> (offered (expand kit t) e \<longleftrightarrow> offers t e)) \<and> subseq (texts t) (page_texts (expand kit t))"
proof (induction t)
  case (VEl tag as ls cs)
  let ?slot = "concat (map (expand kit) cs)"
  have IH: "\<And>c e. c \<in> set cs \<Longrightarrow> \<not> own e \<Longrightarrow> offered (expand kit c) e \<longleftrightarrow> offers c e"
    "\<And>c. c \<in> set cs \<Longrightarrow> subseq (texts c) (page_texts (expand kit c))"
    using VEl by (auto simp: list_all_iff)
  have ev: "\<not> own e \<Longrightarrow> offered ?slot e \<longleftrightarrow> offered cs e" for e
    using IH(1) by (auto simp: offered_concat offered_def [of cs])
  have tx: "subseq (page_texts cs) (page_texts ?slot)"
    using IH(2) by (induction cs) (auto intro: list_emb_append_mono)
  show ?case
  proof (cases "kit tag")
    case None
    then show ?thesis using ev tx by simp
  next
    case (Some c)
    have "void tag \<longrightarrow> ?slot = []" using VEl.prems by simp
    then have "(\<forall>e. \<not> own e \<longrightarrow> (offered (c (inst as ls ?slot)) e \<longleftrightarrow> handed (inst as ls ?slot) e)) \<and>
        subseq (page_texts ?slot) (page_texts (c (inst as ls ?slot)))"
      using kit_transparent [OF Some] unfolding transparent_def by (metis inst.select_convs(3,4))
    then show ?thesis using ev subseq_order.trans [OF tx] Some by (simp add: handed_def)
  qed
qed simp

lemma expand_tree:
  assumes "list_all (void_ok void) ts"
  shows "\<not> own e \<Longrightarrow> offered (expand_all kit ts) e \<longleftrightarrow> offered ts e"
    and "subseq (page_texts ts) (page_texts (expand_all kit ts))"
proof -
  have n: "\<And>t. t \<in> set ts \<Longrightarrow> void_ok void t" using assms by (simp add: list_all_iff)
  show "\<not> own e \<Longrightarrow> offered (expand_all kit ts) e \<longleftrightarrow> offered ts e"
    using expand_node [OF n] by (auto simp: expand_all_def offered_concat offered_def [of ts])
  have "\<And>t. t \<in> set ts \<Longrightarrow> subseq (texts t) (page_texts (expand kit t))" using expand_node [OF n] by blast
  then show "subseq (page_texts ts) (page_texts (expand_all kit ts))"
    unfolding expand_all_def by (induction ts) (auto intro: list_emb_append_mono)
qed

end

end
