(* ===== verification/Ui_Content.thy ===== *)
theory Ui_Content
  imports Ui_Base
begin

text \<open>
  The components of \<open>components/ui\<close> that show content and take input: button, badge, alert, avatar,
  breadcrumb, card, empty, label, input, textarea, input group, separator, skeleton, table and scroll area,
  each with its variants of class names. The click handler of \<open>InputGroupAddon\<close> only moves the focus of the
  page and is left out.
\<close>

section \<open>Components\<close>

subsection \<open>button\<close>

definition buttonVariants :: "kit_env \<Rightarrow> jsval \<Rightarrow> jsval" where
  "buttonVariants E = cva E (jlit ''focus-visible:border-ring focus-visible:ring-ring/50 aria-invalid:ring-destructive/20 dark:aria-invalid:ring-destructive/40 aria-invalid:border-destructive dark:aria-invalid:border-destructive/50 rounded-2xl border border-transparent bg-clip-padding text-sm font-medium focus-visible:ring-3 aria-invalid:ring-3 active:not-aria-[haspopup]:translate-y-px [&_svg:not([class*=size-])]:size-4 group/button inline-flex shrink-0 items-center justify-center whitespace-nowrap transition-all outline-none select-none disabled:pointer-events-none disabled:opacity-50 [&_svg]:pointer-events-none [&_svg]:shrink-0'')
     (JObj [(js ''variants'', JObj [(js ''variant'', JObj [(js ''default'', jlit ''bg-primary text-primary-foreground [a]:hover:bg-primary/80''),
        (js ''outline'', jlit ''border-border bg-background hover:bg-muted hover:text-foreground dark:bg-input/30 dark:border-input dark:hover:bg-input/50 aria-expanded:bg-muted aria-expanded:text-foreground''),
        (js ''secondary'', jlit ''bg-secondary text-secondary-foreground hover:bg-secondary/80 aria-expanded:bg-secondary aria-expanded:text-secondary-foreground''),
        (js ''ghost'', jlit ''hover:bg-muted hover:text-foreground dark:hover:bg-muted/50 aria-expanded:bg-muted aria-expanded:text-foreground''),
        (js ''destructive'', jlit ''bg-destructive/10 hover:bg-destructive/20 focus-visible:ring-destructive/20 dark:focus-visible:ring-destructive/40 dark:bg-destructive/20 text-destructive focus-visible:border-destructive/40 dark:hover:bg-destructive/30''),
        (js ''success'', jlit ''bg-success/10 hover:bg-success/20 text-success focus-visible:ring-success/20 dark:bg-success/20 dark:hover:bg-success/30''),
        (js ''warning'', jlit ''bg-warn/10 hover:bg-warn/20 text-warn focus-visible:ring-warn/20 dark:bg-warn/20 dark:hover:bg-warn/30''),
        (js ''link'', jlit ''text-primary underline-offset-4 hover:underline'')]),
        (js ''size'', JObj [(js ''default'', jlit ''h-8 gap-1.5 px-2.5 has-data-[icon=inline-end]:pr-2 has-data-[icon=inline-start]:pl-2''),
        (js ''xs'', jlit ''h-6 gap-1 px-2 text-xs has-data-[icon=inline-end]:pr-1.5 has-data-[icon=inline-start]:pl-1.5 [&_svg:not([class*=size-])]:size-3''),
        (js ''sm'', jlit ''h-7 gap-1 px-2.5 text-[0.8rem] has-data-[icon=inline-end]:pr-1.5 has-data-[icon=inline-start]:pl-1.5 [&_svg:not([class*=size-])]:size-3.5''),
        (js ''lg'', jlit ''h-9 gap-1.5 px-2.5 has-data-[icon=inline-end]:pr-2 has-data-[icon=inline-start]:pl-2''),
        (js ''icon'', jlit ''size-8''),
        (js ''icon-xs'', jlit ''size-6 [&_svg:not([class*=size-])]:size-3''),
        (js ''icon-sm'', jlit ''size-7''),
        (js ''icon-lg'', jlit ''size-9'')])]),
        (js ''defaultVariants'', JObj [(js ''variant'', jlit ''default''),
        (js ''size'', jlit ''default'')])])"

definition ui_button :: "kit_env \<Rightarrow> 'e ui" where
  "ui_button E i =
     [root E ''Primitive'' [''variant'', ''size'', ''class'', ''as'', ''asChild'']
          [(''data-slot'', jlit ''button''),
           (''data-variant'', given i ''variant''),
           (''data-size'', given i ''size''),
           (''as'', given_or i ''as'' (jlit ''button'')),
           (''as-child'', given i ''asChild''),
           (''class'', cn E [buttonVariants E (JObj [(js ''variant'', given i ''variant''), (js ''size'', given i ''size'')]), given i ''class''])] i
          (i_slot i)]"

subsection \<open>badge\<close>

definition badgeVariants :: "kit_env \<Rightarrow> jsval \<Rightarrow> jsval" where
  "badgeVariants E = cva E (jlit ''h-5 gap-1 rounded-4xl border border-transparent px-2 py-0.5 text-xs font-medium transition-all has-data-[icon=inline-end]:pr-1.5 has-data-[icon=inline-start]:pl-1.5 [&>svg]:size-3! group/badge inline-flex w-fit shrink-0 items-center justify-center overflow-hidden whitespace-nowrap focus-visible:border-ring focus-visible:ring-3 focus-visible:ring-ring/50 aria-invalid:border-destructive aria-invalid:ring-destructive/20 dark:aria-invalid:ring-destructive/40 [&>svg]:pointer-events-none'')
     (JObj [(js ''variants'', JObj [(js ''variant'', JObj [(js ''default'', jlit ''bg-primary text-primary-foreground [a]:hover:bg-primary/80''),
        (js ''secondary'', jlit ''bg-secondary text-secondary-foreground [a]:hover:bg-secondary/80''),
        (js ''destructive'', jlit ''bg-destructive/10 [a]:hover:bg-destructive/20 focus-visible:ring-destructive/20 dark:focus-visible:ring-destructive/40 text-destructive dark:bg-destructive/20''),
        (js ''outline'', jlit ''border-border text-foreground [a]:hover:bg-muted [a]:hover:text-muted-foreground''),
        (js ''ghost'', jlit ''hover:bg-muted hover:text-muted-foreground dark:hover:bg-muted/50''),
        (js ''link'', jlit ''text-primary underline-offset-4 hover:underline'')])]),
        (js ''defaultVariants'', JObj [(js ''variant'', jlit ''default'')])])"

definition ui_badge :: "kit_env \<Rightarrow> 'e ui" where
  "ui_badge E i =
     [root E ''Primitive'' [''class'']
          [(''data-slot'', jlit ''badge''),
           (''data-variant'', given i ''variant''),
           (''class'', cn E [badgeVariants E (JObj [(js ''variant'', given i ''variant'')]), given i ''class''])] i
          (i_slot i)]"

subsection \<open>alert\<close>

definition alertVariants :: "kit_env \<Rightarrow> jsval \<Rightarrow> jsval" where
  "alertVariants E = cva E (jlit ''grid gap-0.5 rounded-2xl border px-3 py-2 text-left text-sm has-data-[slot=alert-action]:relative has-data-[slot=alert-action]:pr-18 has-[>svg]:grid-cols-[auto_1fr] has-[>svg]:gap-x-2 *:[svg]:row-span-2 *:[svg]:translate-y-0.5 *:[svg]:text-current *:[svg:not([class*=size-])]:size-4 group/alert relative w-full'')
     (JObj [(js ''variants'', JObj [(js ''variant'', JObj [(js ''default'', jlit ''bg-card text-card-foreground''),
        (js ''destructive'', jlit ''text-destructive bg-card *:data-[slot=alert-description]:text-destructive/90 *:[svg]:text-current'')])]),
        (js ''defaultVariants'', JObj [(js ''variant'', jlit ''default'')])])"

definition ui_alert :: "kit_env \<Rightarrow> 'e ui" where
  "ui_alert E i =
     [root E ''div'' [''class'', ''variant'']
          [(''data-slot'', jlit ''alert''),
           (''class'', cn E [alertVariants E (JObj [(js ''variant'', given i ''variant'')]), given i ''class'']),
           (''role'', jlit ''alert'')] i
          (i_slot i)]"

definition ui_alert_action :: "kit_env \<Rightarrow> 'e ui" where
  "ui_alert_action E i =
     [root E ''div'' [''class'']
          [(''data-slot'', jlit ''alert-action''),
           (''class'', cn E [jlit ''absolute top-2 right-2'', given i ''class''])] i
          (i_slot i)]"

definition ui_alert_description :: "kit_env \<Rightarrow> 'e ui" where
  "ui_alert_description E i =
     [root E ''div'' [''class'']
          [(''data-slot'', jlit ''alert-description''),
           (''class'', cn E [jlit ''text-muted-foreground text-sm text-balance md:text-pretty [&_p:not(:last-child)]:mb-4 [&_a]:underline [&_a]:underline-offset-3 [&_a]:hover:text-foreground'', given i ''class''])] i
          (i_slot i)]"

definition ui_alert_title :: "kit_env \<Rightarrow> 'e ui" where
  "ui_alert_title E i =
     [root E ''div'' [''class'']
          [(''data-slot'', jlit ''alert-title''),
           (''class'', cn E [jlit ''font-medium group-has-[>svg]/alert:col-start-2 cn-font-heading [&_a]:underline [&_a]:underline-offset-3 [&_a]:hover:text-foreground'', given i ''class''])] i
          (i_slot i)]"

subsection \<open>avatar\<close>

definition avatarVariants :: "kit_env \<Rightarrow> jsval \<Rightarrow> jsval" where
  "avatarVariants E = cva E (jlit ''size-8 rounded-full after:rounded-full data-[size=lg]:size-10 data-[size=sm]:size-6 group/avatar relative flex shrink-0 select-none after:absolute after:inset-0 after:border after:border-border after:mix-blend-darken dark:after:mix-blend-lighten'')
     (JObj [(js ''variants'', JObj [(js ''size'', JObj [(js ''sm'', JStr []),
        (js ''default'', JStr []),
        (js ''lg'', JStr [])])]),
        (js ''defaultVariants'', JObj [(js ''size'', jlit ''default'')])])"

definition ui_avatar :: "kit_env \<Rightarrow> 'e ui" where
  "ui_avatar E i =
     [root E ''AvatarRoot'' [''class'', ''size'']
          [(''data-slot'', jlit ''avatar''),
           (''data-size'', js_coalesce (given i ''size'') (jlit ''default'')),
           (''class'', cn E [avatarVariants E (JObj [(js ''size'', given i ''size'')]), given i ''class''])] i
          (i_slot i)]"

definition ui_avatar_badge :: "kit_env \<Rightarrow> 'e ui" where
  "ui_avatar_badge E i =
     [root E ''span'' [''class'']
          [(''data-slot'', jlit ''avatar-badge''),
           (''class'', cn E [jlit ''bg-primary text-primary-foreground ring-background absolute right-0 bottom-0 z-10 inline-flex items-center justify-center rounded-full bg-blend-color ring-2 select-none'', jlit ''group-data-[size=sm]/avatar:size-2 group-data-[size=sm]/avatar:[&>svg]:hidden'', jlit ''group-data-[size=default]/avatar:size-2.5 group-data-[size=default]/avatar:[&>svg]:size-2'', jlit ''group-data-[size=lg]/avatar:size-3 group-data-[size=lg]/avatar:[&>svg]:size-2'', given i ''class''])] i
          (i_slot i)]"

definition ui_avatar_fallback :: "kit_env \<Rightarrow> 'e ui" where
  "ui_avatar_fallback E i =
     [root E ''AvatarFallback'' [''class'']
          [(''data-slot'', jlit ''avatar-fallback''),
           (''class'', cn E [jlit ''bg-muted text-muted-foreground rounded-full flex size-full items-center justify-center text-sm group-data-[size=sm]/avatar:text-xs'', given i ''class''])] i
          (i_slot i)]"

definition ui_avatar_group :: "kit_env \<Rightarrow> 'e ui" where
  "ui_avatar_group E i =
     [root E ''div'' [''class'']
          [(''data-slot'', jlit ''avatar-group''),
           (''class'', cn E [jlit ''group/avatar-group flex -space-x-2 *:data-[slot=avatar]:ring-2 *:data-[slot=avatar]:ring-background'', given i ''class''])] i
          (i_slot i)]"

definition ui_avatar_group_count :: "kit_env \<Rightarrow> 'e ui" where
  "ui_avatar_group_count E i =
     [root E ''div'' [''class'']
          [(''data-slot'', jlit ''avatar-group-count''),
           (''class'', cn E [jlit ''bg-muted text-muted-foreground size-8 rounded-full text-sm group-has-data-[size=lg]/avatar-group:size-10 group-has-data-[size=sm]/avatar-group:size-6 [&>svg]:size-4 group-has-data-[size=lg]/avatar-group:[&>svg]:size-5 group-has-data-[size=sm]/avatar-group:[&>svg]:size-3 relative flex shrink-0 items-center justify-center ring-2 ring-background'', given i ''class''])] i
          (i_slot i)]"

definition ui_avatar_image :: "kit_env \<Rightarrow> 'e ui" where
  "ui_avatar_image E i =
     [root E ''AvatarImage'' []
          [(''data-slot'', jlit ''avatar-image''),
           (''class'', jlit ''rounded-full aspect-square size-full object-cover'')] i
          (i_slot i)]"

subsection \<open>breadcrumb\<close>

definition ui_breadcrumb :: "kit_env \<Rightarrow> 'e ui" where
  "ui_breadcrumb E i =
     [root E ''nav'' [''class'']
          [(''aria-label'', jlit ''breadcrumb''),
           (''data-slot'', jlit ''breadcrumb''),
           (''class'', cn E [JStr [], given i ''class''])] i
          (i_slot i)]"

definition ui_breadcrumb_ellipsis :: "kit_env \<Rightarrow> 'e ui" where
  "ui_breadcrumb_ellipsis E i =
     [root E ''span'' [''class'']
          [(''data-slot'', jlit ''breadcrumb-ellipsis''),
           (''role'', jlit ''presentation''),
           (''aria-hidden'', jlit ''true''),
           (''class'', cn E [jlit ''size-5 [&>svg]:size-4 flex items-center justify-center'', given i ''class''])] i
          (slot_or i [VEl ''MoreHorizontal'' [] []
                []] @
          [VEl ''span'' [(''class'', jlit ''sr-only'')] []
              [VText (js ''More'')]])]"

definition ui_breadcrumb_item :: "kit_env \<Rightarrow> 'e ui" where
  "ui_breadcrumb_item E i =
     [root E ''li'' [''class'']
          [(''data-slot'', jlit ''breadcrumb-item''),
           (''class'', cn E [jlit ''gap-1 inline-flex items-center'', given i ''class''])] i
          (i_slot i)]"

definition ui_breadcrumb_link :: "kit_env \<Rightarrow> 'e ui" where
  "ui_breadcrumb_link E i =
     [root E ''Primitive'' [''class'', ''as'', ''asChild'']
          [(''data-slot'', jlit ''breadcrumb-link''),
           (''as'', given_or i ''as'' (jlit ''a'')),
           (''as-child'', given i ''asChild''),
           (''class'', cn E [jlit ''hover:text-foreground transition-colors'', given i ''class''])] i
          (i_slot i)]"

definition ui_breadcrumb_list :: "kit_env \<Rightarrow> 'e ui" where
  "ui_breadcrumb_list E i =
     [root E ''ol'' [''class'']
          [(''data-slot'', jlit ''breadcrumb-list''),
           (''class'', cn E [jlit ''text-muted-foreground gap-1.5 text-sm flex flex-wrap items-center wrap-break-word'', given i ''class''])] i
          (i_slot i)]"

definition ui_breadcrumb_page :: "kit_env \<Rightarrow> 'e ui" where
  "ui_breadcrumb_page E i =
     [root E ''span'' [''class'']
          [(''data-slot'', jlit ''breadcrumb-page''),
           (''role'', jlit ''link''),
           (''aria-disabled'', jlit ''true''),
           (''aria-current'', jlit ''page''),
           (''class'', cn E [jlit ''text-foreground font-normal'', given i ''class''])] i
          (i_slot i)]"

definition ui_breadcrumb_separator :: "kit_env \<Rightarrow> 'e ui" where
  "ui_breadcrumb_separator E i =
     [root E ''li'' [''class'']
          [(''data-slot'', jlit ''breadcrumb-separator''),
           (''role'', jlit ''presentation''),
           (''aria-hidden'', jlit ''true''),
           (''class'', cn E [jlit ''[&>svg]:size-3.5'', given i ''class''])] i
          (slot_or i [VEl ''ChevronRight'' [(''class'', jlit ''cn-rtl-flip'')] []
                []])]"

subsection \<open>card\<close>

definition ui_card :: "kit_env \<Rightarrow> 'e ui" where
  "ui_card E i =
     [root E ''div'' [''class'', ''size'']
          [(''data-slot'', jlit ''card''),
           (''data-size'', given_or i ''size'' (jlit ''default'')),
           (''class'', cn E [jlit ''ring-foreground/10 bg-card text-card-foreground gap-4 overflow-hidden rounded-2xl py-4 text-sm ring-1 has-data-[slot=card-footer]:pb-0 has-[>img:first-child]:pt-0 data-[size=sm]:gap-3 data-[size=sm]:py-3 data-[size=sm]:has-data-[slot=card-footer]:pb-0 *:[img:first-child]:rounded-t-2xl *:[img:last-child]:rounded-b-2xl group/card flex flex-col'', given i ''class''])] i
          (i_slot i)]"

definition ui_card_action :: "kit_env \<Rightarrow> 'e ui" where
  "ui_card_action E i =
     [root E ''div'' [''class'']
          [(''data-slot'', jlit ''card-action''),
           (''class'', cn E [jlit ''col-start-2 row-span-2 row-start-1 self-start justify-self-end'', given i ''class''])] i
          (i_slot i)]"

definition ui_card_content :: "kit_env \<Rightarrow> 'e ui" where
  "ui_card_content E i =
     [root E ''div'' [''class'']
          [(''data-slot'', jlit ''card-content''),
           (''class'', cn E [jlit ''px-4 group-data-[size=sm]/card:px-3'', given i ''class''])] i
          (i_slot i)]"

definition ui_card_description :: "kit_env \<Rightarrow> 'e ui" where
  "ui_card_description E i =
     [root E ''div'' [''class'']
          [(''data-slot'', jlit ''card-description''),
           (''class'', cn E [jlit ''text-muted-foreground text-sm'', given i ''class''])] i
          (i_slot i)]"

definition ui_card_footer :: "kit_env \<Rightarrow> 'e ui" where
  "ui_card_footer E i =
     [root E ''div'' [''class'']
          [(''data-slot'', jlit ''card-footer''),
           (''class'', cn E [jlit ''bg-muted/50 rounded-b-2xl border-t p-3 group-data-[size=sm]/card:p-2 flex items-center gap-3'', given i ''class''])] i
          (i_slot i)]"

definition ui_card_header :: "kit_env \<Rightarrow> 'e ui" where
  "ui_card_header E i =
     [root E ''div'' [''class'']
          [(''data-slot'', jlit ''card-header''),
           (''class'', cn E [jlit ''gap-1 rounded-t-2xl px-4 group-data-[size=sm]/card:px-3 [.border-b]:pb-3 group-data-[size=sm]/card:[.border-b]:pb-2 group/card-header @container/card-header grid auto-rows-min items-start has-data-[slot=card-action]:grid-cols-[1fr_auto] has-data-[slot=card-description]:grid-rows-[auto_auto]'', given i ''class''])] i
          (i_slot i)]"

definition ui_card_title :: "kit_env \<Rightarrow> 'e ui" where
  "ui_card_title E i =
     [root E ''div'' [''class'']
          [(''data-slot'', jlit ''card-title''),
           (''class'', cn E [jlit ''text-base leading-snug font-medium group-data-[size=sm]/card:text-sm cn-font-heading'', given i ''class''])] i
          (i_slot i)]"

subsection \<open>empty\<close>

definition emptyMediaVariants :: "kit_env \<Rightarrow> jsval \<Rightarrow> jsval" where
  "emptyMediaVariants E = cva E (jlit ''mb-2 flex shrink-0 items-center justify-center [&_svg]:pointer-events-none [&_svg]:shrink-0'')
     (JObj [(js ''variants'', JObj [(js ''variant'', JObj [(js ''default'', jlit ''bg-transparent''),
        (js ''icon'', jlit ''bg-muted text-foreground flex size-8 shrink-0 items-center justify-center rounded-lg [&_svg:not([class*=size-])]:size-4'')])]),
        (js ''defaultVariants'', JObj [(js ''variant'', jlit ''default'')])])"

definition ui_empty :: "kit_env \<Rightarrow> 'e ui" where
  "ui_empty E i =
     [root E ''div'' [''class'']
          [(''data-slot'', jlit ''empty''),
           (''class'', cn E [jlit ''gap-4 rounded-xl border-dashed p-6 flex w-full min-w-0 flex-1 flex-col items-center justify-center text-center text-balance'', given i ''class''])] i
          (i_slot i)]"

definition ui_empty_content :: "kit_env \<Rightarrow> 'e ui" where
  "ui_empty_content E i =
     [root E ''div'' [''class'']
          [(''data-slot'', jlit ''empty-content''),
           (''class'', cn E [jlit ''gap-2.5 text-sm flex w-full max-w-sm min-w-0 flex-col items-center text-balance'', given i ''class''])] i
          (i_slot i)]"

definition ui_empty_description :: "kit_env \<Rightarrow> 'e ui" where
  "ui_empty_description E i =
     [root E ''p'' [''class'']
          [(''data-slot'', jlit ''empty-description''),
           (''class'', cn E [jlit ''text-sm/relaxed text-muted-foreground [&>a]:underline [&>a]:underline-offset-4 [&>a:hover]:text-primary'', js_coalesce (attr (rest [''class''] (i_attrs i)) ''class'') (JStr [])])] i
          (i_slot i)]"

definition ui_empty_header :: "kit_env \<Rightarrow> 'e ui" where
  "ui_empty_header E i =
     [root E ''div'' [''class'']
          [(''data-slot'', jlit ''empty-header''),
           (''class'', cn E [jlit ''gap-2 flex max-w-sm flex-col items-center'', given i ''class''])] i
          (i_slot i)]"

definition ui_empty_media :: "kit_env \<Rightarrow> 'e ui" where
  "ui_empty_media E i =
     [root E ''div'' [''class'', ''variant'']
          [(''data-slot'', jlit ''empty-icon''),
           (''data-variant'', given_or i ''variant'' (jlit ''default'')),
           (''class'', cn E [emptyMediaVariants E (JObj [(js ''variant'', given_or i ''variant'' (jlit ''default''))]), given i ''class''])] i
          (i_slot i)]"

definition ui_empty_title :: "kit_env \<Rightarrow> 'e ui" where
  "ui_empty_title E i =
     [root E ''div'' [''class'']
          [(''data-slot'', jlit ''empty-title''),
           (''class'', cn E [jlit ''text-sm font-medium tracking-tight cn-font-heading'', given i ''class''])] i
          (i_slot i)]"

subsection \<open>label\<close>

definition ui_label :: "kit_env \<Rightarrow> 'e ui" where
  "ui_label E i =
     [root E ''Label'' [''class'']
          [(''data-slot'', jlit ''label''),
           (''class'', cn E [jlit ''gap-2 text-sm leading-none font-medium group-data-[disabled=true]:opacity-50 peer-disabled:opacity-50 flex items-center select-none group-data-[disabled=true]:pointer-events-none peer-disabled:cursor-not-allowed'', given i ''class''])] i
          (i_slot i)]"

subsection \<open>input\<close>

definition ui_input :: "kit_env \<Rightarrow> 'e ui" where
  "ui_input E i =
     [root E ''input'' [''class'', ''defaultValue'', ''modelValue'']
          [(''modelValue'', given_or i ''modelValue'' (given i ''defaultValue'')),
           (''data-slot'', jlit ''input''),
           (''class'', cn E [jlit ''dark:bg-input/30 border-input focus-visible:border-ring focus-visible:ring-ring/50 aria-invalid:ring-destructive/20 dark:aria-invalid:ring-destructive/40 aria-invalid:border-destructive dark:aria-invalid:border-destructive/50 disabled:bg-input/50 dark:disabled:bg-input/80 h-8 rounded-2xl border bg-transparent px-2.5 py-1 text-sm transition-colors file:h-6 file:text-sm file:font-medium focus-visible:ring-3 aria-invalid:ring-3 w-full min-w-0 outline-none file:inline-flex file:border-0 file:bg-transparent file:text-foreground placeholder:text-muted-foreground disabled:pointer-events-none disabled:cursor-not-allowed disabled:opacity-50'', given i ''class''])] i
          []]"

subsection \<open>textarea\<close>

definition ui_textarea :: "kit_env \<Rightarrow> 'e ui" where
  "ui_textarea E i =
     [root E ''textarea'' [''class'', ''defaultValue'', ''modelValue'']
          [(''modelValue'', given_or i ''modelValue'' (given i ''defaultValue'')),
           (''data-slot'', jlit ''textarea''),
           (''class'', cn E [jlit ''border-input dark:bg-input/30 focus-visible:border-ring focus-visible:ring-ring/50 aria-invalid:ring-destructive/20 dark:aria-invalid:ring-destructive/40 aria-invalid:border-destructive dark:aria-invalid:border-destructive/50 disabled:bg-input/50 dark:disabled:bg-input/80 rounded-2xl border bg-transparent px-2.5 py-2 text-sm transition-colors focus-visible:ring-3 aria-invalid:ring-3 flex field-sizing-content min-h-16 w-full outline-none placeholder:text-muted-foreground disabled:cursor-not-allowed disabled:opacity-50'', given i ''class''])] i
          []]"

subsection \<open>input-group\<close>

definition inputGroupAddonVariants :: "kit_env \<Rightarrow> jsval \<Rightarrow> jsval" where
  "inputGroupAddonVariants E = cva E (jlit ''text-muted-foreground h-auto gap-2 py-1.5 text-sm font-medium group-data-[disabled=true]/input-group:opacity-50 [&>kbd]:rounded-[calc(var(--radius)-5px)] [&>svg:not([class*=size-])]:size-4 flex cursor-text items-center justify-center select-none'')
     (JObj [(js ''variants'', JObj [(js ''align'', JObj [(js ''inline-start'', jlit ''pl-2 has-[>button]:ml-[-0.3rem] has-[>kbd]:ml-[-0.15rem] order-first''),
        (js ''inline-end'', jlit ''pr-2 has-[>button]:mr-[-0.3rem] has-[>kbd]:mr-[-0.15rem] order-last''),
        (js ''block-start'', jlit ''px-2.5 pt-2 group-has-[>input]/input-group:pt-2 [.border-b]:pb-2 order-first w-full justify-start''),
        (js ''block-end'', jlit ''px-2.5 pb-2 group-has-[>input]/input-group:pb-2 [.border-t]:pt-2 order-last w-full justify-start'')])]),
        (js ''defaultVariants'', JObj [(js ''align'', jlit ''inline-start'')])])"

definition inputGroupButtonVariants :: "kit_env \<Rightarrow> jsval \<Rightarrow> jsval" where
  "inputGroupButtonVariants E = cva E (jlit ''gap-2 text-sm flex items-center shadow-none'')
     (JObj [(js ''variants'', JObj [(js ''size'', JObj [(js ''xs'', jlit ''h-6 gap-1 rounded-[calc(var(--radius)-3px)] px-1.5 [&>svg:not([class*=size-])]:size-3.5''),
        (js ''sm'', JStr []),
        (js ''icon-xs'', jlit ''size-6 rounded-[calc(var(--radius)-3px)] p-0 has-[>svg]:p-0''),
        (js ''icon-sm'', jlit ''size-8 p-0 has-[>svg]:p-0'')])]),
        (js ''defaultVariants'', JObj [(js ''size'', jlit ''xs'')])])"

definition ui_input_group :: "kit_env \<Rightarrow> 'e ui" where
  "ui_input_group E i =
     [root E ''div'' [''class'']
          [(''data-slot'', jlit ''input-group''),
           (''role'', jlit ''group''),
           (''class'', cn E [JStr (js ''border-input dark:bg-input/30 has-['' @ js ''[data-slot=input-group-control]:focus-visible]:border-ring has-['' @ js ''[data-slot=input-group-control]:focus-visible]:ring-ring/50 has-['' @ js ''[data-slot][aria-invalid=true]]:ring-destructive/20 has-['' @ js ''[data-slot][aria-invalid=true]]:border-destructive dark:has-['' @ js ''[data-slot][aria-invalid=true]]:ring-destructive/40 has-disabled:bg-input/50 dark:has-disabled:bg-input/80 h-8 rounded-lg border transition-colors in-data-[slot=combobox-content]:focus-within:border-inherit in-data-[slot=combobox-content]:focus-within:ring-0 has-disabled:opacity-50 has-['' @ js ''[data-slot=input-group-control]:focus-visible]:ring-3 has-['' @ js ''[data-slot][aria-invalid=true]]:ring-3 has-[>[data-align=block-end]]:h-auto has-[>[data-align=block-end]]:flex-col has-[>[data-align=block-start]]:h-auto has-[>[data-align=block-start]]:flex-col has-[>[data-align=block-end]]:[&>input]:pt-3 has-[>[data-align=block-start]]:[&>input]:pb-3 has-[>[data-align=inline-end]]:[&>input]:pr-1.5 has-[>[data-align=inline-start]]:[&>input]:pl-1.5 group/input-group relative flex w-full min-w-0 items-center outline-none has-[>textarea]:h-auto''), given i ''class''])] i
          (i_slot i)]"

definition ui_input_group_addon :: "kit_env \<Rightarrow> 'e ui" where
  "ui_input_group_addon E i =
     [root E ''div'' [''align'', ''class'']
          [(''role'', jlit ''group''),
           (''data-slot'', jlit ''input-group-addon''),
           (''data-align'', given_or i ''align'' (jlit ''inline-start'')),
           (''class'', cn E [inputGroupAddonVariants E (JObj [(js ''align'', given_or i ''align'' (jlit ''inline-start''))]), given i ''class''])] i
          (i_slot i)]"

definition ui_input_group_button :: "kit_env \<Rightarrow> 'e ui" where
  "ui_input_group_button E i =
     ui_button E (passed E [''variant'', ''size'', ''class'']
          [(''type'', jlit ''button''),
           (''data-size'', given_or i ''size'' (jlit ''xs'')),
           (''variant'', given_or i ''variant'' (jlit ''ghost'')),
           (''class'', cn E [inputGroupButtonVariants E (JObj [(js ''size'', given_or i ''size'' (jlit ''xs''))]), given i ''class''])] i
          (i_slot i))"

definition ui_input_group_input :: "kit_env \<Rightarrow> 'e ui" where
  "ui_input_group_input E i =
     ui_input E (passed E [''class'']
          [(''data-slot'', jlit ''input-group-control''),
           (''class'', cn E [jlit ''rounded-none border-0 bg-transparent shadow-none ring-0 focus-visible:ring-0 disabled:bg-transparent aria-invalid:ring-0 dark:bg-transparent dark:disabled:bg-transparent flex-1'', given i ''class''])] i
          [])"

definition ui_input_group_text :: "kit_env \<Rightarrow> 'e ui" where
  "ui_input_group_text E i =
     [root E ''span'' [''class'']
          [(''class'', cn E [jlit ''text-muted-foreground gap-2 text-sm [&_svg:not([class*=size-])]:size-4 flex items-center [&_svg]:pointer-events-none'', given i ''class''])] i
          (i_slot i)]"

definition ui_input_group_textarea :: "kit_env \<Rightarrow> 'e ui" where
  "ui_input_group_textarea E i =
     ui_textarea E (passed E [''class'']
          [(''data-slot'', jlit ''input-group-control''),
           (''class'', cn E [jlit ''rounded-none border-0 bg-transparent py-2 shadow-none ring-0 focus-visible:ring-0 disabled:bg-transparent aria-invalid:ring-0 dark:bg-transparent dark:disabled:bg-transparent flex-1 resize-none'', given i ''class''])] i
          [])"

subsection \<open>separator\<close>

definition ui_separator :: "kit_env \<Rightarrow> 'e ui" where
  "ui_separator E i =
     [root E ''Separator'' [''class'']
          [(''data-slot'', jlit ''separator''),
           (''class'', cn E [jlit ''shrink-0 bg-border data-[orientation=horizontal]:h-px data-[orientation=horizontal]:w-full data-[orientation=vertical]:w-px data-[orientation=vertical]:self-stretch'', given i ''class'']),
           (''orientation'', jlit ''horizontal''),
           (''decorative'', JBool True)] i
          []]"

subsection \<open>skeleton\<close>

definition ui_skeleton :: "kit_env \<Rightarrow> 'e ui" where
  "ui_skeleton E i =
     [root E ''div'' [''class'']
          [(''data-slot'', jlit ''skeleton''),
           (''class'', cn E [jlit ''bg-muted rounded-md animate-pulse'', given i ''class''])] i
          []]"

subsection \<open>table\<close>

definition ui_table :: "kit_env \<Rightarrow> 'e ui" where
  "ui_table E i =
     [root E ''div'' [''class'']
          [(''data-slot'', jlit ''table-container''),
           (''class'', jlit ''relative w-full overflow-x-auto'')] i
          [VEl ''table'' [(''data-slot'', jlit ''table''),
               (''class'', cn E [jlit ''w-full caption-bottom text-sm'', given i ''class''])] []
              (i_slot i)]]"

definition ui_table_body :: "kit_env \<Rightarrow> 'e ui" where
  "ui_table_body E i =
     [root E ''tbody'' [''class'']
          [(''data-slot'', jlit ''table-body''),
           (''class'', cn E [jlit ''[&_tr:last-child]:border-0'', given i ''class''])] i
          (i_slot i)]"

definition ui_table_caption :: "kit_env \<Rightarrow> 'e ui" where
  "ui_table_caption E i =
     [root E ''caption'' [''class'']
          [(''data-slot'', jlit ''table-caption''),
           (''class'', cn E [jlit ''text-muted-foreground mt-4 text-sm'', given i ''class''])] i
          (i_slot i)]"

definition ui_table_cell :: "kit_env \<Rightarrow> 'e ui" where
  "ui_table_cell E i =
     [root E ''td'' [''class'']
          [(''data-slot'', jlit ''table-cell''),
           (''class'', cn E [jlit ''p-2 align-middle whitespace-nowrap [&:has([role=checkbox])]:pr-0'', given i ''class''])] i
          (i_slot i)]"

definition ui_table_row :: "kit_env \<Rightarrow> 'e ui" where
  "ui_table_row E i =
     [root E ''tr'' [''class'']
          [(''data-slot'', jlit ''table-row''),
           (''class'', cn E [jlit ''hover:bg-muted/50 data-[state=selected]:bg-muted border-b transition-colors has-aria-expanded:bg-muted/50'', given i ''class''])] i
          (i_slot i)]"

definition ui_table_empty :: "kit_env \<Rightarrow> 'e ui" where
  "ui_table_empty E i =
     ui_table_row E (passed E [''class'', ''colspan'']
          [] i
          (ui_table_cell E (inst [(''class'', cn E [jlit ''p-4 whitespace-nowrap align-middle text-sm text-foreground'', given i ''class'']),
               (''colspan'', given_or i ''colspan'' (jint 1))] []
              [VEl ''div'' [(''class'', jlit ''flex items-center justify-center py-10'')] []
                  (i_slot i)])))"

definition ui_table_footer :: "kit_env \<Rightarrow> 'e ui" where
  "ui_table_footer E i =
     [root E ''tfoot'' [''class'']
          [(''data-slot'', jlit ''table-footer''),
           (''class'', cn E [jlit ''bg-muted/50 border-t font-medium [&>tr]:last:border-b-0'', given i ''class''])] i
          (i_slot i)]"

definition ui_table_head :: "kit_env \<Rightarrow> 'e ui" where
  "ui_table_head E i =
     [root E ''th'' [''class'']
          [(''data-slot'', jlit ''table-head''),
           (''class'', cn E [jlit ''text-foreground h-10 px-2 text-left align-middle font-medium whitespace-nowrap [&:has([role=checkbox])]:pr-0'', given i ''class''])] i
          (i_slot i)]"

definition ui_table_header :: "kit_env \<Rightarrow> 'e ui" where
  "ui_table_header E i =
     [root E ''thead'' [''class'']
          [(''data-slot'', jlit ''table-header''),
           (''class'', cn E [jlit ''[&_tr]:border-b'', given i ''class''])] i
          (i_slot i)]"

subsection \<open>scroll-area\<close>

definition ui_scroll_bar :: "kit_env \<Rightarrow> 'e ui" where
  "ui_scroll_bar E i =
     [root E ''ScrollAreaScrollbar'' [''class'']
          [(''data-slot'', jlit ''scroll-area-scrollbar''),
           (''data-orientation'', given_or i ''orientation'' (jlit ''vertical'')),
           (''class'', cn E [jlit ''data-horizontal:h-2.5 data-horizontal:flex-col data-horizontal:border-t data-horizontal:border-t-transparent data-vertical:h-full data-vertical:w-2.5 data-vertical:border-l data-vertical:border-l-transparent flex touch-none p-px transition-colors select-none'', given i ''class'']),
           (''orientation'', jlit ''vertical'')] i
          [VEl ''ScrollAreaThumb'' [(''data-slot'', jlit ''scroll-area-thumb''),
               (''class'', jlit ''rounded-full relative flex-1 bg-border'')] []
              []]]"

definition ui_scroll_area :: "kit_env \<Rightarrow> 'e ui" where
  "ui_scroll_area E i =
     [root E ''ScrollAreaRoot'' [''class'']
          [(''data-slot'', jlit ''scroll-area''),
           (''class'', cn E [jlit ''relative'', given i ''class''])] i
          ([VEl ''ScrollAreaViewport'' [(''data-slot'', jlit ''scroll-area-viewport''),
               (''class'', jlit ''size-full rounded-[inherit] transition-[color,box-shadow] outline-none focus-visible:ring-3 focus-visible:ring-ring/50 focus-visible:outline-1'')] []
              (i_slot i)] @
          ui_scroll_bar E (inst [] []
              []) @
          [VEl ''ScrollAreaCorner'' [] []
              []])]"

section \<open>The table of the components\<close>

text \<open>The components by the name they are imported with, and those without a slot.\<close>

definition content_kit :: "kit_env \<Rightarrow> (string \<times> 'e ui) list" where
  "content_kit E =
     [(''Button'', ui_button E),
      (''Badge'', ui_badge E),
      (''Alert'', ui_alert E),
      (''AlertAction'', ui_alert_action E),
      (''AlertDescription'', ui_alert_description E),
      (''AlertTitle'', ui_alert_title E),
      (''Avatar'', ui_avatar E),
      (''AvatarBadge'', ui_avatar_badge E),
      (''AvatarFallback'', ui_avatar_fallback E),
      (''AvatarGroup'', ui_avatar_group E),
      (''AvatarGroupCount'', ui_avatar_group_count E),
      (''AvatarImage'', ui_avatar_image E),
      (''Breadcrumb'', ui_breadcrumb E),
      (''BreadcrumbEllipsis'', ui_breadcrumb_ellipsis E),
      (''BreadcrumbItem'', ui_breadcrumb_item E),
      (''BreadcrumbLink'', ui_breadcrumb_link E),
      (''BreadcrumbList'', ui_breadcrumb_list E),
      (''BreadcrumbPage'', ui_breadcrumb_page E),
      (''BreadcrumbSeparator'', ui_breadcrumb_separator E),
      (''Card'', ui_card E),
      (''CardAction'', ui_card_action E),
      (''CardContent'', ui_card_content E),
      (''CardDescription'', ui_card_description E),
      (''CardFooter'', ui_card_footer E),
      (''CardHeader'', ui_card_header E),
      (''CardTitle'', ui_card_title E),
      (''Empty'', ui_empty E),
      (''EmptyContent'', ui_empty_content E),
      (''EmptyDescription'', ui_empty_description E),
      (''EmptyHeader'', ui_empty_header E),
      (''EmptyMedia'', ui_empty_media E),
      (''EmptyTitle'', ui_empty_title E),
      (''Label'', ui_label E),
      (''Input'', ui_input E),
      (''Textarea'', ui_textarea E),
      (''InputGroup'', ui_input_group E),
      (''InputGroupAddon'', ui_input_group_addon E),
      (''InputGroupButton'', ui_input_group_button E),
      (''InputGroupInput'', ui_input_group_input E),
      (''InputGroupText'', ui_input_group_text E),
      (''InputGroupTextarea'', ui_input_group_textarea E),
      (''Separator'', ui_separator E),
      (''Skeleton'', ui_skeleton E),
      (''Table'', ui_table E),
      (''TableBody'', ui_table_body E),
      (''TableCaption'', ui_table_caption E),
      (''TableCell'', ui_table_cell E),
      (''TableRow'', ui_table_row E),
      (''TableEmpty'', ui_table_empty E),
      (''TableFooter'', ui_table_footer E),
      (''TableHead'', ui_table_head E),
      (''TableHeader'', ui_table_header E),
      (''ScrollBar'', ui_scroll_bar E),
      (''ScrollArea'', ui_scroll_area E)]"

definition content_void :: "string list" where
  "content_void = [''Input'', ''Textarea'', ''InputGroupInput'', ''InputGroupTextarea'', ''Separator'', ''Skeleton'', ''ScrollBar'']"

lemmas content_defs =
  ui_button_def ui_badge_def ui_alert_def ui_alert_action_def
  ui_alert_description_def ui_alert_title_def ui_avatar_def ui_avatar_badge_def
  ui_avatar_fallback_def ui_avatar_group_def ui_avatar_group_count_def ui_avatar_image_def
  ui_breadcrumb_def ui_breadcrumb_ellipsis_def ui_breadcrumb_item_def ui_breadcrumb_link_def
  ui_breadcrumb_list_def ui_breadcrumb_page_def ui_breadcrumb_separator_def ui_card_def
  ui_card_action_def ui_card_content_def ui_card_description_def ui_card_footer_def
  ui_card_header_def ui_card_title_def ui_empty_def ui_empty_content_def
  ui_empty_description_def ui_empty_header_def ui_empty_media_def ui_empty_title_def
  ui_label_def ui_input_def ui_textarea_def ui_input_group_def
  ui_input_group_addon_def ui_input_group_button_def ui_input_group_input_def ui_input_group_text_def
  ui_input_group_textarea_def ui_separator_def ui_skeleton_def ui_table_def
  ui_table_body_def ui_table_caption_def ui_table_cell_def ui_table_row_def
  ui_table_empty_def ui_table_footer_def ui_table_head_def ui_table_header_def
  ui_scroll_bar_def ui_scroll_area_def

text \<open>Every one of them is transparent.\<close>

lemma content_transparent:
  "list_all (\<lambda>nc. transparent own (fst nc \<in> set content_void) (snd nc)) (content_kit E)"
  unfolding content_kit_def list.pred_inject fst_conv snd_conv
  by (intro conjI; simp add: content_void_def transparent_def handed_def content_defs)

end
