(* ===== verification/Ui_Overlay.thy ===== *)
theory Ui_Overlay
  imports Ui_Content
begin

text \<open>
  The components of \<open>components/ui\<close> that open over the page or select in it: dialogs, sheet, popover, menu,
  select, tooltip, tabs, switch, checkbox and collapsible. What opens and closes is in the elements of the
  package, which keep their tags. The handler of \<open>DialogScrollContent\<close> that keeps the dialog open while its
  scroll bar is dragged only prevents a default action of the package and is left out.
\<close>

section \<open>Components\<close>

subsection \<open>alert-dialog\<close>

definition ui_alert_dialog :: "kit_env \<Rightarrow> 'e ui" where
  "ui_alert_dialog E i =
     [root E ''AlertDialogRoot'' []
          [(''data-slot'', jlit ''alert-dialog'')] i
          (i_slot i)]"

definition ui_alert_dialog_action :: "kit_env \<Rightarrow> 'e ui" where
  "ui_alert_dialog_action E i =
     [root E ''AlertDialogAction'' [''class'', ''variant'', ''size'']
          [(''data-slot'', jlit ''alert-dialog-action''),
           (''class'', cn E [JStr [], buttonVariants E (JObj [(js ''variant'', given_or i ''variant'' (jlit ''default'')), (js ''size'', given_or i ''size'' (jlit ''default''))]), given i ''class''])] i
          (i_slot i)]"

definition ui_alert_dialog_cancel :: "kit_env \<Rightarrow> 'e ui" where
  "ui_alert_dialog_cancel E i =
     [root E ''AlertDialogCancel'' [''class'', ''variant'', ''size'']
          [(''data-slot'', jlit ''alert-dialog-cancel''),
           (''class'', cn E [JStr [], buttonVariants E (JObj [(js ''variant'', given_or i ''variant'' (jlit ''outline'')), (js ''size'', given_or i ''size'' (jlit ''default''))]), given i ''class''])] i
          (i_slot i)]"

definition ui_alert_dialog_content :: "kit_env \<Rightarrow> 'e ui" where
  "ui_alert_dialog_content E i =
     [VEl ''AlertDialogPortal'' [] []
          [VEl ''AlertDialogOverlay'' [(''data-slot'', jlit ''alert-dialog-overlay''),
               (''class'', jlit ''data-open:animate-in data-closed:animate-out data-closed:fade-out-0 data-open:fade-in-0 bg-black/10 duration-100 supports-backdrop-filter:backdrop-blur-xs fixed inset-0 z-50'')] []
              [],
          root E ''AlertDialogContent'' [''class'', ''size'']
              [(''data-slot'', jlit ''alert-dialog-content''),
               (''data-size'', given_or i ''size'' (jlit ''default'')),
               (''class'', cn E [jlit ''data-open:animate-in data-closed:animate-out data-closed:fade-out-0 data-open:fade-in-0 data-closed:zoom-out-95 data-open:zoom-in-95 bg-popover text-popover-foreground ring-foreground/10 gap-4 rounded-xl p-4 ring-1 duration-100 data-[size=default]:max-w-xs data-[size=sm]:max-w-xs data-[size=default]:sm:max-w-sm group/alert-dialog-content fixed top-1/2 left-1/2 z-50 grid w-full -translate-x-1/2 -translate-y-1/2 outline-none'', given i ''class''])] i
              (i_slot i)]]"

definition ui_alert_dialog_description :: "kit_env \<Rightarrow> 'e ui" where
  "ui_alert_dialog_description E i =
     [root E ''AlertDialogDescription'' [''class'']
          [(''data-slot'', jlit ''alert-dialog-description''),
           (''class'', cn E [jlit ''text-muted-foreground *:[a]:hover:text-foreground text-sm text-balance md:text-pretty *:[a]:underline *:[a]:underline-offset-3'', given i ''class''])] i
          (i_slot i)]"

definition ui_alert_dialog_footer :: "kit_env \<Rightarrow> 'e ui" where
  "ui_alert_dialog_footer E i =
     [root E ''div'' [''class'']
          [(''data-slot'', jlit ''alert-dialog-footer''),
           (''class'', cn E [jlit ''bg-muted/50 -mx-4 -mb-4 rounded-b-xl border-t p-4 flex flex-col-reverse gap-2 group-data-[size=sm]/alert-dialog-content:grid group-data-[size=sm]/alert-dialog-content:grid-cols-2 sm:flex-row sm:justify-end'', given i ''class''])] i
          (i_slot i)]"

definition ui_alert_dialog_header :: "kit_env \<Rightarrow> 'e ui" where
  "ui_alert_dialog_header E i =
     [root E ''div'' [''class'']
          [(''data-slot'', jlit ''alert-dialog-header''),
           (''class'', cn E [jlit ''grid grid-rows-[auto_1fr] place-items-center gap-1.5 text-center has-data-[slot=alert-dialog-media]:grid-rows-[auto_auto_1fr] has-data-[slot=alert-dialog-media]:gap-x-4 sm:group-data-[size=default]/alert-dialog-content:place-items-start sm:group-data-[size=default]/alert-dialog-content:text-left sm:group-data-[size=default]/alert-dialog-content:has-data-[slot=alert-dialog-media]:grid-rows-[auto_1fr]'', given i ''class''])] i
          (i_slot i)]"

definition ui_alert_dialog_media :: "kit_env \<Rightarrow> 'e ui" where
  "ui_alert_dialog_media E i =
     [root E ''div'' [''class'']
          [(''data-slot'', jlit ''alert-dialog-media''),
           (''class'', cn E [jlit ''bg-muted mb-2 inline-flex size-10 items-center justify-center rounded-md sm:group-data-[size=default]/alert-dialog-content:row-span-2 *:[svg:not([class*=size-])]:size-6'', given i ''class''])] i
          (i_slot i)]"

definition ui_alert_dialog_title :: "kit_env \<Rightarrow> 'e ui" where
  "ui_alert_dialog_title E i =
     [root E ''AlertDialogTitle'' [''class'']
          [(''data-slot'', jlit ''alert-dialog-title''),
           (''class'', cn E [jlit ''text-base font-medium sm:group-data-[size=default]/alert-dialog-content:group-has-data-[slot=alert-dialog-media]/alert-dialog-content:col-start-2 cn-font-heading'', given i ''class''])] i
          (i_slot i)]"

definition ui_alert_dialog_trigger :: "kit_env \<Rightarrow> 'e ui" where
  "ui_alert_dialog_trigger E i =
     [root E ''AlertDialogTrigger'' []
          [(''data-slot'', jlit ''alert-dialog-trigger'')] i
          (i_slot i)]"

subsection \<open>checkbox\<close>

definition ui_checkbox :: "kit_env \<Rightarrow> 'e ui" where
  "ui_checkbox E i =
     [root E ''CheckboxRoot'' [''class'']
          [(''data-slot'', jlit ''checkbox''),
           (''class'', cn E [jlit ''border-input dark:bg-input/30 data-checked:bg-primary data-checked:text-primary-foreground dark:data-checked:bg-primary data-checked:border-primary aria-invalid:aria-checked:border-primary aria-invalid:border-destructive dark:aria-invalid:border-destructive/50 focus-visible:border-ring focus-visible:ring-ring/50 aria-invalid:ring-destructive/20 dark:aria-invalid:ring-destructive/40 flex size-4 items-center justify-center rounded-[4px] border transition-colors group-has-disabled/field:opacity-50 focus-visible:ring-3 aria-invalid:ring-3 peer relative shrink-0 outline-none after:absolute after:-inset-x-3 after:-inset-y-2 disabled:cursor-not-allowed disabled:opacity-50'', given i ''class''])] i
          [VEl ''CheckboxIndicator'' [(''data-slot'', jlit ''checkbox-indicator''),
               (''class'', jlit ''[&>svg]:size-3.5 grid place-content-center text-current transition-none'')] []
              (slot_or i [VEl ''Check'' [] []
                    []])]]"

subsection \<open>collapsible\<close>

definition ui_collapsible :: "kit_env \<Rightarrow> 'e ui" where
  "ui_collapsible E i =
     [root E ''CollapsibleRoot'' []
          [(''data-slot'', jlit ''collapsible'')] i
          (i_slot i)]"

definition ui_collapsible_content :: "kit_env \<Rightarrow> 'e ui" where
  "ui_collapsible_content E i =
     [root E ''CollapsibleContent'' []
          [(''data-slot'', jlit ''collapsible-content'')] i
          (i_slot i)]"

definition ui_collapsible_trigger :: "kit_env \<Rightarrow> 'e ui" where
  "ui_collapsible_trigger E i =
     [root E ''CollapsibleTrigger'' []
          [(''data-slot'', jlit ''collapsible-trigger'')] i
          (i_slot i)]"

subsection \<open>dialog\<close>

definition ui_dialog :: "kit_env \<Rightarrow> 'e ui" where
  "ui_dialog E i =
     [root E ''DialogRoot'' []
          [(''data-slot'', jlit ''dialog'')] i
          (i_slot i)]"

definition ui_dialog_close :: "kit_env \<Rightarrow> 'e ui" where
  "ui_dialog_close E i =
     [root E ''DialogClose'' []
          [(''data-slot'', jlit ''dialog-close'')] i
          (i_slot i)]"

definition ui_dialog_overlay :: "kit_env \<Rightarrow> 'e ui" where
  "ui_dialog_overlay E i =
     [root E ''DialogOverlay'' [''class'']
          [(''data-slot'', jlit ''dialog-overlay''),
           (''class'', cn E [jlit ''data-open:animate-in data-closed:animate-out data-closed:fade-out-0 data-open:fade-in-0 bg-black/10 duration-100 supports-backdrop-filter:backdrop-blur-xs fixed inset-0 isolate z-50'', given i ''class''])] i
          (i_slot i)]"

definition ui_dialog_content :: "kit_env \<Rightarrow> 'e ui" where
  "ui_dialog_content E i =
     [VEl ''DialogPortal'' [] []
          (ui_dialog_overlay E (inst [] []
              []) @
          [root E ''DialogContent'' [''class'']
              [(''data-slot'', jlit ''dialog-content''),
               (''class'', cn E [jlit ''bg-popover text-popover-foreground data-open:animate-in data-closed:animate-out data-closed:fade-out-0 data-open:fade-in-0 data-closed:zoom-out-95 data-open:zoom-in-95 ring-foreground/10 grid max-w-[calc(100%-2rem)] gap-4 rounded-2xl p-4 text-sm ring-1 duration-100 sm:max-w-sm fixed top-1/2 left-1/2 z-50 w-full -translate-x-1/2 -translate-y-1/2 outline-none'', given i ''class'']),
               (''show-close-button'', JBool True)] i
              (i_slot i @
              (if flag i ''showCloseButton'' True then
               [VEl ''DialogClose'' [(''data-slot'', jlit ''dialog-close''),
                    (''as-child'', JStr [])] []
                   (ui_button E (inst [(''variant'', jlit ''ghost''),
                        (''class'', jlit ''absolute top-2 right-2''),
                        (''size'', jlit ''icon-sm'')] []
                       [VEl ''X'' [] []
                           [],
                       VEl ''span'' [(''class'', jlit ''sr-only'')] []
                           [VText (js ''Close'')]]))]
             else []))])]"

definition ui_dialog_description :: "kit_env \<Rightarrow> 'e ui" where
  "ui_dialog_description E i =
     [root E ''DialogDescription'' [''class'']
          [(''data-slot'', jlit ''dialog-description''),
           (''class'', cn E [jlit ''text-muted-foreground *:[a]:hover:text-foreground text-sm *:[a]:underline *:[a]:underline-offset-3'', given i ''class''])] i
          (i_slot i)]"

definition ui_dialog_footer :: "kit_env \<Rightarrow> 'e ui" where
  "ui_dialog_footer E i =
     [root E ''div'' [''class'', ''showCloseButton'']
          [(''data-slot'', jlit ''dialog-footer''),
           (''class'', cn E [jlit ''bg-muted/50 -mx-4 -mb-4 rounded-b-xl border-t p-4 flex flex-col-reverse gap-2 sm:flex-row sm:justify-end'', given i ''class''])] i
          (i_slot i @
          (if flag i ''showCloseButton'' False then
           [VEl ''DialogClose'' [(''as-child'', JStr [])] []
               (ui_button E (inst [(''variant'', jlit ''outline'')] []
                   [VText (js '' Close '')]))]
         else []))]"

definition ui_dialog_header :: "kit_env \<Rightarrow> 'e ui" where
  "ui_dialog_header E i =
     [root E ''div'' [''class'']
          [(''data-slot'', jlit ''dialog-header''),
           (''class'', cn E [jlit ''gap-2 flex flex-col'', given i ''class''])] i
          (i_slot i)]"

definition ui_dialog_scroll_content :: "kit_env \<Rightarrow> 'e ui" where
  "ui_dialog_scroll_content E i =
     [VEl ''DialogPortal'' [] []
          [VEl ''DialogOverlay'' [(''class'', jlit ''fixed inset-0 z-50 grid place-items-center overflow-y-auto bg-black/80  data-[state=open]:animate-in data-[state=closed]:animate-out data-[state=closed]:fade-out-0 data-[state=open]:fade-in-0'')] []
              [root E ''DialogContent'' [''class'']
                  [(''class'', cn E [jlit ''relative z-50 grid w-full max-w-lg my-8 gap-4 border border-border bg-background p-6 shadow-lg duration-200 sm:rounded-lg md:w-full'', given i ''class''])] i
                  (i_slot i @
                  [VEl ''DialogClose'' [(''class'', jlit ''absolute top-4 right-4 p-0.5 transition-colors rounded-md hover:bg-secondary'')] []
                      [VEl ''X'' [(''class'', jlit ''w-4 h-4'')] []
                          [],
                      VEl ''span'' [(''class'', jlit ''sr-only'')] []
                          [VText (js ''Close'')]]])]]]"

definition ui_dialog_title :: "kit_env \<Rightarrow> 'e ui" where
  "ui_dialog_title E i =
     [root E ''DialogTitle'' [''class'']
          [(''data-slot'', jlit ''dialog-title''),
           (''class'', cn E [jlit ''text-base leading-none font-medium cn-font-heading'', given i ''class''])] i
          (i_slot i)]"

definition ui_dialog_trigger :: "kit_env \<Rightarrow> 'e ui" where
  "ui_dialog_trigger E i =
     [root E ''DialogTrigger'' []
          [(''data-slot'', jlit ''dialog-trigger'')] i
          (i_slot i)]"

subsection \<open>dropdown-menu\<close>

definition ui_dropdown_menu :: "kit_env \<Rightarrow> 'e ui" where
  "ui_dropdown_menu E i =
     [root E ''DropdownMenuRoot'' []
          [(''data-slot'', jlit ''dropdown-menu'')] i
          (i_slot i)]"

definition ui_dropdown_menu_checkbox_item :: "kit_env \<Rightarrow> 'e ui" where
  "ui_dropdown_menu_checkbox_item E i =
     [root E ''DropdownMenuCheckboxItem'' [''class'']
          [(''data-slot'', jlit ''dropdown-menu-checkbox-item''),
           (''class'', cn E [jlit ''focus:bg-accent focus:text-accent-foreground focus:**:text-accent-foreground gap-1.5 rounded-md py-1 pr-8 pl-1.5 text-sm data-inset:pl-7 [&_svg:not([class*=size-])]:size-4 relative flex cursor-default items-center outline-hidden select-none data-disabled:pointer-events-none data-disabled:opacity-50 [&_svg]:pointer-events-none [&_svg]:shrink-0'', given i ''class''])] i
          ([VEl ''span'' [(''class'', jlit ''absolute right-2 flex items-center justify-center pointer-events-none''),
               (''data-slot'', jlit ''dropdown-menu-checkbox-item-indicator'')] []
              [VEl ''DropdownMenuItemIndicator'' [] []
                  (named_or i ''indicator-icon'' [VEl ''Check'' [] []
                        []])]] @
          i_slot i)]"

definition ui_dropdown_menu_content :: "kit_env \<Rightarrow> 'e ui" where
  "ui_dropdown_menu_content E i =
     [VEl ''DropdownMenuPortal'' [] []
          [root E ''DropdownMenuContent'' [''class'']
              [(''data-slot'', jlit ''dropdown-menu-content''),
               (''class'', cn E [jlit ''data-open:animate-in data-closed:animate-out data-closed:fade-out-0 data-open:fade-in-0 data-closed:zoom-out-95 data-open:zoom-in-95 data-[side=bottom]:slide-in-from-top-2 data-[side=left]:slide-in-from-right-2 data-[side=right]:slide-in-from-left-2 data-[side=top]:slide-in-from-bottom-2 ring-foreground/10 bg-popover text-popover-foreground min-w-32 rounded-2xl p-1 shadow-md ring-1 duration-100 cn-menu-translucent z-50 max-h-(--reka-dropdown-menu-content-available-height) w-(--reka-dropdown-menu-trigger-width) origin-(--reka-dropdown-menu-content-transform-origin) overflow-x-hidden overflow-y-auto data-[state=closed]:overflow-hidden'', given i ''class'']),
               (''align'', jlit ''start''),
               (''side-offset'', jint 4)] i
              (i_slot i)]]"

definition ui_dropdown_menu_group :: "kit_env \<Rightarrow> 'e ui" where
  "ui_dropdown_menu_group E i =
     [root E ''DropdownMenuGroup'' []
          [(''data-slot'', jlit ''dropdown-menu-group'')] i
          (i_slot i)]"

definition ui_dropdown_menu_item :: "kit_env \<Rightarrow> 'e ui" where
  "ui_dropdown_menu_item E i =
     [root E ''DropdownMenuItem'' [''inset'', ''variant'', ''class'']
          [(''data-slot'', jlit ''dropdown-menu-item''),
           (''data-inset'', (if flag i ''inset'' False then JStr [] else JUndef)),
           (''data-variant'', given_or i ''variant'' (jlit ''default'')),
           (''class'', cn E [jlit ''focus:bg-accent focus:text-accent-foreground data-[variant=destructive]:text-destructive data-[variant=destructive]:focus:bg-destructive/10 dark:data-[variant=destructive]:focus:bg-destructive/20 data-[variant=destructive]:focus:text-destructive data-[variant=destructive]:*:[svg]:text-destructive not-data-[variant=destructive]:focus:**:text-accent-foreground gap-1.5 rounded-md px-1.5 py-1 text-sm data-inset:pl-7 [&_svg:not([class*=size-])]:size-4 group/dropdown-menu-item relative flex cursor-default items-center outline-hidden select-none data-disabled:pointer-events-none data-disabled:opacity-50 [&_svg]:pointer-events-none [&_svg]:shrink-0'', given i ''class''])] i
          (i_slot i)]"

definition ui_dropdown_menu_label :: "kit_env \<Rightarrow> 'e ui" where
  "ui_dropdown_menu_label E i =
     [root E ''DropdownMenuLabel'' [''class'', ''inset'']
          [(''data-slot'', jlit ''dropdown-menu-label''),
           (''data-inset'', (if flag i ''inset'' False then JStr [] else JUndef)),
           (''class'', cn E [jlit ''text-muted-foreground px-1.5 py-1 text-xs font-medium data-inset:pl-7'', given i ''class''])] i
          (i_slot i)]"

definition ui_dropdown_menu_radio_group :: "kit_env \<Rightarrow> 'e ui" where
  "ui_dropdown_menu_radio_group E i =
     [root E ''DropdownMenuRadioGroup'' []
          [(''data-slot'', jlit ''dropdown-menu-radio-group'')] i
          (i_slot i)]"

definition ui_dropdown_menu_radio_item :: "kit_env \<Rightarrow> 'e ui" where
  "ui_dropdown_menu_radio_item E i =
     [root E ''DropdownMenuRadioItem'' [''class'']
          [(''data-slot'', jlit ''dropdown-menu-radio-item''),
           (''class'', cn E [jlit ''focus:bg-accent focus:text-accent-foreground focus:**:text-accent-foreground gap-1.5 rounded-md py-1 pr-8 pl-1.5 text-sm data-inset:pl-7 [&_svg:not([class*=size-])]:size-4 relative flex cursor-default items-center outline-hidden select-none data-disabled:pointer-events-none data-disabled:opacity-50 [&_svg]:pointer-events-none [&_svg]:shrink-0'', given i ''class''])] i
          ([VEl ''span'' [(''class'', jlit ''absolute right-2 flex items-center justify-center pointer-events-none''),
               (''data-slot'', jlit ''dropdown-menu-radio-item-indicator'')] []
              [VEl ''DropdownMenuItemIndicator'' [] []
                  (named_or i ''indicator-icon'' [VEl ''Check'' [] []
                        []])]] @
          i_slot i)]"

definition ui_dropdown_menu_separator :: "kit_env \<Rightarrow> 'e ui" where
  "ui_dropdown_menu_separator E i =
     [root E ''DropdownMenuSeparator'' [''class'']
          [(''data-slot'', jlit ''dropdown-menu-separator''),
           (''class'', cn E [jlit ''bg-border -mx-1 my-1 h-px'', given i ''class''])] i
          []]"

definition ui_dropdown_menu_shortcut :: "kit_env \<Rightarrow> 'e ui" where
  "ui_dropdown_menu_shortcut E i =
     [root E ''span'' [''class'']
          [(''data-slot'', jlit ''dropdown-menu-shortcut''),
           (''class'', cn E [jlit ''text-muted-foreground group-focus/dropdown-menu-item:text-accent-foreground ml-auto text-xs tracking-widest'', given i ''class''])] i
          (i_slot i)]"

definition ui_dropdown_menu_sub :: "kit_env \<Rightarrow> 'e ui" where
  "ui_dropdown_menu_sub E i =
     [root E ''DropdownMenuSub'' []
          [(''data-slot'', jlit ''dropdown-menu-sub'')] i
          (i_slot i)]"

definition ui_dropdown_menu_sub_content :: "kit_env \<Rightarrow> 'e ui" where
  "ui_dropdown_menu_sub_content E i =
     [root E ''DropdownMenuSubContent'' [''class'']
          [(''data-slot'', jlit ''dropdown-menu-sub-content''),
           (''class'', cn E [jlit ''data-open:animate-in data-closed:animate-out data-closed:fade-out-0 data-open:fade-in-0 data-closed:zoom-out-95 data-open:zoom-in-95 data-[side=bottom]:slide-in-from-top-2 data-[side=left]:slide-in-from-right-2 data-[side=right]:slide-in-from-left-2 data-[side=top]:slide-in-from-bottom-2 ring-foreground/10 bg-popover text-popover-foreground min-w-[96px] rounded-lg p-1 shadow-lg ring-1 duration-100 cn-menu-translucent z-50 max-w-(--reka-dropdown-menu-content-available-width) origin-(--reka-dropdown-menu-content-transform-origin) overflow-hidden'', given i ''class''])] i
          (i_slot i)]"

definition ui_dropdown_menu_sub_trigger :: "kit_env \<Rightarrow> 'e ui" where
  "ui_dropdown_menu_sub_trigger E i =
     [root E ''DropdownMenuSubTrigger'' [''class'', ''inset'']
          [(''data-slot'', jlit ''dropdown-menu-sub-trigger''),
           (''data-inset'', (if flag i ''inset'' False then JStr [] else JUndef)),
           (''class'', cn E [jlit ''focus:bg-accent focus:text-accent-foreground data-open:bg-accent data-open:text-accent-foreground not-data-[variant=destructive]:focus:**:text-accent-foreground gap-1.5 rounded-md px-1.5 py-1 text-sm data-inset:pl-7 [&_svg:not([class*=size-])]:size-4 flex cursor-default items-center outline-hidden select-none [&_svg]:pointer-events-none [&_svg]:shrink-0'', given i ''class''])] i
          (i_slot i @
          [VEl ''ChevronRight'' [(''class'', jlit ''cn-rtl-flip ml-auto'')] []
              []])]"

definition ui_dropdown_menu_trigger :: "kit_env \<Rightarrow> 'e ui" where
  "ui_dropdown_menu_trigger E i =
     [root E ''DropdownMenuTrigger'' []
          [(''data-slot'', jlit ''dropdown-menu-trigger'')] i
          (i_slot i)]"

subsection \<open>popover\<close>

definition ui_popover :: "kit_env \<Rightarrow> 'e ui" where
  "ui_popover E i =
     [root E ''PopoverRoot'' []
          [(''data-slot'', jlit ''popover'')] i
          (i_slot i)]"

definition ui_popover_anchor :: "kit_env \<Rightarrow> 'e ui" where
  "ui_popover_anchor E i =
     [root E ''PopoverAnchor'' []
          [(''data-slot'', jlit ''popover-anchor'')] i
          (i_slot i)]"

definition ui_popover_content :: "kit_env \<Rightarrow> 'e ui" where
  "ui_popover_content E i =
     [VEl ''PopoverPortal'' [] []
          [root E ''PopoverContent'' [''class'']
              [(''data-slot'', jlit ''popover-content''),
               (''class'', cn E [jlit ''bg-popover text-popover-foreground data-open:animate-in data-closed:animate-out data-closed:fade-out-0 data-open:fade-in-0 data-closed:zoom-out-95 data-open:zoom-in-95 data-[side=bottom]:slide-in-from-top-2 data-[side=left]:slide-in-from-right-2 data-[side=right]:slide-in-from-left-2 data-[side=top]:slide-in-from-bottom-2 ring-foreground/10 flex flex-col gap-2.5 rounded-lg p-2.5 text-sm shadow-md ring-1 duration-100 z-50 w-72 max-w-(--reka-popover-content-available-width) origin-(--reka-popover-content-transform-origin) outline-hidden'', given i ''class'']),
               (''align'', jlit ''center''),
               (''side-offset'', jint 4)] i
              (i_slot i)]]"

definition ui_popover_description :: "kit_env \<Rightarrow> 'e ui" where
  "ui_popover_description E i =
     [root E ''p'' [''class'']
          [(''data-slot'', jlit ''popover-description''),
           (''class'', cn E [jlit ''text-muted-foreground'', given i ''class''])] i
          (i_slot i)]"

definition ui_popover_header :: "kit_env \<Rightarrow> 'e ui" where
  "ui_popover_header E i =
     [root E ''div'' [''class'']
          [(''data-slot'', jlit ''popover-header''),
           (''class'', cn E [jlit ''flex flex-col gap-0.5 text-sm'', given i ''class''])] i
          (i_slot i)]"

definition ui_popover_title :: "kit_env \<Rightarrow> 'e ui" where
  "ui_popover_title E i =
     [root E ''div'' [''class'']
          [(''data-slot'', jlit ''popover-title''),
           (''class'', cn E [jlit ''font-medium cn-font-heading'', given i ''class''])] i
          (i_slot i)]"

definition ui_popover_trigger :: "kit_env \<Rightarrow> 'e ui" where
  "ui_popover_trigger E i =
     [root E ''PopoverTrigger'' []
          [(''data-slot'', jlit ''popover-trigger'')] i
          (i_slot i)]"

subsection \<open>select\<close>

definition ui_select :: "kit_env \<Rightarrow> 'e ui" where
  "ui_select E i =
     [root E ''SelectRoot'' []
          [(''data-slot'', jlit ''select'')] i
          (i_slot i)]"

definition ui_select_scroll_down_button :: "kit_env \<Rightarrow> 'e ui" where
  "ui_select_scroll_down_button E i =
     [root E ''SelectScrollDownButton'' [''class'']
          [(''data-slot'', jlit ''select-scroll-down-button''),
           (''class'', cn E [jlit ''bg-popover z-10 flex cursor-default items-center justify-center py-1 [&_svg:not([class*=size-])]:size-4'', given i ''class''])] i
          (slot_or i [VEl ''ChevronDown'' [] []
                []])]"

definition ui_select_scroll_up_button :: "kit_env \<Rightarrow> 'e ui" where
  "ui_select_scroll_up_button E i =
     [root E ''SelectScrollUpButton'' [''class'']
          [(''data-slot'', jlit ''select-scroll-up-button''),
           (''class'', cn E [jlit ''bg-popover z-10 flex cursor-default items-center justify-center py-1 [&_svg:not([class*=size-])]:size-4'', given i ''class''])] i
          (slot_or i [VEl ''ChevronUp'' [] []
                []])]"

definition ui_select_content :: "kit_env \<Rightarrow> 'e ui" where
  "ui_select_content E i =
     [VEl ''SelectPortal'' [] []
          [root E ''SelectContent'' [''class'']
              [(''data-slot'', jlit ''select-content''),
               (''data-align-trigger'', JBool (given_or i ''position'' (jlit ''item-aligned'') = jlit ''item-aligned'')),
               (''class'', cn E [jlit ''bg-popover text-popover-foreground data-open:animate-in data-closed:animate-out data-closed:fade-out-0 data-open:fade-in-0 data-closed:zoom-out-95 data-open:zoom-in-95 data-[side=bottom]:slide-in-from-top-2 data-[side=left]:slide-in-from-right-2 data-[side=right]:slide-in-from-left-2 data-[side=top]:slide-in-from-bottom-2 ring-foreground/10 min-w-36 rounded-2xl shadow-md ring-1 duration-100 data-[side=inline-start]:slide-in-from-right-2 data-[side=inline-end]:slide-in-from-left-2 cn-menu-translucent relative z-50 max-h-(--reka-select-content-available-height) origin-(--reka-select-content-transform-origin) overflow-x-hidden overflow-y-auto data-[align-trigger=true]:animate-none'', (if given_or i ''position'' (jlit ''item-aligned'') = jlit ''popper'' then jlit ''data-[side=bottom]:translate-y-1 data-[side=left]:-translate-x-1 data-[side=right]:translate-x-1 data-[side=top]:-translate-y-1'' else JBool False), given i ''class'']),
               (''position'', jlit ''item-aligned''),
               (''align'', jlit ''center'')] i
              (ui_select_scroll_up_button E (inst [] []
                  []) @
              [VEl ''SelectViewport'' [(''data-position'', given_or i ''position'' (jlit ''item-aligned'')),
                   (''class'', cn E [jlit ''data-[position=popper]:h-(--reka-select-trigger-height) data-[position=popper]:w-full data-[position=popper]:min-w-(--reka-select-trigger-width)''])] []
                  (i_slot i)] @
              ui_select_scroll_down_button E (inst [] []
                  []))]]"

definition ui_select_group :: "kit_env \<Rightarrow> 'e ui" where
  "ui_select_group E i =
     [root E ''SelectGroup'' [''class'']
          [(''data-slot'', jlit ''select-group''),
           (''class'', cn E [jlit ''scroll-my-1 p-1'', given i ''class''])] i
          (i_slot i)]"

definition ui_select_item :: "kit_env \<Rightarrow> 'e ui" where
  "ui_select_item E i =
     [root E ''SelectItem'' [''class'']
          [(''data-slot'', jlit ''select-item''),
           (''class'', cn E [jlit ''focus:bg-accent focus:text-accent-foreground not-data-[variant=destructive]:focus:**:text-accent-foreground gap-1.5 rounded-md py-1 pr-8 pl-1.5 text-sm [&_svg:not([class*=size-])]:size-4 *:[span]:last:flex *:[span]:last:items-center *:[span]:last:gap-2 relative flex w-full cursor-default items-center outline-hidden select-none data-[disabled]:pointer-events-none data-[disabled]:opacity-50 [&_svg]:pointer-events-none [&_svg]:shrink-0'', given i ''class''])] i
          [VEl ''span'' [(''class'', jlit ''pointer-events-none absolute right-2 flex size-4 items-center justify-center'')] []
              [VEl ''SelectItemIndicator'' [] []
                  (named_or i ''indicator-icon'' [VEl ''Check'' [(''class'', jlit ''pointer-events-none'')] []
                        []])],
          VEl ''SelectItemText'' [] []
              (i_slot i)]]"

definition ui_select_item_text :: "kit_env \<Rightarrow> 'e ui" where
  "ui_select_item_text E i =
     [root E ''SelectItemText'' []
          [(''data-slot'', jlit ''select-item-text'')] i
          (i_slot i)]"

definition ui_select_label :: "kit_env \<Rightarrow> 'e ui" where
  "ui_select_label E i =
     [root E ''SelectLabel'' ([''class''] @ lib_props E ''SelectLabelProps'')
          [(''data-slot'', jlit ''select-label''),
           (''class'', cn E [jlit ''text-muted-foreground px-1.5 py-1 text-xs'', given i ''class''])] i
          (i_slot i)]"

definition ui_select_separator :: "kit_env \<Rightarrow> 'e ui" where
  "ui_select_separator E i =
     [root E ''SelectSeparator'' [''class'']
          [(''data-slot'', jlit ''select-separator''),
           (''class'', cn E [jlit ''bg-border -mx-1 my-1 h-px pointer-events-none'', given i ''class''])] i
          []]"

definition ui_select_trigger :: "kit_env \<Rightarrow> 'e ui" where
  "ui_select_trigger E i =
     [root E ''SelectTrigger'' [''class'', ''size'']
          [(''data-slot'', jlit ''select-trigger''),
           (''data-size'', given_or i ''size'' (jlit ''default'')),
           (''class'', cn E [jlit ''border-input data-placeholder:text-muted-foreground dark:bg-input/30 dark:hover:bg-input/50 focus-visible:border-ring focus-visible:ring-ring/50 aria-invalid:ring-destructive/20 dark:aria-invalid:ring-destructive/40 aria-invalid:border-destructive dark:aria-invalid:border-destructive/50 gap-1.5 rounded-2xl border bg-transparent py-2 pr-2 pl-2.5 text-sm transition-colors select-none focus-visible:ring-3 aria-invalid:ring-3 data-[size=default]:h-8 data-[size=sm]:h-7 *:data-[slot=select-value]:gap-1.5 [&_svg:not([class*=size-])]:size-4 flex w-full items-center justify-between whitespace-nowrap outline-none disabled:cursor-not-allowed disabled:opacity-50 *:data-[slot=select-value]:line-clamp-1 *:data-[slot=select-value]:flex *:data-[slot=select-value]:items-center [&_svg]:pointer-events-none [&_svg]:shrink-0'', given i ''class''])] i
          (i_slot i @
          [VEl ''SelectIcon'' [(''as-child'', JStr [])] []
              [VEl ''ChevronDown'' [(''class'', jlit ''text-muted-foreground size-4 pointer-events-none'')] []
                  []]])]"

definition ui_select_value :: "kit_env \<Rightarrow> 'e ui" where
  "ui_select_value E i =
     [root E ''SelectValue'' []
          [(''data-slot'', jlit ''select-value'')] i
          (i_slot i)]"

subsection \<open>sheet\<close>

definition ui_sheet :: "kit_env \<Rightarrow> 'e ui" where
  "ui_sheet E i =
     [root E ''DialogRoot'' []
          [(''data-slot'', jlit ''sheet'')] i
          (i_slot i)]"

definition ui_sheet_close :: "kit_env \<Rightarrow> 'e ui" where
  "ui_sheet_close E i =
     [root E ''DialogClose'' []
          [(''data-slot'', jlit ''sheet-close'')] i
          (i_slot i)]"

definition ui_sheet_overlay :: "kit_env \<Rightarrow> 'e ui" where
  "ui_sheet_overlay E i =
     [root E ''DialogOverlay'' [''class'']
          [(''data-slot'', jlit ''sheet-overlay''),
           (''class'', cn E [jlit ''bg-black/10 supports-backdrop-filter:backdrop-blur-xs fixed inset-0 z-50 duration-100 data-open:animate-in data-open:fade-in-0 data-closed:animate-out data-closed:fade-out-0'', given i ''class''])] i
          (i_slot i)]"

definition ui_sheet_content :: "kit_env \<Rightarrow> 'e ui" where
  "ui_sheet_content E i =
     [VEl ''DialogPortal'' [] []
          (ui_sheet_overlay E (inst [] []
              []) @
          [root E ''DialogContent'' [''class'', ''side'', ''showCloseButton'']
              [(''data-slot'', jlit ''sheet-content''),
               (''data-side'', given_or i ''side'' (jlit ''right'')),
               (''class'', cn E [jlit ''bg-popover text-popover-foreground fixed z-50 flex flex-col gap-4 bg-clip-padding text-sm shadow-lg transition duration-200 ease-in-out data-[side=bottom]:inset-x-0 data-[side=bottom]:bottom-0 data-[side=bottom]:h-auto data-[side=bottom]:border-t data-[side=left]:inset-y-0 data-[side=left]:left-0 data-[side=left]:h-full data-[side=left]:w-3/4 data-[side=left]:border-r data-[side=right]:inset-y-0 data-[side=right]:right-0 data-[side=right]:h-full data-[side=right]:w-3/4 data-[side=right]:border-l data-[side=top]:inset-x-0 data-[side=top]:top-0 data-[side=top]:h-auto data-[side=top]:border-b data-[side=left]:sm:max-w-sm data-[side=right]:sm:max-w-sm data-open:animate-in data-open:fade-in-0 data-[side=bottom]:data-open:slide-in-from-bottom-10 data-[side=left]:data-open:slide-in-from-left-10 data-[side=right]:data-open:slide-in-from-right-10 data-[side=top]:data-open:slide-in-from-top-10 data-closed:animate-out data-closed:fade-out-0 data-[side=bottom]:data-closed:slide-out-to-bottom-10 data-[side=left]:data-closed:slide-out-to-left-10 data-[side=right]:data-closed:slide-out-to-right-10 data-[side=top]:data-closed:slide-out-to-top-10'', given i ''class''])] i
              (i_slot i @
              (if flag i ''showCloseButton'' True then
               [VEl ''DialogClose'' [(''data-slot'', jlit ''sheet-close''),
                    (''as-child'', JStr [])] []
                   (ui_button E (inst [(''variant'', jlit ''ghost''),
                        (''class'', jlit ''absolute top-3 right-3''),
                        (''size'', jlit ''icon-sm'')] []
                       [VEl ''X'' [] []
                           [],
                       VEl ''span'' [(''class'', jlit ''sr-only'')] []
                           [VText (js ''Close'')]]))]
             else []))])]"

definition ui_sheet_description :: "kit_env \<Rightarrow> 'e ui" where
  "ui_sheet_description E i =
     [root E ''DialogDescription'' [''class'']
          [(''data-slot'', jlit ''sheet-description''),
           (''class'', cn E [jlit ''text-muted-foreground text-sm'', given i ''class''])] i
          (i_slot i)]"

definition ui_sheet_footer :: "kit_env \<Rightarrow> 'e ui" where
  "ui_sheet_footer E i =
     [root E ''div'' [''class'']
          [(''data-slot'', jlit ''sheet-footer''),
           (''class'', cn E [jlit ''gap-2 p-4 mt-auto flex flex-col'', given i ''class''])] i
          (i_slot i)]"

definition ui_sheet_header :: "kit_env \<Rightarrow> 'e ui" where
  "ui_sheet_header E i =
     [root E ''div'' [''class'']
          [(''data-slot'', jlit ''sheet-header''),
           (''class'', cn E [jlit ''gap-0.5 p-4 flex flex-col'', given i ''class''])] i
          (i_slot i)]"

definition ui_sheet_title :: "kit_env \<Rightarrow> 'e ui" where
  "ui_sheet_title E i =
     [root E ''DialogTitle'' [''class'']
          [(''data-slot'', jlit ''sheet-title''),
           (''class'', cn E [jlit ''text-foreground text-base font-medium cn-font-heading'', given i ''class''])] i
          (i_slot i)]"

definition ui_sheet_trigger :: "kit_env \<Rightarrow> 'e ui" where
  "ui_sheet_trigger E i =
     [root E ''DialogTrigger'' []
          [(''data-slot'', jlit ''sheet-trigger'')] i
          (i_slot i)]"

subsection \<open>switch\<close>

definition ui_switch :: "kit_env \<Rightarrow> 'e ui" where
  "ui_switch E i =
     [root E ''SwitchRoot'' [''class'', ''size'']
          [(''data-slot'', jlit ''switch''),
           (''data-size'', given_or i ''size'' (jlit ''default'')),
           (''class'', cn E [jlit ''data-checked:bg-primary data-unchecked:bg-input focus-visible:border-ring focus-visible:ring-ring/50 aria-invalid:ring-destructive/20 dark:aria-invalid:ring-destructive/40 aria-invalid:border-destructive dark:aria-invalid:border-destructive/50 dark:data-unchecked:bg-input/80 shrink-0 rounded-full border border-transparent focus-visible:ring-3 aria-invalid:ring-3 data-[size=default]:h-[18.4px] data-[size=default]:w-8 data-[size=sm]:h-3.5 data-[size=sm]:w-6 peer group/switch relative inline-flex items-center transition-all outline-none after:absolute after:-inset-x-3 after:-inset-y-2 data-disabled:cursor-not-allowed data-disabled:opacity-50'', given i ''class''])] i
          [VEl ''SwitchThumb'' [(''data-slot'', jlit ''switch-thumb''),
               (''class'', jlit ''bg-background dark:data-unchecked:bg-foreground dark:data-checked:bg-primary-foreground rounded-full group-data-[size=default]/switch:size-4 group-data-[size=sm]/switch:size-3 group-data-[size=default]/switch:data-checked:translate-x-[calc(100%-2px)] group-data-[size=sm]/switch:data-checked:translate-x-[calc(100%-2px)] group-data-[size=default]/switch:data-unchecked:translate-x-0 group-data-[size=sm]/switch:data-unchecked:translate-x-0 pointer-events-none block ring-0 transition-transform'')] []
              (named_or i ''thumb'' [])]]"

subsection \<open>tabs\<close>

definition tabsListVariants :: "kit_env \<Rightarrow> jsval \<Rightarrow> jsval" where
  "tabsListVariants E = cva E (jlit ''rounded-2xl p-1 group-data-horizontal/tabs:h-10 data-[variant=line]:rounded-none group/tabs-list inline-flex w-full items-center justify-center text-muted-foreground group-data-vertical/tabs:h-fit group-data-vertical/tabs:flex-col'')
     (JObj [(js ''variants'', JObj [(js ''variant'', JObj [(js ''default'', jlit ''bg-muted''),
        (js ''line'', jlit ''gap-1 bg-transparent'')])]),
        (js ''defaultVariants'', JObj [(js ''variant'', jlit ''default'')])])"

definition ui_tabs :: "kit_env \<Rightarrow> 'e ui" where
  "ui_tabs E i =
     [root E ''TabsRoot'' [''class'']
          [(''data-slot'', jlit ''tabs''),
           (''data-orientation'', js_or (given i ''orientation'') (jlit ''horizontal'')),
           (''class'', cn E [jlit ''gap-2 group/tabs flex data-horizontal:flex-col'', given i ''class''])] i
          (i_slot i)]"

definition ui_tabs_content :: "kit_env \<Rightarrow> 'e ui" where
  "ui_tabs_content E i =
     [root E ''TabsContent'' [''class'']
          [(''data-slot'', jlit ''tabs-content''),
           (''class'', cn E [jlit ''text-sm flex-1 outline-none'', given i ''class''])] i
          (i_slot i)]"

definition ui_tabs_list :: "kit_env \<Rightarrow> 'e ui" where
  "ui_tabs_list E i =
     [root E ''TabsList'' [''class'', ''variant'']
          [(''data-slot'', jlit ''tabs-list''),
           (''data-variant'', given_or i ''variant'' (jlit ''default'')),
           (''class'', cn E [tabsListVariants E (JObj [(js ''variant'', given_or i ''variant'' (jlit ''default''))]), given i ''class''])] i
          (i_slot i)]"

definition ui_tabs_trigger :: "kit_env \<Rightarrow> 'e ui" where
  "ui_tabs_trigger E i =
     [root E ''TabsTrigger'' [''class'']
          [(''data-slot'', jlit ''tabs-trigger''),
           (''class'', cn E [jlit ''gap-1.5 rounded-xl border border-transparent px-3 py-1 text-sm font-medium group-data-[variant=default]/tabs-list:data-active:shadow-sm group-data-[variant=line]/tabs-list:data-active:shadow-none [&_svg:not([class*=size-])]:size-4 has-data-[icon=inline-end]:pr-1 has-data-[icon=inline-start]:pl-1 relative inline-flex h-[calc(100%-1px)] flex-1 items-center justify-center whitespace-nowrap text-foreground/60 transition-all group-data-vertical/tabs:w-full group-data-vertical/tabs:justify-start hover:text-foreground focus-visible:border-ring focus-visible:ring-3 focus-visible:ring-ring/50 focus-visible:outline-1 focus-visible:outline-ring disabled:pointer-events-none disabled:opacity-50 dark:text-muted-foreground dark:hover:text-foreground [&_svg]:pointer-events-none [&_svg]:shrink-0'', jlit ''group-data-[variant=line]/tabs-list:bg-transparent group-data-[variant=line]/tabs-list:data-active:bg-transparent dark:group-data-[variant=line]/tabs-list:data-active:border-transparent dark:group-data-[variant=line]/tabs-list:data-active:bg-transparent'', jlit ''data-active:bg-background data-active:text-primary dark:data-active:border-input dark:data-active:bg-input/30 dark:data-active:text-primary'', jlit ''after:absolute after:bg-foreground after:opacity-0 after:transition-opacity group-data-horizontal/tabs:after:inset-x-0 group-data-horizontal/tabs:after:bottom-[-5px] group-data-horizontal/tabs:after:h-0.5 group-data-vertical/tabs:after:inset-y-0 group-data-vertical/tabs:after:-right-1 group-data-vertical/tabs:after:w-0.5 group-data-[variant=line]/tabs-list:data-active:after:opacity-100'', given i ''class''])] i
          (i_slot i)]"

subsection \<open>tooltip\<close>

definition ui_tooltip :: "kit_env \<Rightarrow> 'e ui" where
  "ui_tooltip E i =
     [root E ''TooltipRoot'' []
          [(''data-slot'', jlit ''tooltip'')] i
          (i_slot i)]"

definition ui_tooltip_content :: "kit_env \<Rightarrow> 'e ui" where
  "ui_tooltip_content E i =
     [VEl ''TooltipPortal'' [] []
          [root E ''TooltipContent'' [''class'']
              [(''data-slot'', jlit ''tooltip-content''),
               (''class'', cn E [jlit ''data-open:animate-in data-open:fade-in-0 data-open:zoom-in-95 data-[state=delayed-open]:animate-in data-[state=delayed-open]:fade-in-0 data-[state=delayed-open]:zoom-in-95 data-closed:animate-out data-closed:fade-out-0 data-closed:zoom-out-95 data-[side=bottom]:slide-in-from-top-2 data-[side=left]:slide-in-from-right-2 data-[side=right]:slide-in-from-left-2 data-[side=top]:slide-in-from-bottom-2 inline-flex items-center gap-1.5 rounded-md px-3 py-1.5 text-xs has-data-[slot=kbd]:pr-1.5 **:data-[slot=kbd]:relative **:data-[slot=kbd]:isolate **:data-[slot=kbd]:z-50 **:data-[slot=kbd]:rounded-sm bg-foreground text-background z-50 w-fit max-w-xs origin-(--reka-tooltip-content-transform-origin)'', given i ''class'']),
               (''side-offset'', jint 0)] i
              (i_slot i @
              [VEl ''TooltipArrow'' [(''class'', jlit ''size-2.5 rotate-45 rounded-xs bg-foreground fill-foreground z-50 translate-y-[calc(-50%_-_2px)]'')] []
                  []])]]"

definition ui_tooltip_provider :: "kit_env \<Rightarrow> 'e ui" where
  "ui_tooltip_provider E i =
     [root E ''TooltipProvider'' []
          [(''delay-duration'', jint 0)] i
          (i_slot i)]"

definition ui_tooltip_trigger :: "kit_env \<Rightarrow> 'e ui" where
  "ui_tooltip_trigger E i =
     [root E ''TooltipTrigger'' []
          [(''data-slot'', jlit ''tooltip-trigger'')] i
          (i_slot i)]"

section \<open>The table of the components\<close>

text \<open>The components by the name they are imported with (all but \<open>SelectLabel\<close>, which drops the properties of the package that it declares), and those without a slot.\<close>

definition overlay_kit :: "kit_env \<Rightarrow> (string \<times> 'e ui) list" where
  "overlay_kit E =
     [(''AlertDialog'', ui_alert_dialog E),
      (''AlertDialogAction'', ui_alert_dialog_action E),
      (''AlertDialogCancel'', ui_alert_dialog_cancel E),
      (''AlertDialogContent'', ui_alert_dialog_content E),
      (''AlertDialogDescription'', ui_alert_dialog_description E),
      (''AlertDialogFooter'', ui_alert_dialog_footer E),
      (''AlertDialogHeader'', ui_alert_dialog_header E),
      (''AlertDialogMedia'', ui_alert_dialog_media E),
      (''AlertDialogTitle'', ui_alert_dialog_title E),
      (''AlertDialogTrigger'', ui_alert_dialog_trigger E),
      (''Checkbox'', ui_checkbox E),
      (''Collapsible'', ui_collapsible E),
      (''CollapsibleContent'', ui_collapsible_content E),
      (''CollapsibleTrigger'', ui_collapsible_trigger E),
      (''Dialog'', ui_dialog E),
      (''DialogClose'', ui_dialog_close E),
      (''DialogOverlay'', ui_dialog_overlay E),
      (''DialogContent'', ui_dialog_content E),
      (''DialogDescription'', ui_dialog_description E),
      (''DialogFooter'', ui_dialog_footer E),
      (''DialogHeader'', ui_dialog_header E),
      (''DialogScrollContent'', ui_dialog_scroll_content E),
      (''DialogTitle'', ui_dialog_title E),
      (''DialogTrigger'', ui_dialog_trigger E),
      (''DropdownMenu'', ui_dropdown_menu E),
      (''DropdownMenuCheckboxItem'', ui_dropdown_menu_checkbox_item E),
      (''DropdownMenuContent'', ui_dropdown_menu_content E),
      (''DropdownMenuGroup'', ui_dropdown_menu_group E),
      (''DropdownMenuItem'', ui_dropdown_menu_item E),
      (''DropdownMenuLabel'', ui_dropdown_menu_label E),
      (''DropdownMenuRadioGroup'', ui_dropdown_menu_radio_group E),
      (''DropdownMenuRadioItem'', ui_dropdown_menu_radio_item E),
      (''DropdownMenuSeparator'', ui_dropdown_menu_separator E),
      (''DropdownMenuShortcut'', ui_dropdown_menu_shortcut E),
      (''DropdownMenuSub'', ui_dropdown_menu_sub E),
      (''DropdownMenuSubContent'', ui_dropdown_menu_sub_content E),
      (''DropdownMenuSubTrigger'', ui_dropdown_menu_sub_trigger E),
      (''DropdownMenuTrigger'', ui_dropdown_menu_trigger E),
      (''Popover'', ui_popover E),
      (''PopoverAnchor'', ui_popover_anchor E),
      (''PopoverContent'', ui_popover_content E),
      (''PopoverDescription'', ui_popover_description E),
      (''PopoverHeader'', ui_popover_header E),
      (''PopoverTitle'', ui_popover_title E),
      (''PopoverTrigger'', ui_popover_trigger E),
      (''Select'', ui_select E),
      (''SelectScrollDownButton'', ui_select_scroll_down_button E),
      (''SelectScrollUpButton'', ui_select_scroll_up_button E),
      (''SelectContent'', ui_select_content E),
      (''SelectGroup'', ui_select_group E),
      (''SelectItem'', ui_select_item E),
      (''SelectItemText'', ui_select_item_text E),
      (''SelectSeparator'', ui_select_separator E),
      (''SelectTrigger'', ui_select_trigger E),
      (''SelectValue'', ui_select_value E),
      (''Sheet'', ui_sheet E),
      (''SheetClose'', ui_sheet_close E),
      (''SheetOverlay'', ui_sheet_overlay E),
      (''SheetContent'', ui_sheet_content E),
      (''SheetDescription'', ui_sheet_description E),
      (''SheetFooter'', ui_sheet_footer E),
      (''SheetHeader'', ui_sheet_header E),
      (''SheetTitle'', ui_sheet_title E),
      (''SheetTrigger'', ui_sheet_trigger E),
      (''Switch'', ui_switch E),
      (''Tabs'', ui_tabs E),
      (''TabsContent'', ui_tabs_content E),
      (''TabsList'', ui_tabs_list E),
      (''TabsTrigger'', ui_tabs_trigger E),
      (''Tooltip'', ui_tooltip E),
      (''TooltipContent'', ui_tooltip_content E),
      (''TooltipProvider'', ui_tooltip_provider E),
      (''TooltipTrigger'', ui_tooltip_trigger E)]"

definition overlay_void :: "string list" where
  "overlay_void = [''DropdownMenuSeparator'', ''SelectSeparator'', ''Switch'']"

lemmas overlay_defs =
  ui_alert_dialog_def ui_alert_dialog_action_def ui_alert_dialog_cancel_def ui_alert_dialog_content_def
  ui_alert_dialog_description_def ui_alert_dialog_footer_def ui_alert_dialog_header_def ui_alert_dialog_media_def
  ui_alert_dialog_title_def ui_alert_dialog_trigger_def ui_checkbox_def ui_collapsible_def
  ui_collapsible_content_def ui_collapsible_trigger_def ui_dialog_def ui_dialog_close_def
  ui_dialog_overlay_def ui_dialog_content_def ui_dialog_description_def ui_dialog_footer_def
  ui_dialog_header_def ui_dialog_scroll_content_def ui_dialog_title_def ui_dialog_trigger_def
  ui_dropdown_menu_def ui_dropdown_menu_checkbox_item_def ui_dropdown_menu_content_def ui_dropdown_menu_group_def
  ui_dropdown_menu_item_def ui_dropdown_menu_label_def ui_dropdown_menu_radio_group_def ui_dropdown_menu_radio_item_def
  ui_dropdown_menu_separator_def ui_dropdown_menu_shortcut_def ui_dropdown_menu_sub_def ui_dropdown_menu_sub_content_def
  ui_dropdown_menu_sub_trigger_def ui_dropdown_menu_trigger_def ui_popover_def ui_popover_anchor_def
  ui_popover_content_def ui_popover_description_def ui_popover_header_def ui_popover_title_def
  ui_popover_trigger_def ui_select_def ui_select_scroll_down_button_def ui_select_scroll_up_button_def
  ui_select_content_def ui_select_group_def ui_select_item_def ui_select_item_text_def
  ui_select_label_def ui_select_separator_def ui_select_trigger_def ui_select_value_def
  ui_sheet_def ui_sheet_close_def ui_sheet_overlay_def ui_sheet_content_def
  ui_sheet_description_def ui_sheet_footer_def ui_sheet_header_def ui_sheet_title_def
  ui_sheet_trigger_def ui_switch_def ui_tabs_def ui_tabs_content_def
  ui_tabs_list_def ui_tabs_trigger_def ui_tooltip_def ui_tooltip_content_def
  ui_tooltip_provider_def ui_tooltip_trigger_def

text \<open>Every one of them is transparent.\<close>

lemma overlay_transparent:
  "list_all (\<lambda>nc. transparent own (fst nc \<in> set overlay_void) (snd nc)) (overlay_kit E)"
  unfolding overlay_kit_def list.pred_inject fst_conv snd_conv
  by (intro conjI; simp add: overlay_void_def transparent_def handed_def overlay_defs ui_button_def)

end
