(* ===== verification/Ui_Sidebar.thy ===== *)
theory Ui_Sidebar
  imports Ui_Overlay
begin

text \<open>
  The sidebar of \<open>components/ui/sidebar\<close>: the state of \<open>SidebarProvider\<close> with its cookie, its toggle and its
  keyboard shortcut, and the components that stand in it. The two-way binding \<open>useVModel\<close> of the package is
  an argument, with its two documented modes as hypotheses; the cookies of the browser are a list with the
  second at which each expires, written and read the way a page does it through \<open>document.cookie\<close>.
\<close>

section \<open>Cookies\<close>

type_synonym cookie = "jstring \<times> jstring \<times> int option"

fun split_on :: "code_unit \<Rightarrow> jstring \<Rightarrow> jstring list" where
  "split_on c [] = [[]]"
| "split_on c (x # s) =
     (if x = c then [] # split_on c s
      else (case split_on c s of [] \<Rightarrow> [[x]] | p # ps \<Rightarrow> (x # p) # ps))"

text \<open>\<open>name=value\<close>, split at the first sign and trimmed; the age among the attributes of a cookie.\<close>

definition name_value :: "jstring \<Rightarrow> jstring \<times> jstring" where
  "name_value s = (trim (takeWhile (\<lambda>c. c \<noteq> 0x3D) s), trim (drop 1 (dropWhile (\<lambda>c. c \<noteq> 0x3D) s)))"

definition max_age :: "jstring list \<Rightarrow> int option" where
  "max_age attributes =
     (case find (\<lambda>a. fst (name_value a) = js ''max-age'') attributes of
        None \<Rightarrow> None
      | Some a \<Rightarrow> (let v = snd (name_value a)
                  in if v \<noteq> [] \<and> list_all is_digit v then Some (digits_value v) else None))"

text \<open>Writing \<open>document.cookie\<close> at a second: the cookie of that name is replaced in its place, or added.\<close>

definition put_cookie :: "cookie \<Rightarrow> cookie list \<Rightarrow> cookie list" where
  "put_cookie c jar =
     (if fst c \<in> fst ` set jar then map (\<lambda>d. if fst d = fst c then c else d) jar else jar @ [c])"

definition set_cookie :: "int \<Rightarrow> jstring \<Rightarrow> cookie list \<Rightarrow> cookie list" where
  "set_cookie now s jar =
     (case split_on 0x3B s of
        [] \<Rightarrow> jar
      | nv # attributes \<Rightarrow>
          (let (n, v) = name_value nv
           in put_cookie (n, v, map_option (\<lambda>a. now + a) (max_age attributes)) jar))"

definition live :: "int \<Rightarrow> cookie \<Rightarrow> bool" where
  "live now c = (case snd (snd c) of None \<Rightarrow> True | Some t \<Rightarrow> now < t)"

definition cookie_pair :: "cookie \<Rightarrow> jstring" where
  "cookie_pair c = fst c @ js ''='' @ fst (snd c)"

definition cookie_string :: "int \<Rightarrow> cookie list \<Rightarrow> jstring" where
  "cookie_string now jar = intersperse (js ''; '') (map cookie_pair (filter (live now) jar))"

section \<open>The provider\<close>

definition SIDEBAR_COOKIE_NAME :: jstring where "SIDEBAR_COOKIE_NAME = js ''sidebar_state''"
definition SIDEBAR_COOKIE_MAX_AGE :: int where "SIDEBAR_COOKIE_MAX_AGE = 60 * 60 * 24 * 7"
definition SIDEBAR_WIDTH :: jstring where "SIDEBAR_WIDTH = js ''15.5rem''"
definition SIDEBAR_WIDTH_MOBILE :: jstring where "SIDEBAR_WIDTH_MOBILE = js ''18rem''"
definition SIDEBAR_WIDTH_ICON :: jstring where "SIDEBAR_WIDTH_ICON = js ''3rem''"
definition SIDEBAR_KEYBOARD_SHORTCUT :: jstring where "SIDEBAR_KEYBOARD_SHORTCUT = js ''b''"

text \<open>
  The default of the property \<open>defaultOpen\<close>. The framework evaluates the defaults of a component's
  properties once, when the module is loaded, so a page has one such value.
\<close>

definition defaultOpen :: "jstring \<Rightarrow> bool" where
  "defaultOpen cookie = (\<not> sublist (SIDEBAR_COOKIE_NAME @ js ''=false'') cookie)"

record 'm vmodel =
  vm_new :: "bool option \<Rightarrow> bool \<Rightarrow> 'm"
  vm_get :: "'m \<Rightarrow> bool"
  vm_set :: "bool \<Rightarrow> 'm \<Rightarrow> 'm"

text \<open>
  The two modes of the binding: in the passive one, for a property that is not given, it is a reference of
  its own; otherwise it reads the property, and a write is an event for the parent.
\<close>

definition passive_vm :: "'m vmodel \<Rightarrow> bool" where
  "passive_vm V \<longleftrightarrow> (\<forall>d. vm_get V (vm_new V None d) = d) \<and> (\<forall>v m. vm_get V (vm_set V v m) = v)"

definition controlled_vm :: "'m vmodel \<Rightarrow> bool" where
  "controlled_vm V \<longleftrightarrow> (\<forall>p d. vm_get V (vm_new V (Some p) d) = p) \<and> (\<forall>v m. vm_get V (vm_set V v m) = vm_get V m)"

record 'm sidebar_provider =
  sp_open :: 'm
  sp_openMobile :: bool
  sp_isMobile :: bool
  sp_jar :: "cookie list"
  sp_now :: int

definition provider_mount ::
    "'m vmodel \<Rightarrow> bool \<Rightarrow> bool option \<Rightarrow> bool \<Rightarrow> cookie list \<Rightarrow> int \<Rightarrow> 'm sidebar_provider" where
  "provider_mount V loaded given_open mobile jar now =
     \<lparr>sp_open = vm_new V given_open loaded, sp_openMobile = False, sp_isMobile = mobile, sp_jar = jar, sp_now = now\<rparr>"

definition setOpen :: "'m vmodel \<Rightarrow> bool \<Rightarrow> 'm sidebar_provider \<Rightarrow> 'm sidebar_provider" where
  "setOpen V v s =
     (let m = vm_set V v (sp_open s)
      in s\<lparr>sp_open := m,
           sp_jar := set_cookie (sp_now s)
             (SIDEBAR_COOKIE_NAME @ js ''='' @ to_string (JBool (vm_get V m)) @
              js ''; path=/; max-age='' @ to_string (jint SIDEBAR_COOKIE_MAX_AGE)) (sp_jar s)\<rparr>)"

definition setOpenMobile :: "bool \<Rightarrow> 'm sidebar_provider \<Rightarrow> 'm sidebar_provider" where
  "setOpenMobile v s = s\<lparr>sp_openMobile := v\<rparr>"

definition toggleSidebar :: "'m vmodel \<Rightarrow> 'm sidebar_provider \<Rightarrow> 'm sidebar_provider" where
  "toggleSidebar V s =
     (if sp_isMobile s then setOpenMobile (\<not> sp_openMobile s) s else setOpen V (\<not> vm_get V (sp_open s)) s)"

text \<open>The listener of \<open>keydown\<close>, with whether it prevents the default action.\<close>

definition onKeydown :: "'m vmodel \<Rightarrow> jstring \<Rightarrow> bool \<Rightarrow> bool \<Rightarrow> 'm sidebar_provider \<Rightarrow> 'm sidebar_provider \<times> bool" where
  "onKeydown V key metaKey ctrlKey s =
     (if key = SIDEBAR_KEYBOARD_SHORTCUT \<and> (metaKey \<or> ctrlKey) then (toggleSidebar V s, True) else (s, False))"

definition sidebar_state :: "'m vmodel \<Rightarrow> 'm sidebar_provider \<Rightarrow> jstring" where
  "sidebar_state V s = (if vm_get V (sp_open s) then js ''expanded'' else js ''collapsed'')"

text \<open>What the provider provides, its two operations as events of the tree they are used in.\<close>

record 'e sidebar_ctx =
  sb_state :: jstring
  sb_isMobile :: bool
  sb_openMobile :: bool
  sb_toggle :: 'e
  sb_setOpenMobile :: "jsval \<Rightarrow> 'e"

definition sidebarContext :: "'m vmodel \<Rightarrow> 'm sidebar_provider \<Rightarrow> 'e \<Rightarrow> (jsval \<Rightarrow> 'e) \<Rightarrow> 'e sidebar_ctx" where
  "sidebarContext V s toggle set_mobile =
     \<lparr>sb_state = sidebar_state V s, sb_isMobile = sp_isMobile s, sb_openMobile = sp_openMobile s,
      sb_toggle = toggle, sb_setOpenMobile = set_mobile\<rparr>"

section \<open>Components\<close>

definition sidebarMenuButtonVariants :: "kit_env \<Rightarrow> jsval \<Rightarrow> jsval" where
  "sidebarMenuButtonVariants E = cva E (jlit ''ring-sidebar-ring hover:bg-sidebar-accent hover:text-sidebar-accent-foreground active:bg-sidebar-accent active:text-sidebar-accent-foreground data-active:bg-sidebar-accent data-active:text-sidebar-accent-foreground data-open:hover:bg-sidebar-accent data-open:hover:text-sidebar-accent-foreground gap-2 rounded-2xl p-2 text-left text-sm transition-[width,height,padding] group-has-data-[sidebar=menu-action]/menu-item:pr-8 group-data-[collapsible=icon]:size-8! group-data-[collapsible=icon]:p-2! focus-visible:ring-2 data-active:font-medium peer/menu-button group/menu-button flex w-full items-center overflow-hidden outline-hidden disabled:pointer-events-none disabled:opacity-50 aria-disabled:pointer-events-none aria-disabled:opacity-50 [&_svg]:size-4 [&_svg]:shrink-0 [&>span:last-child]:truncate'')
     (JObj [(js ''variants'', JObj [(js ''variant'', JObj [(js ''default'', jlit ''hover:bg-sidebar-accent hover:text-sidebar-accent-foreground''),
        (js ''outline'', jlit ''bg-background hover:bg-sidebar-accent hover:text-sidebar-accent-foreground shadow-[0_0_0_1px_var(--sidebar-border)] hover:shadow-[0_0_0_1px_var(--sidebar-accent)]'')]),
        (js ''size'', JObj [(js ''default'', jlit ''h-8 text-sm''),
        (js ''sm'', jlit ''h-7 text-xs''),
        (js ''lg'', jlit ''h-12 text-sm group-data-[collapsible=icon]:p-0!'')])]),
        (js ''defaultVariants'', JObj [(js ''variant'', jlit ''default''),
        (js ''size'', jlit ''default'')])])"

definition ui_sidebar :: "kit_env \<Rightarrow> 'e sidebar_ctx \<Rightarrow> 'e ui" where
  "ui_sidebar E C i =
     (if given_or i ''collapsible'' (jlit ''offcanvas'') = jlit ''none'' then
       [root E ''div'' [''side'', ''variant'', ''collapsible'', ''class'']
           [(''data-slot'', jlit ''sidebar''),
            (''class'', cn E [jlit ''bg-sidebar text-sidebar-foreground flex w-(--sidebar-width) flex-col'', given i ''class''])] i
           (i_slot i)]
     else if sb_isMobile C then
       ui_sheet E ((passed E [''side'', ''variant'', ''collapsible'', ''class'']
           [(''open'', JBool (sb_openMobile C))] i
           (ui_sheet_content E (inst [(''data-sidebar'', jlit ''sidebar''),
                (''data-slot'', jlit ''sidebar''),
                (''data-mobile'', jlit ''true''),
                (''side'', given_or i ''side'' (jlit ''left'')),
                (''class'', jlit ''bg-sidebar text-sidebar-foreground w-(--sidebar-width) p-0 [&>button]:hidden''),
                (''style'', JObj [(js ''--sidebar-width'', JStr SIDEBAR_WIDTH_MOBILE)])] []
               (ui_sheet_header E (inst [(''class'', jlit ''sr-only'')] []
                   (ui_sheet_title E (inst [] []
                       [VText (js ''Sidebar'')]) @
                   ui_sheet_description E (inst [] []
                       [VText (js ''Displays the mobile sidebar.'')]))) @
               [VEl ''div'' [(''class'', jlit ''flex h-full w-full flex-col'')] []
                   (i_slot i)]))))\<lparr>i_on := [(''update:open'', OnValue (sb_setOpenMobile C))] @ i_on i\<rparr>)
     else
       [VEl ''div'' [(''class'', jlit ''group peer text-sidebar-foreground hidden md:block''),
            (''data-slot'', jlit ''sidebar''),
            (''data-state'', JStr (sb_state C)),
            (''data-collapsible'', (if JStr (sb_state C) = jlit ''collapsed'' then given_or i ''collapsible'' (jlit ''offcanvas'') else JStr [])),
            (''data-variant'', given_or i ''variant'' (jlit ''sidebar'')),
            (''data-side'', given_or i ''side'' (jlit ''left''))] []
           [VEl ''div'' [(''data-slot'', jlit ''sidebar-gap''),
                (''class'', cn E [jlit ''transition-[width] duration-200 ease-linear relative w-(--sidebar-width) bg-transparent'', jlit ''group-data-[collapsible=offcanvas]:w-0'', jlit ''group-data-[side=right]:rotate-180'', (if given_or i ''variant'' (jlit ''sidebar'') = jlit ''floating'' \<or> given_or i ''variant'' (jlit ''sidebar'') = jlit ''inset'' then jlit ''group-data-[collapsible=icon]:w-[calc(var(--sidebar-width-icon)+(--spacing(4)))]'' else jlit ''group-data-[collapsible=icon]:w-(--sidebar-width-icon)'')])] []
               [],
           root E ''div'' [''side'', ''variant'', ''collapsible'', ''class'']
               [(''data-slot'', jlit ''sidebar-container''),
                (''data-side'', given_or i ''side'' (jlit ''left'')),
                (''class'', cn E [jlit ''fixed inset-y-0 z-10 hidden h-svh w-(--sidebar-width) transition-[left,right,width] duration-200 ease-linear md:flex'', (if given_or i ''side'' (jlit ''left'') = jlit ''left'' then jlit ''left-0 group-data-[collapsible=offcanvas]:left-[calc(var(--sidebar-width)*-1)]'' else jlit ''right-0 group-data-[collapsible=offcanvas]:right-[calc(var(--sidebar-width)*-1)]''), (if given_or i ''variant'' (jlit ''sidebar'') = jlit ''floating'' \<or> given_or i ''variant'' (jlit ''sidebar'') = jlit ''inset'' then jlit ''p-2 group-data-[collapsible=icon]:w-[calc(var(--sidebar-width-icon)+(--spacing(4))+2px)]'' else jlit ''group-data-[collapsible=icon]:w-(--sidebar-width-icon) group-data-[side=left]:border-r group-data-[side=right]:border-l''), given i ''class''])] i
               [VEl ''div'' [(''data-sidebar'', jlit ''sidebar''),
                    (''data-slot'', jlit ''sidebar-inner''),
                    (''class'', jlit ''bg-sidebar group-data-[variant=floating]:ring-sidebar-border group-data-[variant=floating]:rounded-2xl group-data-[variant=floating]:shadow-sm group-data-[variant=floating]:ring-1 flex size-full flex-col'')] []
                   (i_slot i)]]])"

definition ui_sidebar_content :: "kit_env \<Rightarrow> 'e ui" where
  "ui_sidebar_content E i =
     [root E ''div'' [''class'']
          [(''data-slot'', jlit ''sidebar-content''),
           (''data-sidebar'', jlit ''content''),
           (''class'', cn E [jlit ''no-scrollbar gap-0 flex min-h-0 flex-1 flex-col overflow-auto group-data-[collapsible=icon]:overflow-hidden'', given i ''class''])] i
          (i_slot i)]"

definition ui_sidebar_footer :: "kit_env \<Rightarrow> 'e ui" where
  "ui_sidebar_footer E i =
     [root E ''div'' [''class'']
          [(''data-slot'', jlit ''sidebar-footer''),
           (''data-sidebar'', jlit ''footer''),
           (''class'', cn E [jlit ''gap-2 p-2 flex flex-col'', given i ''class''])] i
          (i_slot i)]"

definition ui_sidebar_group :: "kit_env \<Rightarrow> 'e ui" where
  "ui_sidebar_group E i =
     [root E ''div'' [''class'']
          [(''data-slot'', jlit ''sidebar-group''),
           (''data-sidebar'', jlit ''group''),
           (''class'', cn E [jlit ''p-2 relative flex w-full min-w-0 flex-col'', given i ''class''])] i
          (i_slot i)]"

definition ui_sidebar_group_action :: "kit_env \<Rightarrow> 'e ui" where
  "ui_sidebar_group_action E i =
     [root E ''Primitive'' [''class'', ''as'', ''asChild'']
          [(''data-slot'', jlit ''sidebar-group-action''),
           (''data-sidebar'', jlit ''group-action''),
           (''as'', given i ''as''),
           (''as-child'', given i ''asChild''),
           (''class'', cn E [jlit ''text-sidebar-foreground ring-sidebar-ring hover:bg-sidebar-accent hover:text-sidebar-accent-foreground absolute top-3.5 right-3 w-5 rounded-md p-0 focus-visible:ring-2 [&>svg]:size-4 flex aspect-square items-center justify-center outline-hidden transition-transform group-data-[collapsible=icon]:hidden after:absolute after:-inset-2 md:after:hidden [&>svg]:shrink-0'', given i ''class''])] i
          (i_slot i)]"

definition ui_sidebar_group_content :: "kit_env \<Rightarrow> 'e ui" where
  "ui_sidebar_group_content E i =
     [root E ''div'' [''class'']
          [(''data-slot'', jlit ''sidebar-group-content''),
           (''data-sidebar'', jlit ''group-content''),
           (''class'', cn E [jlit ''text-sm w-full'', given i ''class''])] i
          (i_slot i)]"

definition ui_sidebar_group_label :: "kit_env \<Rightarrow> 'e ui" where
  "ui_sidebar_group_label E i =
     [root E ''Primitive'' [''class'', ''as'', ''asChild'']
          [(''data-slot'', jlit ''sidebar-group-label''),
           (''data-sidebar'', jlit ''group-label''),
           (''as'', given i ''as''),
           (''as-child'', given i ''asChild''),
           (''class'', cn E [jlit ''text-sidebar-foreground/70 ring-sidebar-ring h-8 rounded-md px-2 text-xs font-medium transition-[margin,opacity] duration-200 ease-linear group-data-[collapsible=icon]:pointer-events-none group-data-[collapsible=icon]:-mt-8 group-data-[collapsible=icon]:select-none group-data-[collapsible=icon]:opacity-0 focus-visible:ring-2 [&>svg]:size-4 flex shrink-0 items-center outline-hidden [&>svg]:shrink-0'', given i ''class''])] i
          (i_slot i)]"

definition ui_sidebar_header :: "kit_env \<Rightarrow> 'e ui" where
  "ui_sidebar_header E i =
     [root E ''div'' [''class'']
          [(''data-slot'', jlit ''sidebar-header''),
           (''data-sidebar'', jlit ''header''),
           (''class'', cn E [jlit ''gap-2 p-2 flex flex-col'', given i ''class''])] i
          (i_slot i)]"

definition ui_sidebar_input :: "kit_env \<Rightarrow> 'e ui" where
  "ui_sidebar_input E i =
     ui_input E (passed E [''class'']
          [(''data-slot'', jlit ''sidebar-input''),
           (''data-sidebar'', jlit ''input''),
           (''class'', cn E [jlit ''bg-background h-8 w-full shadow-none'', given i ''class''])] i
          (i_slot i))"

definition ui_sidebar_inset :: "kit_env \<Rightarrow> 'e ui" where
  "ui_sidebar_inset E i =
     [root E ''main'' [''class'']
          [(''data-slot'', jlit ''sidebar-inset''),
           (''class'', cn E [jlit ''md:peer-data-[variant=inset]:m-2 md:peer-data-[variant=inset]:ml-0 md:peer-data-[variant=inset]:rounded-2xl md:peer-data-[variant=inset]:shadow-sm md:peer-data-[variant=inset]:peer-data-[state=collapsed]:ml-2 relative flex w-full flex-1 flex-col bg-background'', given i ''class''])] i
          (i_slot i)]"

definition ui_sidebar_menu :: "kit_env \<Rightarrow> 'e ui" where
  "ui_sidebar_menu E i =
     [root E ''ul'' [''class'']
          [(''data-slot'', jlit ''sidebar-menu''),
           (''data-sidebar'', jlit ''menu''),
           (''class'', cn E [jlit ''gap-0 flex w-full min-w-0 flex-col'', given i ''class''])] i
          (i_slot i)]"

definition ui_sidebar_menu_action :: "kit_env \<Rightarrow> 'e ui" where
  "ui_sidebar_menu_action E i =
     [root E ''Primitive'' [''showOnHover'', ''class'', ''as'', ''asChild'']
          [(''data-slot'', jlit ''sidebar-menu-action''),
           (''data-sidebar'', jlit ''menu-action''),
           (''class'', cn E [jlit ''text-sidebar-foreground ring-sidebar-ring hover:bg-sidebar-accent hover:text-sidebar-accent-foreground peer-hover/menu-button:text-sidebar-accent-foreground absolute top-1.5 right-1 aspect-square w-5 rounded-md p-0 peer-data-[size=default]/menu-button:top-1.5 peer-data-[size=lg]/menu-button:top-2.5 peer-data-[size=sm]/menu-button:top-1 focus-visible:ring-2 [&>svg]:size-4 flex items-center justify-center outline-hidden transition-transform group-data-[collapsible=icon]:hidden after:absolute after:-inset-2 md:after:hidden [&>svg]:shrink-0'', (if flag i ''showOnHover'' False then jlit ''group-focus-within/menu-item:opacity-100 group-hover/menu-item:opacity-100 peer-data-active/menu-button:text-sidebar-accent-foreground aria-expanded:opacity-100 md:opacity-0'' else JBool False), given i ''class'']),
           (''as'', given_or i ''as'' (jlit ''button'')),
           (''as-child'', given i ''asChild'')] i
          (i_slot i)]"

definition ui_sidebar_menu_badge :: "kit_env \<Rightarrow> 'e ui" where
  "ui_sidebar_menu_badge E i =
     [root E ''div'' [''class'']
          [(''data-slot'', jlit ''sidebar-menu-badge''),
           (''data-sidebar'', jlit ''menu-badge''),
           (''class'', cn E [jlit ''text-sidebar-foreground peer-hover/menu-button:text-sidebar-accent-foreground peer-data-active/menu-button:text-sidebar-accent-foreground pointer-events-none absolute right-1 h-5 min-w-5 rounded-md px-1 text-xs font-medium peer-data-[size=default]/menu-button:top-1.5 peer-data-[size=lg]/menu-button:top-2.5 peer-data-[size=sm]/menu-button:top-1 flex items-center justify-center tabular-nums select-none group-data-[collapsible=icon]:hidden'', given i ''class''])] i
          (i_slot i)]"

definition ui_sidebar_menu_button_child :: "kit_env \<Rightarrow> 'e ui" where
  "ui_sidebar_menu_button_child E i =
     [root E ''Primitive'' [''variant'', ''size'', ''isActive'', ''class'', ''as'', ''asChild'']
          [(''data-slot'', jlit ''sidebar-menu-button''),
           (''data-sidebar'', jlit ''menu-button''),
           (''data-size'', given_or i ''size'' (jlit ''default'')),
           (''data-active'', js_or (JBool (flag i ''isActive'' False)) (JUndef)),
           (''class'', cn E [sidebarMenuButtonVariants E (JObj [(js ''variant'', given_or i ''variant'' (jlit ''default'')), (js ''size'', given_or i ''size'' (jlit ''default''))]), given i ''class'']),
           (''as'', given_or i ''as'' (jlit ''button'')),
           (''as-child'', given i ''asChild'')] i
          (i_slot i)]"

definition ui_sidebar_menu_button :: "kit_env \<Rightarrow> 'e sidebar_ctx \<Rightarrow> 'e ui" where
  "ui_sidebar_menu_button E C i =
     (if \<not> truthy (given i ''tooltip'') then
       ui_sidebar_menu_button_child E (passed E [''tooltip'']
           [(''as'', jlit ''button''),
            (''variant'', jlit ''default''),
            (''size'', jlit ''default'')] i
           (i_slot i))
     else
       ui_tooltip E (inst [] []
           (ui_tooltip_trigger E (inst [(''as-child'', JStr [])] []
               (ui_sidebar_menu_button_child E (passed E [''tooltip'']
                   [(''as'', jlit ''button''),
                    (''variant'', jlit ''default''),
                    (''size'', jlit ''default'')] i
                   (i_slot i)))) @
           ui_tooltip_content E (inst [(''side'', jlit ''right''),
                (''align'', jlit ''center''),
                (''hidden'', JBool (sb_state C \<noteq> js ''collapsed'' \<or> sb_isMobile C))] []
               (if is_string (given i ''tooltip'') then
                [VText (js '' '' @ interp (given i ''tooltip'') @ js '' '')]
              else
                [VEl ''component'' [(''is'', given i ''tooltip'')] []
                    []])))))"

definition ui_sidebar_menu_item :: "kit_env \<Rightarrow> 'e ui" where
  "ui_sidebar_menu_item E i =
     [root E ''li'' [''class'']
          [(''data-slot'', jlit ''sidebar-menu-item''),
           (''data-sidebar'', jlit ''menu-item''),
           (''class'', cn E [jlit ''group/menu-item relative'', given i ''class''])] i
          (i_slot i)]"

definition ui_sidebar_menu_sub :: "kit_env \<Rightarrow> 'e ui" where
  "ui_sidebar_menu_sub E i =
     [root E ''ul'' [''class'']
          [(''data-slot'', jlit ''sidebar-menu-sub''),
           (''data-sidebar'', jlit ''menu-sub''),
           (''class'', cn E [jlit ''border-sidebar-border mx-3.5 translate-x-px gap-1 border-l px-2.5 py-0.5 group-data-[collapsible=icon]:hidden flex min-w-0 flex-col'', given i ''class''])] i
          (i_slot i)]"

definition ui_sidebar_menu_sub_button :: "kit_env \<Rightarrow> 'e ui" where
  "ui_sidebar_menu_sub_button E i =
     [root E ''Primitive'' [''size'', ''isActive'', ''class'', ''as'', ''asChild'']
          [(''data-slot'', jlit ''sidebar-menu-sub-button''),
           (''data-sidebar'', jlit ''menu-sub-button''),
           (''as'', given_or i ''as'' (jlit ''a'')),
           (''as-child'', given i ''asChild''),
           (''data-size'', given_or i ''size'' (jlit ''md'')),
           (''data-active'', js_or (JBool (flag i ''isActive'' False)) (JUndef)),
           (''class'', cn E [jlit ''text-sidebar-foreground ring-sidebar-ring hover:bg-sidebar-accent hover:text-sidebar-accent-foreground active:bg-sidebar-accent active:text-sidebar-accent-foreground [&>svg]:text-sidebar-accent-foreground data-active:bg-sidebar-accent data-active:text-sidebar-accent-foreground h-7 gap-2 rounded-md px-2 focus-visible:ring-2 data-[size=md]:text-sm data-[size=sm]:text-xs [&>svg]:size-4 flex min-w-0 -translate-x-px items-center overflow-hidden outline-hidden group-data-[collapsible=icon]:hidden disabled:pointer-events-none disabled:opacity-50 aria-disabled:pointer-events-none aria-disabled:opacity-50 [&>span:last-child]:truncate [&>svg]:shrink-0'', given i ''class''])] i
          (i_slot i)]"

definition ui_sidebar_menu_sub_item :: "kit_env \<Rightarrow> 'e ui" where
  "ui_sidebar_menu_sub_item E i =
     [root E ''li'' [''class'']
          [(''data-slot'', jlit ''sidebar-menu-sub-item''),
           (''data-sidebar'', jlit ''menu-sub-item''),
           (''class'', cn E [jlit ''group/menu-sub-item relative'', given i ''class''])] i
          (i_slot i)]"

definition ui_sidebar_provider :: "kit_env \<Rightarrow> 'e ui" where
  "ui_sidebar_provider E i =
     [root E ''TooltipProvider'' [''defaultOpen'', ''open'', ''class'']
          [(''delay-duration'', jint 0)] i
          [root E ''div'' [''defaultOpen'', ''open'', ''class'']
              [(''data-slot'', jlit ''sidebar-wrapper''),
               (''style'', JObj [(js ''--sidebar-width'', JStr SIDEBAR_WIDTH), (js ''--sidebar-width-icon'', JStr SIDEBAR_WIDTH_ICON)]),
               (''class'', cn E [jlit ''group/sidebar-wrapper has-data-[variant=inset]:bg-sidebar flex min-h-svh w-full'', given i ''class''])] i
              (i_slot i)]]"

definition ui_sidebar_rail :: "kit_env \<Rightarrow> 'e sidebar_ctx \<Rightarrow> 'e ui" where
  "ui_sidebar_rail E C i =
     [root E ''button'' [''class'']
          [(''data-sidebar'', jlit ''rail''),
           (''data-slot'', jlit ''sidebar-rail''),
           (''aria-label'', jlit ''Toggle Sidebar''),
           (''tabindex'', jint (-1)),
           (''title'', jlit ''Toggle Sidebar''),
           (''class'', cn E [jlit ''hover:after:bg-sidebar-border absolute inset-y-0 z-20 hidden w-4 transition-all ease-linear group-data-[side=left]:-right-4 group-data-[side=right]:left-0 after:absolute after:inset-y-0 after:start-1/2 after:w-0.5 sm:flex ltr:-translate-x-1/2 rtl:-translate-x-1/2'', jlit ''in-data-[side=left]:cursor-w-resize in-data-[side=right]:cursor-e-resize'', JStr (js ''['' @ js ''[data-side=left][data-state=collapsed]_&]:cursor-e-resize ['' @ js ''[data-side=right][data-state=collapsed]_&]:cursor-w-resize''), jlit ''group-data-[collapsible=offcanvas]:translate-x-0 group-data-[collapsible=offcanvas]:after:left-full hover:group-data-[collapsible=offcanvas]:bg-sidebar'', JStr (js ''['' @ js ''[data-side=left][data-collapsible=offcanvas]_&]:-right-2''), JStr (js ''['' @ js ''[data-side=right][data-collapsible=offcanvas]_&]:-left-2''), given i ''class''])] (i\<lparr>i_on := [(''click'', On (sb_toggle C))] @ i_on i\<rparr>)
          (i_slot i)]"

definition ui_sidebar_separator :: "kit_env \<Rightarrow> 'e ui" where
  "ui_sidebar_separator E i =
     ui_separator E (passed E [''class'']
          [(''data-slot'', jlit ''sidebar-separator''),
           (''data-sidebar'', jlit ''separator''),
           (''class'', cn E [jlit ''bg-sidebar-border mx-2 w-auto'', given i ''class''])] i
          (i_slot i))"

definition ui_sidebar_trigger :: "kit_env \<Rightarrow> 'e sidebar_ctx \<Rightarrow> 'e ui" where
  "ui_sidebar_trigger E C i =
     ui_button E ((passed E [''class'']
          [(''data-sidebar'', jlit ''trigger''),
           (''data-slot'', jlit ''sidebar-trigger''),
           (''variant'', jlit ''ghost''),
           (''size'', jlit ''icon-sm''),
           (''class'', cn E [JStr [], given i ''class''])] i
          [VEl ''PanelLeft'' [(''class'', jlit ''cn-rtl-flip'')] []
              [],
          VEl ''span'' [(''class'', jlit ''sr-only'')] []
              [VText (js ''Toggle Sidebar'')]])\<lparr>i_on := [(''click'', On (sb_toggle C))] @ i_on i\<rparr>)"

text \<open>A skeleton entry, as wide as the random number \<open>r\<close> makes it.\<close>

definition skeleton_width :: "rat \<Rightarrow> jstring" where
  "skeleton_width r = show_int (\<lfloor>r * 40\<rfloor> + 50) @ js ''%''"

definition ui_sidebar_menu_skeleton :: "kit_env \<Rightarrow> rat \<Rightarrow> 'e ui" where
  "ui_sidebar_menu_skeleton E r i =
     [root E ''div'' [''showIcon'', ''class'']
        [(''data-slot'', jlit ''sidebar-menu-skeleton''),
         (''data-sidebar'', jlit ''menu-skeleton''),
         (''class'', cn E [jlit ''h-8 gap-2 rounded-md px-2 flex items-center'', given i ''class''])] i
        ((if flag i ''showIcon'' False then
           ui_skeleton E (inst [(''class'', jlit ''size-4 rounded-md''),
             (''data-sidebar'', jlit ''menu-skeleton-icon'')] [] [])
         else []) @
         ui_skeleton E (inst [(''class'', jlit ''h-4 max-w-(--skeleton-width) flex-1''),
           (''data-sidebar'', jlit ''menu-skeleton-text''),
           (''style'', JObj [(js ''--skeleton-width'', JStr (skeleton_width r))])] [] []))]"

section \<open>The table of the components\<close>

definition sidebar_kit :: "kit_env \<Rightarrow> 'e sidebar_ctx \<Rightarrow> (string \<times> 'e ui) list" where
  "sidebar_kit E C =
     [(''Sidebar'', ui_sidebar E C),
      (''SidebarContent'', ui_sidebar_content E),
      (''SidebarFooter'', ui_sidebar_footer E),
      (''SidebarGroup'', ui_sidebar_group E),
      (''SidebarGroupAction'', ui_sidebar_group_action E),
      (''SidebarGroupContent'', ui_sidebar_group_content E),
      (''SidebarGroupLabel'', ui_sidebar_group_label E),
      (''SidebarHeader'', ui_sidebar_header E),
      (''SidebarInput'', ui_sidebar_input E),
      (''SidebarInset'', ui_sidebar_inset E),
      (''SidebarMenu'', ui_sidebar_menu E),
      (''SidebarMenuAction'', ui_sidebar_menu_action E),
      (''SidebarMenuBadge'', ui_sidebar_menu_badge E),
      (''SidebarMenuButtonChild'', ui_sidebar_menu_button_child E),
      (''SidebarMenuButton'', ui_sidebar_menu_button E C),
      (''SidebarMenuItem'', ui_sidebar_menu_item E),
      (''SidebarMenuSub'', ui_sidebar_menu_sub E),
      (''SidebarMenuSubButton'', ui_sidebar_menu_sub_button E),
      (''SidebarMenuSubItem'', ui_sidebar_menu_sub_item E),
      (''SidebarProvider'', ui_sidebar_provider E),
      (''SidebarRail'', ui_sidebar_rail E C),
      (''SidebarSeparator'', ui_sidebar_separator E),
      (''SidebarTrigger'', ui_sidebar_trigger E C)]"

definition sidebar_void :: "string list" where
  "sidebar_void = [''SidebarInput'', ''SidebarSeparator'', ''SidebarTrigger'']"

lemmas sidebar_defs =
  ui_sidebar_def ui_sidebar_content_def ui_sidebar_footer_def ui_sidebar_group_def
  ui_sidebar_group_action_def ui_sidebar_group_content_def ui_sidebar_group_label_def ui_sidebar_header_def
  ui_sidebar_input_def ui_sidebar_inset_def ui_sidebar_menu_def ui_sidebar_menu_action_def
  ui_sidebar_menu_badge_def ui_sidebar_menu_button_child_def ui_sidebar_menu_button_def ui_sidebar_menu_item_def
  ui_sidebar_menu_sub_def ui_sidebar_menu_sub_button_def ui_sidebar_menu_sub_item_def ui_sidebar_provider_def
  ui_sidebar_rail_def ui_sidebar_separator_def ui_sidebar_trigger_def

definition sidebar_own :: "'e sidebar_ctx \<Rightarrow> 'e \<Rightarrow> bool" where
  "sidebar_own C e \<longleftrightarrow> e = sb_toggle C \<or> (\<exists>v. e = sb_setOpenMobile C v)"

text \<open>They are transparent but for the two events of the sidebar.\<close>

lemma sidebar_transparent:
  "list_all (\<lambda>nc. transparent (sidebar_own C) (fst nc \<in> set sidebar_void) (snd nc)) (sidebar_kit E C)"
  unfolding sidebar_kit_def list.pred_inject fst_conv snd_conv
  by (intro conjI; auto simp: sidebar_void_def transparent_def handed_def sidebar_own_def sidebar_defs
     ui_button_def ui_input_def ui_separator_def ui_sheet_def ui_sheet_content_def ui_sheet_overlay_def ui_sheet_header_def
     ui_sheet_title_def ui_sheet_description_def ui_tooltip_def ui_tooltip_trigger_def ui_tooltip_content_def)

section \<open>The cookie\<close>

lemma sublist_separated:
  assumes "c \<notin> set p"
  shows "sublist p (xs @ c # ys) \<longleftrightarrow> sublist p xs \<or> sublist p ys"
proof
  assume "sublist p (xs @ c # ys)"
  then consider "sublist p xs" | "sublist p (c # ys)"
    | p1 p2 where "p = p1 @ p2" "suffix p1 xs" "prefix p2 (c # ys)"
    by (auto simp: sublist_append)
  then show "sublist p xs \<or> sublist p ys"
  proof cases
    case 2
    then show ?thesis using assms by (auto simp: sublist_Cons_right prefix_Cons)
  next
    case 3
    then have "p2 = []" using assms by (auto simp: prefix_Cons)
    then show ?thesis using 3 by (simp add: suffix_imp_sublist)
  qed simp
next
  assume "sublist p xs \<or> sublist p ys"
  then show "sublist p (xs @ c # ys)" by (auto simp: sublist_append sublist_Cons_right)
qed

lemma sublist_intersperse:
  assumes "p \<noteq> []" and "0x3B \<notin> set p" and "0x20 \<notin> set p"
  shows "sublist p (intersperse (js ''; '') xs) \<longleftrightarrow> (\<exists>x\<in>set xs. sublist p x)"
  using assms
proof (induction "js ''; ''" xs rule: intersperse.induct)
  case (3 x y xs)
  have "sublist p (x @ js ''; '' @ intersperse (js ''; '') (y # xs)) \<longleftrightarrow>
      sublist p x \<or> sublist p (intersperse (js ''; '') (y # xs))"
    using 3 sublist_separated [of "0x3B" p x] sublist_separated [of "0x20" p "[]"] by (simp add: js_Cons)
  then show ?case using 3 by simp
qed auto

lemma set_sidebar_cookie:
  "set_cookie now (SIDEBAR_COOKIE_NAME @ js ''='' @ to_string (JBool b) @ js ''; path=/; max-age='' @
     to_string (jint SIDEBAR_COOKIE_MAX_AGE)) jar =
   put_cookie (SIDEBAR_COOKIE_NAME, to_string (JBool b), Some (now + SIDEBAR_COOKIE_MAX_AGE)) jar"
proof -
  let ?s = "\<lambda>b. SIDEBAR_COOKIE_NAME @ js ''='' @ to_string (JBool b) @ js ''; path=/; max-age='' @
     to_string (jint SIDEBAR_COOKIE_MAX_AGE)"
  have s: "split_on 0x3B (?s b) = [SIDEBAR_COOKIE_NAME @ js ''='' @ to_string (JBool b), js '' path=/'', js '' max-age=604800'']"
    by (cases b; simp only:) code_simp+
  have n: "name_value (SIDEBAR_COOKIE_NAME @ js ''='' @ to_string (JBool b)) = (SIDEBAR_COOKIE_NAME, to_string (JBool b))"
    by (cases b; simp only:) code_simp+
  have m: "max_age [js '' path=/'', js '' max-age=604800''] = Some SIDEBAR_COOKIE_MAX_AGE"
    by code_simp
  show ?thesis unfolding set_cookie_def s list.case n m prod.case Let_def option.map by (rule refl)
qed

lemma setOpen_jar:
  "sp_jar (setOpen V v s) =
     put_cookie (SIDEBAR_COOKIE_NAME, to_string (JBool (vm_get V (vm_set V v (sp_open s)))),
       Some (sp_now s + SIDEBAR_COOKIE_MAX_AGE)) (sp_jar s)"
  unfolding setOpen_def Let_def set_sidebar_cookie by simp

lemma set_put_cookie: "set (put_cookie c jar) = insert c {d \<in> set jar. fst d \<noteq> fst c}"
  unfolding put_cookie_def by (auto simp: image_iff)

text \<open>What the text of the cookie holds: the pair \<open>false\<close> and no other.\<close>

lemma sidebar_pair:
  "sublist (SIDEBAR_COOKIE_NAME @ js ''=false'') (cookie_pair (SIDEBAR_COOKIE_NAME, to_string (JBool b), x)) \<longleftrightarrow> \<not> b"
proof -
  have "sublist (SIDEBAR_COOKIE_NAME @ js ''=false'') (SIDEBAR_COOKIE_NAME @ js ''='' @ to_string (JBool b)) \<longleftrightarrow> \<not> b"
    by (cases b; simp only:) code_simp+
  then show ?thesis by (simp add: cookie_pair_def)
qed

lemma defaultOpen_put:
  assumes "\<forall>c\<in>set jar. fst c \<noteq> SIDEBAR_COOKIE_NAME \<longrightarrow> \<not> sublist (SIDEBAR_COOKIE_NAME @ js ''=false'') (cookie_pair c)"
  shows "defaultOpen (cookie_string t (put_cookie (SIDEBAR_COOKIE_NAME, to_string (JBool b), Some e) jar)) \<longleftrightarrow> b \<or> e \<le> t"
proof -
  let ?p = "SIDEBAR_COOKIE_NAME @ js ''=false''" and ?c = "(SIDEBAR_COOKIE_NAME, to_string (JBool b), Some e)"
  have p: "?p \<noteq> []" "0x3B \<notin> set ?p" "0x20 \<notin> set ?p" by code_simp+
  have "sublist ?p (cookie_string t (put_cookie ?c jar)) \<longleftrightarrow>
      (\<exists>c\<in>set (put_cookie ?c jar). live t c \<and> sublist ?p (cookie_pair c))"
    unfolding cookie_string_def by (subst sublist_intersperse [OF p]) auto
  also have "\<dots> \<longleftrightarrow> live t ?c \<and> \<not> b" using assms sidebar_pair [of b "Some e"] by (auto simp: set_put_cookie)
  finally show ?thesis by (auto simp: defaultOpen_def live_def)
qed

section \<open>Properties\<close>

text \<open>
  C21: the sidebar comes back as it was left. A page loaded after the sidebar was opened or closed starts with
  what it was set to, unless more than the seven days of the cookie have passed, after which it starts open.
  The other cookies of the site must not contain the pair that is looked for.
\<close>

theorem sidebar_round_trip:
  assumes "passive_vm V"
    and "\<forall>c\<in>set (sp_jar s). fst c \<noteq> SIDEBAR_COOKIE_NAME \<longrightarrow>
      \<not> sublist (SIDEBAR_COOKIE_NAME @ js ''=false'') (cookie_pair c)"
  shows "defaultOpen (cookie_string t (sp_jar (setOpen V v s))) \<longleftrightarrow> v \<or> sp_now s + 7 * 24 * 60 * 60 \<le> t"
  using assms defaultOpen_put [OF assms(2)]
  by (simp only: setOpen_jar passive_vm_def) (simp add: SIDEBAR_COOKIE_MAX_AGE_def)

text \<open>A reference of one's own, which is what the binding is for a property that is not given.\<close>

definition ref_vm :: "bool vmodel" where
  "ref_vm = \<lparr>vm_new = \<lambda>p d. (case p of None \<Rightarrow> d | Some b \<Rightarrow> b), vm_get = id, vm_set = \<lambda>v m. v\<rparr>"

definition prop_vm :: "bool vmodel" where
  "prop_vm = \<lparr>vm_new = \<lambda>p d. (case p of None \<Rightarrow> d | Some b \<Rightarrow> b), vm_get = id, vm_set = \<lambda>v m. m\<rparr>"

lemma vm_modes: "passive_vm ref_vm" "controlled_vm prop_vm"
  by (simp_all add: passive_vm_def controlled_vm_def ref_vm_def prop_vm_def)

theorem sidebar_round_trip_witness:
  "\<not> defaultOpen (cookie_string 100 (sp_jar (setOpen ref_vm False
      (provider_mount ref_vm True None False [(js ''lang'', js ''en'', None)] 0))))"
proof -
  let ?s = "provider_mount ref_vm True None False [(js ''lang'', js ''en'', None)] 0"
  have "\<not> sublist (SIDEBAR_COOKIE_NAME @ js ''=false'') (cookie_pair (js ''lang'', js ''en'', None))" by code_simp
  then show ?thesis using sidebar_round_trip [of ref_vm ?s 100 False] vm_modes(1) by (simp add: provider_mount_def)
qed

text \<open>
  C37: a sidebar that is mounted again on the same page does not come back as it was left. The default was
  read from the cookie when the page was loaded, so after signing out and in again the sidebar is as it was
  at that time, while the cookie holds, and a page loaded now would show, what it was last set to.
\<close>

theorem sidebar_remount_forgets:
  assumes "passive_vm V" and "v \<noteq> loaded" and "t < sp_now s + 7 * 24 * 60 * 60"
    and "\<forall>c\<in>set (sp_jar s). fst c \<noteq> SIDEBAR_COOKIE_NAME \<longrightarrow>
      \<not> sublist (SIDEBAR_COOKIE_NAME @ js ''=false'') (cookie_pair c)"
  shows "vm_get V (sp_open (provider_mount V loaded None mobile (sp_jar (setOpen V v s)) t)) = loaded \<and>
     defaultOpen (cookie_string t (sp_jar (setOpen V v s))) = (\<not> loaded)"
proof -
  have "defaultOpen (cookie_string t (sp_jar (setOpen V v s))) \<longleftrightarrow> v"
    using assms(1,3) defaultOpen_put [OF assms(4)]
    by (simp only: setOpen_jar passive_vm_def) (simp add: SIDEBAR_COOKIE_MAX_AGE_def)
  then show ?thesis using assms(1,2) by (auto simp: provider_mount_def passive_vm_def)
qed

theorem sidebar_remount_forgets_witness:
  "let s = setOpen ref_vm False (provider_mount ref_vm True None False [] 0)
   in \<not> vm_get ref_vm (sp_open s) \<and>
      vm_get ref_vm (sp_open (provider_mount ref_vm True None False (sp_jar s) 60)) \<and>
      \<not> defaultOpen (cookie_string 60 (sp_jar s))"
  using sidebar_remount_forgets [of ref_vm False True 60 "provider_mount ref_vm True None False [] 0" False] vm_modes(1)
  by (simp add: provider_mount_def Let_def passive_vm_def setOpen_def)

text \<open>
  A sidebar whose state its parent holds keeps the wrong state in the cookie. Setting it only tells the
  parent, and the cookie is written from the property as it still is: the cookie names the state before.
\<close>

theorem sidebar_controlled_cookie:
  assumes "controlled_vm V"
  shows "(SIDEBAR_COOKIE_NAME, to_string (JBool (vm_get V (sp_open s))), Some (sp_now s + 7 * 24 * 60 * 60))
     \<in> set (sp_jar (toggleSidebar V (s\<lparr>sp_isMobile := False\<rparr>)))"
  using assms unfolding toggleSidebar_def
  by (simp add: setOpen_jar set_put_cookie controlled_vm_def SIDEBAR_COOKIE_MAX_AGE_def del: to_string.simps)

theorem sidebar_controlled_cookie_witness:
  "(SIDEBAR_COOKIE_NAME, js ''true'', Some 604800)
     \<in> set (sp_jar (toggleSidebar prop_vm (provider_mount prop_vm True (Some True) False [] 0)))"
  using sidebar_controlled_cookie [of prop_vm "provider_mount prop_vm True (Some True) False [] 0"] vm_modes(2)
  by (simp add: provider_mount_def prop_vm_def)

end
