(* ===== verification/Panel_Invariant.thy ===== *)
theory Panel_Invariant
  imports Vue_Template
begin

text \<open>
  An invariant of the session that the handlers keep in every schedule: the token of the session is the
  one in the browser's store, under the page's origin, and the page shows the theme of the session.
\<close>

section \<open>The invariant\<close>

definition theme_shown :: "theme_mode \<Rightarrow> browser \<Rightarrow> bool" where
  "theme_shown mode b \<longleftrightarrow>
     root_dark b = (mode = Dark \<or> mode = System \<and> prefers_dark b) \<and>
     root_theme_mode b = theme_text mode \<and> local_storage b THEME_KEY = Some (theme_text mode)"

definition token_stored :: "jstring \<Rightarrow> browser \<Rightarrow> bool" where
  "token_stored t b \<longleftrightarrow> migrated b \<and> tokens_of b (location_origin b) = normalizeToken t"

definition synced :: "browser \<Rightarrow> 'a panel_scheme \<Rightarrow> bool" where
  "synced b0 p \<longleftrightarrow>
     on_page b0 p \<and> s_apiBase (session p) = location_origin (win p) \<and>
     token_stored (s_token (session p)) (win p) \<and> theme_shown (s_themeMode (session p)) (win p)"

section \<open>What keeps it\<close>

text \<open>The part of the session that the invariant looks at.\<close>

definition sync_part :: "session_state \<Rightarrow> jstring \<times> jstring \<times> theme_mode" where
  "sync_part s = (s_apiBase s, s_token s, s_themeMode s)"

lemma synced_cong:
  "win q = win p \<Longrightarrow> sync_part (session q) = sync_part (session p) \<Longrightarrow> synced b0 q = synced b0 p"
  by (simp add: synced_def on_page_def sync_part_def)

lemma stays_Do_sync [stays_intros]:
  "(\<And>s. win (f s) = win s \<and> sync_part (session (f s)) = sync_part (session s)) \<Longrightarrow>
   stays (synced b0) Q p \<Longrightarrow> stays (synced b0) Q (Do f p)"
  by (rule stays_Do) (metis synced_cong)

lemma theme_key_other [simp]:
  "tokenStorageKey base \<noteq> THEME_KEY" "THEME_KEY \<noteq> tokenStorageKey base" "CELL_KEY \<noteq> THEME_KEY"
  "THEME_KEY \<noteq> CELL_KEY"
  "LEGACY_TOKEN_KEY \<noteq> THEME_KEY" "THEME_KEY \<noteq> LEGACY_TOKEN_KEY" "tokenStorageKey base \<noteq> CELL_KEY"
  "CELL_KEY \<noteq> LEGACY_TOKEN_KEY" "LEGACY_TOKEN_KEY \<noteq> CELL_KEY" "CELL_KEY \<noteq> tokenStorageKey base"
  by (auto simp: storage_keys tokenStorageKey_def js_Cons)

lemma theme_shown_saveToken [simp]: "theme_shown mode (saveToken base t b) = theme_shown mode b"
  by (cases "session_storage b")
    (auto simp: theme_shown_def saveToken_def tokenStore_def Let_def)

lemma origin_saveToken [simp]: "location_origin (saveToken base t b) = location_origin b"
  using same_page_saveToken [of b base t] by (simp add: same_page_def)

lemma token_stored_saveToken:
  "migrated b \<Longrightarrow> token_stored t (saveToken (location_origin b) t b)"
  by (simp add: token_stored_def migrated_saveToken tokens_of_save)

lemma on_page_win: "on_page b0 p \<Longrightarrow> same_page (win p) (win q) \<Longrightarrow> on_page b0 q"
  by (auto simp: on_page_def intro: same_page_trans)

lemma synced_setToken:
  assumes "synced b0 p"
  shows "synced b0 (setToken t p)"
proof -
  have "migrated (win p)" "s_apiBase (session p) = location_origin (win p)"
    using assms by (simp_all add: synced_def token_stored_def)
  then have "token_stored t (win (setToken t p))" by (simp add: setToken_def Let_def token_stored_saveToken)
  moreover have "on_page b0 (setToken t p)"
    using assms by (auto simp: synced_def elim!: on_page_win)
  ultimately show ?thesis using assms by (simp add: synced_def setToken_def Let_def)
qed

text \<open>A write of the theme or of the selected cell leaves the token store alone.\<close>

lemma token_stored_local:
  assumes "k = THEME_KEY \<or> k = CELL_KEY"
  shows "token_stored t (set_item LocalStore k v b) = token_stored t b"
proof -
  have m: "migrated (set_item LocalStore k v b) = migrated b"
    using assms by (elim disjE) (simp_all add: migrated_def)
  have t: "tokens_of (set_item LocalStore k v b) base = tokens_of b base" if mb: "migrated b" for base
  proof -
    have m': "migrated (set_item LocalStore k v b)" using m mb by blast
    show ?thesis
      unfolding tokens_of_def migrated_loadSavedToken [OF mb] migrated_loadSavedToken [OF m'] by simp
  qed
  have "location_origin (set_item LocalStore k v b) = location_origin b" by simp
  then show ?thesis unfolding token_stored_def m using t by (cases "migrated b") simp_all
qed

lemma token_stored_root [simp]:
  "token_stored t (b\<lparr>root_dark := d, root_theme_mode := m\<rparr>) = token_stored t b"
  "token_stored t (b\<lparr>prefers_dark := d\<rparr>) = token_stored t b"
proof -
  have g: "migrated b' = migrated b \<and> (migrated b \<longrightarrow> tokens_of b' = tokens_of b)"
    if "session_storage b' = session_storage b" "local_storage b' = local_storage b" for b'
    using that by (auto simp: migrated_def tokens_of_def fun_eq_iff migrated_loadSavedToken)
  show "token_stored t (b\<lparr>root_dark := d, root_theme_mode := m\<rparr>) = token_stored t b"
    using g [of "b\<lparr>root_dark := d, root_theme_mode := m\<rparr>"] by (auto simp: token_stored_def)
  show "token_stored t (b\<lparr>prefers_dark := d\<rparr>) = token_stored t b"
    using g [of "b\<lparr>prefers_dark := d\<rparr>"] by (auto simp: token_stored_def)
qed

lemma token_stored_applyTheme [simp]: "token_stored t (applyTheme mode b) = token_stored t b"
  by (simp only: applyTheme_def Let_def token_stored_local token_stored_root simp_thms)

lemma theme_shown_applyTheme: "theme_shown mode (applyTheme mode b)"
  by (simp add: theme_shown_def applyTheme_def Let_def)

lemma origin_applyTheme [simp]: "location_origin (applyTheme mode b) = location_origin b"
  by (simp add: applyTheme_def Let_def)

lemma synced_applyTheme: "synced b0 p \<Longrightarrow> synced b0 (upd_win (applyTheme (s_themeMode (session p))) p)"
  by (auto simp: synced_def theme_shown_applyTheme elim!: on_page_win)

lemma synced_setTheme: "synced b0 p \<Longrightarrow> synced b0 (setTheme mode p)"
  by (auto simp: synced_def setTheme_def theme_shown_applyTheme elim!: on_page_win)

lemma synced_setCellId: "synced b0 p \<Longrightarrow> synced b0 (setCellId cid p)"
proof -
  assume s: "synced b0 p"
  have "token_stored t (saveCellId cid b) = token_stored t b" "theme_shown mode (saveCellId cid b) = theme_shown mode b"
    "location_origin (saveCellId cid b) = location_origin b" for t mode b
    by (simp_all only: saveCellId_def token_stored_local simp_thms) (simp_all add: theme_shown_def)
  with s show ?thesis by (auto simp: synced_def setCellId_def elim!: on_page_win)
qed

lemma synced_begin_auth: "synced b0 p \<Longrightarrow> synced b0 (begin_auth p)"
  using synced_applyTheme [of b0 p]
    synced_cong [of "begin_auth p" "upd_win (applyTheme (s_themeMode (session p))) p" b0]
  by (simp add: begin_auth_def sync_part_def)

lemma synced_session:
  assumes "synced b0 p"
  shows "synced b0 (reject_token e p)" "synced b0 (reveal_token t p)"
    "synced b0 (set_phase ph (setToken [] p))"
proof -
  have "synced b0 (upd_session f (setToken t p))" if "\<And>s. sync_part (f s) = sync_part s" for f t
    using synced_setToken [OF assms, of t] that synced_cong [of "upd_session f (setToken t p)" "setToken t p" b0] by simp
  then show "synced b0 (reject_token e p)" "synced b0 (reveal_token t p)"
    "synced b0 (set_phase ph (setToken [] p))"
    by (simp_all add: reject_token_def reveal_token_def set_phase_def sync_part_def)
qed

section \<open>The library keeps it\<close>

lemma synced_migrated: "synced b0 p \<Longrightarrow> migrated (win p)"
  by (simp add: synced_def token_stored_def)

lemma authHeaders_migrated_snd: "migrated b \<Longrightarrow> snd (authHeaders b) = b"
  by (simp add: authHeaders_def migrated_loadSavedToken Let_def)

text \<open>The updates that write the stores.\<close>

lemma stays_writes_sync [stays_intros]:
  assumes "stays (synced b0) Q p"
  shows "stays (synced b0) Q (Do begin_auth p)" "stays (synced b0) Q (Do (reject_token e) p)"
    "stays (synced b0) Q (Do (reveal_token t) p)" "stays (synced b0) Q (Do (\<lambda>p. set_phase ph (setToken [] p)) p)"
    "stays (synced b0) Q (Do (setToken t) p)" "stays (synced b0) Q (Do (setTheme mode) p)"
    "stays (synced b0) Q (Do (setCellId cid) p)"
  using assms
  by (simp_all add: stays_def synced_begin_auth synced_session synced_setToken synced_setTheme synced_setCellId)

lemma stays_api_sync [stays_intros]:
  "stays (synced b0) (\<lambda>_. True) (api_request url m body)"
proof
  fix p assume s: "synced b0 p"
  obtain a b' where a: "authHeaders (win p) = (a, b')" by (cases "authHeaders (win p)")
  have "b' = win p" using authHeaders_migrated_snd [OF synced_migrated [OF s]] a by simp
  then have "synced b0 (upd_win (\<lambda>_. b') p)" using s synced_cong [of "upd_win (\<lambda>_. b') p" p b0] by simp
  then show "keeps (synced b0) (\<lambda>_. True) (api_request url m body) p"
    by (simp add: api_request_def a)
qed

lemmas sync_simps = api_defs sync_part_def

lemma stays_refresh_sync [stays_intros]:
  "stays (synced b0) (\<lambda>_. True) refreshQueues" "stays (synced b0) (\<lambda>_. True) refreshGroups"
  "stays (synced b0) (\<lambda>_. True) refreshFlows" "stays (synced b0) (\<lambda>_. True) (queryCells kind)"
  by (auto simp: queryCells_def refresh_defs refresh_list_def set_catalog_defs sync_simps intro!: stays_intros)

lemma stays_polls_sync [stays_intros]:
  "stays (synced b0) (\<lambda>_. True) refreshCells" "stays (synced b0) (\<lambda>_. True) pollHealth"
  "stays (synced b0) (\<lambda>_. True) pollCluster"
  by (auto simp: refreshCells_def pollHealth_def pollCluster_def store_cells_def clear_cells_def
      health_down_def Let_def sync_simps intro!: stays_intros)

lemma stays_startApp_sync [stays_intros]: "stays (synced b0) (\<lambda>_. True) startApp"
  by (auto simp: startApp_def set_phase_def set_timers_def sync_simps intro!: stays_intros)

lemma stays_initAuth_sync [stays_intros]: "stays (synced b0) (\<lambda>_. True) initAuth"
  unfolding initAuth_def auth_decide_def fetch_json_def
  by (auto simp: unreachable_def set_phase_def sync_simps intro!: stays_intros)

lemma stays_session_sync [stays_intros]:
  "stays (synced b0) (\<lambda>_. True) (setupPassword pw)" "stays (synced b0) (\<lambda>_. True) (regenerateToken pw)"
  "stays (synced b0) (\<lambda>_. True) finishReveal" "stays (synced b0) (\<lambda>_. True) (submitGateToken raw)"
  "stays (synced b0) (\<lambda>_. True) (copyText t)"
  by (auto simp: setupPassword_def regenerateToken_def post_password_def finishReveal_def
      submitGateToken_def copyText_def sync_simps intro!: stays_intros)

section \<open>Scripts that keep it\<close>

locale synced_script =
  fixes handler :: "'e \<Rightarrow> 'a panel_scheme proc"
  assumes handler_synced: "stays (synced b0) (\<lambda>_. True) (handler e)"
begin

lemma synced_handler_keeps: "synced b0 s \<Longrightarrow> keeps (synced b0) (\<lambda>_. True) (handler e) s"
  by (rule staysD [OF handler_synced])

end

sublocale synced_script \<subseteq> sync_loop: event_loop "\<lambda>_ _. True" handler "synced b0" "\<lambda>_. True" for b0
  by unfold_locales (rule synced_handler_keeps)

text \<open>The token the next request carries is the session's, and the page shows the session's theme.\<close>

lemma synced_headers:
  assumes "synced b0 p"
  shows "fst (authHeaders (win p)) =
     (let t = normalizeToken (normalizeToken (s_token (session p)))
      in if t = [] then [] else [(js ''Authorization'', js ''Bearer '' @ t)])"
proof -
  have "api_base (win p) = location_origin (win p)"
    using assms on_page_base [of b0 p] by (simp add: synced_def on_page_def same_page_def)
  then have "fst (loadSavedToken (api_base (win p)) (win p)) = normalizeToken (s_token (session p))"
    using assms by (simp add: synced_def token_stored_def tokens_of_def)
  then show ?thesis by (simp add: authHeaders_def Let_def case_prod_unfold)
qed

end
