(* ===== verification/Panel_Requests.thy ===== *)
theory Panel_Requests
  imports Panel_Invariant
begin

text \<open>
  What the panel asks of the broker. Reading is always allowed; a policy says which other requests a script
  may send, by method, URL and body. The library only reads, except where a password is posted, so a page
  keeps a policy when the writes of its own handlers do.
\<close>

section \<open>Policies\<close>

type_synonym policy = "http_method \<Rightarrow> jstring \<Rightarrow> jstring option \<Rightarrow> bool"

definition allowed :: "policy \<Rightarrow> query \<Rightarrow> bool" where
  "allowed W q =
     (case q of
        Fetch r \<Rightarrow> req_method r = GET \<and> req_body r = None \<or> W (req_method r) (req_url r) (req_body r)
      | WriteClipboard _ \<Rightarrow> True)"

lemma allowed_simps [simp]:
  "allowed W (Fetch r) \<longleftrightarrow> req_method r = GET \<and> req_body r = None \<or> W (req_method r) (req_url r) (req_body r)"
  "allowed W (WriteClipboard t)"
  by (simp_all add: allowed_def)

lemma page_urls:
  assumes "on_page b0 p"
  shows "publicUrl path (win p) = publicUrl path b0" "adminUrl path (win p) = adminUrl path b0"
proof -
  have "api_base (win p) = api_base b0" "adminApiRoot (win p) = adminApiRoot b0"
    using assms on_page_base [OF assms] api_base_http [of b0]
    by (simp_all add: on_page_def same_page_def adminApiRoot_def)
  then show "publicUrl path (win p) = publicUrl path b0" "adminUrl path (win p) = adminUrl path b0"
    by (simp_all add: publicUrl_def adminUrl_def Let_def)
qed

lemma stays_weaken:
  assumes "stays I Q p" and "\<And>q. Q q \<Longrightarrow> Q' q"
  shows "stays I Q' p"
proof -
  have "keeps I Q p s \<Longrightarrow> keeps I Q' p s" for s
    using assms(2) by (induction p arbitrary: s) (auto simp: stays_def)
  then show ?thesis using assms(1) by (simp add: stays_def)
qed

text \<open>
  \<open>sends_only b0 ok p\<close>: from any state of the page, and whatever else happens meanwhile, \<open>p\<close> sends only
  what the policy allows.
\<close>

abbreviation sends_only :: "browser \<Rightarrow> policy \<Rightarrow> 'a panel_scheme proc \<Rightarrow> bool" where
  "sends_only b0 W \<equiv> stays (on_page b0) (allowed W)"

lemma sends_request:
  assumes "m = GET \<and> body = None \<or> W m url body"
  shows "sends_only b0 W (api_request url m body)"
proof
  fix p assume "on_page b0 p"
  then show "keeps (on_page b0) (allowed W) (api_request url m body) p"
    using assms by (auto intro!: keeps_api_request on_page_upd_win)
qed

lemma sends_api [stays_intros]:
  "sends_only b0 W (apiGet url)"
  "on_page b0 s \<Longrightarrow> W POST (publicUrl path b0) (request_data v) \<Longrightarrow> sends_only b0 W (apiPost (publicUrl path (win s)) v)"
  "on_page b0 s \<Longrightarrow> W POST (adminUrl path b0) (request_data v) \<Longrightarrow> sends_only b0 W (apiPost (adminUrl path (win s)) v)"
  "on_page b0 s \<Longrightarrow> W PUT (publicUrl path b0) (request_data v) \<Longrightarrow> sends_only b0 W (apiPut (publicUrl path (win s)) v)"
  "on_page b0 s \<Longrightarrow> W DELETE (publicUrl path b0) None \<Longrightarrow> sends_only b0 W (apiDelete (publicUrl path (win s)))"
  by (simp_all add: api_defs page_urls sends_request)

lemma sends_more:
  assumes "sends_only b0 W p" and "\<And>m url body. W m url body \<Longrightarrow> W' m url body"
  shows "sends_only b0 W' p"
  using assms(1) by (rule stays_weaken) (auto simp: allowed_def assms(2) split: query.splits)

section \<open>The library\<close>

lemma sends_catalog [stays_intros]:
  "sends_only b0 W refreshQueues" "sends_only b0 W refreshGroups" "sends_only b0 W refreshFlows"
  "sends_only b0 W (queryCells kind)"
  by (auto simp: refresh_defs refresh_list_def set_catalog_defs queryCells_def intro!: stays_intros)

lemma sends_polls [stays_intros]:
  "sends_only b0 W refreshCells" "sends_only b0 W pollHealth" "sends_only b0 W pollCluster"
  by (auto simp: refreshCells_def pollHealth_def pollCluster_def Let_def plain_get_def
      intro!: stays_intros split: reply.split)

lemma sends_startApp [stays_intros]: "sends_only b0 W startApp"
  by (auto simp: startApp_def intro!: stays_intros)

lemma sends_initAuth [stays_intros]: "sends_only b0 W initAuth"
  by (auto simp: initAuth_def auth_decide_def fetch_json_def plain_get_def intro!: stays_intros)

lemma sends_session [stays_intros]:
  "sends_only b0 W finishReveal" "sends_only b0 W (submitGateToken raw)" "sends_only b0 W (copyText t)"
  by (auto simp: finishReveal_def submitGateToken_def copyText_def Let_def intro!: stays_intros)

lemma sends_passwords [stays_intros]:
  "W POST (publicUrl (js ''/v1/local-auth/setup'') b0) (request_data (JObj [(js ''password'', JStr pw)])) \<Longrightarrow>
   sends_only b0 W (setupPassword pw)"
  "W POST (publicUrl (js ''/v1/local-auth/regenerate'') b0) (request_data (JObj [(js ''password'', JStr pw)])) \<Longrightarrow>
   sends_only b0 W (regenerateToken pw)"
  by (auto simp: setupPassword_def regenerateToken_def post_password_def intro!: stays_intros)

section \<open>Scripts that keep a policy\<close>

text \<open>
  The contract of a script with the broker: the writes of its handlers are those of its policy. In every
  state that the event loop reaches, every pending request reads or is one that the policy allows.
\<close>

locale policed_script =
  fixes writes :: "browser \<Rightarrow> policy" and handler :: "'e \<Rightarrow> 'a panel_scheme proc"
  assumes handler_sends: "sends_only b0 (writes b0) (handler e)"
begin

lemma handler_sends_keeps: "on_page b0 s \<Longrightarrow> keeps (on_page b0) (allowed (writes b0)) (handler e) s"
  by (rule staysD [OF handler_sends])

end

sublocale policed_script \<subseteq> policy_loop: event_loop "\<lambda>_ _. True" handler "on_page b0" "allowed (writes b0)" for b0
  by unfold_locales (rule handler_sends_keeps)

context policed_script
begin

lemma pending_writes:
  "on_page b0 s0 \<Longrightarrow> loop_reach (\<lambda>_ _. True) handler s0 (s, pool) \<Longrightarrow> p \<in> set pool \<Longrightarrow>
   Fetch r \<in> set (pending p) \<Longrightarrow> req_method r \<noteq> GET \<Longrightarrow> writes b0 (req_method r) (req_url r) (req_body r)"
  using policy_loop.reach_queries [of s0 s pool b0 p "Fetch r"] by simp

end

section \<open>One path segment\<close>

text \<open>A text that ends neither a path segment nor a path.\<close>

definition path_segment :: "jstring \<Rightarrow> bool" where
  "path_segment t \<longleftrightarrow> list_all (\<lambda>c. c \<noteq> 0x2F \<and> c \<noteq> 0x3F \<and> c \<noteq> 0x23) t"

lemma path_segment_encoded:
  assumes "encode_uri_component s = Inr enc"
  shows "path_segment enc"
  using encode_uri_component_units [OF assms] uri_unit_separators by (auto simp: path_segment_def list_all_iff)

lemma encode_uri_component_nonempty:
  assumes "encode_uri_component s = Inr t" and "s \<noteq> []"
  shows "t \<noteq> []"
proof
  assume "t = []"
  moreover have "encode_uri_component [] = Inr []" by code_simp
  ultimately show False using encode_uri_component_inj [of s t "[]"] assms by simp
qed



section \<open>Shared forms\<close>

lemma request_data_undef [simp]: "request_data JUndef = None"
  by code_simp

text \<open>A password that is posted for a new token.\<close>

definition regen_writes :: "browser \<Rightarrow> policy" where
  "regen_writes b m url body \<longleftrightarrow>
     m = POST \<and> url = publicUrl (js ''/v1/local-auth/regenerate'') b \<and>
     (\<exists>pw. body = request_data (JObj [(js ''password'', JStr pw)]))"

text \<open>
  A message has one destination: a group, or a URL with its secret. Only a URL is paced, by a flow profile
  or by limits of its own, not both.
\<close>

definition one_destination :: "payload \<Rightarrow> bool" where
  "one_destination pl \<longleftrightarrow>
     (case obj_get pl (js ''group_id'') of
        Some g \<Rightarrow> (\<exists>s. g = JStr s \<and> s \<noteq> []) \<and> obj_get pl (js ''url'') = None \<and> obj_get pl (js ''secret'') = None \<and>
          obj_get pl (js ''flow_id'') = None \<and> obj_get pl (js ''flowControl'') = None
      | None \<Rightarrow> (\<exists>u s. obj_get pl (js ''url'') = Some (JStr u) \<and> obj_get pl (js ''secret'') = Some (JStr s)) \<and>
          (obj_get pl (js ''flow_id'') = None \<or> obj_get pl (js ''flowControl'') = None))"

definition publish_writes :: "browser \<Rightarrow> policy" where
  "publish_writes b m url body \<longleftrightarrow>
     m = POST \<and> url = publicUrl (js ''/v1/publish'') b \<and>
     (\<exists>pl. body = request_data (JObj pl) \<and> one_destination pl)"

lemma one_destination_cong:
  "(\<And>k. k \<in> {js ''group_id'', js ''url'', js ''secret'', js ''flow_id'', js ''flowControl''} \<Longrightarrow>
      obj_get pl' k = obj_get pl k) \<Longrightarrow> one_destination pl' = one_destination pl"
  by (simp add: one_destination_def split: option.split)

lemma one_destination_outbound:
  assumes "mergeOutbound ob pl = (r, pl')" and "one_destination pl"
  shows "one_destination pl'"
proof -
  have "one_destination (snd (mergeOutbound ob pl)) = one_destination pl"
    by (rule one_destination_cong) (auto simp: mergeOutbound_get)
  then show ?thesis using assms by simp
qed

lemma publish_writes_post:
  "one_destination pl \<Longrightarrow> publish_writes b POST (publicUrl (js ''/v1/publish'') b) (request_data (JObj pl))"
  unfolding publish_writes_def by blast

section \<open>Requests of a fresh page\<close>

lemma publicUrl_inj [simp]: "publicUrl p b = publicUrl q b \<longleftrightarrow> p = q"
  by (simp add: publicUrl_def)

lemma frames_request: "(\<And>f s. obs (upd_win f s) = obs s) \<Longrightarrow> frames obs (api_request url m body)"
  by (simp add: api_request_def split: prod.split)

lemma fresh_headers: "authHeaders (fresh_page u) = ([], fresh_page u)"
  by (simp add: authHeaders_def migrated_loadSavedToken opt_or_def normalizeToken_def bearer_prefixed_def)

end
