(* ===== verification/Panel_Layout.thy ===== *)
theory Panel_Layout
  imports Panel_Requests
begin

text \<open>
  The shared components: \<open>components/form\<close> (message line, select, field, retry fields),
  \<open>components/layout\<close> (header, shell, sidebar, cell switcher, frame of the pages before sign-in) and the
  routes of \<open>router/index.ts\<close>. The class merging \<open>cn\<close> of \<open>lib/utils.ts\<close> is a composition of two
  packages and an argument of the templates that use it; an imported icon is its name.
\<close>

section \<open>Form components\<close>

definition action_message_template ::
    "(jsval list \<Rightarrow> jsval) \<Rightarrow> jsval \<Rightarrow> jsval \<Rightarrow> jsval \<Rightarrow> 'e vnode list" where
  "action_message_template cn error ok cls =
     (if truthy error then
        [VEl ''p'' [(''class'', cn [jlit ''text-xs leading-snug text-destructive'', cls])] []
           [VText (interp error)]]
      else if truthy ok then
        [VEl ''p'' [(''class'', cn [jlit ''text-xs leading-snug text-primary'', cls])] []
           [VText (interp ok)]]
      else [])"

datatype select_event = SelectModel jsval

definition app_select_template :: "jsval \<Rightarrow> jsval \<Rightarrow> jsval \<Rightarrow> select_event vnode list" where
  "app_select_template model options placeholder =
     [VEl ''Select'' [(''modelValue'', model)] [(''update:modelValue'', OnValue SelectModel)]
        [VEl ''SelectTrigger'' [(''class'', jlit ''w-full'')] []
           [VEl ''SelectValue'' [(''placeholder'', placeholder)] [] []],
         VEl ''SelectContent'' [] []
           (map (\<lambda>opt. VEl ''SelectItem''
                  [(''key'', opt_prop opt ''value''), (''value'', opt_prop opt ''value'')] []
                  [VText (js '' '' @ interp (opt_prop opt ''label'') @ js '' '')]) (elems options))]]"

definition field_template ::
    "(jsval list \<Rightarrow> jsval) \<Rightarrow> jsval \<Rightarrow> jsval \<Rightarrow> jsval \<Rightarrow> jsval \<Rightarrow> 'e vnode list \<Rightarrow> 'e vnode list" where
  "field_template cn label hint error cls slot =
     [VEl ''div'' [(''class'', cn [jlit ''grid gap-1'', cls])] []
        ([VEl ''label'' [(''class'', jlit ''text-sm font-medium text-muted-foreground'')] []
            [VText (interp label)]] @ slot @
         (if truthy error then
            [VEl ''p'' [(''class'', jlit ''text-xs text-destructive'')] [] [VText (interp error)]]
          else if truthy hint then
            [VEl ''p'' [(''class'', jlit ''text-xs text-muted-foreground'')] [] [VText (interp hint)]]
          else []))]"

definition retry_kinds :: jsval where
  "retry_kinds = JArr
     [JObj [(js ''value'', jlit ''exponential''), (js ''label'', jlit ''Exponential'')],
      JObj [(js ''value'', jlit ''fixed''), (js ''label'', jlit ''Fixed interval'')]]"

datatype retry_event =
    RetryMax jsval
  | RetryKind jsval
  | RetryInitial jsval
  | RetryMaxMs jsval
  | RetryMultiplier jsval

text \<open>The object of the retry fields as a value, and the fields' writes into it.\<close>

definition retry_value :: "retry_state \<Rightarrow> jsval" where
  "retry_value r = JObj [(js ''maxRetries'', r_maxRetries r), (js ''kind'', JStr (r_kind r)),
     (js ''initialMs'', r_initialMs r), (js ''maxMs'', r_maxMs r), (js ''multiplier'', r_multiplier r)]"

fun retry_update :: "retry_event \<Rightarrow> retry_state \<Rightarrow> retry_state" where
  "retry_update (RetryMax v) r = r\<lparr>r_maxRetries := v\<rparr>"
| "retry_update (RetryKind v) r = r\<lparr>r_kind := to_string v\<rparr>"
| "retry_update (RetryInitial v) r = r\<lparr>r_initialMs := v\<rparr>"
| "retry_update (RetryMaxMs v) r = r\<lparr>r_maxMs := v\<rparr>"
| "retry_update (RetryMultiplier v) r = r\<lparr>r_multiplier := v\<rparr>"

definition retry_fields_template :: "retry_state \<Rightarrow> retry_event vnode list" where
  "retry_fields_template st =
   [VEl ''div'' [(''class'', jlit ''grid gap-3 sm:grid-cols-2'')] []
     ([VEl ''Field'' [(''label'', jlit ''Max retries''), (''hint'', jlit ''0 = no retries'')] []
        [VEl ''Input''
           [(''modelValue'', r_maxRetries st),
            (''type'', jlit ''number''),
            (''min'', jlit ''0'')]
           [(''update:modelValue'', OnValue RetryMax)] []]] @
       (if num_less (Num 0) (to_number (r_maxRetries st)) then
        ([VEl ''Field'' [(''label'', jlit ''Backoff'')] []
          [VEl ''AppSelect''
             [(''modelValue'', JStr (r_kind st)),
              (''options'', retry_kinds)]
             [(''update:modelValue'', OnValue RetryKind)] []],
         VEl ''Field'' [(''label'', jlit ''Delay (ms)'')] []
          [VEl ''Input''
             [(''modelValue'', r_initialMs st),
              (''type'', jlit ''number''),
              (''min'', jlit ''1'')]
             [(''update:modelValue'', OnValue RetryInitial)] []]] @
         (if r_kind st = js ''exponential'' then
          [VEl ''Field'' [(''label'', jlit ''Max delay (ms)'')] []
            [VEl ''Input''
               [(''modelValue'', r_maxMs st),
                (''type'', jlit ''number''),
                (''min'', jlit ''1'')]
               [(''update:modelValue'', OnValue RetryMaxMs)] []],
           VEl ''Field'' [(''label'', jlit ''Multiplier'')] []
            [VEl ''Input''
               [(''modelValue'', r_multiplier st),
                (''type'', jlit ''number''),
                (''min'', jlit ''1''),
                (''step'', jlit ''0.1'')]
               [(''update:modelValue'', OnValue RetryMultiplier)] []]]
         else []))
       else []))]"

section \<open>Routes\<close>

datatype page =
    OverviewPage | InfraPage | QueuesPage | GroupsPage | PublishPage | EnqueuePage | FlowsPage
  | SchedulesPage | DlqPage | HttpPage | DocsPage | SettingsPage

definition routes :: "(jstring \<times> page) list" where
  "routes =
     [(js ''/'', OverviewPage), (js ''/infra'', InfraPage), (js ''/queues'', QueuesPage),
      (js ''/groups'', GroupsPage), (js ''/publish'', PublishPage), (js ''/enqueue'', EnqueuePage),
      (js ''/flows'', FlowsPage), (js ''/schedules'', SchedulesPage), (js ''/dlq'', DlqPage),
      (js ''/http'', HttpPage), (js ''/docs'', DocsPage), (js ''/settings'', SettingsPage)]"

text \<open>A path without a route of its own is redirected to the first page.\<close>

definition route_page :: "jstring \<Rightarrow> page" where
  "route_page path = (case map_of routes path of None \<Rightarrow> OverviewPage | Some pg \<Rightarrow> pg)"

section \<open>Header\<close>

record header_view = panel +
  h_refreshStatus :: action_status

definition upd_refresh :: "(action_status \<Rightarrow> action_status) \<Rightarrow> header_view \<Rightarrow> header_view" where
  "upd_refresh f st = st\<lparr>h_refreshStatus := f (h_refreshStatus st)\<rparr>"

definition refreshAll :: "header_view proc" where
  "refreshAll =
     Do (upd_refresh reset)
      (try_all [pollHealth, pollCluster, refreshCells, refreshQueues, refreshGroups, refreshFlows]
         (\<lambda>_. Do (upd_refresh (succeed (js ''Refreshed''))) return_undef)
         (\<lambda>e. Do (upd_refresh (fail_err e)) return_undef))"

datatype header_event = HeaderRefreshAll

fun header_handler :: "header_event \<Rightarrow> header_view proc" where
  "header_handler HeaderRefreshAll = refreshAll"

definition app_header_template :: "header_view \<Rightarrow> header_event vnode list" where
  "app_header_template st =
   [VEl ''header'' [(''class'', jlit ''flex h-12 shrink-0 items-center gap-2 border-b px-4'')] []
     [VEl ''SidebarTrigger'' [] [] [],
       VEl ''Badge'' [(''variant'', jlit ''outline''), (''class'', jlit ''font-mono text-xs'')] []
        [VText (js ''0.4.0'')],
       VEl ''Badge''
        [(''variant'', (if s_healthOk (session st) then jlit ''outline'' else jlit ''destructive'')),
         (''class'', (if s_healthOk (session st) then jlit ''border-transparent bg-success/15 text-success'' else JStr [])),
         (''class'', jlit ''text-xs'')] []
        [VText (js '' '' @ (if s_healthOk (session st) then js ''Healthy'' else js ''down'') @ js '' '')],
       VEl ''Badge'' [(''variant'', jlit ''secondary''), (''class'', jlit ''font-mono text-xs'')] []
        [VText (s_clusterLabel (session st))],
       VEl ''div'' [(''class'', jlit ''ml-auto flex items-center gap-2'')] []
        [VEl ''ActionMessage''
           [(''error'', JStr (st_error (h_refreshStatus st))),
            (''ok'', JStr (st_ok (h_refreshStatus st)))] [] [],
          VEl ''Button''
           [(''variant'', jlit ''ghost''),
            (''size'', jlit ''icon-sm''),
            (''title'', jlit ''Refresh'')]
           [(''click'', On HeaderRefreshAll)]
           [VEl ''RefreshCw'' [] [] []]]]]"

section \<open>Shell\<close>

definition app_shell_template :: "'a panel_scheme \<Rightarrow> 'e vnode list" where
  "app_shell_template st =
   [VEl ''SidebarProvider'' [] []
     [VEl ''AppSidebar'' [] [] [],
       VEl ''SidebarInset'' [] []
        ((if s_splitAuth (session st) then
           [VEl ''Alert'' [(''variant'', jlit ''destructive''), (''class'', jlit ''m-2'')] []
             [VEl ''AlertTitle'' [] []
                [VText (js ''Split auth across brokers'')],
               VEl ''AlertDescription'' [] []
                [VText (js '' This API URL hits nodes with different local auth. Use one broker for dev, or complete panel setup on each cluster node. '')]]]
          else []) @
          [VEl ''AppHeader'' [] [] [],
          VEl ''div'' [(''class'', jlit ''flex-1 overflow-auto p-4'')] []
           [VEl ''router-view'' [] [] []]])]]"

section \<open>Cell switcher\<close>

definition local_cell :: jsval where
  "local_cell = JObj [(js ''id'', jlit ''local''), (js ''region'', jlit ''local''),
     (js ''controllerUrl'', JStr []), (js ''label'', jlit ''local'')]"

definition switcher_cells :: "'a panel_scheme \<Rightarrow> jsval list" where
  "switcher_cells st = (if s_cells (session st) \<noteq> [] then s_cells (session st) else [local_cell])"

definition switcher_current :: "'a panel_scheme \<Rightarrow> jsval" where
  "switcher_current st =
     (case find_cell (s_selectedCellId (session st)) (switcher_cells st) of
        Some c \<Rightarrow> c
      | None \<Rightarrow> hd (switcher_cells st))"

definition cell_title :: "jsval \<Rightarrow> jsval" where
  "cell_title c = js_or (opt_prop c ''label'') (opt_prop c ''id'')"

definition cell_subtitle :: "jsval \<Rightarrow> jsval" where
  "cell_subtitle c =
     (let region = opt_prop c ''region'' in
      if truthy region \<and> \<not> strict_eq region (opt_prop c ''id'') \<and> \<not> strict_eq region (opt_prop c ''label'')
      then JStr (to_string (opt_prop c ''id'') @ js '' '' @ middle_dot @ js '' '' @ to_string region)
      else opt_prop c ''id'')"

datatype switcher_event = SwitcherPick jstring

fun switcher_handler :: "switcher_event \<Rightarrow> 'a panel_scheme proc" where
  "switcher_handler (SwitcherPick cid) = Do (setCellId cid) return_undef"

text \<open>The seeds whose pictures the template asks for, in order.\<close>

definition switcher_seeds :: "'a panel_scheme \<Rightarrow> jstring list" where
  "switcher_seeds st =
     to_string (js_or (opt_prop (switcher_current st) ''id'') (jlit ''local'')) #
     map (\<lambda>c. to_string (opt_prop c ''id'')) (switcher_cells st)"

definition switcher_render :: "'a panel_scheme \<Rightarrow> 'a panel_scheme" where
  "switcher_render st = fold (\<lambda>seed p. snd (glassAvatar seed p)) (switcher_seeds st) st"

definition switcher_item :: "'a panel_scheme \<Rightarrow> jsval \<Rightarrow> switcher_event vnode" where
  "switcher_item st c =
   VEl ''DropdownMenuItem''
    [(''key'', opt_prop c ''id''),
     (''class'', jlit ''gap-2 rounded-xl'')]
    [(''click'', On (SwitcherPick (to_string (opt_prop c ''id''))))]
    [VEl ''span'' [(''class'', jlit ''glass-frost size-7 overflow-hidden rounded-xl'')] []
       [VEl ''img''
          [(''src'', JStr (fst (glassAvatar (to_string (opt_prop c ''id'')) st))),
           (''alt'', cell_title c),
           (''class'', jlit ''size-full'')] [] []],
      VEl ''span'' [(''class'', jlit ''min-w-0 flex-1'')] []
       [VEl ''span'' [(''class'', jlit ''block truncate text-sm font-medium'')] []
          [VText (interp (cell_title c))],
         VEl ''span'' [(''class'', jlit ''block truncate text-xs text-muted-foreground'')] []
          [VText (interp (cell_subtitle c))]]]"

definition cell_switcher_template :: "'a panel_scheme \<Rightarrow> switcher_event vnode list" where
  "cell_switcher_template st =
   [VEl ''DropdownMenu'' [] []
     [VEl ''DropdownMenuTrigger'' [(''as-child'', JStr [])] []
        [VEl ''button''
           [(''type'', jlit ''button''),
            (''class'', jlit ''flex w-full items-center gap-2 overflow-hidden rounded-2xl p-1.5 text-left ring-1 ring-sidebar-border/80 transition-colors hover:bg-sidebar-accent group-data-[collapsible=icon]:size-8 group-data-[collapsible=icon]:justify-center group-data-[collapsible=icon]:p-0 group-data-[collapsible=icon]:ring-0'')] []
           [VEl ''span''
              [(''class'', jlit ''glass-frost size-8 shrink-0 overflow-hidden rounded-2xl'')] []
              [VEl ''img''
                 [(''src'', JStr (fst (glassAvatar (to_string (js_or (opt_prop (switcher_current st) ''id'') (jlit ''local''))) st))),
                  (''alt'', cell_title (switcher_current st)),
                  (''class'', jlit ''size-full'')] [] []],
             VEl ''span''
              [(''class'', jlit ''min-w-0 flex-1 group-data-[collapsible=icon]:hidden'')] []
              [VEl ''span''
                 [(''class'', jlit ''block truncate text-sm font-medium leading-tight'')] []
                 [VText (interp (cell_title (switcher_current st)))],
                VEl ''span'' [(''class'', jlit ''block truncate text-xs text-muted-foreground'')] []
                 [VText (interp (cell_subtitle (switcher_current st)))]],
             VEl ''ChevronsUpDown''
              [(''class'', jlit ''size-4 shrink-0 text-muted-foreground group-data-[collapsible=icon]:hidden'')] [] []]],
       VEl ''DropdownMenuContent''
        [(''class'', jlit ''w-56''),
         (''align'', jlit ''start''),
         (''side'', jlit ''bottom'')] []
        ([VEl ''DropdownMenuLabel'' [(''class'', jlit ''text-xs text-muted-foreground'')] []
           [VText (js ''Cell'')]] @
          map (switcher_item st) (switcher_cells st))]]"

section \<open>Sidebar\<close>

record sidebar_view = panel +
  route_path :: jstring

record nav_item =
  nav_to :: jstring
  nav_label :: jstring
  nav_icon :: string

definition nav :: "nav_item list" where
  "nav = map (\<lambda>(t, l, i). \<lparr>nav_to = js t, nav_label = js l, nav_icon = i\<rparr>)
     [(''/'', ''Overview'', ''LayoutDashboard''), (''/infra'', ''Infrastructure'', ''Server''),
      (''/queues'', ''Queues'', ''Layers''), (''/groups'', ''Groups'', ''Users''),
      (''/publish'', ''Publish'', ''Send''), (''/enqueue'', ''Enqueue'', ''Plus''),
      (''/flows'', ''Flows'', ''Share2''), (''/schedules'', ''Schedules'', ''Clock''),
      (''/dlq'', ''DLQ'', ''TriangleAlert''), (''/http'', ''HTTP'', ''Globe''),
      (''/docs'', ''Docs'', ''BookOpen'')]"

definition settingsItem :: nav_item where
  "settingsItem = \<lparr>nav_to = js ''/settings'', nav_label = js ''Settings'', nav_icon = ''Settings''\<rparr>"

definition themes :: "(theme_mode \<times> jstring \<times> string) list" where
  "themes = [(System, js ''System'', ''Monitor''), (Light, js ''Light'', ''Sun''), (Dark, js ''Dark'', ''Moon'')]"

datatype sidebar_event = SidebarTheme theme_mode

fun sidebar_handler :: "sidebar_event \<Rightarrow> 'a panel_scheme proc" where
  "sidebar_handler (SidebarTheme mode) = Do (setTheme mode) return_undef"

definition sidebar_nav_item :: "sidebar_view \<Rightarrow> nav_item \<Rightarrow> sidebar_event vnode" where
  "sidebar_nav_item st item =
   VEl ''SidebarMenuItem'' [(''key'', JStr (nav_to item))] []
    [VEl ''SidebarMenuButton''
       [(''as-child'', JStr []),
        (''is-active'', JBool (route_path st = nav_to item)),
        (''tooltip'', JStr (nav_label item))] []
       [VEl ''RouterLink'' [(''to'', JStr (nav_to item))] []
          [VEl ''component'' [(''is'', jlit (nav_icon item))] [] [],
            VEl ''span'' [] []
             [VText (nav_label item)]]]]"

definition sidebar_theme_button :: "sidebar_view \<Rightarrow> theme_mode \<times> jstring \<times> string \<Rightarrow> sidebar_event vnode" where
  "sidebar_theme_button st t =
   VEl ''button''
    [(''key'', JStr (theme_text (fst t))),
     (''type'', jlit ''button''),
     (''class'', jlit ''flex h-7 items-center justify-center gap-1 rounded-xl text-xs font-medium transition-colors''),
     (''class'', (if s_themeMode (session st) = fst t then jlit ''bg-background text-primary shadow-sm'' else jlit ''text-muted-foreground hover:text-foreground''))]
    [(''click'', On (SidebarTheme (fst t)))]
    [VEl ''component'' [(''is'', jlit (snd (snd t))), (''class'', jlit ''size-3.5'')] [] [],
      VText (js '' '' @ fst (snd t) @ js '' '')]"

definition app_sidebar_template :: "sidebar_view \<Rightarrow> sidebar_event vnode list" where
  "app_sidebar_template st =
   [VEl ''Sidebar'' [(''variant'', jlit ''inset''), (''collapsible'', jlit ''icon'')] []
     [VEl ''SidebarHeader'' [(''class'', jlit ''gap-2 px-2 py-2'')] []
        [VEl ''RouterLink''
           [(''to'', jlit ''/''),
            (''class'', jlit ''flex items-center gap-2 overflow-hidden rounded-2xl px-1 py-0.5'')] []
           [VEl ''span''
              [(''class'', jlit ''flex size-8 shrink-0 items-center justify-center rounded-2xl bg-primary/10 ring-1 ring-primary/20'')] []
              [VEl ''img''
                 [(''src'', JStr (asset_url (win st) ''betterMQ-icon-brand.svg'')),
                  (''alt'', JStr []),
                  (''class'', jlit ''size-5'')] [] []],
             VEl ''span''
              [(''class'', jlit ''truncate text-sm font-semibold tracking-tight group-data-[collapsible=icon]:hidden'')] []
              [VText (js '' betterMQ '')]],
          VEl ''CellSwitcher'' [] [] []],
       VEl ''SidebarContent'' [] []
        [VEl ''SidebarGroup'' [] []
           [VEl ''SidebarGroupLabel'' [(''class'', jlit ''text-xs tracking-widest uppercase'')] []
              [VText (js ''Navigate'')],
             VEl ''SidebarGroupContent'' [] []
              [VEl ''SidebarMenu'' [] []
                 (map (sidebar_nav_item st) (nav) @
                   (if \<not> isExternalAuth (win st) then
                    [VEl ''SidebarMenuItem'' [] []
                      [VEl ''SidebarMenuButton''
                         [(''as-child'', JStr []),
                          (''is-active'', JBool (route_path st = nav_to settingsItem)),
                          (''tooltip'', JStr (nav_label settingsItem))] []
                         [VEl ''RouterLink'' [(''to'', JStr (nav_to settingsItem))] []
                            [VEl ''component'' [(''is'', jlit (nav_icon settingsItem))] [] [],
                              VEl ''span'' [] []
                               [VText (nav_label settingsItem)]]]]]
                   else []))]]],
       VEl ''SidebarFooter'' [] []
        [VEl ''div''
           [(''class'', jlit ''grid grid-cols-3 gap-0.5 rounded-2xl bg-muted p-1 group-data-[collapsible=icon]:hidden'')] []
           (map (sidebar_theme_button st) (themes))],
       VEl ''SidebarRail'' [] [] []]]"

section \<open>The frame of the pages before sign-in\<close>

definition auth_layout_template :: "'a panel_scheme \<Rightarrow> 'e vnode list \<Rightarrow> 'e vnode list" where
  "auth_layout_template st slot =
     [VEl ''div'' [(''class'', jlit ''flex min-h-svh items-center justify-center bg-background p-6'')] []
        [VEl ''div'' [(''class'', jlit ''w-full max-w-sm space-y-5'')] []
           ([VEl ''div'' [(''class'', jlit ''flex items-center gap-2'')] []
               [VEl ''span''
                  [(''class'', jlit ''flex size-8 items-center justify-center rounded-2xl bg-primary/10 ring-1 ring-primary/20'')] []
                  [VEl ''img''
                     [(''src'', JStr (asset_url (win st) ''betterMQ-icon-brand.svg'')), (''alt'', JStr []),
                      (''class'', jlit ''size-4'')] [] []],
                VEl ''div'' [] []
                  [VEl ''p'' [(''class'', jlit ''text-sm font-semibold tracking-tight'')] []
                     [VText (js ''betterMQ'')],
                   VEl ''p'' [(''class'', jlit ''text-xs text-muted-foreground'')] []
                     [VText (js ''HTTP message broker'')]]]] @ slot)]]"

section \<open>Requests stay on the page's origin, and the session in step with the stores\<close>

interpretation header_page: page_script header_handler
proof
  show "stays (on_page b0) (own_origin b0) (header_handler e)" for b0 e
    by (cases e) (auto simp: refreshAll_def upd_refresh_def intro!: stays_intros)
qed

interpretation switcher_page: page_script switcher_handler
proof
  show "stays (on_page b0) (own_origin b0) (switcher_handler e)" for b0 e
    by (cases e) (auto intro!: stays_intros)
qed

interpretation sidebar_page: page_script sidebar_handler
proof
  show "stays (on_page b0) (own_origin b0) (sidebar_handler e)" for b0 e
    by (cases e) (auto intro!: stays_intros)
qed

interpretation header_sync: synced_script header_handler
proof
  show "stays (synced b0) (\<lambda>_. True) (header_handler e)" for b0 e
    by (cases e) (auto simp: refreshAll_def upd_refresh_def sync_simps intro!: stays_intros)
qed

interpretation switcher_sync: synced_script switcher_handler
proof
  show "stays (synced b0) (\<lambda>_. True) (switcher_handler e)" for b0 e
    by (cases e) (auto intro!: stays_intros)
qed

interpretation sidebar_sync: synced_script sidebar_handler
proof
  show "stays (synced b0) (\<lambda>_. True) (sidebar_handler e)" for b0 e
    by (cases e) (auto intro!: stays_intros)
qed

text \<open>None of them writes.\<close>

interpretation header_policy: policed_script "\<lambda>_ _ _ _. False" header_handler
proof
  show "sends_only b0 (\<lambda>_ _ _. False) (header_handler e)" for b0 e
    by (cases e) (auto simp: refreshAll_def upd_refresh_def intro!: stays_intros)
qed

interpretation switcher_policy: policed_script "\<lambda>_ _ _ _. False" switcher_handler
proof
  show "sends_only b0 (\<lambda>_ _ _. False) (switcher_handler e)" for b0 e
    by (cases e) (auto intro!: stays_intros)
qed

interpretation sidebar_policy: policed_script "\<lambda>_ _ _ _. False" sidebar_handler
proof
  show "sends_only b0 (\<lambda>_ _ _. False) (sidebar_handler e)" for b0 e
    by (cases e) (auto intro!: stays_intros)
qed

section \<open>What the retry fields show\<close>

lemma retries_asked: "num_less (Num 0) (number_or v 0) \<longleftrightarrow> num_less (Num 0) (to_number v)"
  by (auto simp: number_or_def Let_def)

lemma retry_fields_offered:
  "offered (retry_fields_template rt) (RetryMax v)"
  "offered (retry_fields_template rt) (RetryKind v) \<longleftrightarrow> num_less (Num 0) (to_number (r_maxRetries rt))"
  "offered (retry_fields_template rt) (RetryInitial v) \<longleftrightarrow> num_less (Num 0) (to_number (r_maxRetries rt))"
  "offered (retry_fields_template rt) (RetryMaxMs v) \<longleftrightarrow>
     num_less (Num 0) (to_number (r_maxRetries rt)) \<and> r_kind rt = js ''exponential''"
  "offered (retry_fields_template rt) (RetryMultiplier v) \<longleftrightarrow>
     num_less (Num 0) (to_number (r_maxRetries rt)) \<and> r_kind rt = js ''exponential''"
  unfolding retry_fields_template_def by (simp_all add: is_disabled_def)

lemma retry_kinds_lower:
  "to_lower_case (str_or (js ''exponential'') (js ''exponential'')) = js ''exponential''"
  "to_lower_case (str_or (js ''fixed'') (js ''exponential'')) = js ''fixed''"
  by code_simp+

lemma exponential_not_fixed: "js ''exponential'' \<noteq> js ''fixed''"
  by code_simp

lemma retry_kind_listed:
  "r_kind rt \<in> {js ''exponential'', js ''fixed''} \<Longrightarrow> retry_kind rt = r_kind rt"
  using retry_kinds_lower by (auto simp: retry_kind_def)

lemma mergeRetry_cong:
  assumes "r_maxRetries rt = r_maxRetries rt'" and "backoff rt = backoff rt'"
  shows "mergeRetry pl rt = mergeRetry pl rt'"
  using assms unfolding mergeRetry_def backoff_def retry_kind_def Let_def by simp

lemma backoff_fixed:
  assumes "retry_kind rt \<noteq> js ''exponential''"
  shows "backoff (rt\<lparr>r_maxMs := v\<rparr>) = backoff rt" and "backoff (rt\<lparr>r_multiplier := v\<rparr>) = backoff rt"
  using assms by (simp_all add: backoff_def retry_kind_def Let_def)

lemma backoff_max_delay: "obj_get (backoff rt) (js ''maxMs'') \<noteq> None \<longleftrightarrow> retry_kind rt = js ''exponential''"
proof -
  have "js ''maxMs'' \<noteq> js ''kind''" "js ''maxMs'' \<noteq> js ''initialMs''" "js ''maxMs'' \<noteq> js ''multiplier''" by code_simp+
  then show ?thesis by (simp add: backoff_def Let_def)
qed

text \<open>
  C17: the retry form shows the fields that count. For the kinds that can be selected, the delay is on the form
  exactly when the payload gets a back-off, and the maximal delay exactly when the back-off has one. A field
  that is not on the form has no influence on the payload, whatever it holds.
\<close>

theorem retry_fields_sent:
  assumes "r_kind rt \<in> {js ''exponential'', js ''fixed''}"
  shows "(offered (retry_fields_template rt) (RetryInitial v) \<longleftrightarrow>
       obj_get (mergeRetry [] rt) (js ''retry_backoff'') \<noteq> None) \<and>
     (offered (retry_fields_template rt) (RetryMaxMs v) \<longleftrightarrow>
       (\<exists>b. obj_get (mergeRetry [] rt) (js ''retry_backoff'') = Some (JObj b) \<and> obj_get b (js ''maxMs'') \<noteq> None)) \<and>
     (\<not> offered (retry_fields_template rt) e \<longrightarrow> mergeRetry pl (retry_update e rt) = mergeRetry pl rt)"
proof (cases "num_less (Num 0) (to_number (r_maxRetries rt))")
  case True
  then have b: "obj_get (mergeRetry [] rt) (js ''retry_backoff'') = Some (JObj (backoff rt))"
    by (simp add: mergeRetry_backoff retries_asked)
  have k: "retry_kind rt = r_kind rt" using assms by (rule retry_kind_listed)
  have "mergeRetry pl (retry_update e rt) = mergeRetry pl rt" if h: "\<not> offered (retry_fields_template rt) e"
  proof -
    from h True k have "retry_kind rt \<noteq> js ''exponential''" "\<exists>v. e = RetryMaxMs v \<or> e = RetryMultiplier v"
      by (cases e; simp add: retry_fields_offered)+
    then show ?thesis using backoff_fixed [of rt] by (auto intro: mergeRetry_cong)
  qed
  then show ?thesis using True b k backoff_max_delay [of rt] by (simp add: retry_fields_offered)
next
  case False
  then have n: "mergeRetry q r = q" if "r_maxRetries r = r_maxRetries rt" for q r
    using that by (intro mergeRetry_none) (simp add: retries_asked)
  have "mergeRetry pl (retry_update e rt) = mergeRetry pl rt" if "\<not> offered (retry_fields_template rt) e"
    using that n [of rt pl] by (cases e) (simp_all add: retry_fields_offered n)
  then show ?thesis using False n [of rt "[]"] by (simp add: retry_fields_offered)
qed

theorem retry_fields_sent_witness:
  "\<not> offered (retry_fields_template (defaultRetry\<lparr>r_maxRetries := jint 2, r_kind := js ''fixed''\<rparr>)) (RetryMaxMs JNull) \<and>
   offered (retry_fields_template (defaultRetry\<lparr>r_maxRetries := jint 2, r_kind := js ''fixed''\<rparr>)) (RetryInitial JNull) \<and>
   obj_get (mergeRetry [] (defaultRetry\<lparr>r_maxRetries := jint 2, r_kind := js ''fixed''\<rparr>)) (js ''retry_backoff'') \<noteq> None \<and>
   mergeRetry [] (defaultRetry\<lparr>r_maxRetries := jint 2, r_kind := js ''fixed'', r_maxMs := jint 7\<rparr>) =
     mergeRetry [] (defaultRetry\<lparr>r_maxRetries := jint 2, r_kind := js ''fixed''\<rparr>)"
proof -
  let ?rt = "defaultRetry\<lparr>r_maxRetries := jint 2, r_kind := js ''fixed''\<rparr>"
  have k: "r_kind ?rt \<in> {js ''exponential'', js ''fixed''}" by simp
  have o: "offered (retry_fields_template ?rt) (RetryInitial JNull)" "\<not> offered (retry_fields_template ?rt) (RetryMaxMs v)" for v
    using exponential_not_fixed by (simp_all add: retry_fields_offered)
  show ?thesis
    using retry_fields_sent [OF k, of JNull "RetryMaxMs (jint 7)" "[]"] o by simp
qed

end
