(* ===== verification/View_Auth.thy ===== *)
theory View_Auth
  imports Panel_Layout
begin

text \<open>
  \<open>App.vue\<close> and the three pages before sign-in: \<open>SetupView.vue\<close> (choose a password), \<open>RevealView.vue\<close>
  (the token is shown once) and \<open>GateView.vue\<close> (paste or regenerate a token). The phase of the session
  decides which page is shown; the refs of the three pages stand side by side in one state, and mounting
  a page initialises its refs.
\<close>

section \<open>State\<close>

record auth_view = panel +
  g_token :: jstring
  g_password :: jstring
  g_error :: jstring
  g_showRegen :: bool
  g_busy :: bool
  p_p1 :: jstring
  p_p2 :: jstring
  p_error :: jstring
  p_busy :: bool
  v_copyError :: jstring
  v_copyOk :: jstring

definition gate_mount :: "auth_view \<Rightarrow> auth_view" where
  "gate_mount st = st\<lparr>g_token := s_token (session st), g_password := [],
     g_error := s_gateMessage (session st), g_showRegen := False, g_busy := False\<rparr>"

definition setup_mount :: "auth_view \<Rightarrow> auth_view" where
  "setup_mount st = st\<lparr>p_p1 := [], p_p2 := [], p_error := [], p_busy := False\<rparr>"

definition reveal_mount :: "auth_view \<Rightarrow> auth_view" where
  "reveal_mount st = st\<lparr>v_copyError := [], v_copyOk := []\<rparr>"

definition auth_init :: "panel \<Rightarrow> auth_view" where
  "auth_init p = panel.extend p (auth_view.fields [] [] [] False False [] [] [] False [] [])"

section \<open>GateView.vue\<close>

definition gate_begin :: "auth_view \<Rightarrow> auth_view" where
  "gate_begin st = st\<lparr>g_error := [], g_busy := True\<rparr>"

definition gate_done :: "auth_view \<Rightarrow> auth_view" where
  "gate_done st = st\<lparr>g_busy := False\<rparr>"

definition gate_refuse :: "jserr \<Rightarrow> auth_view \<Rightarrow> auth_view" where
  "gate_refuse e st = (setToken [] st)\<lparr>g_error := errText e\<rparr>"

definition continueWithToken :: "auth_view proc" where
  "continueWithToken =
     Do gate_begin (Read (\<lambda>st.
       bind (submitGateToken (g_token st))
        (\<lambda>r. case r of
           Inl e \<Rightarrow> Do (gate_refuse e) (Do gate_done return_undef)
         | Inr _ \<Rightarrow> Read (\<lambda>st.
             try_await (apiGet (publicUrl (js ''/v1/queues'') (win st)))
               (\<lambda>_. bind startApp (\<lambda>_. Do gate_done return_undef))
               (\<lambda>e. Do (gate_refuse e) (Do gate_done return_undef))))))"

definition regen :: "auth_view proc" where
  "regen =
     Do gate_begin (Read (\<lambda>st.
       try_await (regenerateToken (g_password st))
         (\<lambda>_. Do gate_done return_undef)
         (\<lambda>e. Do (\<lambda>st. st\<lparr>g_error := errText e\<rparr>) (Do gate_done return_undef))))"

section \<open>SetupView.vue\<close>

definition setup_fail :: "jstring \<Rightarrow> auth_view \<Rightarrow> auth_view" where
  "setup_fail m st = st\<lparr>p_error := m\<rparr>"

definition short_message :: jstring where
  "short_message = js ''Password must be at least 12 characters.''"

definition mismatch_message :: jstring where
  "mismatch_message = js ''Passwords do not match.''"

definition submit :: "auth_view proc" where
  "submit =
     Do (setup_fail []) (Read (\<lambda>st.
       if length (p_p1 st) < 12 then Do (setup_fail short_message) return_undef
       else if p_p1 st \<noteq> p_p2 st then Do (setup_fail mismatch_message) return_undef
       else Do (\<lambda>st. st\<lparr>p_busy := True\<rparr>)
         (try_await (setupPassword (p_p1 st))
            (\<lambda>_. Do (\<lambda>st. st\<lparr>p_busy := False\<rparr>) return_undef)
            (\<lambda>e. Do (setup_fail (errText e)) (Do (\<lambda>st. st\<lparr>p_busy := False\<rparr>) return_undef)))))"

section \<open>RevealView.vue\<close>

definition copy :: "auth_view proc" where
  "copy =
     Do (\<lambda>st. st\<lparr>v_copyError := [], v_copyOk := []\<rparr>) (Read (\<lambda>st.
       try_await (copyText (s_revealedToken (session st)))
         (\<lambda>_. Do (\<lambda>st. st\<lparr>v_copyOk := js ''Token copied''\<rparr>) return_undef)
         (\<lambda>_. Do (\<lambda>st. st\<lparr>v_copyError := js ''Copy failed''\<rparr>) return_undef)))"

section \<open>App.vue\<close>

text \<open>The system's preference changes; a page that follows it is repainted.\<close>

definition scheme_change :: "bool \<Rightarrow> 'a panel_scheme \<Rightarrow> 'a panel_scheme" where
  "scheme_change dark p =
     (let q = upd_win (\<lambda>b. b\<lparr>prefers_dark := dark\<rparr>) p in
      if s_themeMode (session q) = System then upd_win (applyTheme System) q else q)"

datatype auth_event =
    AppMounted
  | SchemeChange bool
  | GateMount
  | GateToken jsval
  | GateContinue
  | GateToggle
  | GatePassword jsval
  | GateRegen
  | SetupMount
  | SetupP1 jsval
  | SetupP2 jsval
  | SetupSubmit
  | RevealMount
  | RevealCopy
  | RevealFinish

fun auth_handler :: "auth_event \<Rightarrow> auth_view proc" where
  "auth_handler AppMounted = Spawn initAuth return_undef"
| "auth_handler (SchemeChange d) = Do (scheme_change d) return_undef"
| "auth_handler GateMount = Do gate_mount return_undef"
| "auth_handler (GateToken v) = Do (\<lambda>st. st\<lparr>g_token := to_string v\<rparr>) return_undef"
| "auth_handler GateContinue = continueWithToken"
| "auth_handler GateToggle = Do (\<lambda>st. st\<lparr>g_showRegen := \<not> g_showRegen st\<rparr>) return_undef"
| "auth_handler (GatePassword v) = Do (\<lambda>st. st\<lparr>g_password := to_string v\<rparr>) return_undef"
| "auth_handler GateRegen = regen"
| "auth_handler SetupMount = Do setup_mount return_undef"
| "auth_handler (SetupP1 v) = Do (\<lambda>st. st\<lparr>p_p1 := to_string v\<rparr>) return_undef"
| "auth_handler (SetupP2 v) = Do (\<lambda>st. st\<lparr>p_p2 := to_string v\<rparr>) return_undef"
| "auth_handler SetupSubmit = submit"
| "auth_handler RevealMount = Do reveal_mount return_undef"
| "auth_handler RevealCopy = copy"
| "auth_handler RevealFinish = finishReveal"

section \<open>Templates\<close>

definition gate_template :: "auth_view \<Rightarrow> auth_event vnode list" where
  "gate_template st =
   [VEl ''AuthLayout'' [] []
     [VEl ''div'' [(''class'', jlit ''space-y-4'')] []
        ([VEl ''div'' [] []
           [VEl ''h1'' [(''class'', jlit ''text-lg font-semibold'')] []
              [VText (js ''API token'')],
             VEl ''p'' [(''class'', jlit ''mt-1 text-sm text-muted-foreground'')] []
              [VText (js '' Paste your ''),
                VEl ''code'' [(''class'', jlit ''font-mono'')] []
                 [VText (js ''sk_local_'' @ ellipsis)],
                VText (js '' token, or regenerate one with your panel password. '')]],
          VEl ''Field'' [(''label'', jlit ''API token'')] []
           [VEl ''Input''
              [(''modelValue'', JStr (g_token st)),
               (''type'', jlit ''password''),
               (''class'', jlit ''font-mono''),
               (''placeholder'', JStr (js ''sk_local_'' @ ellipsis)),
               (''autocomplete'', jlit ''off'')]
              [(''update:modelValue'', OnValue GateToken),
               (''keydown.enter'', On GateContinue)] []]] @
          (if g_error st \<noteq> [] then
           [VEl ''p'' [(''class'', jlit ''text-sm text-destructive'')] []
             [VText (g_error st)]]
          else []) @
          [VEl ''Button''
           [(''class'', jlit ''w-full''),
            (''disabled'', JBool (g_busy st))]
           [(''click'', On GateContinue)]
           [VText (js ''Continue'')],
          VEl ''Button''
           [(''class'', jlit ''w-full''),
            (''variant'', jlit ''ghost'')]
           [(''click'', On GateToggle)]
           [VText (js ''Open Settings'')]] @
          (if g_showRegen st then
           [VEl ''div'' [(''class'', jlit ''space-y-3 border-t pt-4'')] []
             [VEl ''Field'' [(''label'', jlit ''Panel password'')] []
                [VEl ''Input''
                   [(''modelValue'', JStr (g_password st)),
                    (''type'', jlit ''password''),
                    (''autocomplete'', jlit ''current-password'')]
                   [(''update:modelValue'', OnValue GatePassword)] []],
               VEl ''Button''
                [(''class'', jlit ''w-full''),
                 (''variant'', jlit ''outline''),
                 (''disabled'', JBool (g_busy st))]
                [(''click'', On GateRegen)]
                [VText (js ''Regenerate token'')]]]
          else []))]]"

definition setup_template :: "auth_view \<Rightarrow> auth_event vnode list" where
  "setup_template st =
   [VEl ''AuthLayout'' [] []
     [VEl ''div'' [(''class'', jlit ''space-y-4'')] []
        ([VEl ''div'' [] []
           [VEl ''h1'' [(''class'', jlit ''text-lg font-semibold'')] []
              [VText (js ''Secure this broker'')],
             VEl ''p'' [(''class'', jlit ''mt-1 text-sm text-muted-foreground'')] []
              [VText (js '' Choose a password (at least 12 characters). You will get an API token once '' @ em_dash @ js '' copy it. '')]],
          VEl ''Field'' [(''label'', jlit ''Password'')] []
           [VEl ''Input''
              [(''modelValue'', JStr (p_p1 st)),
               (''type'', jlit ''password''),
               (''autocomplete'', jlit ''new-password'')]
              [(''update:modelValue'', OnValue SetupP1)] []],
          VEl ''Field'' [(''label'', jlit ''Confirm'')] []
           [VEl ''Input''
              [(''modelValue'', JStr (p_p2 st)),
               (''type'', jlit ''password''),
               (''autocomplete'', jlit ''new-password'')]
              [(''update:modelValue'', OnValue SetupP2),
               (''keydown.enter'', On SetupSubmit)] []]] @
          (if p_error st \<noteq> [] then
           [VEl ''p'' [(''class'', jlit ''text-sm text-destructive'')] []
             [VText (p_error st)]]
          else []) @
          [VEl ''Button''
           [(''class'', jlit ''w-full''),
            (''disabled'', JBool (p_busy st))]
           [(''click'', On SetupSubmit)]
           [VText (js ''Create API token'')],
          VEl ''p'' [(''class'', jlit ''text-xs text-muted-foreground'')] []
           [VText (setupHint (s_auth (session st)))]])]]"

definition reveal_template :: "auth_view \<Rightarrow> auth_event vnode list" where
  "reveal_template st =
   [VEl ''AuthLayout'' [] []
     [VEl ''div'' [(''class'', jlit ''space-y-4'')] []
        [VEl ''div'' [] []
           [VEl ''h1'' [(''class'', jlit ''text-lg font-semibold'')] []
              [VText (js ''Copy your API token'')],
             VEl ''p'' [(''class'', jlit ''mt-1 text-sm text-muted-foreground'')] []
              [VText (js '' Shown once. It will not be displayed again. Regenerate from Settings with your password. '')]],
          VEl ''pre''
           [(''class'', jlit ''overflow-x-auto rounded-2xl border bg-muted p-3 font-mono text-xs'')] []
           [VText (s_revealedToken (session st))],
          VEl ''ActionMessage''
           [(''error'', JStr (v_copyError st)),
            (''ok'', JStr (v_copyOk st))] [] [],
          VEl ''Button''
           [(''class'', jlit ''w-full''),
            (''variant'', jlit ''outline'')]
           [(''click'', On RevealCopy)]
           [VText (js ''Copy token'')],
          VEl ''Button'' [(''class'', jlit ''w-full'')] [(''click'', On RevealFinish)]
           [VText (js ''I saved it '' @ em_dash @ js '' continue'')]]]]"

definition app_template :: "'a panel_scheme \<Rightarrow> 'e vnode list" where
  "app_template st =
   [VEl ''TooltipProvider'' [] []
     (if s_phase (session st) = Loading then
        [VEl ''div''
          [(''class'', jlit ''flex min-h-svh items-center justify-center text-sm text-muted-foreground'')] []
          [VText (js '' Connecting'' @ ellipsis @ js '' '')]]
       else if s_phase (session st) = Setup then
        [VEl ''SetupView'' [] [] []]
       else if s_phase (session st) = Reveal then
        [VEl ''RevealView'' [] [] []]
       else if s_phase (session st) = Gate then
        [VEl ''GateView'' [] [] []]
       else
        [VEl ''AppShell'' [] [] []])]"

text \<open>The page the phase selects, in place of its tag.\<close>

definition auth_screen :: "auth_view \<Rightarrow> auth_event vnode list" where
  "auth_screen st =
     (case s_phase (session st) of
        Setup \<Rightarrow> setup_template st
      | Reveal \<Rightarrow> reveal_template st
      | Gate \<Rightarrow> gate_template st
      | _ \<Rightarrow> [])"

text \<open>
  What can happen: a change of the system's preference at any time, the mounting of the application at
  the start and of the page of the phase, and what that page offers.
\<close>

definition auth_enabled :: "auth_view \<Rightarrow> auth_event \<Rightarrow> bool" where
  "auth_enabled st e \<longleftrightarrow>
     (case e of
        SchemeChange _ \<Rightarrow> True
      | AppMounted \<Rightarrow> s_phase (session st) = Loading
      | GateMount \<Rightarrow> s_phase (session st) = Gate
      | SetupMount \<Rightarrow> s_phase (session st) = Setup
      | RevealMount \<Rightarrow> s_phase (session st) = Reveal
      | _ \<Rightarrow> offered (auth_screen st) e)"

section \<open>Requests stay on the page's origin\<close>

lemmas auth_writes = gate_mount_def setup_mount_def reveal_mount_def gate_begin_def gate_done_def setup_fail_def
lemmas auth_updates = auth_writes gate_refuse_def

lemma same_page_scheme [simp]: "same_page (win p) (win (scheme_change d p))"
  by (simp add: scheme_change_def applyTheme_def Let_def same_page_def)

interpretation auth_page: page_script auth_handler
proof
  show "stays (on_page b0) (own_origin b0) (auth_handler e)" for b0 e
    by (cases e) (auto simp: continueWithToken_def regen_def submit_def copy_def auth_updates Let_def intro!: stays_intros)
qed

text \<open>A change of the system's preference is followed at once when the theme follows the system.\<close>

lemma synced_scheme: "synced b0 p \<Longrightarrow> synced b0 (scheme_change d p)"
proof -
  assume s: "synced b0 p"
  have w: "on_page b0 (scheme_change d p)"
    using s same_page_scheme [of p d] by (auto simp: synced_def elim!: on_page_win)
  have t: "token_stored t (win (scheme_change d p)) = token_stored t (win p)" for t
    by (simp add: scheme_change_def Let_def)
  have "theme_shown (s_themeMode (session p)) (win (scheme_change d p))"
    using s by (cases "s_themeMode (session p)")
      (simp_all add: scheme_change_def Let_def theme_shown_applyTheme, simp_all add: synced_def theme_shown_def)
  moreover have "session (scheme_change d p) = session p" "location_origin (win (scheme_change d p)) = location_origin (win p)"
    by (simp_all add: scheme_change_def Let_def)
  ultimately show ?thesis using s w t by (simp add: synced_def)
qed

lemma stays_scheme_sync [stays_intros]:
  "stays (synced b0) Q p \<Longrightarrow> stays (synced b0) Q (Do (scheme_change d) p)"
  by (simp add: stays_def synced_scheme)

lemma synced_gate_refuse: "synced b0 p \<Longrightarrow> synced b0 (gate_refuse e p)"
  using synced_setToken [of b0 p "[]"] synced_cong [of "gate_refuse e p" "setToken [] p" b0]
  by (simp add: gate_refuse_def sync_part_def)

lemma stays_refuse_sync [stays_intros]:
  "stays (synced b0) Q p \<Longrightarrow> stays (synced b0) Q (Do (gate_refuse e) p)"
  by (simp add: stays_def synced_gate_refuse)

interpretation auth_sync: synced_script auth_handler
proof
  show "stays (synced b0) (\<lambda>_. True) (auth_handler e)" for b0 e
    by (cases e) (auto simp: continueWithToken_def regen_def submit_def copy_def auth_writes Let_def sync_simps
        intro!: stays_intros)
qed

section \<open>What the page writes\<close>

text \<open>
  The pages post passwords: to set up the broker only one of at least twelve characters, to regenerate
  the token any.
\<close>

definition auth_writes :: "browser \<Rightarrow> policy" where
  "auth_writes b m url body \<longleftrightarrow>
     regen_writes b m url body \<or>
     m = POST \<and> url = publicUrl (js ''/v1/local-auth/setup'') b \<and>
     (\<exists>pw. 12 \<le> length pw \<and> body = request_data (JObj [(js ''password'', JStr pw)]))"

lemma auth_writes_regen:
  "auth_writes b POST (publicUrl (js ''/v1/local-auth/regenerate'') b) (request_data (JObj [(js ''password'', JStr pw)]))"
  by (auto simp: auth_writes_def regen_writes_def)

lemma auth_writes_setup:
  "\<not> length pw < 12 \<Longrightarrow>
   auth_writes b POST (publicUrl (js ''/v1/local-auth/setup'') b) (request_data (JObj [(js ''password'', JStr pw)]))"
  unfolding auth_writes_def using linorder_not_less by blast

interpretation auth_policy: policed_script auth_writes auth_handler
proof
  show "sends_only b0 (auth_writes b0) (auth_handler e)" for b0 e
    by (cases e) (auto simp: continueWithToken_def regen_def submit_def copy_def auth_updates Let_def
        intro!: stays_intros auth_writes_regen auth_writes_setup)
qed

section \<open>Properties\<close>

text \<open>
  C14: a broker is never set up with a short password. Whatever is typed and whenever, a pending request to
  the setup endpoint carries a password of at least twelve characters; the pages send nothing else there.
\<close>

theorem setup_password_long:
  assumes "on_page b s0" and "loop_reach (\<lambda>_ _. True) auth_handler s0 (s, pool)" and "p \<in> set pool"
    and "Fetch r \<in> set (pending p)" and "req_url r = publicUrl (js ''/v1/local-auth/setup'') b"
    and "req_method r \<noteq> GET"
  shows "req_method r = POST \<and>
     (\<exists>pw. 12 \<le> length pw \<and> req_body r = request_data (JObj [(js ''password'', JStr pw)]))"
  using auth_policy.pending_writes [OF assms(1-4,6)] assms(5)
  by (auto simp: auth_writes_def regen_writes_def)

lemma submit_adv:
  assumes "win s = fresh_page u" and "p_p1 s = pw" and "p_p2 s = pw" and "12 \<le> length pw"
  shows "\<exists>s1 k r. adv (auth_handler SetupSubmit) s = (s1, Await (Fetch r) k, []) \<and>
     req_method r = POST \<and> req_url r = publicUrl (js ''/v1/local-auth/setup'') (fresh_page u)"
  using assms
  by (simp add: submit_def setup_fail_def setupPassword_def post_password_def apiPost_def api_request_def authHeaders_def
      migrated_loadSavedToken opt_or_def normalizeToken_def bearer_prefixed_def try_await_def await_def)

theorem setup_password_long_witness:
  "\<exists>s0 s pool p r pw. loop_reach (\<lambda>_ _. True) auth_handler s0 (s, pool) \<and> p \<in> set pool \<and>
     Fetch r \<in> set (pending p) \<and> 12 \<le> length pw \<and>
     req_body r = request_data (JObj [(js ''password'', JStr pw)])"
proof -
  let ?b = "fresh_page (js ''http://a'')"
  let ?s = "(auth_init (panel_on ?b))\<lparr>p_p1 := js ''correct horse'', p_p2 := js ''correct horse''\<rparr>"
  have w: "win ?s = ?b" by (simp add: auth_init_def panel.defs)
  have on: "on_page ?b ?s" using on_page_fresh [of "js ''http://a''"] by (simp add: on_page_def w)
  obtain s1 k r where a: "adv (auth_handler SetupSubmit) ?s = (s1, Await (Fetch r) k, [])"
    and r: "req_method r = POST" "req_url r = publicUrl (js ''/v1/local-auth/setup'') ?b"
    using submit_adv [OF w, of "js ''correct horse''"] by auto
  have l: "loop_reach (\<lambda>_ _. True) auth_handler ?s (s1, [Await (Fetch r) k])"
    by (rule reach_event [where handler = auth_handler, OF a]) simp
  obtain pw where "12 \<le> length pw" "req_body r = request_data (JObj [(js ''password'', JStr pw)])"
    using setup_password_long [OF on l, of "Await (Fetch r) k" r] r by auto
  then show ?thesis using l by (intro exI [of _ ?s] exI [of _ s1] exI [of _ "[Await (Fetch r) k]"]
        exI [of _ "Await (Fetch r) k"] exI [of _ r] exI [of _ pw]) simp
qed

end
