(* ===== verification/View_Dlq.thy ===== *)
theory View_Dlq
  imports Panel_Requests
begin

text \<open>
  \<open>views/DlqView.vue\<close>: the sources of dead letters, the messages of the selected one, deleting one
  message or all, and the dialog with a message's body.
\<close>

section \<open>State\<close>

record dlq_view = panel +
  d_sources :: "jsval list"
  d_sourceId :: jstring
  d_limit :: jsval
  d_rows :: "jsval list"
  d_topic :: jstring
  d_bodyOpen :: bool
  d_bodyText :: jsval
  d_bodyTitle :: jstring
  d_loadStatus :: action_status
  d_copyStatus :: action_status
  d_deleteAllOpen :: bool

definition dlq_init :: "panel \<Rightarrow> dlq_view" where
  "dlq_init p = panel.extend p
     (dlq_view.fields [] [] (jint 20) [] [] False (JStr []) [] useActionStatus useActionStatus False)"

section \<open>Script\<close>

definition upd_load :: "(action_status \<Rightarrow> action_status) \<Rightarrow> dlq_view \<Rightarrow> dlq_view" where
  "upd_load f st = st\<lparr>d_loadStatus := f (d_loadStatus st)\<rparr>"

definition upd_copy :: "(action_status \<Rightarrow> action_status) \<Rightarrow> dlq_view \<Rightarrow> dlq_view" where
  "upd_copy f st = st\<lparr>d_copyStatus := f (d_copyStatus st)\<rparr>"

definition dlq_options :: "dlq_view \<Rightarrow> jsval" where
  "dlq_options st = JArr (map (\<lambda>s. JObj
     [(js ''value'', opt_prop s ''dlq_topic''),
      (js ''label'', JStr (to_string (js_or (opt_prop s ''label'') (opt_prop s ''dlq_topic'')) @
         js '' ('' @ to_string (js_or (opt_prop s ''count'') (jint 0)) @ js '')''))]) (d_sources st))"

definition selectedSource :: "dlq_view \<Rightarrow> jsval" where
  "selectedSource st =
     (case find (\<lambda>s. opt_prop s ''dlq_topic'' = JStr (d_sourceId st)) (d_sources st) of
        None \<Rightarrow> JUndef | Some s \<Rightarrow> s)"

definition no_messages :: "dlq_view \<Rightarrow> dlq_view" where
  "no_messages st = st\<lparr>d_rows := [], d_topic := []\<rparr>"

definition select_message :: jstring where
  "select_message = js ''Select a DLQ source''"

text \<open>The topic to load from, and the query string of a load.\<close>

definition load_topic :: "dlq_view \<Rightarrow> jstring" where
  "load_topic st = to_string (js_or (opt_prop (selectedSource st) ''dlq_topic'') (JStr (d_sourceId st)))"

definition load_query :: "dlq_view \<Rightarrow> jstring" where
  "load_query st =
     (let src = selectedSource st; queue = opt_prop src ''queue'';
          qs = (if truthy queue then params_set [] (js ''queue'') (to_string queue)
                else params_set [] (js ''dlq_topic'') (load_topic st))
      in params_string (params_set qs (js ''limit'') (to_string (js_or (d_limit st) (jint 20)))))"

definition store_messages :: "jstring \<Rightarrow> jsval \<Rightarrow> dlq_view \<Rightarrow> dlq_view" where
  "store_messages dlqTopic data st =
     st\<lparr>d_rows := elems (js_or (opt_prop data ''messages'') (JArr [])),
        d_topic := to_string (js_or (opt_prop data ''dlq_topic'') (JStr dlqTopic))\<rparr>"

definition load :: "dlq_view proc" where
  "load =
     Do (upd_load reset) (Read (\<lambda>st.
       let dlqTopic = load_topic st in
       if dlqTopic = [] then
         Do (\<lambda>st. upd_load (fail_msg select_message) (no_messages st)) return_undef
       else try_await (apiGet (publicUrl (js ''/v1/dlq?'' @ load_query st) (win st)))
              (\<lambda>data. try_value (get_prop data ''messages'')
                 (\<lambda>_. Do (store_messages dlqTopic data) return_undef)
                 (\<lambda>e. Do (upd_load (fail_err e)) return_undef))
              (\<lambda>e. Do (upd_load (fail_err e)) return_undef)))"

text \<open>The answer is an array of sources or an object with one.\<close>

definition sources_of :: "jsval \<Rightarrow> jserr + jsval list" where
  "sources_of data =
     (case data of
        JArr xs \<Rightarrow> Inr xs
      | _ \<Rightarrow> (case get_prop data ''sources'' of
                Inl e \<Rightarrow> Inl e
              | Inr v \<Rightarrow> Inr (elems (js_or v (JArr [])))))"

definition store_sources :: "jsval list \<Rightarrow> dlq_view \<Rightarrow> dlq_view" where
  "store_sources xs st =
     (let st1 = st\<lparr>d_sources := xs\<rparr> in
      if d_sourceId st1 = [] \<or> \<not> list_ex (\<lambda>s. opt_prop s ''dlq_topic'' = JStr (d_sourceId st1)) xs
      then st1\<lparr>d_sourceId :=
             to_string (js_or (case xs of [] \<Rightarrow> JUndef | s # _ \<Rightarrow> opt_prop s ''dlq_topic'') (JStr []))\<rparr>
      else st1)"

definition loadSources :: "dlq_view proc" where
  "loadSources =
     Do (upd_load reset) (Read (\<lambda>st.
       try_await (apiGet (publicUrl (js ''/v1/dlq/sources'') (win st)))
         (\<lambda>data. try_value (sources_of data)
            (\<lambda>xs. Do (store_sources xs) (Read (\<lambda>st.
               if d_sourceId st \<noteq> [] then
                 try_await load (\<lambda>_. return_undef) (\<lambda>e. Do (upd_load (fail_err e)) return_undef)
               else Do no_messages return_undef)))
            (\<lambda>e. Do (upd_load (fail_err e)) return_undef))
         (\<lambda>e. Do (upd_load (fail_err e)) return_undef)))"

text \<open>The topic a delete goes to.\<close>

definition delete_topic :: "dlq_view \<Rightarrow> jstring" where
  "delete_topic st =
     to_string (js_or (js_or (JStr (d_topic st)) (opt_prop (selectedSource st) ''dlq_topic''))
       (JStr (d_sourceId st)))"

definition remove_query :: "jstring \<Rightarrow> jsval \<Rightarrow> jstring" where
  "remove_query dlqTopic m = params_string
     [(js ''dlq_topic'', dlqTopic), (js ''partition'', to_string (opt_prop m ''partition'')),
      (js ''offset'', to_string (opt_prop m ''offset''))]"

definition remove :: "jsval \<Rightarrow> dlq_view proc" where
  "remove m = Read (\<lambda>st.
     let dlqTopic = delete_topic st in
     if dlqTopic = [] then Do (upd_load (fail_msg select_message)) return_undef
     else Do (upd_load reset)
       (try_await (apiDelete (publicUrl (js ''/v1/dlq?'' @ remove_query dlqTopic m) (win st)))
          (\<lambda>_. Do (upd_load (succeed (js ''Deleted'')))
             (try_await load (\<lambda>_. return_undef) (\<lambda>e. Do (upd_load (fail_err e)) return_undef)))
          (\<lambda>e. Do (upd_load (fail_err e)) return_undef)))"

definition removeAll :: "dlq_view proc" where
  "removeAll = Read (\<lambda>st.
     let dlqTopic = delete_topic st in
     if dlqTopic = [] then Do (upd_load (fail_msg select_message)) return_undef
     else Do (upd_load reset)
       (try_await (apiDelete (publicUrl (js ''/v1/dlq?'' @
            params_string [(js ''dlq_topic'', dlqTopic)]) (win st)))
          (\<lambda>data. Do (\<lambda>st. st\<lparr>d_deleteAllOpen := False\<rparr>)
             (try_value (get_prop data ''deleted'')
                (\<lambda>n. Do (upd_load (succeed (js ''Deleted '' @ to_string (js_coalesce n (jint 0)))))
                   (try_await loadSources (\<lambda>_. return_undef)
                      (\<lambda>e. Do (upd_load (fail_err e)) return_undef)))
                (\<lambda>e. Do (upd_load (fail_err e)) return_undef)))
          (\<lambda>e. Do (upd_load (fail_err e)) return_undef)))"

definition copyBody :: "dlq_view proc" where
  "copyBody =
     Do (upd_copy reset) (Read (\<lambda>st.
       try_await (copyText (to_string (d_bodyText st)))
         (\<lambda>_. Do (upd_copy (succeed (js ''Copied''))) return_undef)
         (\<lambda>_. Do (upd_copy (fail_msg (js ''Copy failed''))) return_undef)))"

text \<open>The body as indented JSON; a text that is not JSON as it is.\<close>

definition body_text :: "jsval \<Rightarrow> jsval" where
  "body_text body =
     (case body of
        JStr s \<Rightarrow> (case json_parse s of
                     None \<Rightarrow> JStr s
                   | Some v \<Rightarrow> (case json_pretty v of None \<Rightarrow> JUndef | Some t \<Rightarrow> JStr t))
      | _ \<Rightarrow> (case json_pretty body of None \<Rightarrow> JUndef | Some t \<Rightarrow> JStr t))"

definition view_message :: "jsval \<Rightarrow> dlq_view \<Rightarrow> dlq_view" where
  "view_message m st =
     st\<lparr>d_bodyTitle := js ''DLQ '' @ middle_dot @ js '' '' @ to_string (opt_prop m ''message_id''),
        d_bodyText := body_text (opt_prop m ''body''), d_bodyOpen := True\<rparr>"

definition fmt :: "jsval \<Rightarrow> browser \<Rightarrow> jstring" where
  "fmt ms b = (if \<not> truthy ms then em_dash else locale_string b (to_number ms))"

section \<open>Events\<close>

datatype dlq_event =
    DlqMounted
  | DlqSetSource jsval
  | DlqLoad
  | DlqSetLimit jsval
  | DlqSetDeleteAll jsval
  | DlqRemoveAll
  | DlqView jsval
  | DlqRemove jsval
  | DlqSetBodyOpen jsval
  | DlqCopyBody

fun dlq_handler :: "dlq_event \<Rightarrow> dlq_view proc" where
  "dlq_handler DlqMounted = Spawn loadSources return_undef"
| "dlq_handler (DlqSetSource v) = Do (\<lambda>st. st\<lparr>d_sourceId := to_string v\<rparr>) return_undef"
| "dlq_handler DlqLoad = load"
| "dlq_handler (DlqSetLimit v) = Do (\<lambda>st. st\<lparr>d_limit := v\<rparr>) return_undef"
| "dlq_handler (DlqSetDeleteAll v) = Do (\<lambda>st. st\<lparr>d_deleteAllOpen := truthy v\<rparr>) return_undef"
| "dlq_handler DlqRemoveAll = removeAll"
| "dlq_handler (DlqView m) = Do (view_message m) return_undef"
| "dlq_handler (DlqRemove m) = remove m"
| "dlq_handler (DlqSetBodyOpen v) = Do (\<lambda>st. st\<lparr>d_bodyOpen := truthy v\<rparr>) return_undef"
| "dlq_handler DlqCopyBody = copyBody"

section \<open>Template\<close>

definition dlq_source_card :: "dlq_view \<Rightarrow> dlq_event vnode" where
  "dlq_source_card st =
   VEl ''Card'' [] []
    [VEl ''CardContent'' [(''class'', jlit ''flex flex-wrap items-end gap-3 pt-6'')] []
       [VEl ''Field'' [(''label'', jlit ''Source''), (''class'', jlit ''min-w-64 flex-1'')] []
          [VEl ''AppSelect''
             [(''modelValue'', JStr (d_sourceId st)),
              (''options'', dlq_options st),
              (''placeholder'', jlit ''Select a source'')]
             [(''update:modelValue'', OnValue DlqSetSource),
              (''update:model-value'', On DlqLoad)] []],
         VEl ''Field'' [(''label'', jlit ''DLQ topic'')] []
          [VEl ''Input''
             [(''model-value'', JStr (d_topic st)),
              (''readonly'', JStr []),
              (''class'', jlit ''font-mono text-xs'')] [] []],
         VEl ''Field'' [(''label'', jlit ''Limit'')] []
          [VEl ''Input''
             [(''modelValue'', d_limit st),
              (''type'', jlit ''number''),
              (''min'', jlit ''1'')]
             [(''update:modelValue'', OnValue DlqSetLimit)] []],
         VEl ''Button''
          [(''variant'', jlit ''outline''),
           (''size'', jlit ''sm''),
           (''disabled'', JBool (d_sourceId st = []))]
          [(''click'', On DlqLoad)]
          [VText (js ''Load'')],
         VEl ''Button''
          [(''variant'', jlit ''destructive''),
           (''size'', jlit ''sm''),
           (''disabled'', JBool (d_sourceId st = []))]
          [(''click'', On (DlqSetDeleteAll (JBool True)))]
          [VText (js ''Delete all'')],
         VEl ''ActionMessage''
          [(''error'', JStr (st_error (d_loadStatus st))),
           (''ok'', JStr (st_ok (d_loadStatus st)))] [] []]]"

definition dlq_message_row :: "dlq_view \<Rightarrow> jsval \<Rightarrow> dlq_event vnode" where
  "dlq_message_row st m =
   VEl ''TableRow'' [(''key'', opt_prop m ''message_id'')] []
    [VEl ''TableCell'' [(''class'', jlit ''font-mono text-xs'')] []
       [VText (interp (opt_prop m ''message_id''))],
      VEl ''TableCell'' [] []
       [VText (interp (js_or (opt_prop m ''source_queue'') (JStr em_dash)))],
      VEl ''TableCell'' [(''class'', jlit ''max-w-[12rem] truncate font-mono text-xs'')] []
       [VText (interp (opt_prop m ''destination_url''))],
      VEl ''TableCell'' [(''class'', jlit ''max-w-[12rem] truncate'')] []
       [VText (interp (opt_prop m ''reason''))],
      VEl ''TableCell'' [] []
       [VText (fmt (opt_prop m ''published_at_ms'') (win st))],
      VEl ''TableCell'' [(''class'', jlit ''space-x-1'')] []
       [VEl ''Button''
          [(''size'', jlit ''sm''),
           (''variant'', jlit ''outline'')]
          [(''click'', On (DlqView m))]
          [VText (js ''View'')],
         VEl ''Button''
          [(''size'', jlit ''sm''),
           (''variant'', jlit ''destructive'')]
          [(''click'', On (DlqRemove m))]
          [VText (js ''Delete'')]]]"

definition dlq_messages_card :: "dlq_view \<Rightarrow> dlq_event vnode" where
  "dlq_messages_card st =
   VEl ''Card'' [] []
    [VEl ''CardHeader'' [] []
       [VEl ''CardTitle'' [] []
          [VText (js ''Messages'')]],
      VEl ''CardContent'' [] []
       [VEl ''Table'' [] []
          [VEl ''TableHeader'' [] []
             [VEl ''TableRow'' [] []
                [VEl ''TableHead'' [] []
                   [VText (js ''Message'')],
                  VEl ''TableHead'' [] []
                   [VText (js ''Source'')],
                  VEl ''TableHead'' [] []
                   [VText (js ''Destination'')],
                  VEl ''TableHead'' [] []
                   [VText (js ''Reason'')],
                  VEl ''TableHead'' [] []
                   [VText (js ''Published'')],
                  VEl ''TableHead'' [] [] []]],
            VEl ''TableBody'' [] []
             ((if d_rows st = [] then
                [VEl ''TableRow'' [] []
                  [VEl ''TableCell''
                     [(''colspan'', jlit ''6''),
                      (''class'', jlit ''text-sm text-muted-foreground'')] []
                     [VText (js '' '' @ (if d_sourceId st \<noteq> [] then js ''No dead letters for this source.'' else js ''Select a source to load messages.'') @ js '' '')]]]
               else []) @
               map (dlq_message_row st) (d_rows st))]]]"

definition dlq_template :: "dlq_view \<Rightarrow> dlq_event vnode list" where
  "dlq_template st =
   [VEl ''div'' [(''class'', jlit ''space-y-4'')] []
     [VEl ''div'' [] []
        [VEl ''h1'' [(''class'', jlit ''text-lg font-semibold tracking-tight'')] []
           [VText (js ''Dead letter queue'')],
          VEl ''p'' [(''class'', jlit ''text-sm text-muted-foreground'')] []
           [VText (js '' Failed deliveries land in a per-source DLQ. Auto-expire with ''),
             VEl ''code'' [(''class'', jlit ''font-mono'')] []
              [VText (js ''BETTERMQ_DLQ_RETENTION_DAYS'')],
             VText (js '' (unset = keep forever). '')],
          VEl ''code'' [(''class'', jlit ''mt-1 block font-mono text-xs text-muted-foreground'')] []
           [VText (js ''GET /v1/dlq'')]],
       VEl ''Alert'' [] []
        [VEl ''AlertDescription'' [] []
           [VText (js '' Queue enqueue '' @ right_arrow @ js '' jobs.__dlq '' @ middle_dot @ js '' Direct publish '' @ right_arrow @ js '' __direct.__dlq '' @ middle_dot @ js '' Group fan-out '' @ right_arrow @ js '' one DLQ per member. '')]],
       dlq_source_card st,
       dlq_messages_card st,
       VEl ''AlertDialog''
        [(''open'', JBool (d_deleteAllOpen st))]
        [(''update:open'', OnValue DlqSetDeleteAll)]
        [VEl ''AlertDialogContent'' [] []
           [VEl ''AlertDialogHeader'' [] []
              [VEl ''AlertDialogTitle'' [] []
                 [VText (js ''Delete all dead letters?'')],
                VEl ''AlertDialogDescription'' [] []
                 [VText (js '' This removes every message on '' @ str_or (d_topic st) (str_or (d_sourceId st) (js ''this DLQ'')) @ js ''. It cannot be undone. '')]],
             VEl ''AlertDialogFooter'' [] []
              [VEl ''AlertDialogCancel'' [] []
                 [VText (js ''Cancel'')],
                VEl ''AlertDialogAction''
                 [(''variant'', jlit ''destructive'')]
                 [(''click'', On DlqRemoveAll)]
                 [VText (js ''Delete all'')]]]],
       VEl ''Dialog''
        [(''open'', JBool (d_bodyOpen st))]
        [(''update:open'', OnValue DlqSetBodyOpen)]
        [VEl ''DialogContent'' [(''class'', jlit ''max-w-2xl'')] []
           [VEl ''DialogHeader'' [] []
              [VEl ''DialogTitle'' [] []
                 [VText (d_bodyTitle st)]],
             VEl ''pre''
              [(''class'', jlit ''max-h-96 overflow-auto border bg-muted p-3 font-mono text-xs'')] []
              [VText (interp (d_bodyText st))],
             VEl ''DialogFooter'' [] []
              [VEl ''ActionMessage''
                 [(''error'', JStr (st_error (d_copyStatus st))),
                  (''ok'', JStr (st_ok (d_copyStatus st)))] [] [],
                VEl ''Button''
                 [(''variant'', jlit ''outline''),
                  (''size'', jlit ''sm'')]
                 [(''click'', On DlqCopyBody)]
                 [VText (js ''Copy'')],
                VEl ''Button''
                 [(''size'', jlit ''sm'')]
                 [(''click'', On (DlqSetBodyOpen (JBool False)))]
                 [VText (js ''Close'')]]]]]]"

lemmas dlq_templates = dlq_message_row_def dlq_source_card_def dlq_messages_card_def dlq_template_def

section \<open>Requests stay on the page's origin\<close>

lemmas dlq_updates = upd_load_def upd_copy_def no_messages_def store_messages_def store_sources_def
  view_message_def

lemma stays_dlq_load [stays_intros]: "stays (on_page b0) (own_origin b0) load"
  by (auto simp: load_def dlq_updates intro!: stays_intros)

lemma stays_loadSources [stays_intros]: "stays (on_page b0) (own_origin b0) loadSources"
  by (auto simp: loadSources_def dlq_updates Let_def intro!: stays_intros)

interpretation dlq_page: page_script dlq_handler
proof
  show "stays (on_page b0) (own_origin b0) (dlq_handler e)" for b0 e
    by (cases e) (auto simp: remove_def removeAll_def copyBody_def dlq_updates intro!: stays_intros)
qed

lemma stays_dlq_load_sync [stays_intros]: "stays (synced b0) (\<lambda>_. True) load"
  by (auto simp: load_def dlq_updates sync_simps intro!: stays_intros)

lemma stays_loadSources_sync [stays_intros]: "stays (synced b0) (\<lambda>_. True) loadSources"
  by (auto simp: loadSources_def dlq_updates Let_def sync_simps intro!: stays_intros)

interpretation dlq_sync: synced_script dlq_handler
proof
  show "stays (synced b0) (\<lambda>_. True) (dlq_handler e)" for b0 e
    by (cases e) (auto simp: sync_simps remove_def removeAll_def copyBody_def dlq_updates intro!: stays_intros)
qed

section \<open>What the page writes\<close>

text \<open>
  The page only deletes, and every deletion names the topic it is for: one message of the topic by its
  partition and offset, or the whole topic.
\<close>

definition dlq_writes :: "browser \<Rightarrow> policy" where
  "dlq_writes b m url body \<longleftrightarrow>
     m = DELETE \<and> body = None \<and>
     (\<exists>topic rest. topic \<noteq> [] \<and> (rest = [] \<or> map fst rest = [js ''partition'', js ''offset'']) \<and>
        url = publicUrl (js ''/v1/dlq?'' @ params_string ((js ''dlq_topic'', topic) # rest)) b)"

lemma dlq_writes_one:
  assumes "topic \<noteq> []"
  shows "dlq_writes b DELETE (publicUrl (js ''/v1/dlq?'' @ remove_query topic m) b) None"
proof -
  have "map fst [(js ''partition'', to_string (opt_prop m ''partition'')), (js ''offset'', to_string (opt_prop m ''offset''))] =
      [js ''partition'', js ''offset'']" by simp
  then show ?thesis using assms unfolding dlq_writes_def remove_query_def
    by (intro conjI exI) (assumption | rule disjI2 | rule refl)+
qed

lemma dlq_writes_all:
  "topic \<noteq> [] \<Longrightarrow>
   dlq_writes b DELETE (publicUrl (js ''/v1/dlq?'' @ params_string [(js ''dlq_topic'', topic)]) b) None"
  unfolding dlq_writes_def by blast

lemma sends_dlq_load [stays_intros]: "sends_only b0 W load"
  by (auto simp: load_def dlq_updates Let_def intro!: stays_intros)

lemma sends_loadSources [stays_intros]: "sends_only b0 W loadSources"
  by (auto simp: loadSources_def dlq_updates Let_def intro!: stays_intros)

interpretation dlq_policy: policed_script dlq_writes dlq_handler
proof
  show "sends_only b0 (dlq_writes b0) (dlq_handler e)" for b0 e
    by (cases e) (auto simp: remove_def removeAll_def copyBody_def dlq_updates Let_def
        intro!: stays_intros dlq_writes_one dlq_writes_all)
qed

section \<open>Properties\<close>

text \<open>The status line of the source card shows no success.\<close>

definition ok_clear :: "dlq_view \<Rightarrow> bool" where
  "ok_clear st \<longleftrightarrow> st_ok (d_loadStatus st) = []"

lemma ok_clear_upd [simp]:
  "ok_clear (upd_load reset st)" "ok_clear (upd_load (fail x) st)"
  "ok_clear (upd_copy f st) = ok_clear st" "ok_clear (no_messages st) = ok_clear st"
  "ok_clear (store_messages t d st) = ok_clear st" "ok_clear (store_sources xs st) = ok_clear st"
  "ok_clear (view_message v st) = ok_clear st" "ok_clear (upd_win g st) = ok_clear st"
  by (simp_all add: ok_clear_def dlq_updates reset_def fail_def upd_win_def Let_def)

lemma ok_clear_Do [stays_intros]:
  "(\<And>s. ok_clear s \<Longrightarrow> ok_clear (f s)) \<Longrightarrow> stays ok_clear Q p \<Longrightarrow> stays ok_clear Q (Do f p)"
  by (rule stays_Do)

lemma ok_clear_api [stays_intros]: "stays ok_clear (\<lambda>_. True) (api_request url m body)"
  by (auto simp: api_request_def stays_def split: prod.split)

lemma ok_clear_copyText [stays_intros]: "stays ok_clear (\<lambda>_. True) (copyText t)"
  by (auto simp: copyText_def intro!: stays_intros split: reply.split)

text \<open>A load, of the messages or of the sources, begins with clearing the line, from any state.\<close>

lemma load_clears: "keeps ok_clear (\<lambda>_. True) load st"
proof -
  have "\<exists>t. load = Do (upd_load reset) t \<and> stays ok_clear (\<lambda>_. True) t"
    unfolding load_def by (intro exI conjI, rule refl) (auto simp: api_defs Let_def intro!: stays_intros)
  then obtain t where t: "load = Do (upd_load reset) t" and "stays ok_clear (\<lambda>_. True) t" by blast
  then show ?thesis unfolding t by (simp add: stays_def)
qed

lemma stays_load_clears [stays_intros]: "stays ok_clear (\<lambda>_. True) load"
  by (simp add: stays_def load_clears)

lemma loadSources_clears: "keeps ok_clear (\<lambda>_. True) loadSources st"
proof -
  have "\<exists>t. loadSources = Do (upd_load reset) t \<and> stays ok_clear (\<lambda>_. True) t"
    unfolding loadSources_def by (intro exI conjI, rule refl) (auto simp: api_defs Let_def intro!: stays_intros)
  then obtain t where t: "loadSources = Do (upd_load reset) t" and "stays ok_clear (\<lambda>_. True) t" by blast
  then show ?thesis unfolding t by (simp add: stays_def)
qed

lemma stays_loadSources_clears [stays_intros]: "stays ok_clear (\<lambda>_. True) loadSources"
  by (simp add: stays_def loadSources_clears)

text \<open>So a message that a load follows at once is gone before the page is drawn.\<close>

lemma stays_then_clear:
  assumes "\<And>st. keeps ok_clear (\<lambda>_. True) p st"
  shows "stays ok_clear (\<lambda>_. True) (Do f (try_await p (\<lambda>_. return_undef) (\<lambda>e. Do (upd_load (fail_err e)) return_undef)))"
  by (rule staysI, simp, rule keeps_try_await) (simp_all add: assms stays_def)

lemmas succeed_then_load [stays_intros] = stays_then_clear [OF load_clears] stays_then_clear [OF loadSources_clears]

interpretation dlq_status: event_loop "\<lambda>_ _. True" dlq_handler ok_clear "\<lambda>_. True"
proof
  have "stays ok_clear (\<lambda>_. True) (dlq_handler e)" for e
    by (cases e)
      (auto simp: remove_def removeAll_def copyBody_def api_defs Let_def
        intro!: stays_intros, auto simp: ok_clear_def)
  then show "ok_clear s \<Longrightarrow> keeps ok_clear (\<lambda>_. True) (dlq_handler e) s" for s e
    by (rule staysD)
qed

text \<open>
  C35: the messages that confirm a deletion are never seen. The handlers report success and then load again,
  which clears the line in the same turn of the event loop: in every state that the loop reaches, at
  whatever point any handler waits, the line shows no success.
\<close>

theorem deleted_never_shown:
  assumes "loop_reach (\<lambda>_ _. True) dlq_handler (dlq_init p) (s, pool)"
  shows "st_ok (d_loadStatus s) = []"
proof -
  have "ok_clear (dlq_init p)" by (simp add: ok_clear_def dlq_init_def panel.defs dlq_view.defs useActionStatus_def)
  then show ?thesis using dlq_status.reach_invariant [OF assms] by (simp add: ok_clear_def)
qed

theorem deleted_never_shown_witness:
  "\<exists>s pool. loop_reach (\<lambda>_ _. True) dlq_handler (dlq_init (panel_on (fresh_page (js ''http://a'')))) (s, pool) \<and>
     pool \<noteq> [] \<and> st_ok (d_loadStatus s) = []"
proof -
  let ?s = "dlq_init (panel_on (fresh_page (js ''http://a'')))"
  obtain s1 p1 sp where a: "adv (dlq_handler DlqMounted) ?s = (s1, p1, sp)" by (cases "adv (dlq_handler DlqMounted) ?s")
  have l: "loop_reach (\<lambda>_ _. True) dlq_handler ?s (s1, p1 # sp)"
    by (rule reach_event [where handler = dlq_handler, OF a]) simp
  then show ?thesis using deleted_never_shown [OF l] by blast
qed

lemma delete_topic_shown: "delete_topic st = str_or (d_topic st) (d_sourceId st)"
proof (cases "find (\<lambda>s. opt_prop s ''dlq_topic'' = JStr (d_sourceId st)) (d_sources st)")
  case None
  then show ?thesis by (simp add: delete_topic_def selectedSource_def js_or_def str_or_def)
next
  case (Some x)
  then have "opt_prop x ''dlq_topic'' = JStr (d_sourceId st)" by (auto simp: find_Some_iff)
  then show ?thesis using Some by (simp add: delete_topic_def selectedSource_def js_or_def str_or_def)
qed


lemma removeAll_adv:
  assumes "win st = fresh_page u" and "delete_topic st \<noteq> []"
  shows "\<exists>s1 r k. adv removeAll st = (s1, Await (Fetch r) k, [])"
  using assms
  by (simp add: removeAll_def apiDelete_def api_request_def authHeaders_def upd_load_def
      migrated_loadSavedToken opt_or_def normalizeToken_def bearer_prefixed_def try_await_def)


end
