(* ===== verification/View_Queues.thy ===== *)
theory View_Queues
  imports Panel_Layout
begin

text \<open>
  \<open>views/QueuesView.vue\<close>: creating a queue, with its retry policy, and removing one. The parallelism
  field starts as the empty text; its number input delivers a number once it is edited.
\<close>

section \<open>Script\<close>

record queues_view = panel +
  q_queue :: jstring
  q_url :: jstring
  q_secret :: jstring
  q_parallelism :: jsval
  q_retry :: retry_state
  q_createStatus :: action_status
  q_listStatus :: action_status

definition queues_init :: "panel \<Rightarrow> queues_view" where
  "queues_init p = panel.extend p
     (queues_view.fields (js ''jobs'') (js ''https://webhook.site'') (js ''whsec_demo'') (JStr [])
        defaultRetry useActionStatus useActionStatus)"

definition upd_create :: "(action_status \<Rightarrow> action_status) \<Rightarrow> queues_view \<Rightarrow> queues_view" where
  "upd_create f st = st\<lparr>q_createStatus := f (q_createStatus st)\<rparr>"

definition upd_list :: "(action_status \<Rightarrow> action_status) \<Rightarrow> queues_view \<Rightarrow> queues_view" where
  "upd_list f st = st\<lparr>q_listStatus := f (q_listStatus st)\<rparr>"

text \<open>\<open>v.trim()\<close>: only a text has the method.\<close>

definition call_trim :: "jsval \<Rightarrow> jserr + jstring" where
  "call_trim v =
     (case v of JStr s \<Rightarrow> Inr (trim s) | _ \<Rightarrow> Inl (type_error (js ''form.parallelism.trim is not a function'')))"

text \<open>The request body of a new queue, or what building it throws.\<close>

definition queue_body :: "queues_view \<Rightarrow> jserr + payload" where
  "queue_body st =
     (let body = mergeRetry [(js ''queue'', JStr (q_queue st)), (js ''url'', JStr (q_url st)),
            (js ''secret'', JStr (q_secret st))] (q_retry st);
          p = parse_int (to_string (q_parallelism st))
      in case call_trim (q_parallelism st) of
           Inl e \<Rightarrow> Inl e
         | Inr t \<Rightarrow>
             Inr (if t \<noteq> [] \<and> num_finite p then obj_set body (js ''parallelism'') (JNum (max_num 0 p))
                  else body))"

definition create :: "queues_view proc" where
  "create =
     Do (upd_create reset) (Read (\<lambda>st.
       try_value (queue_body st)
         (\<lambda>body. try_await (apiPost (publicUrl (js ''/v1/queues'') (win st)) (JObj body))
            (\<lambda>r. try_value (get_prop r ''queue'')
               (\<lambda>q. Do (upd_create (succeed (js ''Queue '' @ to_string q @ js '' '' @ right_arrow @ js '' '' @
                          to_string (opt_prop r ''queue_id''))))
                  (try_await refreshQueues (\<lambda>_. return_undef)
                     (\<lambda>e. Do (upd_create (fail_err e)) return_undef)))
               (\<lambda>e. Do (upd_create (fail_err e)) return_undef))
            (\<lambda>e. Do (upd_create (fail_err e)) return_undef))
         (\<lambda>e. Do (upd_create (fail_err e)) return_undef)))"

definition remove :: "jsval \<Rightarrow> queues_view proc" where
  "remove q =
     Do (upd_list reset) (Read (\<lambda>st.
       try_value (encode_uri_component (to_string (queueId q)))
         (\<lambda>enc. try_await (apiDelete (publicUrl (js ''/v1/queues/'' @ enc) (win st)))
            (\<lambda>_. Do (upd_list (succeed (js ''Queue removed'')))
               (try_await refreshQueues (\<lambda>_. return_undef)
                  (\<lambda>e. Do (upd_list (fail_err e)) return_undef)))
            (\<lambda>e. Do (upd_list (fail_err e)) return_undef))
         (\<lambda>e. Do (upd_list (fail_err e)) return_undef)))"

datatype queues_event =
    QueuesMounted
  | QueuesName jsval
  | QueuesSecret jsval
  | QueuesUrl jsval
  | QueuesParallelism jsval
  | QueuesRetry retry_event
  | QueuesSetRetry jsval
  | QueuesCreate
  | QueuesRemove jsval

text \<open>
  The retry fields write into the form's own object; the component never replaces the object, so the
  listener of the whole model has no effect.
\<close>

fun queues_handler :: "queues_event \<Rightarrow> queues_view proc" where
  "queues_handler QueuesMounted = Spawn refreshQueues return_undef"
| "queues_handler (QueuesName v) = Do (\<lambda>st. st\<lparr>q_queue := to_string v\<rparr>) return_undef"
| "queues_handler (QueuesSecret v) = Do (\<lambda>st. st\<lparr>q_secret := to_string v\<rparr>) return_undef"
| "queues_handler (QueuesUrl v) = Do (\<lambda>st. st\<lparr>q_url := to_string v\<rparr>) return_undef"
| "queues_handler (QueuesParallelism v) = Do (\<lambda>st. st\<lparr>q_parallelism := v\<rparr>) return_undef"
| "queues_handler (QueuesRetry e) = Do (\<lambda>st. st\<lparr>q_retry := retry_update e (q_retry st)\<rparr>) return_undef"
| "queues_handler (QueuesSetRetry v) = return_undef"
| "queues_handler QueuesCreate = create"
| "queues_handler (QueuesRemove q) = remove q"

section \<open>Template\<close>

definition queues_form :: "queues_view \<Rightarrow> queues_event vnode" where
  "queues_form st =
   VEl ''Card'' [] []
    [VEl ''CardHeader'' [] []
       [VEl ''CardTitle'' [] []
          [VText (js ''Create queue'')],
         VEl ''CardDescription'' [] []
          [VText (js ''Name, webhook, retries, and how many jobs can run at once'')]],
      VEl ''CardContent'' [(''class'', jlit ''grid gap-2 sm:grid-cols-2'')] []
       [VEl ''Field'' [(''label'', jlit ''Name'')] []
          [VEl ''Input''
             [(''modelValue'', JStr (q_queue st))]
             [(''update:modelValue'', OnValue QueuesName)] []],
         VEl ''Field'' [(''label'', jlit ''HMAC secret'')] []
          [VEl ''Input''
             [(''modelValue'', JStr (q_secret st)),
              (''class'', jlit ''font-mono'')]
             [(''update:modelValue'', OnValue QueuesSecret)] []],
         VEl ''Field'' [(''label'', jlit ''Webhook URL''), (''class'', jlit ''sm:col-span-2'')] []
          [VEl ''Input''
             [(''modelValue'', JStr (q_url st)),
              (''class'', jlit ''font-mono text-xs'')]
             [(''update:modelValue'', OnValue QueuesUrl)] []],
         VEl ''Field''
          [(''label'', jlit ''Parallelism''),
           (''hint'', jlit ''Max in-flight without a key. Empty = unlimited. 1 = the whole queue is serial.'')] []
          [VEl ''Input''
             [(''modelValue'', q_parallelism st),
              (''type'', jlit ''number''),
              (''min'', jlit ''0''),
              (''placeholder'', jlit ''unlimited'')]
             [(''update:modelValue'', OnValue QueuesParallelism)] []],
         VEl ''div'' [(''class'', jlit ''sm:col-span-2'')] []
          [VEl ''RetryFields''
             [(''modelValue'', retry_value (q_retry st))]
             [(''update:modelValue'', OnValue QueuesSetRetry)] []]],
      VEl ''CardFooter'' [] []
       [VEl ''Button'' [(''size'', jlit ''sm'')] [(''click'', On QueuesCreate)]
          [VText (js ''Create'')],
         VEl ''ActionMessage''
          [(''error'', JStr (st_error (q_createStatus st))),
           (''ok'', JStr (st_ok (q_createStatus st)))] [] []]]"

definition queues_row :: "queues_view \<Rightarrow> jsval \<Rightarrow> queues_event vnode" where
  "queues_row st q =
   VEl ''TableRow'' [(''key'', queueId q)] []
    [VEl ''TableCell'' [(''class'', jlit ''font-mono text-xs'')] []
       [VText (interp (queueId q))],
      VEl ''TableCell'' [] []
       [VText (interp (js_or (opt_prop q ''queue'') (opt_prop q ''name'')))],
      VEl ''TableCell'' [(''class'', jlit ''font-mono text-xs'')] []
       [VText (interp (js_coalesce (opt_prop q ''parallelism'') (JStr infinity_sign)))],
      VEl ''TableCell'' [(''class'', jlit ''max-w-xs truncate font-mono text-xs'')] []
       [VText (interp (opt_prop q ''url''))],
      VEl ''TableCell'' [] []
       [VEl ''Button''
          [(''size'', jlit ''sm''),
           (''variant'', jlit ''destructive'')]
          [(''click'', On (QueuesRemove q))]
          [VText (js ''Delete'')]]]"

definition queues_template :: "queues_view \<Rightarrow> queues_event vnode list" where
  "queues_template st =
   [VEl ''div'' [(''class'', jlit ''space-y-4'')] []
     [VEl ''div'' [] []
        [VEl ''h1'' [(''class'', jlit ''text-lg font-semibold tracking-tight'')] []
           [VText (js ''Queues'')],
          VEl ''p'' [(''class'', jlit ''text-sm text-muted-foreground'')] []
           [VText (js '' Named webhook. Retries and parallelism live here. Enqueue with no key is standard; a key is FIFO for that entity. '')],
          VEl ''code'' [(''class'', jlit ''mt-1 block font-mono text-xs text-muted-foreground'')] []
           [VText (js ''POST /v1/queues'')]],
       queues_form st,
       VEl ''Card'' [] []
        [VEl ''CardHeader'' [] []
           [VEl ''CardTitle'' [] []
              [VText (js ''Registered'')]],
          VEl ''CardContent'' [] []
           [VEl ''ActionMessage''
              [(''class'', jlit ''mb-2''),
               (''error'', JStr (st_error (q_listStatus st))),
               (''ok'', JStr (st_ok (q_listStatus st)))] [] [],
             VEl ''Table'' [] []
              [VEl ''TableHeader'' [] []
                 [VEl ''TableRow'' [] []
                    [VEl ''TableHead'' [] []
                       [VText (js ''ID'')],
                      VEl ''TableHead'' [] []
                       [VText (js ''Name'')],
                      VEl ''TableHead'' [] []
                       [VText (js ''Parallelism'')],
                      VEl ''TableHead'' [] []
                       [VText (js ''URL'')],
                      VEl ''TableHead'' [] [] []]],
                VEl ''TableBody'' [] []
                 (map (queues_row st) (c_queues (catalog st)))]]]]]"

section \<open>Requests stay on the page's origin\<close>

lemmas queues_updates = upd_create_def upd_list_def

interpretation queues_page: page_script queues_handler
proof
  show "stays (on_page b0) (own_origin b0) (queues_handler e)" for b0 e
    by (cases e) (auto simp: create_def remove_def queues_updates Let_def intro!: stays_intros)
qed

interpretation queues_sync: synced_script queues_handler
proof
  show "stays (synced b0) (\<lambda>_. True) (queues_handler e)" for b0 e
    by (cases e) (auto simp: sync_simps create_def remove_def queues_updates Let_def intro!: stays_intros)
qed

section \<open>What the page writes\<close>

text \<open>
  The page posts new queues, whose parallelism, when there is one, is a number that is not negative, and
  deletes one queue at a time: the queue's id is one segment of the path.
\<close>

definition queues_writes :: "browser \<Rightarrow> policy" where
  "queues_writes b m url body \<longleftrightarrow>
     m = POST \<and> url = publicUrl (js ''/v1/queues'') b \<and>
       (\<exists>pl. body = request_data (JObj pl) \<and>
         (\<forall>v. obj_get pl (js ''parallelism'') = Some v \<longrightarrow> (\<exists>n\<ge>0. v = JNum (Num n)))) \<or>
     m = DELETE \<and> body = None \<and> (\<exists>seg. path_segment seg \<and> url = publicUrl (js ''/v1/queues/'' @ seg) b)"

lemma queue_body_parallelism:
  assumes "queue_body st = Inr pl" and "obj_get pl (js ''parallelism'') = Some v"
  shows "\<exists>n\<ge>0. v = JNum (Num n)"
  using assms
  by (auto simp: queue_body_def Let_def mergeRetry_get max_num_def num_finite_def split: sum.splits if_splits)

lemma queues_writes_intros:
  "queue_body st = Inr pl \<Longrightarrow> queues_writes b POST (publicUrl (js ''/v1/queues'') b) (request_data (JObj pl))"
  "encode_uri_component s = Inr enc \<Longrightarrow> queues_writes b DELETE (publicUrl (js ''/v1/queues/'' @ enc) b) None"
  using queue_body_parallelism [of st pl] path_segment_encoded by (auto simp: queues_writes_def)

interpretation queues_policy: policed_script queues_writes queues_handler
proof
  show "sends_only b0 (queues_writes b0) (queues_handler e)" for b0 e
    by (cases e) (auto simp: create_def remove_def queues_updates Let_def intro!: stays_intros queues_writes_intros)
qed

section \<open>Properties\<close>

text \<open>
  C34: a parallelism that is a number stops the page from creating a queue. The field is a number field,
  so what is typed into it arrives as a number, which has no method \<open>trim\<close>: creating reports that error
  and sends nothing. Left empty, or filled with a text, the field is no obstacle: the body is built, with a
  parallelism exactly when the text reads as a number, and then one that is not negative.
\<close>

theorem number_parallelism_refused:
  "(\<forall>n. q_parallelism st = JNum n \<longrightarrow>
      run srv create st w =
        (Inr JUndef, upd_create (fail_err (type_error (js ''form.parallelism.trim is not a function'')))
           (upd_create reset st), w)) \<and>
   (\<forall>t. q_parallelism st = JStr t \<longrightarrow>
      (\<exists>pl. queue_body st = Inr pl \<and>
         obj_get pl (js ''parallelism'') =
           (if trim t \<noteq> [] \<and> num_finite (parse_int t) then Some (JNum (max_num 0 (parse_int t))) else None)))"
proof (intro conjI allI impI)
  fix n assume n: "q_parallelism st = JNum n"
  have "queue_body (upd_create reset st) = Inl (type_error (js ''form.parallelism.trim is not a function''))"
    using n by (simp add: queue_body_def call_trim_def upd_create_def Let_def)
  then show "run srv create st w =
        (Inr JUndef, upd_create (fail_err (type_error (js ''form.parallelism.trim is not a function'')))
           (upd_create reset st), w)"
    by (simp add: create_def)
next
  fix t assume "q_parallelism st = JStr t"
  then show "\<exists>pl. queue_body st = Inr pl \<and>
         obj_get pl (js ''parallelism'') =
           (if trim t \<noteq> [] \<and> num_finite (parse_int t) then Some (JNum (max_num 0 (parse_int t))) else None)"
    by (simp add: queue_body_def call_trim_def Let_def mergeRetry_get)
qed

theorem number_parallelism_refused_witness:
  "st_error (q_createStatus (fst (snd (run (\<lambda>_ n. (Failed headers_error, Suc n)) create
      ((queues_init (panel_on (fresh_page (js ''http://a''))))\<lparr>q_parallelism := jint 4\<rparr>) 0)))) =
   js ''form.parallelism.trim is not a function''"
proof -
  let ?s = "(queues_init (panel_on (fresh_page (js ''http://a''))))\<lparr>q_parallelism := jint 4\<rparr>"
  have "run (\<lambda>_ n. (Failed headers_error, Suc n)) create ?s 0 =
        (Inr JUndef, upd_create (fail_err (type_error (js ''form.parallelism.trim is not a function'')))
           (upd_create reset ?s), 0)"
    using number_parallelism_refused [of ?s "\<lambda>_ n. (Failed headers_error, Suc n)" 0] by simp
  then show ?thesis by (simp add: upd_create_def fail_def type_error_def errText_def)
qed

end
