(* ===== verification/View_Flows.thy ===== *)
theory View_Flows
  imports Panel_Layout
begin

text \<open>\<open>views/FlowsView.vue\<close>: creating a flow profile, unless the same one is listed, and removing one.\<close>

section \<open>Script\<close>

record flows_view = panel +
  f_key :: jstring
  f_parallelism :: jsval
  f_rate :: jsval
  f_period :: jsval
  f_createStatus :: action_status
  f_listStatus :: action_status

definition flows_init :: "panel \<Rightarrow> flows_view" where
  "flows_init p = panel.extend p
     (flows_view.fields (js ''user-1'') (jint 1) (jint 100) (jint 60) useActionStatus useActionStatus)"

definition upd_create :: "(action_status \<Rightarrow> action_status) \<Rightarrow> flows_view \<Rightarrow> flows_view" where
  "upd_create f st = st\<lparr>f_createStatus := f (f_createStatus st)\<rparr>"

definition upd_list :: "(action_status \<Rightarrow> action_status) \<Rightarrow> flows_view \<Rightarrow> flows_view" where
  "upd_list f st = st\<lparr>f_listStatus := f (f_listStatus st)\<rparr>"

text \<open>The three numbers of the form: a missing or unreadable one takes its default.\<close>

definition flow_numbers :: "flows_view \<Rightarrow> jsnum \<times> jsnum \<times> jsnum" where
  "flow_numbers st =
     (number_or (f_parallelism st) 1, number_or (f_rate st) 0, number_or (f_period st) 60)"

definition same_flow :: "jstring \<Rightarrow> jsnum \<times> jsnum \<times> jsnum \<Rightarrow> jsval \<Rightarrow> bool" where
  "same_flow key ns f \<longleftrightarrow>
     (case ns of (parallelism, rate, period) \<Rightarrow>
        opt_prop f ''key'' = JStr key \<and>
        strict_eq (JNum (to_number (opt_prop f ''parallelism''))) (JNum parallelism) \<and>
        strict_eq (JNum (to_number (opt_prop f ''rate''))) (JNum rate) \<and>
        strict_eq (JNum (to_number (opt_prop f ''period_secs''))) (JNum period))"

definition existing_flow :: "flows_view \<Rightarrow> jsval option" where
  "existing_flow st = find (same_flow (f_key st) (flow_numbers st)) (c_flows (catalog st))"

definition flow_body :: "flows_view \<Rightarrow> payload" where
  "flow_body st =
     (case flow_numbers st of (parallelism, rate, period) \<Rightarrow>
        [(js ''key'', JStr (f_key st)), (js ''parallelism'', JNum parallelism), (js ''rate'', JNum rate),
         (js ''period_secs'', JNum period)])"

definition create :: "flows_view proc" where
  "create =
     Do (upd_create reset) (Read (\<lambda>st.
       case existing_flow st of
         Some f \<Rightarrow> Do (upd_create (fail_msg (js ''duplicate flow '' @ to_string (flowId f)))) return_undef
       | None \<Rightarrow>
           try_await (apiPost (publicUrl (js ''/v1/flows'') (win st)) (JObj (flow_body st)))
             (\<lambda>r. try_value (get_prop r ''flow_id'')
                (\<lambda>i. Do (upd_create (succeed (js ''Flow created '' @ to_string i)))
                   (try_await refreshFlows (\<lambda>_. return_undef)
                      (\<lambda>e. Do (upd_create (fail_err e)) return_undef)))
                (\<lambda>e. Do (upd_create (fail_err e)) return_undef))
             (\<lambda>e. Do (upd_create (fail_err e)) return_undef)))"

definition remove :: "jsval \<Rightarrow> flows_view proc" where
  "remove f =
     Do (upd_list reset) (Read (\<lambda>st.
       try_value (encode_uri_component (to_string (flowId f)))
         (\<lambda>enc. try_await (apiDelete (publicUrl (js ''/v1/flows/'' @ enc) (win st)))
            (\<lambda>_. Do (upd_list (succeed (js ''Flow removed'')))
               (try_await refreshFlows (\<lambda>_. return_undef)
                  (\<lambda>e. Do (upd_list (fail_err e)) return_undef)))
            (\<lambda>e. Do (upd_list (fail_err e)) return_undef))
         (\<lambda>e. Do (upd_list (fail_err e)) return_undef)))"

datatype flows_event =
    FlowsMounted
  | FlowsKey jsval
  | FlowsParallelism jsval
  | FlowsRate jsval
  | FlowsPeriod jsval
  | FlowsCreate
  | FlowsRemove jsval

fun flows_handler :: "flows_event \<Rightarrow> flows_view proc" where
  "flows_handler FlowsMounted = Spawn refreshFlows return_undef"
| "flows_handler (FlowsKey v) = Do (\<lambda>st. st\<lparr>f_key := to_string v\<rparr>) return_undef"
| "flows_handler (FlowsParallelism v) = Do (\<lambda>st. st\<lparr>f_parallelism := v\<rparr>) return_undef"
| "flows_handler (FlowsRate v) = Do (\<lambda>st. st\<lparr>f_rate := v\<rparr>) return_undef"
| "flows_handler (FlowsPeriod v) = Do (\<lambda>st. st\<lparr>f_period := v\<rparr>) return_undef"
| "flows_handler FlowsCreate = create"
| "flows_handler (FlowsRemove f) = remove f"

section \<open>Template\<close>

definition flows_form :: "flows_view \<Rightarrow> flows_event vnode" where
  "flows_form st =
   VEl ''Card'' [] []
    [VEl ''CardContent'' [(''class'', jlit ''grid gap-3 pt-6 sm:grid-cols-4'')] []
       [VEl ''Field''
          [(''label'', jlit ''Lane key''),
           (''hint'', jlit ''Usually the publish routing key'')] []
          [VEl ''Input''
             [(''modelValue'', JStr (f_key st))]
             [(''update:modelValue'', OnValue FlowsKey)] []],
         VEl ''Field'' [(''label'', jlit ''Parallelism'')] []
          [VEl ''Input''
             [(''modelValue'', f_parallelism st),
              (''type'', jlit ''number''),
              (''min'', jlit ''1'')]
             [(''update:modelValue'', OnValue FlowsParallelism)] []],
         VEl ''Field'' [(''label'', jlit ''Rate'')] []
          [VEl ''Input''
             [(''modelValue'', f_rate st),
              (''type'', jlit ''number'')]
             [(''update:modelValue'', OnValue FlowsRate)] []],
         VEl ''Field'' [(''label'', jlit ''Period (sec)'')] []
          [VEl ''Input''
             [(''modelValue'', f_period st),
              (''type'', jlit ''number'')]
             [(''update:modelValue'', OnValue FlowsPeriod)] []]],
      VEl ''CardFooter'' [] []
       [VEl ''Button'' [(''size'', jlit ''sm'')] [(''click'', On FlowsCreate)]
          [VText (js ''Create profile'')],
         VEl ''ActionMessage''
          [(''error'', JStr (st_error (f_createStatus st))),
           (''ok'', JStr (st_ok (f_createStatus st)))] [] []]]"

definition flows_row :: "flows_view \<Rightarrow> jsval \<Rightarrow> flows_event vnode" where
  "flows_row st f =
   VEl ''TableRow'' [(''key'', flowId f)] []
    [VEl ''TableCell'' [(''class'', jlit ''font-mono text-xs'')] []
       [VText (interp (flowId f))],
      VEl ''TableCell'' [] []
       [VText (interp (opt_prop f ''key''))],
      VEl ''TableCell'' [] []
       [VText (interp (opt_prop f ''parallelism''))],
      VEl ''TableCell'' [] []
       [VText (interp (opt_prop f ''rate''))],
      VEl ''TableCell'' [] []
       [VText (interp (opt_prop f ''period_secs''))],
      VEl ''TableCell'' [] []
       [VEl ''Button''
          [(''size'', jlit ''sm''),
           (''variant'', jlit ''destructive'')]
          [(''click'', On (FlowsRemove f))]
          [VText (js ''Delete'')]]]"

definition flows_template :: "flows_view \<Rightarrow> flows_event vnode list" where
  "flows_template st =
   [VEl ''div'' [(''class'', jlit ''space-y-4'')] []
     [VEl ''div'' [] []
        [VEl ''h1'' [(''class'', jlit ''text-lg font-semibold tracking-tight'')] []
           [VText (js ''Flows'')],
          VEl ''p'' [(''class'', jlit ''text-sm text-muted-foreground'')] []
           [VText (js '' Named rate + parallelism limits for Publish (and groups). Queue jobs use the queue'' @ apostrophe @ js ''s parallelism or a message key. '')],
          VEl ''code'' [(''class'', jlit ''mt-1 block font-mono text-xs text-muted-foreground'')] []
           [VText (js ''POST /v1/flows'')]],
       flows_form st,
       VEl ''Card'' [] []
        [VEl ''CardHeader'' [] []
           [VEl ''CardTitle'' [] []
              [VText (js ''Profiles'')]],
          VEl ''CardContent'' [] []
           [VEl ''ActionMessage''
              [(''class'', jlit ''mb-2''),
               (''error'', JStr (st_error (f_listStatus st))),
               (''ok'', JStr (st_ok (f_listStatus st)))] [] [],
             VEl ''Table'' [] []
              [VEl ''TableHeader'' [] []
                 [VEl ''TableRow'' [] []
                    [VEl ''TableHead'' [] []
                       [VText (js ''ID'')],
                      VEl ''TableHead'' [] []
                       [VText (js ''Lane'')],
                      VEl ''TableHead'' [] []
                       [VText (js ''Par.'')],
                      VEl ''TableHead'' [] []
                       [VText (js ''Rate'')],
                      VEl ''TableHead'' [] []
                       [VText (js ''Period'')],
                      VEl ''TableHead'' [] [] []]],
                VEl ''TableBody'' [] []
                 (map (flows_row st) (c_flows (catalog st)))]]]]]"

section \<open>Requests stay on the page's origin\<close>

lemmas flows_updates = upd_create_def upd_list_def

interpretation flows_page: page_script flows_handler
proof
  show "stays (on_page b0) (own_origin b0) (flows_handler e)" for b0 e
    by (cases e) (auto simp: create_def remove_def flows_updates Let_def intro!: stays_intros)
qed

interpretation flows_sync: synced_script flows_handler
proof
  show "stays (synced b0) (\<lambda>_. True) (flows_handler e)" for b0 e
    by (cases e) (auto simp: sync_simps create_def remove_def flows_updates Let_def intro!: stays_intros)
qed

section \<open>What the page writes\<close>

text \<open>The page posts flows with three numbers, none of them \<open>NaN\<close> and only the rate zero, and deletes one flow at a time.\<close>

definition flows_writes :: "browser \<Rightarrow> policy" where
  "flows_writes b m url body \<longleftrightarrow>
     m = POST \<and> url = publicUrl (js ''/v1/flows'') b \<and>
       (\<exists>key n r t. body = request_data (JObj [(js ''key'', JStr key), (js ''parallelism'', JNum n),
            (js ''rate'', JNum r), (js ''period_secs'', JNum t)]) \<and>
          n \<notin> {NaN, Num 0} \<and> r \<noteq> NaN \<and> t \<notin> {NaN, Num 0}) \<or>
     m = DELETE \<and> body = None \<and> (\<exists>seg. path_segment seg \<and> url = publicUrl (js ''/v1/flows/'' @ seg) b)"

lemma flows_writes_post:
  "flows_writes b POST (publicUrl (js ''/v1/flows'') b) (request_data (JObj (flow_body st)))"
proof -
  have "number_or v 1 \<notin> {NaN, Num 0}" "number_or v 60 \<notin> {NaN, Num 0}" for v
    by (simp_all add: number_or_truthy)
  then show ?thesis unfolding flows_writes_def flow_body_def flow_numbers_def prod.case
    using number_or_not_NaN by blast
qed

lemma flows_writes_delete:
  "encode_uri_component s = Inr enc \<Longrightarrow> flows_writes b DELETE (publicUrl (js ''/v1/flows/'' @ enc) b) None"
  using path_segment_encoded by (auto simp: flows_writes_def)

interpretation flows_policy: policed_script flows_writes flows_handler
proof
  show "sends_only b0 (flows_writes b0) (flows_handler e)" for b0 e
    by (cases e) (auto simp: create_def remove_def flows_updates Let_def intro!: stays_intros flows_writes_post flows_writes_delete)
qed

section \<open>Properties\<close>

lemma upd_create_form [simp]:
  "existing_flow (upd_create g st) = existing_flow st" "flow_body (upd_create g st) = flow_body st"
  "win (upd_create g st) = win st"
  by (simp_all add: existing_flow_def upd_create_def flow_body_def flow_numbers_def)

lemma same_flow_found:
  assumes "f \<in> set (c_flows (catalog st))" and "opt_prop f ''key'' = JStr (f_key st)"
    and "flow_numbers st = (n, r, t)" and "to_number (opt_prop f ''parallelism'') = n"
    and "to_number (opt_prop f ''rate'') = r" and "to_number (opt_prop f ''period_secs'') = t"
  shows "\<exists>g. existing_flow st = Some g \<and> g \<in> set (c_flows (catalog st)) \<and> same_flow (f_key st) (n, r, t) g"
proof -
  have "n \<noteq> NaN" "r \<noteq> NaN" "t \<noteq> NaN" using assms(3) by (auto simp: flow_numbers_def)
  then have "same_flow (f_key st) (flow_numbers st) f" using assms by (simp add: same_flow_def)
  then have "existing_flow st \<noteq> None" using assms(1) by (auto simp: existing_flow_def find_None_iff)
  then show ?thesis using assms(3) by (auto simp: existing_flow_def find_Some_iff)
qed



end
