(* ===== verification/View_Groups.thy ===== *)
theory View_Groups
  imports Panel_Layout
begin

text \<open>\<open>views/GroupsView.vue\<close>: groups and their members.\<close>

section \<open>Script\<close>

record groups_view = panel +
  m_name :: jstring
  m_tab :: jstring
  m_selected :: jstring
  m_members :: "jsval list"
  m_member_name :: jstring
  m_member_secret :: jstring
  m_member_url :: jstring
  m_member_parallelism :: jsval
  m_member_rate :: jsval
  m_member_period :: jsval
  m_createStatus :: action_status
  m_listStatus :: action_status
  m_memberStatus :: action_status
  m_memberListStatus :: action_status

definition groups_init :: "panel \<Rightarrow> groups_view" where
  "groups_init p = panel.extend p
     (groups_view.fields (js ''alerts'') (js ''list'') [] [] (js ''primary'') (js ''whsec_demo'')
        (js ''https://webhook.site'') (jint 1) (jint 0) (jint 60)
        useActionStatus useActionStatus useActionStatus useActionStatus)"

definition upd_create :: "(action_status \<Rightarrow> action_status) \<Rightarrow> groups_view \<Rightarrow> groups_view" where
  "upd_create f st = st\<lparr>m_createStatus := f (m_createStatus st)\<rparr>"

definition upd_list :: "(action_status \<Rightarrow> action_status) \<Rightarrow> groups_view \<Rightarrow> groups_view" where
  "upd_list f st = st\<lparr>m_listStatus := f (m_listStatus st)\<rparr>"

definition upd_member :: "(action_status \<Rightarrow> action_status) \<Rightarrow> groups_view \<Rightarrow> groups_view" where
  "upd_member f st = st\<lparr>m_memberStatus := f (m_memberStatus st)\<rparr>"

definition upd_memberList :: "(action_status \<Rightarrow> action_status) \<Rightarrow> groups_view \<Rightarrow> groups_view" where
  "upd_memberList f st = st\<lparr>m_memberListStatus := f (m_memberListStatus st)\<rparr>"

definition groupOptions :: "'a panel_scheme \<Rightarrow> jsval" where
  "groupOptions st = JArr (map (\<lambda>g. JObj
     [(js ''value'', groupId g), (js ''label'', js_or (opt_prop g ''name'') (groupId g))])
     (c_groups (catalog st)))"

definition set_members :: "jsval list \<Rightarrow> groups_view \<Rightarrow> groups_view" where
  "set_members xs st = st\<lparr>m_members := xs\<rparr>"

definition loadMembers :: "jsval \<Rightarrow> groups_view proc" where
  "loadMembers gid =
     (if \<not> truthy gid then Do (set_members []) return_undef
      else try_value (encode_uri_component (to_string gid))
        (\<lambda>enc. Read (\<lambda>st. try_await (apiGet (publicUrl (js ''/v1/groups/'' @ enc) (win st)))
           (\<lambda>d. try_value (get_prop d ''members'')
              (\<lambda>v. Do (set_members (elems (js_or v (JArr [])))) return_undef)
              (\<lambda>_. Do (set_members []) return_undef))
           (\<lambda>_. Do (set_members []) return_undef)))
        (\<lambda>_. Do (set_members []) return_undef))"

definition show_group :: "jsval \<Rightarrow> groups_view \<Rightarrow> groups_view" where
  "show_group gid st = st\<lparr>m_selected := to_string gid, m_tab := js ''members''\<rparr>"

definition create :: "groups_view proc" where
  "create =
     Do (upd_create reset) (Read (\<lambda>st.
       try_await (apiPost (publicUrl (js ''/v1/groups'') (win st)) (JObj [(js ''name'', JStr (m_name st))]))
         (\<lambda>r. try_value (get_prop r ''name'')
            (\<lambda>n. Do (upd_create (succeed (js ''Group '' @ to_string n @ js '' '' @ right_arrow @ js '' '' @
                       to_string (opt_prop r ''group_id''))))
               (try_await refreshGroups
                  (\<lambda>_. if truthy (opt_prop r ''group_id'') then
                          Do (show_group (opt_prop r ''group_id''))
                            (try_await (loadMembers (opt_prop r ''group_id'')) (\<lambda>_. return_undef)
                               (\<lambda>e. Do (upd_create (fail_msg (errText e))) return_undef))
                        else return_undef)
                  (\<lambda>e. Do (upd_create (fail_msg (errText e))) return_undef)))
            (\<lambda>e. Do (upd_create (fail_msg (errText e))) return_undef))
         (\<lambda>e. Do (upd_create (fail_msg (errText e))) return_undef)))"

definition member_body :: "groups_view \<Rightarrow> payload" where
  "member_body st =
     [(js ''name'', JStr (m_member_name st)), (js ''url'', JStr (m_member_url st)),
      (js ''secret'', JStr (m_member_secret st)),
      (js ''parallelism'', JNum (number_or (m_member_parallelism st) 1)),
      (js ''rate'', JNum (number_or (m_member_rate st) 0)),
      (js ''period_secs'', JNum (number_or (m_member_period st) 60))]"

definition addMember :: "groups_view proc" where
  "addMember =
     Do (upd_member reset) (Read (\<lambda>st.
       if m_selected st = [] then Do (upd_member (fail_msg (js ''Select a group first''))) return_undef
       else try_value (encode_uri_component (m_selected st))
         (\<lambda>enc. try_await
            (apiPost (publicUrl (js ''/v1/groups/'' @ enc @ js ''/members'') (win st)) (JObj (member_body st)))
            (\<lambda>r. try_value (get_prop r ''name'')
               (\<lambda>n. Do (upd_member (succeed (js ''Member '' @ to_string n @ js '' '' @ right_arrow @ js '' '' @
                          to_string (opt_prop r ''member_id''))))
                  (Read (\<lambda>st. try_await (loadMembers (JStr (m_selected st))) (\<lambda>_. return_undef)
                     (\<lambda>e. Do (upd_member (fail_msg (errText e))) return_undef))))
               (\<lambda>e. Do (upd_member (fail_msg (errText e))) return_undef))
            (\<lambda>e. Do (upd_member (fail_msg (errText e))) return_undef))
         (\<lambda>e. Do (upd_member (fail_msg (errText e))) return_undef)))"

definition removeGroup :: "jsval \<Rightarrow> groups_view proc" where
  "removeGroup g =
     Do (upd_list reset) (Read (\<lambda>st.
       try_value (encode_uri_component (to_string (groupId g)))
         (\<lambda>enc. try_await (apiDelete (publicUrl (js ''/v1/groups/'' @ enc) (win st)))
            (\<lambda>_. Do (upd_list (succeed (js ''Group removed'')))
               (try_await refreshGroups (\<lambda>_. return_undef)
                  (\<lambda>e. Do (upd_list (fail_msg (errText e))) return_undef)))
            (\<lambda>e. Do (upd_list (fail_msg (errText e))) return_undef))
         (\<lambda>e. Do (upd_list (fail_msg (errText e))) return_undef)))"

definition member_path :: "jstring \<Rightarrow> jsval \<Rightarrow> jserr + jstring" where
  "member_path gid mid =
     (case encode_uri_component gid of
        Inl e \<Rightarrow> Inl e
      | Inr g \<Rightarrow> (case encode_uri_component (to_string mid) of
                    Inl e \<Rightarrow> Inl e
                  | Inr m \<Rightarrow> Inr (js ''/v1/groups/'' @ g @ js ''/members/'' @ m)))"

definition removeMember :: "jsval \<Rightarrow> groups_view proc" where
  "removeMember mid =
     Do (upd_memberList reset) (Read (\<lambda>st.
       try_value (member_path (m_selected st) mid)
         (\<lambda>path. try_await (apiDelete (publicUrl path (win st)))
            (\<lambda>_. Do (upd_memberList (succeed (js ''Member removed'')))
               (Read (\<lambda>st. try_await (loadMembers (JStr (m_selected st))) (\<lambda>_. return_undef)
                  (\<lambda>e. Do (upd_memberList (fail_msg (errText e))) return_undef))))
            (\<lambda>e. Do (upd_memberList (fail_msg (errText e))) return_undef))
         (\<lambda>e. Do (upd_memberList (fail_msg (errText e))) return_undef)))"

definition openMembers :: "jsval \<Rightarrow> groups_view proc" where
  "openMembers g =
     Do (show_group (groupId g)) (Read (\<lambda>st. Spawn (loadMembers (JStr (m_selected st))) return_undef))"

datatype groups_event =
    GroupsMounted
  | GroupsName jsval
  | GroupsTab jsval
  | GroupsCreate
  | GroupsOpen jsval
  | GroupsRemove jsval
  | GroupsSelect jsval
  | GroupsLoad jsval
  | MemberName jsval
  | MemberSecret jsval
  | MemberUrl jsval
  | MemberParallelism jsval
  | MemberRate jsval
  | MemberPeriod jsval
  | MemberAdd
  | MemberRemove jsval

fun groups_handler :: "groups_event \<Rightarrow> groups_view proc" where
  "groups_handler GroupsMounted = Spawn refreshGroups return_undef"
| "groups_handler (GroupsName v) = Do (\<lambda>st. st\<lparr>m_name := to_string v\<rparr>) return_undef"
| "groups_handler (GroupsTab v) = Do (\<lambda>st. st\<lparr>m_tab := to_string v\<rparr>) return_undef"
| "groups_handler GroupsCreate = create"
| "groups_handler (GroupsOpen g) = openMembers g"
| "groups_handler (GroupsRemove g) = removeGroup g"
| "groups_handler (GroupsSelect v) = Do (\<lambda>st. st\<lparr>m_selected := to_string v\<rparr>) return_undef"
| "groups_handler (GroupsLoad v) = loadMembers v"
| "groups_handler (MemberName v) = Do (\<lambda>st. st\<lparr>m_member_name := to_string v\<rparr>) return_undef"
| "groups_handler (MemberSecret v) = Do (\<lambda>st. st\<lparr>m_member_secret := to_string v\<rparr>) return_undef"
| "groups_handler (MemberUrl v) = Do (\<lambda>st. st\<lparr>m_member_url := to_string v\<rparr>) return_undef"
| "groups_handler (MemberParallelism v) = Do (\<lambda>st. st\<lparr>m_member_parallelism := v\<rparr>) return_undef"
| "groups_handler (MemberRate v) = Do (\<lambda>st. st\<lparr>m_member_rate := v\<rparr>) return_undef"
| "groups_handler (MemberPeriod v) = Do (\<lambda>st. st\<lparr>m_member_period := v\<rparr>) return_undef"
| "groups_handler MemberAdd = addMember"
| "groups_handler (MemberRemove m) = removeMember m"

section \<open>Template\<close>

definition groups_row :: "groups_view \<Rightarrow> jsval \<Rightarrow> groups_event vnode" where
  "groups_row st g =
   VEl ''TableRow'' [(''key'', groupId g)] []
    [VEl ''TableCell'' [(''class'', jlit ''font-mono text-xs'')] []
       [VText (interp (groupId g))],
      VEl ''TableCell'' [] []
       [VText (interp (opt_prop g ''name''))],
      VEl ''TableCell'' [(''class'', jlit ''space-x-1'')] []
       [VEl ''Button''
          [(''size'', jlit ''sm''),
           (''variant'', jlit ''outline'')]
          [(''click'', On (GroupsOpen g))]
          [VText (js ''Members'')],
         VEl ''Button''
          [(''size'', jlit ''sm''),
           (''variant'', jlit ''destructive'')]
          [(''click'', On (GroupsRemove g))]
          [VText (js ''Delete'')]]]"

definition groups_list_tab :: "groups_view \<Rightarrow> groups_event vnode" where
  "groups_list_tab st =
   VEl ''TabsContent''
    [(''value'', jlit ''list''),
     (''class'', jlit ''grid gap-3 lg:grid-cols-2'')] []
    [VEl ''Card'' [] []
       [VEl ''CardHeader'' [] []
          [VEl ''CardTitle'' [] []
             [VText (js ''Create group'')],
            VEl ''CardDescription'' [] []
             [VText (js ''Logical fan-out target'')]],
         VEl ''CardContent'' [] []
          [VEl ''Field'' [(''label'', jlit ''Name'')] []
             [VEl ''Input''
                [(''modelValue'', JStr (m_name st)),
                 (''placeholder'', jlit ''alerts'')]
                [(''update:modelValue'', OnValue GroupsName)] []]],
         VEl ''CardFooter'' [] []
          [VEl ''Button'' [(''size'', jlit ''sm'')] [(''click'', On GroupsCreate)]
             [VText (js ''Create group'')],
            VEl ''ActionMessage''
             [(''error'', JStr (st_error (m_createStatus st))),
              (''ok'', JStr (st_ok (m_createStatus st)))] [] []]],
      VEl ''Card'' [] []
       [VEl ''CardHeader'' [] []
          [VEl ''CardTitle'' [] []
             [VText (js ''Registered'')],
            VEl ''CardDescription'' [] []
             [VText (js ''Select a group to manage members'')]],
         VEl ''CardContent'' [] []
          [VEl ''ActionMessage''
             [(''class'', jlit ''mb-2''),
              (''error'', JStr (st_error (m_listStatus st))),
              (''ok'', JStr (st_ok (m_listStatus st)))] [] [],
            VEl ''Table'' [] []
             [VEl ''TableHeader'' [] []
                [VEl ''TableRow'' [] []
                   [VEl ''TableHead'' [] []
                      [VText (js ''ID'')],
                     VEl ''TableHead'' [] []
                      [VText (js ''Name'')],
                     VEl ''TableHead'' [] [] []]],
               VEl ''TableBody'' [] []
                (map (groups_row st) (c_groups (catalog st)))]]]]"

definition groups_member_row :: "groups_view \<Rightarrow> jsval \<Rightarrow> groups_event vnode" where
  "groups_member_row st m =
   VEl ''TableRow'' [(''key'', js_or (opt_prop m ''member_id'') (opt_prop m ''id''))] []
    [VEl ''TableCell'' [(''class'', jlit ''font-mono text-xs'')] []
       [VText (interp (js_or (opt_prop m ''member_id'') (opt_prop m ''id'')))],
      VEl ''TableCell'' [] []
       [VText (interp (opt_prop m ''name''))],
      VEl ''TableCell'' [(''class'', jlit ''max-w-xs truncate font-mono text-xs'')] []
       [VText (interp (opt_prop m ''url''))],
      VEl ''TableCell'' [] []
       [VEl ''Button''
          [(''size'', jlit ''sm''),
           (''variant'', jlit ''destructive'')]
          [(''click'', On (MemberRemove (js_or (js_or (opt_prop m ''member_id'') (opt_prop m ''id'')) (JStr []))))]
          [VText (js ''Delete'')]]]"

definition groups_members_tab :: "groups_view \<Rightarrow> groups_event vnode" where
  "groups_members_tab st =
   VEl ''TabsContent'' [(''value'', jlit ''members''), (''class'', jlit ''space-y-3'')] []
    [VEl ''Card'' [] []
       [VEl ''CardHeader'' [] []
          [VEl ''CardTitle'' [] []
             [VText (js ''Members'')],
            VEl ''CardDescription'' [] []
             [VText (js ''Webhook destinations that receive each group publish'')]],
         VEl ''CardContent'' [(''class'', jlit ''grid gap-2 sm:grid-cols-2'')] []
          [VEl ''Field'' [(''label'', jlit ''Group''), (''class'', jlit ''sm:col-span-2'')] []
             [VEl ''AppSelect''
                [(''modelValue'', JStr (m_selected st)),
                 (''options'', groupOptions st),
                 (''placeholder'', JStr (em_dash @ js '' select group '' @ em_dash))]
                [(''update:modelValue'', OnValue GroupsSelect),
                 (''update:model-value'', OnValue GroupsLoad)] []],
            VEl ''Field'' [(''label'', jlit ''Name'')] []
             [VEl ''Input''
                [(''modelValue'', JStr (m_member_name st))]
                [(''update:modelValue'', OnValue MemberName)] []],
            VEl ''Field'' [(''label'', jlit ''Secret'')] []
             [VEl ''Input''
                [(''modelValue'', JStr (m_member_secret st)),
                 (''class'', jlit ''font-mono'')]
                [(''update:modelValue'', OnValue MemberSecret)] []],
            VEl ''Field''
             [(''label'', jlit ''Webhook URL''),
              (''class'', jlit ''sm:col-span-2'')] []
             [VEl ''Input''
                [(''modelValue'', JStr (m_member_url st)),
                 (''class'', jlit ''font-mono text-xs'')]
                [(''update:modelValue'', OnValue MemberUrl)] []],
            VEl ''Field'' [(''label'', jlit ''Parallelism'')] []
             [VEl ''Input''
                [(''modelValue'', m_member_parallelism st),
                 (''type'', jlit ''number''),
                 (''min'', jlit ''1'')]
                [(''update:modelValue'', OnValue MemberParallelism)] []],
            VEl ''Field'' [(''label'', jlit ''Rate''), (''hint'', jlit ''0 = unlimited'')] []
             [VEl ''Input''
                [(''modelValue'', m_member_rate st),
                 (''type'', jlit ''number''),
                 (''min'', jlit ''0'')]
                [(''update:modelValue'', OnValue MemberRate)] []],
            VEl ''Field'' [(''label'', jlit ''Period (s)'')] []
             [VEl ''Input''
                [(''modelValue'', m_member_period st),
                 (''type'', jlit ''number''),
                 (''min'', jlit ''1'')]
                [(''update:modelValue'', OnValue MemberPeriod)] []]],
         VEl ''CardFooter'' [] []
          [VEl ''Button'' [(''size'', jlit ''sm'')] [(''click'', On MemberAdd)]
             [VText (js ''Add member'')],
            VEl ''ActionMessage''
             [(''error'', JStr (st_error (m_memberStatus st))),
              (''ok'', JStr (st_ok (m_memberStatus st)))] [] []]],
      VEl ''Card'' [] []
       [VEl ''CardHeader'' [] []
          [VEl ''CardTitle'' [] []
             [VText (js ''Member list'')]],
         VEl ''CardContent'' [] []
          [VEl ''ActionMessage''
             [(''class'', jlit ''mb-2''),
              (''error'', JStr (st_error (m_memberListStatus st))),
              (''ok'', JStr (st_ok (m_memberListStatus st)))] [] [],
            VEl ''Table'' [] []
             [VEl ''TableHeader'' [] []
                [VEl ''TableRow'' [] []
                   [VEl ''TableHead'' [] []
                      [VText (js ''ID'')],
                     VEl ''TableHead'' [] []
                      [VText (js ''Name'')],
                     VEl ''TableHead'' [] []
                      [VText (js ''URL'')],
                     VEl ''TableHead'' [] [] []]],
               VEl ''TableBody'' [] []
                (map (groups_member_row st) (m_members st))]]]]"

definition groups_template :: "groups_view \<Rightarrow> groups_event vnode list" where
  "groups_template st =
   [VEl ''div'' [(''class'', jlit ''space-y-4'')] []
     [VEl ''div'' [] []
        [VEl ''h1'' [(''class'', jlit ''text-lg font-semibold tracking-tight'')] []
           [VText (js ''Groups'')],
          VEl ''p'' [(''class'', jlit ''text-sm text-muted-foreground'')] []
           [VText (js ''Fan-out one payload to every active member.'')],
          VEl ''code'' [(''class'', jlit ''mt-1 block font-mono text-xs text-muted-foreground'')] []
           [VText (js ''POST /v1/publish'')]],
       VEl ''Tabs''
        [(''modelValue'', JStr (m_tab st)),
         (''default-value'', jlit ''list''),
         (''class'', jlit ''gap-4'')]
        [(''update:modelValue'', OnValue GroupsTab)]
        [VEl ''TabsList'' [(''class'', jlit ''max-w-sm'')] []
           [VEl ''TabsTrigger'' [(''value'', jlit ''list'')] []
              [VText (js ''Groups'')],
             VEl ''TabsTrigger'' [(''value'', jlit ''members'')] []
              [VText (js ''Members'')]],
          groups_list_tab st,
          groups_members_tab st]]]"

section \<open>Requests stay on the page's origin\<close>

lemmas groups_updates = upd_create_def upd_list_def upd_member_def upd_memberList_def set_members_def show_group_def

lemma stays_loadMembers [stays_intros]: "stays (on_page b0) (own_origin b0) (loadMembers gid)"
  by (auto simp: loadMembers_def groups_updates intro!: stays_intros)

interpretation groups_page: page_script groups_handler
proof
  show "stays (on_page b0) (own_origin b0) (groups_handler e)" for b0 e
    by (cases e) (auto simp: create_def addMember_def removeGroup_def removeMember_def openMembers_def member_path_def groups_updates
        intro!: stays_intros split: sum.splits)
qed

lemma stays_loadMembers_sync [stays_intros]: "stays (synced b0) (\<lambda>_. True) (loadMembers gid)"
  by (auto simp: loadMembers_def groups_updates sync_simps intro!: stays_intros)

interpretation groups_sync: synced_script groups_handler
proof
  show "stays (synced b0) (\<lambda>_. True) (groups_handler e)" for b0 e
    by (cases e) (auto simp: sync_simps create_def addMember_def removeGroup_def removeMember_def openMembers_def member_path_def groups_updates
        intro!: stays_intros split: sum.splits)
qed

section \<open>What the page writes\<close>

text \<open>
  The page posts groups, and members to a group that is selected; it deletes one group or one member of a
  group at a time.
\<close>

definition groups_writes :: "browser \<Rightarrow> policy" where
  "groups_writes b m url body \<longleftrightarrow>
     m = POST \<and> url = publicUrl (js ''/v1/groups'') b \<and>
       (\<exists>n. body = request_data (JObj [(js ''name'', JStr n)])) \<or>
     m = POST \<and> (\<exists>seg. path_segment seg \<and> seg \<noteq> [] \<and>
       url = publicUrl (js ''/v1/groups/'' @ seg @ js ''/members'') b) \<and>
       (\<exists>st. body = request_data (JObj (member_body st))) \<or>
     m = DELETE \<and> body = None \<and> (\<exists>seg. path_segment seg \<and> url = publicUrl (js ''/v1/groups/'' @ seg) b) \<or>
     m = DELETE \<and> body = None \<and> (\<exists>seg seg'. path_segment seg \<and> path_segment seg' \<and>
       url = publicUrl (js ''/v1/groups/'' @ seg @ js ''/members/'' @ seg') b)"

lemma groups_writes_group:
  "groups_writes b POST (publicUrl (js ''/v1/groups'') b) (request_data (JObj [(js ''name'', JStr n)]))"
  by (auto simp: groups_writes_def)

lemma groups_writes_member:
  "encode_uri_component s = Inr enc \<Longrightarrow> s \<noteq> [] \<Longrightarrow>
     groups_writes b POST (publicUrl (js ''/v1/groups/'' @ enc @ js ''/members'') b) (request_data (JObj (member_body st)))"
  using path_segment_encoded [of s enc] encode_uri_component_nonempty [of s enc]
  unfolding groups_writes_def by blast

lemma groups_writes_delete:
  "encode_uri_component s = Inr enc \<Longrightarrow> groups_writes b DELETE (publicUrl (js ''/v1/groups/'' @ enc) b) None"
  using path_segment_encoded [of s enc] unfolding groups_writes_def by blast

lemma groups_writes_remove:
  assumes "member_path gid mid = Inr path"
  shows "groups_writes b DELETE (publicUrl path b) None"
proof -
  obtain g m where "encode_uri_component gid = Inr g" "encode_uri_component (to_string mid) = Inr m"
    and p: "path = js ''/v1/groups/'' @ g @ js ''/members/'' @ m"
    using assms by (auto simp: member_path_def split: sum.splits)
  then have "path_segment g \<and> path_segment m" using path_segment_encoded by blast
  then show ?thesis unfolding groups_writes_def p by blast
qed

lemma sends_loadMembers [stays_intros]: "sends_only b0 W (loadMembers gid)"
  by (auto simp: loadMembers_def groups_updates intro!: stays_intros)

lemma sends_removeMember: "sends_only b0 (groups_writes b0) (removeMember m)"
  by (auto simp: removeMember_def groups_updates intro!: stays_intros elim: groups_writes_remove)

interpretation groups_policy: policed_script groups_writes groups_handler
proof
  show "sends_only b0 (groups_writes b0) (groups_handler e)" for b0 e
    by (cases e) (auto simp: create_def addMember_def removeGroup_def openMembers_def groups_updates
        intro!: stays_intros groups_writes_group groups_writes_member groups_writes_delete
        sends_removeMember)
qed

end
