(* ===== verification/View_Publish.thy ===== *)
theory View_Publish
  imports Panel_Layout
begin

text \<open>
  \<open>views/PublishView.vue\<close>: publishing to a webhook or to a group, with an optional pacing by a saved
  flow profile or by limits of its own.
\<close>

section \<open>State\<close>

record publish_view = panel +
  b_mode :: jstring
  b_secret :: jstring
  b_url :: jstring
  b_groupId :: jstring
  b_key :: jstring
  b_priority :: jsval
  b_delay :: jsval
  b_idempotency :: jstring
  b_body :: jstring
  b_pacing :: jstring
  b_flowId :: jstring
  b_flowPar :: jsval
  b_flowRate :: jsval
  b_flowPeriod :: jsval
  b_retry :: retry_state
  b_status :: action_status

definition publish_init :: "panel \<Rightarrow> publish_view" where
  "publish_init p = panel.extend p
     (publish_view.fields (js ''url'') (js ''whsec_demo'') (js ''https://webhook.site'') [] (js ''user-1'')
        (jint 5) (JStr []) []
        (js ''{'' @ [0x22] @ js ''hello'' @ [0x22] @ js '':'' @ [0x22] @ js ''direct'' @ [0x22] @ js ''}'')
        (js ''none'') [] (jlit ''1'') (jlit ''0'') (jlit ''60'') defaultRetry useActionStatus)"

definition upd_status :: "(action_status \<Rightarrow> action_status) \<Rightarrow> publish_view \<Rightarrow> publish_view" where
  "upd_status f st = st\<lparr>b_status := f (b_status st)\<rparr>"

section \<open>Script\<close>

definition flowOptions :: "'a panel_scheme \<Rightarrow> jsval list" where
  "flowOptions st = map (\<lambda>f. JObj
     [(js ''value'', flowId f),
      (js ''label'', JStr (to_string (js_or (opt_prop f ''key'') (flowId f)) @ js '' '' @ middle_dot @ js '' '' @
         to_string (js_coalesce (opt_prop f ''parallelism'') (jint 1)) @ js '' in-flight '' @ middle_dot @ js '' '' @
         to_string (js_coalesce (opt_prop f ''rate'') (jint 0)) @ js ''/'' @
         to_string (js_coalesce (opt_prop f ''period_secs'') (jint 60)) @ js ''s''))]) (c_flows (catalog st))"

definition selectedFlow :: "publish_view \<Rightarrow> jsval" where
  "selectedFlow st =
     (case find (\<lambda>f. flowId f = JStr (b_flowId st)) (c_flows (catalog st)) of
        None \<Rightarrow> JNull | Some f \<Rightarrow> f)"

definition to_group :: "publish_view \<Rightarrow> bool" where
  "to_group st \<longleftrightarrow> b_mode st = js ''group''"

definition hideRoutingKey :: "publish_view \<Rightarrow> bool" where
  "hideRoutingKey st \<longleftrightarrow> \<not> to_group st \<and> b_pacing st = js ''profile''"

text \<open>\<open>selectedFlow.value?.key?.trim()\<close>; only a text has the method.\<close>

definition lane_of :: "jsval \<Rightarrow> jserr + jstring" where
  "lane_of f =
     (let k = opt_prop f ''key'' in
      if js_nullish k then Inr []
      else case k of
             JStr s \<Rightarrow> Inr (trim s)
           | _ \<Rightarrow> Inl (type_error (js ''selectedFlow.value?.key?.trim is not a function'')))"

text \<open>
  Preparing a request ends with a payload, with a message for the status line, or with an error that is
  thrown.
\<close>

datatype prepared = Payload payload | Refused jstring | Throws jserr

definition routing_key :: "publish_view \<Rightarrow> prepared + jstring" where
  "routing_key st =
     (if hideRoutingKey st then
        (if b_flowId st = [] then Inl (Refused (js ''Select a flow profile, or switch pacing to Unlimited''))
         else case lane_of (selectedFlow st) of
                Inl e \<Rightarrow> Inl (Throws e)
              | Inr lane \<Rightarrow> if lane = [] then Inl (Refused (js ''That profile has no lane key'')) else Inr lane)
      else Inr (trim (b_key st)))"

definition flow_control :: "publish_view \<Rightarrow> jsval" where
  "flow_control st =
     (let parallelism = parse_int (to_string (b_flowPar st));
          rate = parse_int (to_string (b_flowRate st));
          period = parse_int (to_string (b_flowPeriod st))
      in JObj
        [(js ''parallelism'', JNum (if num_finite parallelism \<and> num_less (Num 0) parallelism then parallelism else Num 1)),
         (js ''rate'', JNum (if num_finite rate \<and> \<not> num_less rate (Num 0) then rate else Num 0)),
         (js ''period'', JNum (if num_finite period \<and> num_less (Num 0) period then period else Num 60))])"

definition destination :: "publish_view \<Rightarrow> payload \<Rightarrow> prepared" where
  "destination st p0 =
     (if to_group st then
        (if b_groupId st = [] then Refused (js ''Select a group first'')
         else Payload (obj_set p0 (js ''group_id'') (JStr (b_groupId st))))
      else
        (let p1 = obj_set (obj_set p0 (js ''url'') (JStr (b_url st))) (js ''secret'') (JStr (b_secret st))
         in Payload
              (if b_pacing st = js ''profile'' then obj_set p1 (js ''flow_id'') (JStr (b_flowId st))
               else if b_pacing st = js ''custom'' then obj_set p1 (js ''flowControl'') (flow_control st)
               else p1)))"

definition delivery_options :: "publish_view \<Rightarrow> payload \<Rightarrow> payload" where
  "delivery_options st p1 =
     (let p2 = (if trim (b_idempotency st) \<noteq> []
                then obj_set p1 (js ''idempotency_key'') (JStr (trim (b_idempotency st))) else p1);
          p3 = mergeRetry p2 (b_retry st);
          delay = parse_int (to_string (b_delay st))
      in if num_less (Num 0) delay then obj_set p3 (js ''delay'') (JNum delay) else p3)"

definition publish_payload :: "publish_view \<Rightarrow> prepared" where
  "publish_payload st =
     (case routing_key st of
        Inl r \<Rightarrow> r
      | Inr key \<Rightarrow>
          (case destination st
                  [(js ''key'', JStr key), (js ''body'', parseBody (b_body st)),
                   (js ''priority'', JNum (number_or (b_priority st) 5))] of
             Payload p1 \<Rightarrow>
               (case mergeOutbound (outbound st) (delivery_options st p1) of
                  (Some headersError, _) \<Rightarrow> Refused headersError
                | (None, pl) \<Rightarrow> Payload pl)
           | r \<Rightarrow> r))"

definition published_message :: "jsval \<Rightarrow> jstring" where
  "published_message r =
     (if truthy (opt_prop r ''group_id'') then
        js ''Group publish accepted '' @ to_string (js_or (opt_prop r ''accepted'') (jint 0)) @ js '' / '' @
        show_int (int (length (elems (js_or (opt_prop r ''deliveries'') (JArr [])))))
      else js ''Published '' @
        to_string (js_or (js_or (opt_prop r ''message_id'') (opt_prop (opt_prop r ''scheduled'') ''schedule_id''))
          (jlit ''ok'')))"

definition publish :: "publish_view proc" where
  "publish =
     Do (upd_status reset) (Read (\<lambda>st.
       case publish_payload st of
         Refused m \<Rightarrow> Do (upd_status (fail_msg m)) return_undef
       | Throws e \<Rightarrow> Ret (Inl e)
       | Payload pl \<Rightarrow>
           try_await (apiPost (publicUrl (js ''/v1/publish'') (win st)) (JObj pl))
             (\<lambda>r. try_value (get_prop r ''group_id'')
                (\<lambda>_. Do (upd_status (succeed (published_message r)))
                   (if obj_get pl (js ''flowControl'') \<noteq> None then
                      try_await refreshFlows (\<lambda>_. return_undef)
                        (\<lambda>e. Do (upd_status (fail_err e)) return_undef)
                    else return_undef))
                (\<lambda>e. Do (upd_status (fail_err e)) return_undef))
             (\<lambda>e. Do (upd_status (fail_err e)) return_undef)))"

section \<open>Events\<close>

datatype publish_event =
    PublishMounted
  | PublishMode jsval
  | PublishSecret jsval
  | PublishUrl jsval
  | PublishGroup jsval
  | PublishPacing jsval
  | PublishFlow jsval
  | PublishFlowPar jsval
  | PublishFlowRate jsval
  | PublishFlowPeriod jsval
  | PublishKey jsval
  | PublishPriority jsval
  | PublishDelay jsval
  | PublishIdempotency jsval
  | PublishRetry retry_event
  | PublishSetRetry jsval
  | PublishBody jsval
  | PublishSend

fun publish_handler :: "publish_event \<Rightarrow> publish_view proc" where
  "publish_handler PublishMounted = Spawn refreshGroups (Spawn refreshFlows return_undef)"
| "publish_handler (PublishMode v) = Do (\<lambda>st. st\<lparr>b_mode := to_string v\<rparr>) return_undef"
| "publish_handler (PublishSecret v) = Do (\<lambda>st. st\<lparr>b_secret := to_string v\<rparr>) return_undef"
| "publish_handler (PublishUrl v) = Do (\<lambda>st. st\<lparr>b_url := to_string v\<rparr>) return_undef"
| "publish_handler (PublishGroup v) = Do (\<lambda>st. st\<lparr>b_groupId := to_string v\<rparr>) return_undef"
| "publish_handler (PublishPacing v) = Do (\<lambda>st. st\<lparr>b_pacing := to_string v\<rparr>) return_undef"
| "publish_handler (PublishFlow v) = Do (\<lambda>st. st\<lparr>b_flowId := to_string v\<rparr>) return_undef"
| "publish_handler (PublishFlowPar v) = Do (\<lambda>st. st\<lparr>b_flowPar := v\<rparr>) return_undef"
| "publish_handler (PublishFlowRate v) = Do (\<lambda>st. st\<lparr>b_flowRate := v\<rparr>) return_undef"
| "publish_handler (PublishFlowPeriod v) = Do (\<lambda>st. st\<lparr>b_flowPeriod := v\<rparr>) return_undef"
| "publish_handler (PublishKey v) = Do (\<lambda>st. st\<lparr>b_key := to_string v\<rparr>) return_undef"
| "publish_handler (PublishPriority v) = Do (\<lambda>st. st\<lparr>b_priority := v\<rparr>) return_undef"
| "publish_handler (PublishDelay v) = Do (\<lambda>st. st\<lparr>b_delay := v\<rparr>) return_undef"
| "publish_handler (PublishIdempotency v) = Do (\<lambda>st. st\<lparr>b_idempotency := to_string v\<rparr>) return_undef"
| "publish_handler (PublishRetry e) = Do (\<lambda>st. st\<lparr>b_retry := retry_update e (b_retry st)\<rparr>) return_undef"
| "publish_handler (PublishSetRetry v) = return_undef"
| "publish_handler (PublishBody v) = Do (\<lambda>st. st\<lparr>b_body := to_string v\<rparr>) return_undef"
| "publish_handler PublishSend = publish"

section \<open>Template\<close>

definition mode_options :: jsval where
  "mode_options = JArr
     [JObj [(js ''value'', jlit ''url''), (js ''label'', JStr (js ''URL '' @ em_dash @ js '' one webhook''))],
      JObj [(js ''value'', jlit ''group''), (js ''label'', JStr (js ''Group '' @ em_dash @ js '' fan-out''))]]"

definition pacing_options :: jsval where
  "pacing_options = JArr
     [JObj [(js ''value'', jlit ''none''),
            (js ''label'', JStr (js ''Unlimited '' @ em_dash @ js '' deliver as workers allow''))],
      JObj [(js ''value'', jlit ''profile''), (js ''label'', jlit ''Saved flow profile'')],
      JObj [(js ''value'', jlit ''custom''), (js ''label'', jlit ''Custom limits for this routing key'')]]"

definition group_options :: "'a panel_scheme \<Rightarrow> jsval" where
  "group_options st = JArr (map (\<lambda>g. JObj
     [(js ''value'', groupId g), (js ''label'', js_or (opt_prop g ''name'') (groupId g))])
     (c_groups (catalog st)))"

definition lane_hint :: "publish_view \<Rightarrow> jsval" where
  "lane_hint st =
     (let k = opt_prop (selectedFlow st) ''key'' in
      if truthy k then JStr (js ''Lane '' @ to_string k @ js '' is used as the routing key.'') else JUndef)"

definition publish_destination_card :: "publish_view \<Rightarrow> publish_event vnode" where
  "publish_destination_card st =
   VEl ''Card'' [] []
    [VEl ''CardHeader'' [] []
       [VEl ''CardTitle'' [] []
          [VText (js ''Destination'')],
         VEl ''CardDescription'' [] []
          [VText (js ''Where this payload is delivered'')]],
      VEl ''CardContent'' [(''class'', jlit ''grid gap-3 sm:grid-cols-2'')] []
       ([VEl ''Field'' [(''label'', jlit ''Mode'')] []
          [VEl ''AppSelect''
             [(''modelValue'', JStr (b_mode st)),
              (''options'', mode_options)]
             [(''update:modelValue'', OnValue PublishMode)] []]] @
         (if \<not> to_group st then
          [VEl ''Field'' [(''label'', jlit ''Secret'')] []
            [VEl ''Input''
               [(''modelValue'', JStr (b_secret st)),
                (''class'', jlit ''font-mono'')]
               [(''update:modelValue'', OnValue PublishSecret)] []]]
         else []) @
         (if \<not> to_group st then
          [VEl ''Field'' [(''label'', jlit ''URL''), (''class'', jlit ''sm:col-span-2'')] []
            [VEl ''Input''
               [(''modelValue'', JStr (b_url st)),
                (''class'', jlit ''font-mono text-xs'')]
               [(''update:modelValue'', OnValue PublishUrl)] []]]
         else
          [VEl ''Field'' [(''label'', jlit ''Group''), (''class'', jlit ''sm:col-span-2'')] []
            [VEl ''AppSelect''
               [(''modelValue'', JStr (b_groupId st)),
                (''options'', group_options st),
                (''placeholder'', JStr (em_dash @ js '' select group '' @ em_dash))]
               [(''update:modelValue'', OnValue PublishGroup)] []]]))]"

definition publish_pacing_card :: "publish_view \<Rightarrow> publish_event vnode" where
  "publish_pacing_card st =
   VEl ''Card'' [] []
    [VEl ''CardHeader'' [] []
       [VEl ''CardTitle'' [] []
          [VText (js ''Pacing'')],
         VEl ''CardDescription'' [] []
          [VText (js '' Optional. Limits how fast this routing key is delivered. Group members already have their own limits. '')]],
      VEl ''CardContent'' [(''class'', jlit ''grid gap-3 sm:grid-cols-2'')] []
       ([VEl ''Field'' [(''label'', jlit ''Mode''), (''class'', jlit ''sm:col-span-2'')] []
          [VEl ''AppSelect''
             [(''modelValue'', JStr (b_pacing st)),
              (''options'', pacing_options)]
             [(''update:modelValue'', OnValue PublishPacing)] []]] @
         (if b_pacing st = js ''profile'' then
          ([VEl ''Field''
            [(''label'', jlit ''Profile''),
             (''class'', jlit ''sm:col-span-2''),
             (''hint'', lane_hint st)] []
            [VEl ''AppSelect''
               [(''modelValue'', JStr (b_flowId st)),
                (''options'', JArr (flowOptions st)),
                (''placeholder'', JStr (em_dash @ js '' select a profile '' @ em_dash))]
               [(''update:modelValue'', OnValue PublishFlow)] []]] @
           (if flowOptions st = [] then
            [VEl ''p'' [(''class'', jlit ''sm:col-span-2 text-xs text-muted-foreground'')] []
              [VText (js '' No profiles yet. ''),
                VEl ''RouterLink''
                 [(''to'', jlit ''/flows''),
                  (''class'', jlit ''text-primary underline-offset-4 hover:underline'')] []
                 [VText (js ''Create one on Flows'')],
                VText (js '' , or choose custom limits. '')]]
           else []))
         else if b_pacing st = js ''custom'' then
          [VEl ''Field''
            [(''label'', jlit ''Parallelism''),
             (''hint'', jlit ''Max in-flight. 1 = FIFO for this key.'')] []
            [VEl ''Input''
               [(''modelValue'', b_flowPar st),
                (''type'', jlit ''number''),
                (''min'', jlit ''1'')]
               [(''update:modelValue'', OnValue PublishFlowPar)] []],
           VEl ''Field'' [(''label'', jlit ''Rate''), (''hint'', jlit ''0 = no rate cap'')] []
            [VEl ''Input''
               [(''modelValue'', b_flowRate st),
                (''type'', jlit ''number''),
                (''min'', jlit ''0'')]
               [(''update:modelValue'', OnValue PublishFlowRate)] []],
           VEl ''Field''
            [(''label'', jlit ''Period (sec)''),
             (''hint'', jlit ''Window for the rate cap'')] []
            [VEl ''Input''
               [(''modelValue'', b_flowPeriod st),
                (''type'', jlit ''number''),
                (''min'', jlit ''1'')]
               [(''update:modelValue'', OnValue PublishFlowPeriod)] []]]
         else []))]"

definition publish_message_card :: "publish_view \<Rightarrow> publish_event vnode" where
  "publish_message_card st =
   VEl ''Card'' [] []
    [VEl ''CardHeader'' [] []
       [VEl ''CardTitle'' [] []
          [VText (js ''Message'')],
         VEl ''CardDescription'' [] []
          [VText (js ''Payload and delivery options'')]],
      VEl ''CardContent'' [(''class'', jlit ''grid gap-3 sm:grid-cols-2'')] []
       ((if \<not> hideRoutingKey st then
          [VEl ''Field''
            [(''label'', jlit ''Routing key''),
             (''hint'', jlit ''Groups related messages. With custom pacing, this is also the flow lane.'')] []
            [VEl ''Input''
               [(''modelValue'', JStr (b_key st))]
               [(''update:modelValue'', OnValue PublishKey)] []]]
         else []) @
         [VEl ''Field'' [(''label'', jlit ''Priority'')] []
          [VEl ''Input''
             [(''modelValue'', b_priority st),
              (''type'', jlit ''number''),
              (''min'', jlit ''0''),
              (''max'', jlit ''9'')]
             [(''update:modelValue'', OnValue PublishPriority)] []],
         VEl ''Field'' [(''label'', jlit ''Delay (ms)''), (''hint'', jlit ''0 = send now'')] []
          [VEl ''Input''
             [(''modelValue'', b_delay st),
              (''type'', jlit ''number''),
              (''placeholder'', jlit ''0'')]
             [(''update:modelValue'', OnValue PublishDelay)] []],
         VEl ''Field''
          [(''label'', jlit ''Idempotency key''),
           (''hint'', JStr (js ''Optional '' @ em_dash @ js '' same key is a no-op''))] []
          [VEl ''Input''
             [(''modelValue'', JStr (b_idempotency st))]
             [(''update:modelValue'', OnValue PublishIdempotency)] []],
         VEl ''div'' [(''class'', jlit ''sm:col-span-2'')] []
          [VEl ''RetryFields''
             [(''modelValue'', retry_value (b_retry st))]
             [(''update:modelValue'', OnValue PublishSetRetry)] []],
         VEl ''Field'' [(''label'', jlit ''Body (JSON)''), (''class'', jlit ''sm:col-span-2'')] []
          [VEl ''Textarea''
             [(''modelValue'', JStr (b_body st)),
              (''class'', jlit ''font-mono text-xs''),
              (''rows'', jlit ''5'')]
             [(''update:modelValue'', OnValue PublishBody)] []]])]"

definition publish_template :: "publish_view \<Rightarrow> publish_event vnode list" where
  "publish_template st =
   [VEl ''div'' [(''class'', jlit ''space-y-4'')] []
     ([VEl ''div'' [] []
        [VEl ''h1'' [(''class'', jlit ''text-lg font-semibold tracking-tight'')] []
           [VText (js ''Publish'')],
          VEl ''p'' [(''class'', jlit ''text-sm text-muted-foreground'')] []
           [VText (js ''One webhook, or fan-out to every group member.'')],
          VEl ''code'' [(''class'', jlit ''mt-1 block font-mono text-xs text-muted-foreground'')] []
           [VText (js ''POST /v1/publish'')]],
       VEl ''Alert'' [] []
        [VEl ''AlertDescription'' [] []
           [VText (js '' Leave pacing off for a plain webhook. A saved flow already has a lane key '' @ em_dash @ js '' routing key is hidden and taken from the profile. '')]],
       publish_destination_card st] @
       (if \<not> to_group st then
        [publish_pacing_card st]
       else []) @
       [publish_message_card st,
       VEl ''div'' [(''class'', jlit ''flex items-center gap-2'')] []
        [VEl ''Button'' [(''size'', jlit ''sm'')] [(''click'', On PublishSend)]
           [VText (js ''Publish'')],
          VEl ''ActionMessage''
           [(''error'', JStr (st_error (b_status st))),
            (''ok'', JStr (st_ok (b_status st)))] [] []]])]"

section \<open>Requests stay on the page's origin\<close>

lemmas publish_updates = upd_status_def

lemma stays_prepared [stays_intros]:
  "(\<And>pl. x = Payload pl \<Longrightarrow> stays I Q (f pl)) \<Longrightarrow> (\<And>m. stays I Q (g m)) \<Longrightarrow> (\<And>e. stays I Q (h e)) \<Longrightarrow>
   stays I Q (case x of Payload pl \<Rightarrow> f pl | Refused m \<Rightarrow> g m | Throws e \<Rightarrow> h e)"
  by (cases x) simp_all

interpretation publish_page: page_script publish_handler
proof
  show "stays (on_page b0) (own_origin b0) (publish_handler e)" for b0 e
    by (cases e) (auto simp: publish_def publish_updates Let_def intro!: stays_intros)
qed

interpretation publish_sync: synced_script publish_handler
proof
  show "stays (synced b0) (\<lambda>_. True) (publish_handler e)" for b0 e
    by (cases e) (auto simp: sync_simps publish_def publish_updates Let_def intro!: stays_intros)
qed

section \<open>What the page writes\<close>

lemma one_destination_options: "one_destination (delivery_options st pl) = one_destination pl"
  by (rule one_destination_cong) (auto simp: delivery_options_def Let_def mergeRetry_get)

lemma destination_one:
  "destination st [(js ''key'', k), (js ''body'', v), (js ''priority'', n)] = Payload pl \<Longrightarrow> one_destination pl"
  by (auto simp: destination_def one_destination_def Let_def split: if_splits)

lemma routing_key_no_payload [simp]: "routing_key st \<noteq> Inl (Payload pl)"
  by (auto simp: routing_key_def split: sum.split)

lemma publish_payload_one:
  assumes "publish_payload st = Payload pl"
  shows "one_destination pl"
proof -
  obtain key p1 where d: "destination st [(js ''key'', JStr key), (js ''body'', parseBody (b_body st)),
         (js ''priority'', JNum (number_or (b_priority st) 5))] = Payload p1"
    and m: "mergeOutbound (outbound st) (delivery_options st p1) = (None, pl)"
    using assms by (auto simp: publish_payload_def split: sum.splits prepared.splits prod.splits option.splits)
  show ?thesis
    by (rule one_destination_outbound [OF m one_destination_options [THEN iffD2, OF destination_one [OF d]]])
qed

interpretation publish_policy: policed_script publish_writes publish_handler
proof
  show "sends_only b0 (publish_writes b0) (publish_handler e)" for b0 e
    by (cases e) (auto simp: publish_def publish_updates Let_def intro!: stays_intros publish_writes_post publish_payload_one)
qed

section \<open>Properties\<close>

lemma destination_get:
  assumes "destination st p0 = Payload p1"
  shows "k \<notin> {js ''group_id'', js ''url'', js ''secret'', js ''flow_id'', js ''flowControl''} \<Longrightarrow> obj_get p1 k = obj_get p0 k"
    "obj_get p1 (js ''flow_id'') =
       (if hideRoutingKey st then Some (JStr (b_flowId st)) else obj_get p0 (js ''flow_id''))"
    "obj_get p1 (js ''flowControl'') =
       (if \<not> to_group st \<and> b_pacing st = js ''custom'' then Some (flow_control st) else obj_get p0 (js ''flowControl''))"
  using assms by (auto simp: destination_def hideRoutingKey_def Let_def split: if_splits)

lemma delivery_options_get:
  "k \<notin> {js ''idempotency_key'', js ''delay'', js ''max_retries'', js ''retry_backoff''} \<Longrightarrow>
   obj_get (delivery_options st pl) k = obj_get pl k"
  by (simp add: delivery_options_def Let_def mergeRetry_get)

lemma delivery_options_delay:
  "obj_get pl (js ''delay'') = None \<Longrightarrow>
   obj_get (delivery_options st pl) (js ''delay'') =
     (if num_less (Num 0) (parse_int (to_string (b_delay st))) then Some (JNum (parse_int (to_string (b_delay st)))) else None)"
  by (simp add: delivery_options_def Let_def mergeRetry_get)

lemma delivery_options_idempotency:
  "obj_get pl (js ''idempotency_key'') = None \<Longrightarrow>
   obj_get (delivery_options st pl) (js ''idempotency_key'') =
     (if trim (b_idempotency st) \<noteq> [] then Some (JStr (trim (b_idempotency st))) else None)"
  by (simp add: delivery_options_def Let_def mergeRetry_get)

lemma publish_payload_parts:
  assumes "publish_payload st = Payload pl"
  obtains key p1 where "routing_key st = Inr key"
    and "destination st [(js ''key'', JStr key), (js ''body'', parseBody (b_body st)),
         (js ''priority'', JNum (number_or (b_priority st) 5))] = Payload p1"
    and "mergeOutbound (outbound st) (delivery_options st p1) = (None, pl)"
  using assms by (auto simp: publish_payload_def split: sum.splits prepared.splits prod.splits option.splits)

lemma routing_key_lane:
  assumes "routing_key st = Inr key" and "hideRoutingKey st"
  shows "key \<noteq> [] \<and> (\<exists>f\<in>set (c_flows (catalog st)). flowId f = JStr (b_flowId st) \<and>
     (\<exists>s. opt_prop f ''key'' = JStr s \<and> key = trim s))"
proof -
  have l: "lane_of (selectedFlow st) = Inr key" "key \<noteq> []"
    using assms by (auto simp: routing_key_def split: if_splits sum.splits)
  then obtain s where s: "opt_prop (selectedFlow st) ''key'' = JStr s" "key = trim s"
    by (auto simp: lane_of_def Let_def split: if_splits jsval.splits)
  then obtain f where f: "find (\<lambda>f. flowId f = JStr (b_flowId st)) (c_flows (catalog st)) = Some f"
    by (auto simp: selectedFlow_def split: option.splits)
  then have "selectedFlow st = f" by (simp add: selectedFlow_def)
  moreover have "f \<in> set (c_flows (catalog st)) \<and> flowId f = JStr (b_flowId st)"
    using f by (metis (mono_tags, lifting) find_Some_iff nth_mem)
  ultimately show ?thesis using s l(2) by blast
qed



text \<open>
  C31: the limits of a message's own pacing are usable, whatever is in their fields: finite, the parallelism
  and the period positive, the rate not negative.
\<close>

theorem custom_pacing_bounds:
  "\<exists>p r t. flow_control st = JObj [(js ''parallelism'', JNum (Num p)), (js ''rate'', JNum (Num r)),
     (js ''period'', JNum (Num t))] \<and> 0 < p \<and> 0 \<le> r \<and> 0 < t"
  by (auto simp: flow_control_def num_finite_def Let_def)

end
