(* ===== verification/View_Enqueue.thy ===== *)
theory View_Enqueue
  imports Panel_Layout
begin

text \<open>\<open>views/EnqueueView.vue\<close>: adding a job to a queue.\<close>

section \<open>Script\<close>

record enqueue_view = panel +
  e_queueId :: jstring
  e_key :: jstring
  e_priority :: jsval
  e_delay :: jsval
  e_idempotency :: jstring
  e_body :: jstring
  e_status :: action_status

definition enqueue_init :: "panel \<Rightarrow> enqueue_view" where
  "enqueue_init p = panel.extend p
     (enqueue_view.fields [] [] (jint 5) (JStr []) []
        (js ''{'' @ [0x22] @ js ''hello'' @ [0x22] @ js '':'' @ [0x22] @ js ''world'' @ [0x22] @ js ''}'')
        useActionStatus)"

definition upd_status :: "(action_status \<Rightarrow> action_status) \<Rightarrow> enqueue_view \<Rightarrow> enqueue_view" where
  "upd_status f st = st\<lparr>e_status := f (e_status st)\<rparr>"

definition enqueue_delay :: "enqueue_view \<Rightarrow> jsnum" where
  "enqueue_delay st = parse_int (to_string (e_delay st))"

text \<open>The payload before the outbound defaults join it.\<close>

definition enqueue_fields :: "enqueue_view \<Rightarrow> payload" where
  "enqueue_fields st =
     (let p0 = [(js ''body'', parseBody (e_body st)), (js ''priority'', JNum (number_or (e_priority st) 5))];
          key = trim (e_key st);
          p1 = (if key \<noteq> [] then obj_set p0 (js ''key'') (JStr key) else p0);
          p2 = (if trim (e_idempotency st) \<noteq> []
                then obj_set p1 (js ''idempotency_key'') (JStr (trim (e_idempotency st))) else p1);
          delay = enqueue_delay st
      in if num_less (Num 0) delay then obj_set p2 (js ''delay'') (JNum delay) else p2)"

definition enqueue_done :: "jsnum \<Rightarrow> jsval \<Rightarrow> jstring" where
  "enqueue_done delay r =
     (if num_less (Num 0) delay then js ''Delayed '' else js ''Enqueued '') @
     to_string (js_or (js_or (opt_prop r ''message_id'') (opt_prop (opt_prop r ''scheduled'') ''schedule_id''))
       (jlit ''?''))"

definition enqueue :: "enqueue_view proc" where
  "enqueue =
     Do (upd_status reset) (Read (\<lambda>st.
       if e_queueId st = [] then Do (upd_status (fail_msg (js ''Select a queue first''))) return_undef
       else
         (case mergeOutbound (outbound st) (enqueue_fields st) of
            (Some headersError, _) \<Rightarrow> Do (upd_status (fail_msg headersError)) return_undef
          | (None, pl) \<Rightarrow>
              try_value (encode_uri_component (e_queueId st))
                (\<lambda>enc. try_await
                   (apiPost (publicUrl (js ''/v1/queues/'' @ enc @ js ''/enqueue'') (win st)) (JObj pl))
                   (\<lambda>r. try_value (get_prop r ''message_id'')
                      (\<lambda>_. Do (upd_status (succeed (enqueue_done (enqueue_delay st) r))) return_undef)
                      (\<lambda>e. Do (upd_status (fail_err e)) return_undef))
                   (\<lambda>e. Do (upd_status (fail_err e)) return_undef))
                (\<lambda>e. Do (upd_status (fail_err e)) return_undef))))"

definition queue_options :: "'a panel_scheme \<Rightarrow> jsval" where
  "queue_options st = JArr (map (\<lambda>q. JObj
     [(js ''value'', queueId q),
      (js ''label'', js_or (js_or (opt_prop q ''queue'') (opt_prop q ''name'')) (queueId q))])
     (c_queues (catalog st)))"

datatype enqueue_event =
    EnqueueMounted
  | EnqueueQueue jsval
  | EnqueueKey jsval
  | EnqueuePriority jsval
  | EnqueueDelay jsval
  | EnqueueIdempotency jsval
  | EnqueueBody jsval
  | EnqueueSend

fun enqueue_handler :: "enqueue_event \<Rightarrow> enqueue_view proc" where
  "enqueue_handler EnqueueMounted = Spawn refreshQueues return_undef"
| "enqueue_handler (EnqueueQueue v) = Do (\<lambda>st. st\<lparr>e_queueId := to_string v\<rparr>) return_undef"
| "enqueue_handler (EnqueueKey v) = Do (\<lambda>st. st\<lparr>e_key := to_string v\<rparr>) return_undef"
| "enqueue_handler (EnqueuePriority v) = Do (\<lambda>st. st\<lparr>e_priority := v\<rparr>) return_undef"
| "enqueue_handler (EnqueueDelay v) = Do (\<lambda>st. st\<lparr>e_delay := v\<rparr>) return_undef"
| "enqueue_handler (EnqueueIdempotency v) = Do (\<lambda>st. st\<lparr>e_idempotency := to_string v\<rparr>) return_undef"
| "enqueue_handler (EnqueueBody v) = Do (\<lambda>st. st\<lparr>e_body := to_string v\<rparr>) return_undef"
| "enqueue_handler EnqueueSend = enqueue"

section \<open>Template\<close>

definition enqueue_template :: "enqueue_view \<Rightarrow> enqueue_event vnode list" where
  "enqueue_template st =
   [VEl ''div'' [(''class'', jlit ''space-y-4'')] []
     [VEl ''div'' [] []
        [VEl ''h1'' [(''class'', jlit ''text-lg font-semibold tracking-tight'')] []
           [VText (js ''Enqueue'')],
          VEl ''p'' [(''class'', jlit ''text-sm text-muted-foreground'')] []
           [VText (js '' Add a job to a queue. No key = standard (queue parallelism). A key = FIFO for that entity. '')],
          VEl ''code'' [(''class'', jlit ''mt-1 block font-mono text-xs text-muted-foreground'')] []
           [VText (js ''POST /v1/queues/{id}/enqueue'')]],
       VEl ''Alert'' [] []
        [VEl ''AlertDescription'' [] []
           [VText (js '' Retries and default concurrency come from the queue. Pass a routing key only when this entity must stay in order (for example ''),
             VEl ''code'' [] []
              [VText (js ''user-42'')],
             VText (js ''). '')]],
       VEl ''Card'' [] []
        [VEl ''CardHeader'' [] []
           [VEl ''CardTitle'' [] []
              [VText (js ''Queue'')],
             VEl ''CardDescription'' [] []
              [VText (js ''Frozen webhook for this job'')]],
          VEl ''CardContent'' [] []
           [VEl ''Field'' [(''label'', jlit ''Queue'')] []
              [VEl ''AppSelect''
                 [(''modelValue'', JStr (e_queueId st)),
                  (''options'', queue_options st),
                  (''placeholder'', JStr (em_dash @ js '' create a queue first '' @ em_dash))]
                 [(''update:modelValue'', OnValue EnqueueQueue)] []]]],
       VEl ''Card'' [] []
        [VEl ''CardHeader'' [] []
           [VEl ''CardTitle'' [] []
              [VText (js ''Message'')],
             VEl ''CardDescription'' [] []
              [VText (js ''Payload and delivery options'')]],
          VEl ''CardContent'' [(''class'', jlit ''grid gap-3 sm:grid-cols-2'')] []
           [VEl ''Field''
              [(''label'', jlit ''Key''),
               (''hint'', jlit ''Optional. Empty = standard. Set to FIFO this entity (other keys still run in parallel).'')] []
              [VEl ''Input''
                 [(''modelValue'', JStr (e_key st)),
                  (''placeholder'', jlit ''user-42'')]
                 [(''update:modelValue'', OnValue EnqueueKey)] []],
             VEl ''Field'' [(''label'', jlit ''Priority'')] []
              [VEl ''Input''
                 [(''modelValue'', e_priority st),
                  (''type'', jlit ''number'')]
                 [(''update:modelValue'', OnValue EnqueuePriority)] []],
             VEl ''Field'' [(''label'', jlit ''Delay (ms)'')] []
              [VEl ''Input''
                 [(''modelValue'', e_delay st),
                  (''type'', jlit ''number'')]
                 [(''update:modelValue'', OnValue EnqueueDelay)] []],
             VEl ''Field'' [(''label'', jlit ''Idempotency'')] []
              [VEl ''Input''
                 [(''modelValue'', JStr (e_idempotency st))]
                 [(''update:modelValue'', OnValue EnqueueIdempotency)] []],
             VEl ''Field'' [(''label'', jlit ''Body''), (''class'', jlit ''sm:col-span-2'')] []
              [VEl ''Textarea''
                 [(''modelValue'', JStr (e_body st)),
                  (''class'', jlit ''font-mono text-xs''),
                  (''rows'', jlit ''4'')]
                 [(''update:modelValue'', OnValue EnqueueBody)] []]]],
       VEl ''div'' [(''class'', jlit ''flex items-center gap-2'')] []
        [VEl ''Button'' [(''size'', jlit ''sm'')] [(''click'', On EnqueueSend)]
           [VText (js ''Enqueue'')],
          VEl ''ActionMessage''
           [(''error'', JStr (st_error (e_status st))),
            (''ok'', JStr (st_ok (e_status st)))] [] []]]]"

section \<open>Requests stay on the page's origin\<close>

lemmas enqueue_updates = upd_status_def

interpretation enqueue_page: page_script enqueue_handler
proof
  show "stays (on_page b0) (own_origin b0) (enqueue_handler e)" for b0 e
    by (cases e) (auto simp: enqueue_def enqueue_updates Let_def intro!: stays_intros)
qed

interpretation enqueue_sync: synced_script enqueue_handler
proof
  show "stays (synced b0) (\<lambda>_. True) (enqueue_handler e)" for b0 e
    by (cases e) (auto simp: sync_simps enqueue_def enqueue_updates Let_def intro!: stays_intros)
qed

section \<open>What the page writes\<close>

text \<open>
  The page posts jobs to one queue that is selected, with a priority that is a number other than zero; a
  key, an idempotency key and a delay are sent only when there is one.
\<close>

definition job_ok :: "payload \<Rightarrow> bool" where
  "job_ok pl \<longleftrightarrow>
     obj_get pl (js ''body'') \<noteq> None \<and>
     (\<exists>n. obj_get pl (js ''priority'') = Some (JNum n) \<and> n \<notin> {NaN, Num 0}) \<and>
     obj_get pl (js ''key'') \<noteq> Some (JStr []) \<and> obj_get pl (js ''idempotency_key'') \<noteq> Some (JStr []) \<and>
     (\<forall>v. obj_get pl (js ''delay'') = Some v \<longrightarrow> (\<exists>n. v = JNum n \<and> num_less (Num 0) n))"

definition enqueue_writes :: "browser \<Rightarrow> policy" where
  "enqueue_writes b m url body \<longleftrightarrow>
     m = POST \<and> (\<exists>seg. path_segment seg \<and> seg \<noteq> [] \<and>
       url = publicUrl (js ''/v1/queues/'' @ seg @ js ''/enqueue'') b) \<and>
       (\<exists>pl. body = request_data (JObj pl) \<and> job_ok pl)"

lemma enqueue_fields_ok: "job_ok (enqueue_fields st)"
  by (auto simp: job_ok_def enqueue_fields_def Let_def number_or_truthy split: if_splits)

lemma job_ok_outbound: "mergeOutbound ob pl = (r, pl') \<Longrightarrow> job_ok pl \<Longrightarrow> job_ok pl'"
  using mergeOutbound_get [of _ ob pl] by (simp add: job_ok_def)

lemma enqueue_writes_intros:
  assumes "mergeOutbound ob (enqueue_fields st) = (None, pl)" and "encode_uri_component s = Inr enc" and "s \<noteq> []"
  shows "enqueue_writes b POST (publicUrl (js ''/v1/queues/'' @ enc @ js ''/enqueue'') b) (request_data (JObj pl))"
  using path_segment_encoded [OF assms(2)] encode_uri_component_nonempty [OF assms(2,3)]
    job_ok_outbound [OF assms(1) enqueue_fields_ok]
  by (auto simp: enqueue_writes_def)

interpretation enqueue_policy: policed_script enqueue_writes enqueue_handler
proof
  show "sends_only b0 (enqueue_writes b0) (enqueue_handler e)" for b0 e
    by (cases e) (auto simp: enqueue_def enqueue_updates Let_def intro!: stays_intros enqueue_writes_intros)
qed

end
