(* ===== verification/View_Schedules.thy ===== *)
theory View_Schedules
  imports Panel_Layout
begin

text \<open>\<open>views/SchedulesView.vue\<close>: recurring schedules and delayed messages.\<close>

section \<open>Script\<close>

record schedules_view = panel +
  x_type :: jstring
  x_key :: jstring
  x_url :: jstring
  x_secret :: jstring
  x_priority :: jsval
  x_expr :: jstring
  x_every :: jsval
  x_flowId :: jstring
  x_body :: jstring
  x_retry :: retry_state
  x_delayed :: "jsval list"
  x_crons :: "jsval list"
  x_loadStatus :: action_status
  x_createStatus :: action_status
  x_listStatus :: action_status

definition schedules_init :: "panel \<Rightarrow> schedules_view" where
  "schedules_init p = panel.extend p
     (schedules_view.fields (js ''cron'') (js ''cron-1'') (js ''https://webhook.site'') (js ''whsec_demo'') (jint 5)
        (js ''*/1 * * * *'') (jint 10) (js ''none'')
        (js ''{'' @ [0x22] @ js ''tick'' @ [0x22] @ js '':true}'') defaultRetry [] []
        useActionStatus useActionStatus useActionStatus)"

definition upd_load :: "(action_status \<Rightarrow> action_status) \<Rightarrow> schedules_view \<Rightarrow> schedules_view" where
  "upd_load f st = st\<lparr>x_loadStatus := f (x_loadStatus st)\<rparr>"

definition upd_create :: "(action_status \<Rightarrow> action_status) \<Rightarrow> schedules_view \<Rightarrow> schedules_view" where
  "upd_create f st = st\<lparr>x_createStatus := f (x_createStatus st)\<rparr>"

definition upd_list :: "(action_status \<Rightarrow> action_status) \<Rightarrow> schedules_view \<Rightarrow> schedules_view" where
  "upd_list f st = st\<lparr>x_listStatus := f (x_listStatus st)\<rparr>"

definition flowOptions :: "'a panel_scheme \<Rightarrow> jsval" where
  "flowOptions st = JArr
     (JObj [(js ''value'', jlit ''none''), (js ''label'', JStr (em_dash @ js '' none '' @ em_dash))] #
      map (\<lambda>f. JObj
        [(js ''value'', flowId f),
         (js ''label'', JStr (to_string (js_or (opt_prop f ''key'') (flowId f)) @ js '' '' @ middle_dot @ js '' '' @
            to_string (js_coalesce (opt_prop f ''parallelism'') (jint 1)) @ js '' in-flight '' @ middle_dot @ js '' '' @
            to_string (js_coalesce (opt_prop f ''rate'') (jint 0)) @ js ''/'' @
            to_string (js_coalesce (opt_prop f ''period_secs'') (jint 60)) @ js ''s''))]) (c_flows (catalog st)))"

definition selectedFlow :: "schedules_view \<Rightarrow> jsval" where
  "selectedFlow st =
     (case find (\<lambda>f. flowId f = JStr (x_flowId st)) (c_flows (catalog st)) of
        None \<Rightarrow> JNull | Some f \<Rightarrow> f)"

text \<open>The first list is stored before the second answer is read.\<close>

definition store_jobs :: "jsval list \<Rightarrow> schedules_view proc" where
  "store_jobs vs =
     (case vs of
        d # c # _ \<Rightarrow>
          try_value (get_prop d ''delayed'')
            (\<lambda>ds. Do (\<lambda>st. st\<lparr>x_delayed := elems (js_or ds (JArr []))\<rparr>)
               (try_value (get_prop c ''crons'')
                  (\<lambda>cs. Do (\<lambda>st. st\<lparr>x_crons := elems (js_or cs (JArr []))\<rparr>) return_undef)
                  (\<lambda>e. Do (upd_load (fail_err e)) return_undef)))
            (\<lambda>e. Do (upd_load (fail_err e)) return_undef)
      | _ \<Rightarrow> return_undef)"

definition load :: "schedules_view proc" where
  "load =
     Do (upd_load reset)
      (try_all [Read (\<lambda>st. apiGet (publicUrl (js ''/v1/delayed'') (win st))),
                Read (\<lambda>st. apiGet (publicUrl (js ''/v1/crons'') (win st))), refreshFlows]
         store_jobs
         (\<lambda>e. Do (upd_load (fail_err e)) return_undef))"

definition schedule_fields :: "schedules_view \<Rightarrow> payload" where
  "schedule_fields st =
     (let p0 = [(js ''url'', JStr (trim (x_url st))), (js ''secret'', JStr (trim (x_secret st))),
                (js ''key'', JStr (x_key st)), (js ''body'', parseBody (x_body st)),
                (js ''priority'', JNum (number_or (x_priority st) 5))];
          p1 = (if x_type st = js ''interval''
                then obj_set p0 (js ''every_seconds'') (JNum (number_or (x_every st) 10))
                else obj_set p0 (js ''cron'') (JStr (x_expr st)));
          p2 = (if x_flowId st \<noteq> [] \<and> x_flowId st \<noteq> js ''none''
                then obj_set p1 (js ''flow_id'') (JStr (x_flowId st)) else p1)
      in mergeRetry p2 (x_retry st))"

definition create :: "schedules_view proc" where
  "create =
     Do (upd_create reset) (Read (\<lambda>st.
       if trim (x_url st) = [] \<or> trim (x_secret st) = [] then
         Do (upd_create (fail_msg (js ''Schedule needs destination URL and secret''))) return_undef
       else
         (case mergeOutbound (outbound st) (schedule_fields st) of
            (Some headersError, _) \<Rightarrow> Do (upd_create (fail_msg headersError)) return_undef
          | (None, pl) \<Rightarrow>
              try_await (apiPost (publicUrl (js ''/v1/crons'') (win st)) (JObj pl))
                (\<lambda>r. try_value (get_prop r ''cron_id'')
                   (\<lambda>i. Do (upd_create (succeed (js ''Schedule created '' @ to_string i)))
                      (try_await load (\<lambda>_. return_undef)
                         (\<lambda>e. Do (upd_create (fail_err e)) return_undef)))
                   (\<lambda>e. Do (upd_create (fail_err e)) return_undef))
                (\<lambda>e. Do (upd_create (fail_err e)) return_undef))))"

text \<open>The request of an action; an action of another kind sends none.\<close>

definition act_request :: "string \<Rightarrow> jstring \<Rightarrow> browser \<Rightarrow> schedules_view proc option" where
  "act_request kind i b =
     (if kind = ''delayed'' then Some (apiDelete (publicUrl (js ''/v1/delayed/'' @ i) b))
      else if kind = ''cron-pause'' then Some (apiPost (publicUrl (js ''/v1/crons/'' @ i @ js ''/pause'') b) JUndef)
      else if kind = ''cron-resume'' then Some (apiPost (publicUrl (js ''/v1/crons/'' @ i @ js ''/resume'') b) JUndef)
      else if kind = ''cron-delete'' then Some (apiDelete (publicUrl (js ''/v1/crons/'' @ i) b))
      else None)"

definition act_done :: "string \<Rightarrow> schedules_view proc" where
  "act_done kind =
     Do (upd_list (succeed (js kind @ js '' ok'')))
      (try_await load (\<lambda>_. return_undef) (\<lambda>e. Do (upd_list (fail_err e)) return_undef))"

definition act :: "string \<Rightarrow> jsval \<Rightarrow> schedules_view proc" where
  "act kind i =
     Do (upd_list reset) (Read (\<lambda>st.
       case act_request kind (to_string i) (win st) of
         None \<Rightarrow> act_done kind
       | Some p \<Rightarrow> try_await p (\<lambda>_. act_done kind) (\<lambda>e. Do (upd_list (fail_err e)) return_undef)))"

definition fmt :: "jsval \<Rightarrow> browser \<Rightarrow> jstring" where
  "fmt ms b = (if \<not> truthy ms then em_dash else locale_string b (to_number ms))"

datatype schedules_event =
    SchedulesMounted
  | SchedulesType jsval
  | SchedulesKey jsval
  | SchedulesUrl jsval
  | SchedulesSecret jsval
  | SchedulesPriority jsval
  | SchedulesExpr jsval
  | SchedulesEvery jsval
  | SchedulesFlow jsval
  | SchedulesRetry retry_event
  | SchedulesSetRetry jsval
  | SchedulesBody jsval
  | SchedulesCreate
  | SchedulesAct string jsval

fun schedules_handler :: "schedules_event \<Rightarrow> schedules_view proc" where
  "schedules_handler SchedulesMounted = Spawn load return_undef"
| "schedules_handler (SchedulesType v) = Do (\<lambda>st. st\<lparr>x_type := to_string v\<rparr>) return_undef"
| "schedules_handler (SchedulesKey v) = Do (\<lambda>st. st\<lparr>x_key := to_string v\<rparr>) return_undef"
| "schedules_handler (SchedulesUrl v) = Do (\<lambda>st. st\<lparr>x_url := to_string v\<rparr>) return_undef"
| "schedules_handler (SchedulesSecret v) = Do (\<lambda>st. st\<lparr>x_secret := to_string v\<rparr>) return_undef"
| "schedules_handler (SchedulesPriority v) = Do (\<lambda>st. st\<lparr>x_priority := v\<rparr>) return_undef"
| "schedules_handler (SchedulesExpr v) = Do (\<lambda>st. st\<lparr>x_expr := to_string v\<rparr>) return_undef"
| "schedules_handler (SchedulesEvery v) = Do (\<lambda>st. st\<lparr>x_every := v\<rparr>) return_undef"
| "schedules_handler (SchedulesFlow v) = Do (\<lambda>st. st\<lparr>x_flowId := to_string v\<rparr>) return_undef"
| "schedules_handler (SchedulesRetry e) = Do (\<lambda>st. st\<lparr>x_retry := retry_update e (x_retry st)\<rparr>) return_undef"
| "schedules_handler (SchedulesSetRetry v) = return_undef"
| "schedules_handler (SchedulesBody v) = Do (\<lambda>st. st\<lparr>x_body := to_string v\<rparr>) return_undef"
| "schedules_handler SchedulesCreate = create"
| "schedules_handler (SchedulesAct kind i) = act kind i"

section \<open>Template\<close>

definition type_options :: jsval where
  "type_options = JArr
     [JObj [(js ''value'', jlit ''cron''), (js ''label'', jlit ''Cron'')],
      JObj [(js ''value'', jlit ''interval''), (js ''label'', jlit ''Interval'')]]"

definition flow_hint :: "schedules_view \<Rightarrow> jsval" where
  "flow_hint st =
     (let k = opt_prop (selectedFlow st) ''key'' in
      if truthy k then JStr (js ''Lane '' @ to_string k) else jlit ''Saved rate + parallelism from Flows.'')"

definition cron_id :: "jsval \<Rightarrow> jsval" where
  "cron_id c = js_or (opt_prop c ''cron_id'') (opt_prop c ''id'')"

definition delayed_id :: "jsval \<Rightarrow> jsval" where
  "delayed_id d = js_or (opt_prop d ''schedule_id'') (opt_prop d ''id'')"

definition cron_spec :: "jsval \<Rightarrow> jsval" where
  "cron_spec c =
     js_or (opt_prop c ''cron'')
       (if truthy (opt_prop c ''every_seconds'')
        then JStr (js ''every '' @ to_string (opt_prop c ''every_seconds'') @ js ''s'') else JStr [])"

definition schedules_form :: "schedules_view \<Rightarrow> schedules_event vnode" where
  "schedules_form st =
   VEl ''Card'' [] []
    [VEl ''CardContent'' [(''class'', jlit ''grid gap-3 pt-6 sm:grid-cols-2'')] []
       ([VEl ''Field'' [(''label'', jlit ''Type'')] []
          [VEl ''AppSelect''
             [(''modelValue'', JStr (x_type st)),
              (''options'', type_options)]
             [(''update:modelValue'', OnValue SchedulesType)] []],
         VEl ''Field'' [(''label'', jlit ''Routing key'')] []
          [VEl ''Input''
             [(''modelValue'', JStr (x_key st))]
             [(''update:modelValue'', OnValue SchedulesKey)] []],
         VEl ''Field''
          [(''label'', jlit ''Destination URL''),
           (''class'', jlit ''sm:col-span-2'')] []
          [VEl ''Input''
             [(''modelValue'', JStr (x_url st)),
              (''class'', jlit ''font-mono text-xs'')]
             [(''update:modelValue'', OnValue SchedulesUrl)] []],
         VEl ''Field'' [(''label'', jlit ''Secret'')] []
          [VEl ''Input''
             [(''modelValue'', JStr (x_secret st)),
              (''class'', jlit ''font-mono'')]
             [(''update:modelValue'', OnValue SchedulesSecret)] []],
         VEl ''Field'' [(''label'', jlit ''Priority'')] []
          [VEl ''Input''
             [(''modelValue'', x_priority st),
              (''type'', jlit ''number'')]
             [(''update:modelValue'', OnValue SchedulesPriority)] []]] @
         (if x_type st = js ''cron'' then
          [VEl ''Field''
            [(''label'', jlit ''Cron''),
             (''hint'', jlit ''UTC by default. Prefix CRON_TZ=America/New_York for local time.'')] []
            [VEl ''Input''
               [(''modelValue'', JStr (x_expr st)),
                (''class'', jlit ''font-mono''),
                (''placeholder'', jlit ''*/5 * * * *'')]
               [(''update:modelValue'', OnValue SchedulesExpr)] []]]
         else
          [VEl ''Field'' [(''label'', jlit ''Every (sec)'')] []
            [VEl ''Input''
               [(''modelValue'', x_every st),
                (''type'', jlit ''number'')]
               [(''update:modelValue'', OnValue SchedulesEvery)] []]]) @
         [VEl ''Field'' [(''label'', jlit ''Flow profile (optional)''), (''hint'', flow_hint st)] []
          [VEl ''AppSelect''
             [(''modelValue'', JStr (x_flowId st)),
              (''options'', flowOptions st),
              (''placeholder'', JStr (em_dash @ js '' none '' @ em_dash))]
             [(''update:modelValue'', OnValue SchedulesFlow)] []]] @
         (if c_flows (catalog st) = [] then
          [VEl ''p'' [(''class'', jlit ''text-xs text-muted-foreground'')] []
            [VText (js '' No profiles yet. ''),
              VEl ''RouterLink''
               [(''to'', jlit ''/flows''),
                (''class'', jlit ''text-primary underline-offset-4 hover:underline'')] []
               [VText (js ''Create one on Flows'')]]]
         else []) @
         [VEl ''div'' [(''class'', jlit ''sm:col-span-2'')] []
          [VEl ''RetryFields''
             [(''modelValue'', retry_value (x_retry st))]
             [(''update:modelValue'', OnValue SchedulesSetRetry)] []],
         VEl ''Field'' [(''label'', jlit ''Body''), (''class'', jlit ''sm:col-span-2'')] []
          [VEl ''Textarea''
             [(''modelValue'', JStr (x_body st)),
              (''class'', jlit ''font-mono text-xs''),
              (''rows'', jlit ''3'')]
             [(''update:modelValue'', OnValue SchedulesBody)] []]]),
      VEl ''CardFooter'' [] []
       [VEl ''Button'' [(''size'', jlit ''sm'')] [(''click'', On SchedulesCreate)]
          [VText (js ''Create schedule'')],
         VEl ''ActionMessage''
          [(''error'', JStr (st_error (x_createStatus st))),
           (''ok'', JStr (st_ok (x_createStatus st)))] [] []]]"

definition delayed_row :: "schedules_view \<Rightarrow> jsval \<Rightarrow> schedules_event vnode" where
  "delayed_row st d =
   VEl ''TableRow'' [(''key'', delayed_id d)] []
    [VEl ''TableCell'' [] []
       [VEl ''Badge'' [(''variant'', jlit ''outline'')] []
          [VText (js ''delayed'')]],
      VEl ''TableCell'' [(''class'', jlit ''font-mono text-xs'')] []
       [VText (interp (delayed_id d))],
      VEl ''TableCell'' [(''class'', jlit ''max-w-[12rem] truncate font-mono text-xs'')] []
       [VText (interp (js_or (opt_prop d ''url'') (opt_prop d ''queue'')))],
      VEl ''TableCell'' [] []
       [VText (interp (opt_prop d ''key''))],
      VEl ''TableCell'' [] []
       [VText (em_dash)],
      VEl ''TableCell'' [] []
       [VText (fmt (js_coalesce (opt_prop d ''deliver_at_ms'') (opt_prop d ''run_at_ms'')) (win st))],
      VEl ''TableCell'' [] []
       [VEl ''Button''
          [(''size'', jlit ''sm''),
           (''variant'', jlit ''destructive'')]
          [(''click'', On (SchedulesAct ''delayed'' (js_or (delayed_id d) (JStr []))))]
          [VText (js ''Cancel'')]]]"

definition cron_row :: "schedules_view \<Rightarrow> jsval \<Rightarrow> schedules_event vnode" where
  "cron_row st c =
   VEl ''TableRow'' [(''key'', cron_id c)] []
    [VEl ''TableCell'' [] []
       [VEl ''Badge'' [(''variant'', jlit ''secondary'')] []
          [VText (js ''cron'')]],
      VEl ''TableCell'' [(''class'', jlit ''font-mono text-xs'')] []
       [VText (interp (cron_id c))],
      VEl ''TableCell'' [(''class'', jlit ''max-w-[12rem] truncate font-mono text-xs'')] []
       [VText (interp (js_or (js_or (opt_prop c ''destination_url'') (opt_prop c ''url'')) (opt_prop c ''queue'')))],
      VEl ''TableCell'' [(''class'', jlit ''font-mono text-xs'')] []
       [VText (interp (cron_spec c))],
      VEl ''TableCell'' [] []
       [VText ((if truthy (opt_prop c ''paused'') then js ''paused'' else js ''active''))],
      VEl ''TableCell'' [] []
       [VText (fmt (js_coalesce (opt_prop c ''next_run_at_ms'') (opt_prop c ''next_run_ms'')) (win st))],
      VEl ''TableCell'' [(''class'', jlit ''space-x-1'')] []
       [VEl ''Button''
          [(''size'', jlit ''sm''),
           (''variant'', (if truthy (opt_prop c ''paused'') then jlit ''success'' else jlit ''warning''))]
          [(''click'', On (SchedulesAct (if truthy (opt_prop c ''paused'') then ''cron-resume'' else ''cron-pause'') (js_or (cron_id c) (JStr []))))]
          [VText (js '' '' @ (if truthy (opt_prop c ''paused'') then js ''Resume'' else js ''Pause'') @ js '' '')],
         VEl ''Button''
          [(''size'', jlit ''sm''),
           (''variant'', jlit ''destructive'')]
          [(''click'', On (SchedulesAct ''cron-delete'' (js_or (cron_id c) (JStr []))))]
          [VText (js ''Delete'')]]]"

definition schedules_template :: "schedules_view \<Rightarrow> schedules_event vnode list" where
  "schedules_template st =
   [VEl ''div'' [(''class'', jlit ''space-y-4'')] []
     [VEl ''div'' [] []
        [VEl ''h1'' [(''class'', jlit ''text-lg font-semibold tracking-tight'')] []
           [VText (js ''Schedules'')],
          VEl ''p'' [(''class'', jlit ''text-sm text-muted-foreground'')] []
           [VText (js '' Recurring jobs '' @ em_dash @ js '' cron (UTC unless you prefix CRON_TZ=) or a fixed interval, delivered as a direct webhook. '')],
          VEl ''code'' [(''class'', jlit ''mt-1 block font-mono text-xs text-muted-foreground'')] []
           [VText (js ''POST /v1/crons'')]],
       schedules_form st,
       VEl ''Card'' [] []
        [VEl ''CardHeader'' [] []
           [VEl ''CardTitle'' [] []
              [VText (js ''Jobs'')]],
          VEl ''CardContent'' [] []
           [VEl ''ActionMessage''
              [(''class'', jlit ''mb-2''),
               (''error'', JStr (str_or (st_error (x_listStatus st)) (st_error (x_loadStatus st)))),
               (''ok'', JStr (st_ok (x_listStatus st)))] [] [],
             VEl ''Table'' [] []
              [VEl ''TableHeader'' [] []
                 [VEl ''TableRow'' [] []
                    [VEl ''TableHead'' [] []
                       [VText (js ''Type'')],
                      VEl ''TableHead'' [] []
                       [VText (js ''ID'')],
                      VEl ''TableHead'' [] []
                       [VText (js ''Target'')],
                      VEl ''TableHead'' [] []
                       [VText (js ''Spec'')],
                      VEl ''TableHead'' [] []
                       [VText (js ''Status'')],
                      VEl ''TableHead'' [] []
                       [VText (js ''Next'')],
                      VEl ''TableHead'' [] [] []]],
                VEl ''TableBody'' [] []
                 (map (delayed_row st) (x_delayed st) @
                   map (cron_row st) (x_crons st))]]]]]"

section \<open>Requests stay on the page's origin\<close>

lemmas schedules_updates = upd_load_def upd_create_def upd_list_def

lemma stays_schedules_load [stays_intros]: "stays (on_page b0) (own_origin b0) load"
  by (auto split: list.split simp: load_def store_jobs_def schedules_updates Let_def intro!: stays_intros)

interpretation schedules_page: page_script schedules_handler
proof
  show "stays (on_page b0) (own_origin b0) (schedules_handler e)" for b0 e
    by (cases e) (auto simp: create_def act_def act_done_def act_request_def schedules_updates
        intro!: stays_intros split: if_splits)
qed

lemma stays_schedules_load_sync [stays_intros]: "stays (synced b0) (\<lambda>_. True) load"
  by (auto split: list.split simp: load_def store_jobs_def schedules_updates Let_def sync_simps intro!: stays_intros)

interpretation schedules_sync: synced_script schedules_handler
proof
  show "stays (synced b0) (\<lambda>_. True) (schedules_handler e)" for b0 e
    by (cases e) (auto simp: sync_simps create_def act_def act_done_def act_request_def schedules_updates
        intro!: stays_intros split: if_splits)
qed

section \<open>What the page writes\<close>

text \<open>
  The page posts schedules with a destination, a secret and either a cron expression or an interval; the
  actions on a job name it as the broker's answer did, unencoded.
\<close>

definition schedule_ok :: "payload \<Rightarrow> bool" where
  "schedule_ok pl \<longleftrightarrow>
     (\<exists>u s. u \<noteq> [] \<and> s \<noteq> [] \<and> obj_get pl (js ''url'') = Some (JStr u) \<and> obj_get pl (js ''secret'') = Some (JStr s)) \<and>
     ((\<exists>x. obj_get pl (js ''cron'') = Some (JStr x)) \<and> obj_get pl (js ''every_seconds'') = None \<or>
      obj_get pl (js ''cron'') = None \<and>
        (\<exists>n. obj_get pl (js ''every_seconds'') = Some (JNum n) \<and> n \<notin> {NaN, Num 0})) \<and>
     obj_get pl (js ''flow_id'') \<notin> {Some (JStr []), Some (jlit ''none'')}"

definition schedules_writes :: "browser \<Rightarrow> policy" where
  "schedules_writes b m url body \<longleftrightarrow>
     m = POST \<and> url = publicUrl (js ''/v1/crons'') b \<and> (\<exists>pl. body = request_data (JObj pl) \<and> schedule_ok pl) \<or>
     body = None \<and>
     (\<exists>i. m = POST \<and> url = publicUrl (js ''/v1/crons/'' @ i @ js ''/pause'') b \<or>
          m = POST \<and> url = publicUrl (js ''/v1/crons/'' @ i @ js ''/resume'') b \<or>
          m = DELETE \<and> url = publicUrl (js ''/v1/crons/'' @ i) b \<or>
          m = DELETE \<and> url = publicUrl (js ''/v1/delayed/'' @ i) b)"

lemma schedule_fields_ok:
  assumes "trim (x_url st) \<noteq> []" and "trim (x_secret st) \<noteq> []"
  shows "schedule_ok (schedule_fields st)"
  using assms by (auto simp: schedule_ok_def schedule_fields_def Let_def mergeRetry_get number_or_truthy split: if_splits)

lemma schedule_ok_outbound:
  assumes "mergeOutbound ob pl = (r, pl')" and "schedule_ok pl"
  shows "schedule_ok pl'"
proof -
  have "obj_get pl' k = obj_get pl k" if "k \<in> {js ''url'', js ''secret'', js ''cron'', js ''every_seconds'', js ''flow_id''}" for k
    using mergeOutbound_get [of k ob pl] assms(1) that by auto
  then show ?thesis using assms(2) by (simp add: schedule_ok_def)
qed

lemma schedules_writes_create:
  assumes "mergeOutbound ob (schedule_fields st) = (None, pl)" and "trim (x_url st) \<noteq> []" and "trim (x_secret st) \<noteq> []"
  shows "schedules_writes b POST (publicUrl (js ''/v1/crons'') b) (request_data (JObj pl))"
  using schedule_ok_outbound [OF assms(1) schedule_fields_ok [OF assms(2,3)]] unfolding schedules_writes_def by blast

lemma schedules_writes_act:
  "on_page b0 s \<Longrightarrow> act_request kind i (win s) = Some p \<Longrightarrow> sends_only b0 (schedules_writes b0) p"
  by (auto simp: act_request_def schedules_writes_def split: if_splits intro!: stays_intros)

lemma sends_schedules_load [stays_intros]: "sends_only b0 W load"
  by (auto split: list.split simp: load_def store_jobs_def schedules_updates Let_def intro!: stays_intros)

interpretation schedules_policy: policed_script schedules_writes schedules_handler
proof
  show "sends_only b0 (schedules_writes b0) (schedules_handler e)" for b0 e
    by (cases e) (auto simp: create_def act_def act_done_def schedules_updates
        intro!: stays_intros schedules_writes_create elim: schedules_writes_act)
qed

end
