(* ===== verification/View_Overview.thy ===== *)
theory View_Overview
  imports Panel_Layout
begin

text \<open>
  \<open>views/OverviewView.vue\<close>: the counts of the first page and the quick publish. The clock that
  \<open>Date.now()\<close> reads is a field of the state.
\<close>

section \<open>Script\<close>

record overview_view = panel +
  k_now :: int
  k_queues :: jstring
  k_groups :: jstring
  k_flows :: jstring
  k_schedules :: jstring
  k_dlq :: jstring
  k_url :: jstring
  k_secret :: jstring
  k_body :: jstring
  k_publishStatus :: action_status

definition overview_init :: "int \<Rightarrow> panel \<Rightarrow> overview_view" where
  "overview_init now p = panel.extend p
     (overview_view.fields now em_dash em_dash em_dash em_dash em_dash (js ''https://webhook.site'')
        (js ''whsec_demo'') (js ''{'' @ [0x22] @ js ''from'' @ [0x22] @ js '':'' @ [0x22] @ js ''dashboard'' @ [0x22] @ js ''}'')
        useActionStatus)"

definition upd_publish :: "(action_status \<Rightarrow> action_status) \<Rightarrow> overview_view \<Rightarrow> overview_view" where
  "upd_publish f st = st\<lparr>k_publishStatus := f (k_publishStatus st)\<rparr>"

definition fetchJson :: "string \<Rightarrow> overview_view proc" where
  "fetchJson path = Yield (Read (\<lambda>st. apiGet (publicUrl (js path) (win st))))"

definition count_text :: "jsval list \<Rightarrow> jstring" where
  "count_text xs = show_int (int (length xs))"

definition store_counts :: "overview_view \<Rightarrow> overview_view" where
  "store_counts st = st\<lparr>k_queues := count_text (c_queues (catalog st)),
     k_groups := count_text (c_groups (catalog st)), k_flows := count_text (c_flows (catalog st))\<rparr>"

definition set_schedules :: "jstring \<Rightarrow> overview_view \<Rightarrow> overview_view" where
  "set_schedules t st = st\<lparr>k_schedules := t\<rparr>"

definition set_dlq :: "jstring \<Rightarrow> overview_view \<Rightarrow> overview_view" where
  "set_dlq t st = st\<lparr>k_dlq := t\<rparr>"

definition schedule_count :: "jsval list \<Rightarrow> jserr + jstring" where
  "schedule_count vs =
     (case vs of
        delayed # crons # _ \<Rightarrow>
          (case get_prop delayed ''delayed'' of
             Inl e \<Rightarrow> Inl e
           | Inr d \<Rightarrow>
               (case get_prop crons ''crons'' of
                  Inl e \<Rightarrow> Inl e
                | Inr c \<Rightarrow> Inr (show_int (int (length (elems (js_or d (JArr []))) +
                             length (elems (js_or c (JArr [])))))))) 
      | _ \<Rightarrow> Inl (read_error JUndef ''delayed''))"

definition dlq_total :: "jsval list \<Rightarrow> jsval" where
  "dlq_total xs = foldl (\<lambda>s x. js_plus s (js_or (opt_prop x ''count'') (jint 0))) (jint 0) xs"

definition dlq_list :: "jsval \<Rightarrow> jserr + jsval list" where
  "dlq_list sources =
     (case sources of
        JArr xs \<Rightarrow> Inr xs
      | _ \<Rightarrow> (case get_prop sources ''sources'' of
                Inl e \<Rightarrow> Inl e
              | Inr v \<Rightarrow> Inr (elems (js_or v (JArr [])))))"

definition load_dlq :: "overview_view proc" where
  "load_dlq =
     try_await (fetchJson ''/v1/dlq/sources'')
       (\<lambda>sources. try_value (dlq_list sources)
          (\<lambda>xs. Do (set_dlq (to_string (dlq_total xs))) return_undef)
          (\<lambda>_. Do (set_dlq em_dash) return_undef))
       (\<lambda>_. Do (set_dlq em_dash) return_undef)"

definition load_schedules :: "overview_view proc \<Rightarrow> overview_view proc" where
  "load_schedules k =
     try_all [fetchJson ''/v1/delayed'', fetchJson ''/v1/crons'']
       (\<lambda>vs. try_value (schedule_count vs) (\<lambda>t. Do (set_schedules t) k) (\<lambda>_. Do (set_schedules em_dash) k))
       (\<lambda>_. Do (set_schedules em_dash) k)"

definition overview_mounted :: "overview_view proc" where
  "overview_mounted =
     try_all [pollHealth, pollCluster, refreshQueues, refreshGroups, refreshFlows]
       (\<lambda>_. Do store_counts (load_schedules load_dlq))
       (\<lambda>e. Ret (Inl e))"

definition quick_fields :: "overview_view \<Rightarrow> payload" where
  "quick_fields st =
     [(js ''url'', JStr (k_url st)), (js ''secret'', JStr (k_secret st)),
      (js ''key'', JStr (js ''dashboard-'' @ show_int (k_now st))), (js ''body'', parseBody (k_body st)),
      (js ''priority'', jint 5)]"

definition quickPublish :: "overview_view proc" where
  "quickPublish = Read (\<lambda>st.
     case mergeOutbound (outbound st) (quick_fields st) of
       (Some headersError, _) \<Rightarrow> Do (upd_publish (fail_msg headersError)) return_undef
     | (None, pl) \<Rightarrow>
         try_await (apiPost (publicUrl (js ''/v1/publish'') (win st)) (JObj pl))
           (\<lambda>r. try_value (get_prop r ''message_id'')
              (\<lambda>i. Do (upd_publish (succeed (js ''Published '' @ to_string (js_or i (jlit ''ok''))))) return_undef)
              (\<lambda>e. Do (upd_publish (fail_err e)) return_undef))
           (\<lambda>e. Do (upd_publish (fail_err e)) return_undef))"

definition clusterNodes :: "'a panel_scheme \<Rightarrow> jsval list" where
  "clusterNodes st = elems (js_or (opt_prop (s_cluster (session st)) ''nodes'') (JArr []))"

datatype overview_event =
    OverviewMounted
  | OverviewTick int
  | OverviewUrl jsval
  | OverviewSecret jsval
  | OverviewBody jsval
  | OverviewPublish

fun overview_handler :: "overview_event \<Rightarrow> overview_view proc" where
  "overview_handler OverviewMounted = overview_mounted"
| "overview_handler (OverviewTick t) = Do (\<lambda>st. st\<lparr>k_now := t\<rparr>) return_undef"
| "overview_handler (OverviewUrl v) = Do (\<lambda>st. st\<lparr>k_url := to_string v\<rparr>) return_undef"
| "overview_handler (OverviewSecret v) = Do (\<lambda>st. st\<lparr>k_secret := to_string v\<rparr>) return_undef"
| "overview_handler (OverviewBody v) = Do (\<lambda>st. st\<lparr>k_body := to_string v\<rparr>) return_undef"
| "overview_handler OverviewPublish = quickPublish"

section \<open>Template\<close>

definition overview_counts :: "overview_view \<Rightarrow> overview_event vnode" where
  "overview_counts st =
   VEl ''div'' [(''class'', jlit ''grid gap-2 sm:grid-cols-2 lg:grid-cols-5'')] []
    [VEl ''Card'' [(''size'', jlit ''sm'')] []
       [VEl ''CardHeader'' [(''class'', jlit ''pb-1'')] []
          [VEl ''CardDescription'' [] []
             [VText (js ''Status'')],
            VEl ''CardTitle'' [(''class'', jlit ''font-mono text-lg'')] []
             [VText (s_health (session st))]]],
      VEl ''Card'' [(''size'', jlit ''sm'')] []
       [VEl ''CardHeader'' [(''class'', jlit ''pb-1'')] []
          [VEl ''CardDescription'' [] []
             [VText (js ''Queues'')],
            VEl ''CardTitle'' [(''class'', jlit ''text-lg'')] []
             [VText (k_queues st)]]],
      VEl ''Card'' [(''size'', jlit ''sm'')] []
       [VEl ''CardHeader'' [(''class'', jlit ''pb-1'')] []
          [VEl ''CardDescription'' [] []
             [VText (js ''Groups'')],
            VEl ''CardTitle'' [(''class'', jlit ''text-lg'')] []
             [VText (k_groups st)]]],
      VEl ''Card'' [(''size'', jlit ''sm'')] []
       [VEl ''CardHeader'' [(''class'', jlit ''pb-1'')] []
          [VEl ''CardDescription'' [] []
             [VText (js ''Schedules'')],
            VEl ''CardTitle'' [(''class'', jlit ''text-lg'')] []
             [VText (k_schedules st)]]],
      VEl ''Card'' [(''size'', jlit ''sm'')] []
       [VEl ''CardHeader'' [(''class'', jlit ''pb-1'')] []
          [VEl ''CardDescription'' [] []
             [VText (js ''DLQ'')],
            VEl ''CardTitle'' [(''class'', jlit ''text-lg'')] []
             [VText (k_dlq st)]]]]"

definition overview_node_row :: "overview_view \<Rightarrow> jsval \<Rightarrow> overview_event vnode" where
  "overview_node_row st n =
   VEl ''TableRow'' [(''key'', js_or (opt_prop n ''id'') (opt_prop n ''addr''))] []
    [VEl ''TableCell'' [(''class'', jlit ''font-mono text-xs'')] []
       [VText (interp (js_or (opt_prop n ''name'') (opt_prop n ''addr'')))],
      VEl ''TableCell'' [] []
       [VText ((if opt_prop n ''healthy'' = JBool False then js ''down'' else js ''ok''))],
      VEl ''TableCell'' [(''class'', jlit ''font-mono text-xs'')] []
       [VText (str_or (js_join (elems (js_or (opt_prop n ''led_shards'') (JArr []))) (js '', '')) em_dash)]]"

definition overview_cluster_card :: "overview_view \<Rightarrow> overview_event vnode" where
  "overview_cluster_card st =
   VEl ''Card'' [] []
    [VEl ''CardHeader'' [] []
       [VEl ''CardTitle'' [] []
          [VText (js ''Cluster'')],
         VEl ''CardDescription'' [] []
          [VText (s_clusterLabel (session st) @ js '' '' @ middle_dot @ js '' compact summary'')]],
      VEl ''CardContent'' [] []
       [VEl ''Table'' [] []
          [VEl ''TableHeader'' [] []
             [VEl ''TableRow'' [] []
                [VEl ''TableHead'' [] []
                   [VText (js ''Node'')],
                  VEl ''TableHead'' [] []
                   [VText (js ''Health'')],
                  VEl ''TableHead'' [] []
                   [VText (js ''Led shards'')]]],
            VEl ''TableBody'' [] []
             (map (overview_node_row st) (clusterNodes st))]]]"

definition overview_publish_cards :: "overview_view \<Rightarrow> overview_event vnode" where
  "overview_publish_cards st =
   VEl ''div'' [(''class'', jlit ''grid gap-3 lg:grid-cols-2'')] []
    [VEl ''Card'' [] []
       [VEl ''CardHeader'' [] []
          [VEl ''CardTitle'' [] []
             [VText (js ''Delivery model'')],
            VEl ''CardDescription'' [] []
             [VText (js ''How messages leave BetterMQ'')]],
         VEl ''CardContent'' [(''class'', jlit ''space-y-1.5 text-sm'')] []
          [VEl ''p'' [] []
             [VEl ''strong'' [] []
                [VText (js ''Publish'')],
               VText (js '' '' @ em_dash @ js '' one-off webhook.'')],
            VEl ''p'' [] []
             [VEl ''strong'' [] []
                [VText (js ''Enqueue'')],
               VText (js '' '' @ em_dash @ js '' named queue. No key = standard; a key = FIFO for that entity.'')],
            VEl ''p'' [] []
             [VEl ''strong'' [] []
                [VText (js ''Groups'')],
               VText (js '' '' @ em_dash @ js '' fan-out to member webhooks.'')],
            VEl ''p'' [] []
             [VEl ''strong'' [] []
                [VText (js ''DLQ'')],
               VText (js '' '' @ em_dash @ js '' failed deliveries after retries.'')]]],
      VEl ''Card'' [] []
       [VEl ''CardHeader'' [] []
          [VEl ''CardTitle'' [] []
             [VText (js ''Quick publish'')],
            VEl ''CardDescription'' [] []
             [VText (js ''One direct webhook from the console'')]],
         VEl ''CardContent'' [(''class'', jlit ''grid gap-2'')] []
          [VEl ''Field'' [(''label'', jlit ''URL'')] []
             [VEl ''Input''
                [(''modelValue'', JStr (k_url st)),
                 (''class'', jlit ''font-mono text-xs'')]
                [(''update:modelValue'', OnValue OverviewUrl)] []],
            VEl ''Field'' [(''label'', jlit ''Secret'')] []
             [VEl ''Input''
                [(''modelValue'', JStr (k_secret st)),
                 (''class'', jlit ''font-mono'')]
                [(''update:modelValue'', OnValue OverviewSecret)] []],
            VEl ''Field'' [(''label'', jlit ''Body'')] []
             [VEl ''Input''
                [(''modelValue'', JStr (k_body st)),
                 (''class'', jlit ''font-mono text-xs'')]
                [(''update:modelValue'', OnValue OverviewBody)] []]],
         VEl ''CardFooter'' [] []
          [VEl ''Button'' [(''size'', jlit ''sm'')] [(''click'', On OverviewPublish)]
             [VText (js ''Publish'')],
            VEl ''ActionMessage''
             [(''error'', JStr (st_error (k_publishStatus st))),
              (''ok'', JStr (st_ok (k_publishStatus st)))] [] []]]]"

definition overview_template :: "overview_view \<Rightarrow> overview_event vnode list" where
  "overview_template st =
   [VEl ''div'' [(''class'', jlit ''space-y-4'')] []
     ([VEl ''div'' [] []
        [VEl ''h1'' [(''class'', jlit ''text-lg font-semibold tracking-tight'')] []
           [VText (js ''Overview'')],
          VEl ''p'' [(''class'', jlit ''text-sm text-muted-foreground'')] []
           [VText (js ''Broker health and resource counts'')]],
       overview_counts st] @
       (if truthy (opt_prop (s_cluster (session st)) ''enabled'') \<or> 1 < length (clusterNodes st) then
        [overview_cluster_card st]
       else []) @
       [overview_publish_cards st])]"

section \<open>Requests stay on the page's origin\<close>

lemmas overview_updates = upd_publish_def store_counts_def set_schedules_def set_dlq_def

interpretation overview_page: page_script overview_handler
proof
  show "stays (on_page b0) (own_origin b0) (overview_handler e)" for b0 e
    by (cases e) (auto simp: overview_mounted_def load_schedules_def load_dlq_def quickPublish_def fetchJson_def overview_updates Let_def intro!: stays_intros)
qed

interpretation overview_sync: synced_script overview_handler
proof
  show "stays (synced b0) (\<lambda>_. True) (overview_handler e)" for b0 e
    by (cases e) (auto simp: sync_simps overview_mounted_def load_schedules_def load_dlq_def quickPublish_def fetchJson_def overview_updates Let_def intro!: stays_intros)
qed

section \<open>What the page writes\<close>

lemma quick_fields_one: "mergeOutbound ob (quick_fields st) = (r, pl) \<Longrightarrow> one_destination pl"
  by (erule one_destination_outbound) (simp add: quick_fields_def one_destination_def)

interpretation overview_policy: policed_script publish_writes overview_handler
proof
  show "sends_only b0 (publish_writes b0) (overview_handler e)" for b0 e
    by (cases e) (auto simp: overview_mounted_def load_schedules_def load_dlq_def quickPublish_def fetchJson_def overview_updates Let_def intro!: stays_intros publish_writes_post quick_fields_one)
qed

end
