(* ===== verification/View_Infra.thy ===== *)
theory View_Infra
  imports Panel_Layout
begin

text \<open>
  \<open>views/InfraView.vue\<close>: the nodes of the cells (brokers the cells report, members the registry knows),
  the shards and the replication state, registering cells and nodes, creating and syncing a cluster, and
  the settings of this node and of its storage. The answer of the user to a question of \<open>confirm\<close> is a
  field of the state.
\<close>

section \<open>State\<close>

datatype section_id = SecOverview | SecNodes | SecCells | SecCluster | SecThisNode | SecStorage

fun section_text :: "section_id \<Rightarrow> jstring" where
  "section_text SecOverview = js ''overview''"
| "section_text SecNodes = js ''nodes''"
| "section_text SecCells = js ''cells''"
| "section_text SecCluster = js ''cluster''"
| "section_text SecThisNode = js ''this-node''"
| "section_text SecStorage = js ''storage''"

definition sections :: "(section_id \<times> jstring) list" where
  "sections = [(SecOverview, js ''Overview''), (SecNodes, js ''Nodes''), (SecCells, js ''Cells''),
     (SecCluster, js ''Cluster''), (SecThisNode, js ''This node''), (SecStorage, js ''Storage'')]"

record node_row =
  n_key :: jstring
  n_name :: jsval
  n_role :: jsval
  n_addr :: jsval
  n_healthy :: jsval
  n_self :: bool
  n_cellId :: jsval
  n_cellLabel :: jsval
  n_broker :: jsval
  n_member :: jsval

record infra_view = panel +
  i_confirm :: "jstring \<Rightarrow> bool"
  i_section :: section_id
  i_selectedNodeKey :: jstring
  i_nodesByCell :: payload
  i_shardsByCell :: payload
  i_clusterByCell :: payload
  i_restartMsg :: jstring
  i_rfMsg :: jstring
  i_infraStatus :: jsval
  i_joinToken :: jstring
  i_createOpen :: bool
  i_cell_id :: jstring
  i_cell_region :: jstring
  i_cell_controllerUrl :: jstring
  i_cell_label :: jstring
  i_attachOpen :: bool
  i_attach_profile :: jstring
  i_attach_name :: jstring
  i_attach_reach :: jstring
  i_attach_split :: bool
  i_attach_advertise :: jstring
  i_attach_token :: jstring
  i_attach_error :: jstring
  i_node_name :: jstring
  i_node_publicUrl :: jstring
  i_st_mode :: jstring
  i_st_endpoint :: jstring
  i_st_bucket :: jstring
  i_st_payloadBucket :: jstring
  i_st_accessKey :: jstring
  i_st_secretKey :: jstring
  i_st_region :: jstring
  i_st_test :: jstring
  i_fedStatus :: action_status
  i_clusterStatus :: action_status
  i_cellStatus :: action_status
  i_nodeStatus :: action_status
  i_storageStatus :: action_status
  i_detailStatus :: action_status
  i_attachOk :: jstring

definition infra_init :: "(jstring \<Rightarrow> bool) \<Rightarrow> panel \<Rightarrow> infra_view" where
  "infra_init answer p = panel.extend p
     (infra_view.fields answer SecOverview [] [] [] [] [] [] JNull []
        False [] [] [] []
        False (js ''all'') [] [] False [] [] []
        [] []
        (js ''local'') [] [] [] [] [] (js ''auto'') []
        useActionStatus useActionStatus useActionStatus useActionStatus useActionStatus useActionStatus [])"

definition upd_fed :: "(action_status \<Rightarrow> action_status) \<Rightarrow> infra_view \<Rightarrow> infra_view" where
  "upd_fed f st = st\<lparr>i_fedStatus := f (i_fedStatus st)\<rparr>"

definition upd_cluster :: "(action_status \<Rightarrow> action_status) \<Rightarrow> infra_view \<Rightarrow> infra_view" where
  "upd_cluster f st = st\<lparr>i_clusterStatus := f (i_clusterStatus st)\<rparr>"

definition upd_cell :: "(action_status \<Rightarrow> action_status) \<Rightarrow> infra_view \<Rightarrow> infra_view" where
  "upd_cell f st = st\<lparr>i_cellStatus := f (i_cellStatus st)\<rparr>"

definition upd_node :: "(action_status \<Rightarrow> action_status) \<Rightarrow> infra_view \<Rightarrow> infra_view" where
  "upd_node f st = st\<lparr>i_nodeStatus := f (i_nodeStatus st)\<rparr>"

definition upd_storage :: "(action_status \<Rightarrow> action_status) \<Rightarrow> infra_view \<Rightarrow> infra_view" where
  "upd_storage f st = st\<lparr>i_storageStatus := f (i_storageStatus st)\<rparr>"

definition upd_detail :: "(action_status \<Rightarrow> action_status) \<Rightarrow> infra_view \<Rightarrow> infra_view" where
  "upd_detail f st = st\<lparr>i_detailStatus := f (i_detailStatus st)\<rparr>"

section \<open>Computed values\<close>

definition profileOptions :: jsval where
  "profileOptions = JArr (map (\<lambda>(v, l). JObj [(js ''value'', jlit v), (js ''label'', JStr l)])
     [(''all'', js ''all '' @ em_dash @ js '' broker + local dispatch''), (''broker'', js ''broker''),
      (''controller'', js ''controller (health only)''), (''dispatch'', js ''dispatch fleet''),
      (''gateway'', js ''gateway''), (''panel'', js ''panel'')])"

definition storageOptions :: jsval where
  "storageOptions = JArr (map (\<lambda>(v, l). JObj [(js ''value'', jlit v), (js ''label'', jlit l)])
     [(''local'', ''Local disk (WAL + RocksDB)''), (''slate'', ''SlateDB (S3 / MinIO / R2)'')])"

definition profileHint :: "infra_view \<Rightarrow> jstring" where
  "profileHint st =
     opt_or (map_of
       [(js ''all'', js ''Joins the replica set (WAL). Extra all nodes add shard capacity after 3, not RF=4.''),
        (js ''broker'', js ''Joins the replica set. Pair with a dispatch fleet for delivery.''),
        (js ''controller'', js ''Registered for health only '' @ em_dash @ js '' controller voter APIs are separate.''),
        (js ''dispatch'', js ''Fleet worker. Not a replica. Process must use --profile dispatch.''),
        (js ''gateway'', js ''Ingest router. Not a replica. Process must use --profile gateway.''),
        (js ''panel'', js ''Registers another management URL. Does not join Raft.'')] (i_attach_profile st)) []"

definition needsToken :: "infra_view \<Rightarrow> bool" where
  "needsToken st \<longleftrightarrow> i_attach_profile st = js ''all'' \<or> i_attach_profile st = js ''broker''"

text \<open>\<open>m[k]\<close> on an object used as a table.\<close>

definition table_get :: "payload \<Rightarrow> jsval \<Rightarrow> jsval" where
  "table_get m k = (case obj_get m (to_string k) of None \<Rightarrow> JUndef | Some v \<Rightarrow> v)"

definition currentCluster :: "infra_view \<Rightarrow> jsval" where
  "currentCluster st =
     (let cell = selectedCell (session st); hit = table_get (i_clusterByCell st) (opt_prop cell ''id'') in
      if truthy cell \<and> truthy hit then hit
      else js_or (case i_clusterByCell st of [] \<Rightarrow> JUndef | (_, v) # _ \<Rightarrow> v) JNull)"

definition shardRows :: "infra_view \<Rightarrow> jsval list" where
  "shardRows st =
     (let cell = selectedCell (session st); hit = table_get (i_shardsByCell st) (opt_prop cell ''id'') in
      if truthy cell \<and> truthy hit then elems hit
      else case i_shardsByCell st of
             [] \<Rightarrow> []
           | (k, v) # _ \<Rightarrow> if k = [] then [] else elems (js_or v (JArr [])))"

definition rf_banner :: "jsval \<Rightarrow> jstring" where
  "rf_banner ov =
     (if \<not> truthy ov then []
      else
        let n = js_or (opt_prop ov ''nodeCount'') (jint 0);
            rf = js_or (opt_prop ov ''replicationFactor'') (jint 0)
        in if n = jint 2 then js ''RF=2 / minISR=2 '' @ em_dash @ js '' both nodes must be up. Add a third broker for HA.''
           else if \<not> num_less (to_number n) (Num 3) \<and> to_number n \<noteq> NaN \<and> num_less (to_number rf) (Num 3)
           then js ''Expanding replicas to RF=3'' @ ellipsis
           else if \<not> num_less (to_number n) (Num 4) \<and> to_number n \<noteq> NaN \<and> rf = jint 3
           then js ''RF stays 3. Extra brokers add shard capacity, not a fourth copy.''
           else [])"

definition rfBanner :: "infra_view \<Rightarrow> jstring" where
  "rfBanner st = rf_banner (currentCluster st)"

definition listedCells :: "'a panel_scheme \<Rightarrow> jsval list" where
  "listedCells st = (if s_cells (session st) \<noteq> [] then s_cells (session st) else [local_cell])"

definition shortId :: "jsval \<Rightarrow> jsval" where
  "shortId i = (if \<not> truthy i then JStr [] else case i of JStr s \<Rightarrow> JStr (if 8 < length s then take 8 s else s) | _ \<Rightarrow> i)"

definition plain_addr :: "jsval \<Rightarrow> jstring" where
  "plain_addr a = drop_trailing_slash (to_string (js_or a (JStr [])))"

definition broker_row :: "jsval \<Rightarrow> jsval \<Rightarrow> node_row" where
  "broker_row cell n =
     \<lparr>n_key = js ''broker:'' @ to_string (opt_prop cell ''id'') @ js '':'' @
        to_string (js_or (js_or (opt_prop n ''id'') (opt_prop n ''addr'')) (opt_prop n ''name'')),
      n_name = js_or (js_or (js_or (opt_prop n ''name'') (shortId (opt_prop n ''id''))) (opt_prop n ''addr'')) (jlit ''broker''),
      n_role = jlit ''broker'',
      n_addr = js_or (opt_prop n ''addr'') (JStr []),
      n_healthy = js_coalesce (js_coalesce (opt_prop n ''alive'') (opt_prop n ''healthy'')) (JBool True),
      n_self = truthy (js_coalesce (opt_prop n ''self'') (opt_prop n ''is_self'')),
      n_cellId = opt_prop cell ''id'',
      n_cellLabel = js_or (opt_prop cell ''label'') (opt_prop cell ''id''),
      n_broker = n, n_member = JUndef\<rparr>"

definition member_row :: "jsval \<Rightarrow> jsval \<Rightarrow> node_row" where
  "member_row cell m =
     \<lparr>n_key = js ''member:'' @ to_string (opt_prop cell ''id'') @ js '':'' @ to_string (opt_prop m ''name'') @
        js '':'' @ to_string (opt_prop m ''reachUrl''),
      n_name = js_or (opt_prop m ''name'') (opt_prop m ''profile''),
      n_role = opt_prop m ''profile'',
      n_addr = opt_prop m ''reachUrl'',
      n_healthy = JBool True, n_self = False,
      n_cellId = opt_prop cell ''id'',
      n_cellLabel = js_or (opt_prop cell ''label'') (opt_prop cell ''id''),
      n_broker = JUndef, n_member = m\<rparr>"

text \<open>A member whose address a broker of the cell already has is left out.\<close>

definition cell_rows :: "infra_view \<Rightarrow> jsval \<Rightarrow> node_row list" where
  "cell_rows st cell =
     (let brokers = elems (js_or (table_get (i_nodesByCell st) (opt_prop cell ''id'')) (JArr []));
          seen = filter (\<lambda>a. a \<noteq> []) (map (\<lambda>n. plain_addr (opt_prop n ''addr'')) brokers);
          members = filter (\<lambda>m. strict_eq (opt_prop m ''cellId'') (opt_prop cell ''id'')) (s_members (session st))
      in map (broker_row cell) brokers @
         map (member_row cell)
           (filter (\<lambda>m. \<not> (let url = plain_addr (opt_prop m ''reachUrl'') in url \<noteq> [] \<and> url \<in> set seen)) members))"

definition nodeRows :: "infra_view \<Rightarrow> node_row list" where
  "nodeRows st = concat (map (cell_rows st) (listedCells st))"

definition selectedRow :: "infra_view \<Rightarrow> node_row option" where
  "selectedRow st = find (\<lambda>row. n_key row = i_selectedNodeKey st) (nodeRows st)"

definition kpi :: "string \<Rightarrow> infra_view \<Rightarrow> jstring" where
  "kpi field st = to_string (js_or (opt_prop (i_infraStatus st) field) (JStr em_dash))"

definition kpiNode :: "infra_view \<Rightarrow> jstring" where
  "kpiNode st = kpi ''node_name'' st"

definition kpiUrl :: "infra_view \<Rightarrow> jstring" where
  "kpiUrl st = kpi ''public_url'' st"

definition kpiStorage :: "infra_view \<Rightarrow> jstring" where
  "kpiStorage st = kpi ''active_storage'' st"

section \<open>Loading\<close>

text \<open>A computation that may stop with an error, keeping what it has stored so far.\<close>

definition and_then :: "'s \<times> jserr option \<Rightarrow> ('s \<Rightarrow> 's \<times> jserr option) \<Rightarrow> 's \<times> jserr option" where
  "and_then x f = (case x of (s, None) \<Rightarrow> f s | (s, Some e) \<Rightarrow> (s, Some e))"

text \<open>\<open>for (const row of res.ok || []) table[row.cell] = row.data.field || []\<close>.\<close>

fun fill_table :: "(jsval \<Rightarrow> jserr + jsval) \<Rightarrow> jsval list \<Rightarrow> payload \<Rightarrow> payload \<times> jserr option" where
  "fill_table value [] m = (m, None)"
| "fill_table value (row # rows) m =
     (case get_prop row ''cell'' of
        Inl e \<Rightarrow> (m, Some e)
      | Inr cell \<Rightarrow>
          (case value (opt_prop row ''data'') of
             Inl e \<Rightarrow> (m, Some e)
           | Inr v \<Rightarrow> fill_table value rows (obj_set m (to_string cell) v)))"

definition list_field :: "string \<Rightarrow> jsval \<Rightarrow> jserr + jsval" where
  "list_field field data =
     (case get_prop data field of Inl e \<Rightarrow> Inl e | Inr v \<Rightarrow> Inr (js_or v (JArr [])))"

definition ok_rows :: "jsval \<Rightarrow> jserr + jsval list" where
  "ok_rows res =
     (case get_prop res ''ok'' of Inl e \<Rightarrow> Inl e | Inr v \<Rightarrow> Inr (elems (js_or v (JArr []))))"

text \<open>A table is emptied and filled from an answer.\<close>

definition refill ::
    "(payload \<Rightarrow> infra_view \<Rightarrow> infra_view) \<Rightarrow> (jsval \<Rightarrow> jserr + jsval) \<Rightarrow> jsval \<Rightarrow>
     infra_view \<Rightarrow> infra_view \<times> jserr option" where
  "refill put value res st =
     (case ok_rows res of
        Inl e \<Rightarrow> (put [] st, Some e)
      | Inr rows \<Rightarrow> (case fill_table value rows [] of (m, err) \<Rightarrow> (put m st, err)))"

definition failed_rows :: "jsval \<Rightarrow> jsval list" where
  "failed_rows res = elems (js_or (opt_prop res ''failed'') (JArr []))"

definition report_failed :: "jsval list \<Rightarrow> infra_view \<Rightarrow> infra_view" where
  "report_failed failed st =
     (case failed of
        [] \<Rightarrow> st
      | f # _ \<Rightarrow> upd_fed (fail_msg (js ''Federated query failed: '' @ to_string (opt_prop f ''cell'') @ js '' '' @
                  em_dash @ js '' '' @ to_string (opt_prop f ''error''))) st)"

definition clear_rf :: "jsval \<Rightarrow> infra_view \<Rightarrow> infra_view" where
  "clear_rf cluster st =
     (let cell = selectedCell (session st) in
      if truthy cell \<and> truthy (dataForCell cluster (to_string (opt_prop cell ''id'')))
      then st\<lparr>i_rfMsg := []\<rparr> else st)"

definition store_fed :: "jsval \<Rightarrow> jsval \<Rightarrow> jsval \<Rightarrow> infra_view \<Rightarrow> infra_view \<times> jserr option" where
  "store_fed nodes shards cluster st =
     and_then (refill (\<lambda>m st. st\<lparr>i_nodesByCell := m\<rparr>) (list_field ''nodes'') nodes st) (\<lambda>st.
     and_then (refill (\<lambda>m st. st\<lparr>i_shardsByCell := m\<rparr>) (list_field ''shards'') shards st) (\<lambda>st.
     and_then (refill (\<lambda>m st. st\<lparr>i_clusterByCell := m\<rparr>) Inr cluster st) (\<lambda>st.
       (clear_rf cluster
          (report_failed (failed_rows nodes @ failed_rows shards @ failed_rows cluster) st), None))))"

definition apply_fed :: "jsval list \<Rightarrow> infra_view \<Rightarrow> infra_view" where
  "apply_fed vs st =
     (case vs of
        nodes # shards # cluster # _ \<Rightarrow>
          (case store_fed nodes shards cluster st of
             (st1, None) \<Rightarrow> st1
           | (st1, Some e) \<Rightarrow> upd_fed (fail_err e) st1)
      | _ \<Rightarrow> st)"

definition loadFed :: "infra_view proc" where
  "loadFed =
     Do (upd_fed reset)
      (try_all [queryCells ''nodes'', queryCells ''shards'', queryCells ''cluster'']
         (\<lambda>vs. Do (apply_fed vs) return_undef)
         (\<lambda>e. Do (upd_fed (fail_err e)) return_undef))"

definition store_status :: "jsval \<Rightarrow> infra_view \<Rightarrow> infra_view" where
  "store_status v st =
     (if js_nullish v then st\<lparr>i_infraStatus := JNull\<rparr>
      else upd_session (\<lambda>s. s\<lparr>s_isSeed := truthy (opt_prop v ''is_cluster_seed'')\<rparr>)
        (st\<lparr>i_infraStatus := v,
            i_restartMsg :=
              (if truthy (opt_prop v ''needs_restart'') then
                 js ''Pending '' @ to_string (js_or (opt_prop v ''pending_storage'') (jlit ''config'')) @
                 js '' storage '' @ em_dash @ js '' restart broker to apply.''
               else [])\<rparr>))"

definition text_field :: "jsval \<Rightarrow> string \<Rightarrow> string \<Rightarrow> jstring" where
  "text_field v k d = to_string (js_or (opt_prop v k) (jlit d))"

definition store_config :: "jsval \<Rightarrow> infra_view \<Rightarrow> infra_view" where
  "store_config cfg st =
     (if js_nullish cfg then st
      else
        let node = opt_prop cfg ''node''; sto = opt_prop cfg ''storage''; s3 = opt_prop sto ''s3'';
            st1 = st\<lparr>i_node_name := text_field node ''name'' '''',
                     i_node_publicUrl := text_field node ''publicUrl'' ''''\<rparr>
        in if opt_prop sto ''mode'' = jlit ''slate'' \<and> truthy s3 then
             st1\<lparr>i_st_mode := js ''slate'', i_st_endpoint := text_field s3 ''endpoint'' '''',
                 i_st_bucket := text_field s3 ''bucket'' '''',
                 i_st_payloadBucket := text_field s3 ''payloadBucket'' '''',
                 i_st_accessKey := text_field s3 ''accessKey'' '''',
                 i_st_region := text_field s3 ''region'' ''auto''\<rparr>
           else st1\<lparr>i_st_mode := js ''local''\<rparr>)"

definition load_config :: "infra_view proc" where
  "load_config = Read (\<lambda>st.
     try_await (apiGet (publicUrl (js ''/v1/infra/config'') (win st)))
       (\<lambda>cfg. Do (store_config cfg) return_undef) (\<lambda>_. return_undef))"

definition loadInfra :: "infra_view proc" where
  "loadInfra = Read (\<lambda>st.
     try_await (apiGet (publicUrl (js ''/v1/infra/status'') (win st)))
       (\<lambda>v. Do (store_status v) load_config)
       (\<lambda>_. Do (\<lambda>st. st\<lparr>i_infraStatus := JNull\<rparr>) load_config))"

definition drop_selection :: "infra_view \<Rightarrow> infra_view" where
  "drop_selection st =
     (if i_selectedNodeKey st \<noteq> [] \<and> selectedRow st = None then st\<lparr>i_selectedNodeKey := []\<rparr> else st)"

definition load :: "infra_view proc" where
  "load =
     await refreshCells (\<lambda>_.
       try_all [loadFed, loadInfra] (\<lambda>_. Do drop_selection return_undef) (\<lambda>e. Ret (Inl e)))"

section \<open>Actions\<close>

text \<open>An action's last step: reload, and report what the reload throws.\<close>

definition then_reload :: "infra_view proc \<Rightarrow> (jserr \<Rightarrow> infra_view \<Rightarrow> infra_view) \<Rightarrow> infra_view proc" where
  "then_reload p report = try_await p (\<lambda>_. return_undef) (\<lambda>e. Do (report e) return_undef)"

definition cell_body :: "infra_view \<Rightarrow> payload" where
  "cell_body st =
     [(js ''id'', JStr (i_cell_id st)), (js ''region'', JStr (i_cell_region st)),
      (js ''controllerUrl'', JStr (i_cell_controllerUrl st)),
      (js ''label'', if i_cell_label st \<noteq> [] then JStr (i_cell_label st) else JUndef)]"

definition cell_created :: "infra_view \<Rightarrow> infra_view" where
  "cell_created st =
     (upd_cell (succeed (js ''Registered cell '' @ i_cell_id st)) st)
       \<lparr>i_createOpen := False, i_cell_id := [], i_cell_region := [], i_cell_controllerUrl := [], i_cell_label := []\<rparr>"

definition createCell :: "infra_view proc" where
  "createCell =
     Do (upd_cell reset) (Read (\<lambda>st.
       try_await (apiPost (adminUrl (js ''/cells'') (win st)) (JObj (cell_body st)))
         (\<lambda>_. Do cell_created (then_reload load (\<lambda>e. upd_cell (fail_err e))))
         (\<lambda>e. Do (upd_cell (fail_err e)) return_undef)))"

definition attach_reset :: "infra_view \<Rightarrow> infra_view" where
  "attach_reset st = st\<lparr>i_attach_error := [], i_attachOk := []\<rparr>"

definition attach_fail :: "jserr \<Rightarrow> infra_view \<Rightarrow> infra_view" where
  "attach_fail e st = st\<lparr>i_attach_error := errText e\<rparr>"

definition probe_result :: "jsval \<Rightarrow> infra_view \<Rightarrow> infra_view" where
  "probe_result res st =
     (if truthy (opt_prop res ''ok'') then
        st\<lparr>i_attachOk := js ''Reachable ('' @ to_string (js_or (opt_prop res ''profileHint'') (jlit ''unknown'')) @
           js '')'' @ (if truthy (opt_prop res ''ready'') then js '', ready'' else js '', not ready'')\<rparr>
      else st\<lparr>i_attach_error := to_string (js_or (opt_prop res ''error'') (jlit ''not reachable''))\<rparr>)"

definition probe :: "infra_view proc" where
  "probe =
     Do attach_reset (Read (\<lambda>st.
       try_await (apiPost (adminUrl (js ''/probe'') (win st)) (JObj [(js ''reachUrl'', JStr (i_attach_reach st))]))
         (\<lambda>res. try_value (get_prop res ''ok'')
            (\<lambda>_. Do (probe_result res) return_undef)
            (\<lambda>e. Do (attach_fail e) return_undef))
         (\<lambda>e. Do (attach_fail e) return_undef)))"

definition advertise_url :: "infra_view \<Rightarrow> jstring" where
  "advertise_url st =
     (if i_attach_split st \<and> trim (i_attach_advertise st) \<noteq> [] then trim (i_attach_advertise st)
      else i_attach_reach st)"

definition attach_body :: "infra_view \<Rightarrow> payload" where
  "attach_body st =
     [(js ''profile'', JStr (i_attach_profile st)), (js ''reachUrl'', JStr (i_attach_reach st)),
      (js ''advertiseUrl'', JStr (advertise_url st)), (js ''nodeName'', JStr (i_attach_name st)),
      (js ''joinToken'', JStr (str_or (i_attach_token st) (i_joinToken st))),
      (js ''seedUrl'', JStr (str_or (i_node_publicUrl st) (s_apiBase (session st)))),
      (js ''cellId'', js_or (opt_prop (selectedCell (session st)) ''id'') (jlit ''local''))]"

definition attached :: "jsval \<Rightarrow> infra_view \<Rightarrow> infra_view" where
  "attached res st =
     (let warning = opt_prop (opt_prop res ''expand'') ''warning''; enroll = opt_prop res ''enroll'' in
      st\<lparr>i_attachOk := (if truthy (opt_prop res ''joined'') then js ''Joined '' else js ''Registered '') @
           to_string (opt_prop res ''profile''),
         i_rfMsg := (if truthy warning then to_string warning else i_rfMsg st),
         i_restartMsg := (if truthy (opt_prop enroll ''needs_restart'')
           then to_string (js_or (opt_prop enroll ''message'') (jlit ''Restart cluster nodes after join.''))
           else i_restartMsg st),
         i_attachOpen := False, i_attach_split := False, i_attach_advertise := []\<rparr>)"

definition attachNode :: "infra_view proc" where
  "attachNode =
     Do attach_reset (Read (\<lambda>st.
       try_await (apiPost (adminUrl (js ''/attach'') (win st)) (JObj (attach_body st)))
         (\<lambda>res. try_value (get_prop res ''joined'')
            (\<lambda>_. Do (attached res) (then_reload load attach_fail))
            (\<lambda>e. Do (attach_fail e) return_undef))
         (\<lambda>e. Do (attach_fail e) return_undef)))"

definition note_restart :: "jsval \<Rightarrow> infra_view \<Rightarrow> infra_view" where
  "note_restart res st =
     (if truthy (opt_prop res ''needs_restart'')
      then st\<lparr>i_restartMsg := to_string (js_or (opt_prop res ''message'') (jlit ''Restart required.''))\<rparr> else st)"

definition message_or :: "jsval \<Rightarrow> string \<Rightarrow> jstring" where
  "message_or res d = to_string (js_or (opt_prop res ''message'') (jlit d))"

definition cluster_created :: "jsval \<Rightarrow> infra_view \<Rightarrow> infra_view" where
  "cluster_created res st =
     (let t = to_string (js_or (opt_prop res ''join_token'') (JStr [])) in
      note_restart res
        (upd_cluster (succeed (message_or res ''Cluster created''))
          (upd_session (\<lambda>s. s\<lparr>s_joinToken := t\<rparr>) (st\<lparr>i_joinToken := t, i_attach_token := t\<rparr>))))"

definition createCluster :: "infra_view proc" where
  "createCluster =
     Do (upd_cluster reset) (Read (\<lambda>st.
       try_await (apiPost (publicUrl (js ''/v1/infra/cluster/create'') (win st)) (JObj []))
         (\<lambda>res. try_value (get_prop res ''join_token'')
            (\<lambda>_. Do (cluster_created res) (then_reload load (\<lambda>e. upd_cluster (fail_err e))))
            (\<lambda>e. Do (upd_cluster (fail_err e)) return_undef))
         (\<lambda>e. Do (upd_cluster (fail_err e)) return_undef)))"

definition cluster_synced :: "jsval \<Rightarrow> infra_view \<Rightarrow> infra_view" where
  "cluster_synced res st =
     (upd_cluster (succeed (js ''Synced '' @
        show_int (int (length (elems (js_or (opt_prop res ''nodes'') (JArr []))))) @ js '' nodes from seed'')) st)
       \<lparr>i_restartMsg := js ''Restart recommended after sync.''\<rparr>"

definition syncCluster :: "infra_view proc" where
  "syncCluster =
     Do (upd_cluster reset) (Read (\<lambda>st.
       try_await (apiPost (publicUrl (js ''/v1/infra/cluster/sync'') (win st)) (JObj []))
         (\<lambda>res. try_value (get_prop res ''nodes'')
            (\<lambda>_. Do (cluster_synced res) (then_reload load (\<lambda>e. upd_cluster (fail_err e))))
            (\<lambda>e. Do (upd_cluster (fail_err e)) return_undef))
         (\<lambda>e. Do (upd_cluster (fail_err e)) return_undef)))"

definition node_removed :: "jsval \<Rightarrow> infra_view \<Rightarrow> infra_view" where
  "node_removed res st =
     (note_restart res (upd_detail (succeed (message_or res ''Removed'')) st))\<lparr>i_selectedNodeKey := []\<rparr>"

definition removeNode :: "jsval \<Rightarrow> infra_view proc" where
  "removeNode nm = Read (\<lambda>st.
     if \<not> i_confirm st (js ''Remove '' @ to_string nm @ js '' from the cluster?'') then return_undef
     else Do (upd_detail reset)
       (try_await (apiPost (publicUrl (js ''/v1/infra/cluster/remove-node'') (win st)) (JObj [(js ''node_name'', nm)]))
          (\<lambda>res. try_value (get_prop res ''message'')
             (\<lambda>_. Do (node_removed res) (then_reload load (\<lambda>e. upd_detail (fail_err e))))
             (\<lambda>e. Do (upd_detail (fail_err e)) return_undef))
          (\<lambda>e. Do (upd_detail (fail_err e)) return_undef)))"

definition node_body :: "infra_view \<Rightarrow> payload" where
  "node_body st = [(js ''name'', JStr (i_node_name st)), (js ''public_url'', JStr (i_node_publicUrl st)),
     (js ''listen'', jlit ''0.0.0.0:8080'')]"

definition saveNode :: "infra_view proc" where
  "saveNode =
     Do (upd_node reset) (Read (\<lambda>st.
       try_await (apiPut (publicUrl (js ''/v1/infra/node'') (win st)) (JObj (node_body st)))
         (\<lambda>res. try_value (get_prop res ''message'')
            (\<lambda>_. Do (\<lambda>st. note_restart res (upd_node (succeed (message_or res ''Node settings saved'')) st))
               (then_reload loadInfra (\<lambda>e. upd_node (fail_err e))))
            (\<lambda>e. Do (upd_node (fail_err e)) return_undef))
         (\<lambda>e. Do (upd_node (fail_err e)) return_undef)))"

text \<open>The secret key that is sent: what was typed, or eight bullets for the key the broker has.\<close>

definition masked_secret :: jstring where
  "masked_secret = concat (replicate 8 bullet)"

definition secret_field :: "infra_view \<Rightarrow> jsval" where
  "secret_field st = JStr (str_or (i_st_secretKey st) masked_secret)"

definition s3_test_body :: "infra_view \<Rightarrow> payload" where
  "s3_test_body st =
     [(js ''endpoint'', JStr (i_st_endpoint st)), (js ''bucket'', JStr (i_st_bucket st)),
      (js ''access_key'', JStr (i_st_accessKey st)), (js ''secret_key'', secret_field st),
      (js ''region'', JStr (i_st_region st))]"

definition s3_tested :: "jsval \<Rightarrow> infra_view \<Rightarrow> infra_view" where
  "s3_tested res st =
     (let t = to_string (js_or (opt_prop res ''message'') (JStr []));
          st1 = st\<lparr>i_st_test := t\<rparr>
      in if truthy (opt_prop res ''ok'') then upd_storage (succeed t) st1 else upd_storage (fail_msg t) st1)"

definition s3_test_failed :: "jserr \<Rightarrow> infra_view \<Rightarrow> infra_view" where
  "s3_test_failed e st = upd_storage (fail_msg (errText e)) (st\<lparr>i_st_test := errText e\<rparr>)"

definition testS3 :: "infra_view proc" where
  "testS3 =
     Do (upd_storage reset) (Read (\<lambda>st.
       try_await (apiPost (publicUrl (js ''/v1/infra/storage/test'') (win st)) (JObj (s3_test_body st)))
         (\<lambda>res. try_value (get_prop res ''message'')
            (\<lambda>_. Do (s3_tested res) return_undef)
            (\<lambda>e. Do (s3_test_failed e) return_undef))
         (\<lambda>e. Do (s3_test_failed e) return_undef)))"

definition storage_body :: "infra_view \<Rightarrow> payload" where
  "storage_body st =
     (let body = [(js ''mode'', JStr (i_st_mode st))] in
      if i_st_mode st = js ''slate'' then
        obj_set body (js ''s3'') (JObj
          [(js ''endpoint'', JStr (i_st_endpoint st)), (js ''bucket'', JStr (i_st_bucket st)),
           (js ''payloadBucket'', if i_st_payloadBucket st \<noteq> [] then JStr (i_st_payloadBucket st) else JNull),
           (js ''accessKey'', JStr (i_st_accessKey st)), (js ''secretKey'', secret_field st),
           (js ''region'', JStr (i_st_region st))])
      else body)"

definition saveStorage :: "infra_view proc" where
  "saveStorage =
     Do (upd_storage reset) (Read (\<lambda>st.
       try_await (apiPut (publicUrl (js ''/v1/infra/storage'') (win st)) (JObj (storage_body st)))
         (\<lambda>res. try_value (get_prop res ''message'')
            (\<lambda>_. Do (\<lambda>st. note_restart res (upd_storage (succeed (message_or res ''Saved'')) st))
               (then_reload loadInfra (\<lambda>e. upd_storage (fail_err e))))
            (\<lambda>e. Do (upd_storage (fail_err e)) return_undef))
         (\<lambda>e. Do (upd_storage (fail_err e)) return_undef)))"

definition selectNode :: "node_row \<Rightarrow> infra_view \<Rightarrow> infra_view" where
  "selectNode row st = upd_detail reset (st\<lparr>i_selectedNodeKey := n_key row\<rparr>)"

definition openAddNode :: "infra_view \<Rightarrow> infra_view" where
  "openAddNode st = st\<lparr>i_section := SecNodes, i_attachOpen := True\<rparr>"

section \<open>Events\<close>

datatype infra_event =
    InfraMounted
  | InfraSection section_id
  | InfraOpenRow node_row
  | InfraSelectRow node_row
  | InfraOpenAdd
  | InfraRemoveNode jsval
  | InfraCreateCluster
  | InfraSyncCluster
  | InfraNodeName jsval
  | InfraNodeUrl jsval
  | InfraSaveNode
  | InfraMode jsval
  | InfraEndpoint jsval
  | InfraBucket jsval
  | InfraPayloadBucket jsval
  | InfraAccessKey jsval
  | InfraSecretKey jsval
  | InfraRegion jsval
  | InfraTestS3
  | InfraSaveStorage
  | InfraCreateOpen jsval
  | InfraCellId jsval
  | InfraCellRegion jsval
  | InfraCellUrl jsval
  | InfraCellLabel jsval
  | InfraCreateCell
  | InfraAttachOpen jsval
  | InfraProfile jsval
  | InfraAttachName jsval
  | InfraReach jsval
  | InfraSplit jsval
  | InfraAdvertise jsval
  | InfraToken jsval
  | InfraProbe
  | InfraAttach

fun infra_handler :: "infra_event \<Rightarrow> infra_view proc" where
  "infra_handler InfraMounted = Spawn load return_undef"
| "infra_handler (InfraSection s) = Do (\<lambda>st. st\<lparr>i_section := s\<rparr>) return_undef"
| "infra_handler (InfraOpenRow row) = Do (\<lambda>st. (selectNode row st)\<lparr>i_section := SecNodes\<rparr>) return_undef"
| "infra_handler (InfraSelectRow row) = Do (selectNode row) return_undef"
| "infra_handler InfraOpenAdd = Do openAddNode return_undef"
| "infra_handler (InfraRemoveNode nm) = removeNode nm"
| "infra_handler InfraCreateCluster = createCluster"
| "infra_handler InfraSyncCluster = syncCluster"
| "infra_handler (InfraNodeName v) = Do (\<lambda>st. st\<lparr>i_node_name := to_string v\<rparr>) return_undef"
| "infra_handler (InfraNodeUrl v) = Do (\<lambda>st. st\<lparr>i_node_publicUrl := to_string v\<rparr>) return_undef"
| "infra_handler InfraSaveNode = saveNode"
| "infra_handler (InfraMode v) = Do (\<lambda>st. st\<lparr>i_st_mode := to_string v\<rparr>) return_undef"
| "infra_handler (InfraEndpoint v) = Do (\<lambda>st. st\<lparr>i_st_endpoint := to_string v\<rparr>) return_undef"
| "infra_handler (InfraBucket v) = Do (\<lambda>st. st\<lparr>i_st_bucket := to_string v\<rparr>) return_undef"
| "infra_handler (InfraPayloadBucket v) = Do (\<lambda>st. st\<lparr>i_st_payloadBucket := to_string v\<rparr>) return_undef"
| "infra_handler (InfraAccessKey v) = Do (\<lambda>st. st\<lparr>i_st_accessKey := to_string v\<rparr>) return_undef"
| "infra_handler (InfraSecretKey v) = Do (\<lambda>st. st\<lparr>i_st_secretKey := to_string v\<rparr>) return_undef"
| "infra_handler (InfraRegion v) = Do (\<lambda>st. st\<lparr>i_st_region := to_string v\<rparr>) return_undef"
| "infra_handler InfraTestS3 = testS3"
| "infra_handler InfraSaveStorage = saveStorage"
| "infra_handler (InfraCreateOpen v) = Do (\<lambda>st. st\<lparr>i_createOpen := truthy v\<rparr>) return_undef"
| "infra_handler (InfraCellId v) = Do (\<lambda>st. st\<lparr>i_cell_id := to_string v\<rparr>) return_undef"
| "infra_handler (InfraCellRegion v) = Do (\<lambda>st. st\<lparr>i_cell_region := to_string v\<rparr>) return_undef"
| "infra_handler (InfraCellUrl v) = Do (\<lambda>st. st\<lparr>i_cell_controllerUrl := to_string v\<rparr>) return_undef"
| "infra_handler (InfraCellLabel v) = Do (\<lambda>st. st\<lparr>i_cell_label := to_string v\<rparr>) return_undef"
| "infra_handler InfraCreateCell = createCell"
| "infra_handler (InfraAttachOpen v) = Do (\<lambda>st. st\<lparr>i_attachOpen := truthy v\<rparr>) return_undef"
| "infra_handler (InfraProfile v) = Do (\<lambda>st. st\<lparr>i_attach_profile := to_string v\<rparr>) return_undef"
| "infra_handler (InfraAttachName v) = Do (\<lambda>st. st\<lparr>i_attach_name := to_string v\<rparr>) return_undef"
| "infra_handler (InfraReach v) = Do (\<lambda>st. st\<lparr>i_attach_reach := to_string v\<rparr>) return_undef"
| "infra_handler (InfraSplit v) = Do (\<lambda>st. st\<lparr>i_attach_split := truthy v\<rparr>) return_undef"
| "infra_handler (InfraAdvertise v) = Do (\<lambda>st. st\<lparr>i_attach_advertise := to_string v\<rparr>) return_undef"
| "infra_handler (InfraToken v) = Do (\<lambda>st. st\<lparr>i_attach_token := to_string v\<rparr>) return_undef"
| "infra_handler InfraProbe = probe"
| "infra_handler InfraAttach = attachNode"

section \<open>Template\<close>

text \<open>The row the detail card shows; the card asks for it only when a row is selected.\<close>

definition shown_row :: "infra_view \<Rightarrow> node_row" where
  "shown_row st = (case selectedRow st of Some row \<Rightarrow> row | None \<Rightarrow> member_row local_cell JUndef)"

definition health_text :: "jsval \<Rightarrow> jstring" where
  "health_text h = (if truthy h then js ''Healthy'' else js ''Down'')"

definition health_variant :: "jsval \<Rightarrow> jsval" where
  "health_variant h = (if truthy h then jlit ''outline'' else jlit ''destructive'')"

definition infra_section_button :: "infra_view \<Rightarrow> section_id \<times> jstring \<Rightarrow> infra_event vnode" where
  "infra_section_button st item =
   VEl ''button''
    [(''key'', JStr (section_text (fst item))),
     (''type'', jlit ''button''),
     (''class'', jlit ''shrink-0 rounded-xl px-3 py-1.5 text-left text-sm transition-colors''),
     (''class'', (if i_section st = fst item then jlit ''bg-muted font-medium text-foreground'' else jlit ''text-muted-foreground hover:bg-muted/60 hover:text-foreground''))]
    [(''click'', On (InfraSection (fst item)))]
    [VText (js '' '' @ snd item @ js '' '')]"

definition infra_kpis :: "infra_view \<Rightarrow> infra_event vnode" where
  "infra_kpis st =
   VEl ''div'' [(''class'', jlit ''grid gap-3 sm:grid-cols-3'')] []
    [VEl ''Card'' [] []
       [VEl ''CardHeader'' [(''class'', jlit ''pb-2'')] []
          [VEl ''CardDescription'' [] []
             [VText (js ''This node'')],
            VEl ''CardTitle'' [] []
             [VText (kpiNode st)]],
         VEl ''CardContent''
          [(''class'', jlit ''truncate font-mono text-xs text-muted-foreground'')] []
          [VText (kpiUrl st)]],
      VEl ''Card'' [] []
       [VEl ''CardHeader'' [(''class'', jlit ''pb-2'')] []
          [VEl ''CardDescription'' [] []
             [VText (js ''Storage'')],
            VEl ''CardTitle'' [(''class'', jlit ''capitalize'')] []
             [VText (kpiStorage st)]]],
      VEl ''Card'' [] []
       [VEl ''CardHeader'' [(''class'', jlit ''pb-2'')] []
          [VEl ''CardDescription'' [] []
             [VText (js ''Cluster'')],
            VEl ''CardTitle'' [] []
             [VText (s_clusterLabel (session st))]],
         VEl ''CardContent'' [(''class'', jlit ''text-xs text-muted-foreground'')] []
          ([VText (js '' '' @ show_int (int (length (nodeRows st))) @ js '' node'' @ (if length (nodeRows st) = 1 then [] else js ''s'') @ js '' '')] @
            (if truthy (currentCluster st) then
             [VEl ''span'' [] []
               [VText (js '' '' @ middle_dot @ js '' RF '' @ interp (js_or (opt_prop (currentCluster st) ''replicationFactor'') (JStr em_dash)))]]
            else []))]]"

definition infra_overview_row :: "infra_view \<Rightarrow> node_row \<Rightarrow> infra_event vnode" where
  "infra_overview_row st row =
   VEl ''TableRow''
    [(''key'', JStr (n_key row)),
     (''class'', jlit ''cursor-pointer'')]
    [(''click'', On (InfraOpenRow row))]
    [VEl ''TableCell'' [] []
       ([VText (js '' '' @ interp (n_name row) @ js '' '')] @
         (if n_self row then
          [VEl ''Badge'' [(''variant'', jlit ''secondary''), (''class'', jlit ''ml-1'')] []
            [VText (js ''this'')]]
         else [])),
      VEl ''TableCell'' [(''class'', jlit ''capitalize'')] []
       [VText (interp (n_role row))],
      VEl ''TableCell'' [] []
       [VEl ''Badge'' [(''variant'', health_variant (n_healthy row))] []
          [VText (js '' '' @ health_text (n_healthy row) @ js '' '')]],
      VEl ''TableCell'' [(''class'', jlit ''max-w-[16rem] truncate font-mono text-xs'')] []
       [VText (interp (js_or (n_addr row) (JStr em_dash)))]]"

definition infra_overview_table :: "infra_view \<Rightarrow> infra_event vnode" where
  "infra_overview_table st =
   VEl ''Card'' [] []
    [VEl ''CardHeader'' [] []
       [VEl ''CardTitle'' [] []
          [VText (js ''Nodes'')],
         VEl ''CardDescription'' [] []
          [VText (js ''Select a node for details, or open the Nodes section.'')]],
      VEl ''CardContent'' [] []
       [VEl ''Table'' [] []
          [VEl ''TableHeader'' [] []
             [VEl ''TableRow'' [] []
                [VEl ''TableHead'' [] []
                   [VText (js ''Name'')],
                  VEl ''TableHead'' [] []
                   [VText (js ''Role'')],
                  VEl ''TableHead'' [] []
                   [VText (js ''Health'')],
                  VEl ''TableHead'' [] []
                   [VText (js ''Address'')]]],
            VEl ''TableBody'' [] []
             ((if nodeRows st = [] then
                [VEl ''TableRow'' [] []
                  [VEl ''TableCell''
                     [(''colspan'', jlit ''4''),
                      (''class'', jlit ''whitespace-normal text-muted-foreground'')] []
                     [VText (js '' No brokers registered yet. Add a node to this cell. '')]]]
               else []) @
               map (infra_overview_row st) (nodeRows st))]]]"

definition infra_nodes_title :: "infra_view \<Rightarrow> infra_event vnode" where
  "infra_nodes_title st =
   VEl ''div'' [(''class'', jlit ''flex flex-wrap items-center justify-between gap-2'')] []
    [VEl ''div'' [] []
       [VEl ''h2'' [(''class'', jlit ''text-base font-medium'')] []
          [VText (js ''Nodes'')],
         VEl ''p'' [(''class'', jlit ''text-sm text-muted-foreground'')] []
          [VText (js ''Brokers and other processes in this deployment'')]],
      VEl ''Button'' [(''size'', jlit ''sm'')] [(''click'', On InfraOpenAdd)]
       [VText (js ''Add node'')]]"

definition infra_node_row :: "infra_view \<Rightarrow> node_row \<Rightarrow> infra_event vnode" where
  "infra_node_row st row =
   VEl ''TableRow''
    [(''key'', JStr (n_key row)),
     (''class'', jlit ''cursor-pointer''),
     (''class'', (if i_selectedNodeKey st = n_key row then jlit ''bg-muted/70'' else JStr []))]
    [(''click'', On (InfraSelectRow row))]
    [VEl ''TableCell'' [] []
       ([VText (js '' '' @ interp (n_name row) @ js '' '')] @
         (if n_self row then
          [VEl ''Badge'' [(''variant'', jlit ''secondary''), (''class'', jlit ''ml-1'')] []
            [VText (js ''this'')]]
         else [])),
      VEl ''TableCell'' [(''class'', jlit ''capitalize'')] []
       [VText (interp (n_role row))],
      VEl ''TableCell'' [] []
       [VText (interp (n_cellLabel row))],
      VEl ''TableCell'' [] []
       [VEl ''Badge'' [(''variant'', health_variant (n_healthy row))] []
          [VText (js '' '' @ health_text (n_healthy row) @ js '' '')]]]"

definition infra_nodes_table :: "infra_view \<Rightarrow> infra_event vnode" where
  "infra_nodes_table st =
   VEl ''Card'' [] []
    [VEl ''CardContent'' [(''class'', jlit ''pt-4'')] []
       [VEl ''Table'' [] []
          [VEl ''TableHeader'' [] []
             [VEl ''TableRow'' [] []
                [VEl ''TableHead'' [] []
                   [VText (js ''Name'')],
                  VEl ''TableHead'' [] []
                   [VText (js ''Role'')],
                  VEl ''TableHead'' [] []
                   [VText (js ''Cell'')],
                  VEl ''TableHead'' [] []
                   [VText (js ''Health'')]]],
            VEl ''TableBody'' [] []
             ((if nodeRows st = [] then
                [VEl ''TableRow'' [] []
                  [VEl ''TableCell''
                     [(''colspan'', jlit ''4''),
                      (''class'', jlit ''whitespace-normal text-muted-foreground'')] []
                     [VText (js '' No nodes yet. Add a node after the process is listening. '')]]]
               else []) @
               map (infra_node_row st) (nodeRows st))]]]"

definition infra_detail_card :: "infra_view \<Rightarrow> infra_event vnode" where
  "infra_detail_card st =
   VEl ''Card'' [] []
    (if selectedRow st \<noteq> None then
       ([VEl ''CardHeader'' [] []
         [VEl ''CardTitle'' [] []
            [VText (interp (n_name (shown_row st)))],
           VEl ''CardDescription'' [(''class'', jlit ''capitalize'')] []
            [VText (interp (n_role (shown_row st)) @ js '' '' @ middle_dot @ js '' '' @ interp (n_cellLabel (shown_row st)))]],
        VEl ''CardContent'' [(''class'', jlit ''space-y-3 text-sm'')] []
         ([VEl ''div'' [] []
            [VEl ''p'' [(''class'', jlit ''text-xs text-muted-foreground'')] []
               [VText (js ''Address'')],
              VEl ''p'' [(''class'', jlit ''break-all font-mono text-xs'')] []
               [VText (interp (js_or (n_addr (shown_row st)) (JStr em_dash)))]],
           VEl ''div'' [] []
            [VEl ''p'' [(''class'', jlit ''text-xs text-muted-foreground'')] []
               [VText (js ''Health'')],
              VEl ''p'' [] []
               [VText (health_text (n_healthy (shown_row st)))]]] @
           (if truthy (opt_prop (n_broker (shown_row st)) ''id'') then
            [VEl ''div'' [] []
              [VEl ''p'' [(''class'', jlit ''text-xs text-muted-foreground'')] []
                 [VText (js ''Node ID'')],
                VEl ''p'' [(''class'', jlit ''break-all font-mono text-xs'')] []
                 [VText (interp (opt_prop (n_broker (shown_row st)) ''id''))]]]
           else []) @
           (if elems (opt_prop (n_broker (shown_row st)) ''led_shards'') \<noteq> [] then
            [VEl ''div'' [] []
              [VEl ''p'' [(''class'', jlit ''text-xs text-muted-foreground'')] []
                 [VText (js ''Led shards'')],
                VEl ''p'' [(''class'', jlit ''font-mono text-xs'')] []
                 [VText (js_join (elems (opt_prop (n_broker (shown_row st)) ''led_shards'')) (js '', ''))]]]
           else []) @
           (if shardRows st \<noteq> [] then
            [VEl ''div'' [] []
              [VEl ''p'' [(''class'', jlit ''text-xs text-muted-foreground'')] []
                 [VText (js ''Shards'')],
                VEl ''p'' [(''class'', jlit ''text-xs text-muted-foreground'')] []
                 [VText (show_int (int (length (shardRows st))) @ js '' in this cell'')]]]
           else []))] @
        (if s_isSeed (session st) \<and> truthy (n_broker (shown_row st)) \<and> \<not> n_self (shown_row st) then
         [VEl ''CardFooter'' [(''class'', jlit ''flex-wrap'')] []
           [VEl ''ActionMessage''
              [(''error'', JStr (st_error (i_detailStatus st))),
               (''ok'', JStr (st_ok (i_detailStatus st)))] [] [],
             VEl ''Button''
              [(''variant'', jlit ''destructive''),
               (''size'', jlit ''sm'')]
              [(''click'', On (InfraRemoveNode (js_or (js_or (opt_prop (n_broker (shown_row st)) ''name'') (opt_prop (n_broker (shown_row st)) ''addr'')) (n_name (shown_row st)))))]
              [VText (js '' Remove '')]]]
        else []))
      else
       [VEl ''CardHeader'' [] []
         [VEl ''CardTitle'' [] []
            [VText (js ''Details'')],
           VEl ''CardDescription'' [] []
            [VText (js ''Select a node to see address, health, and shards.'')]]])"

definition infra_cell_row :: "infra_view \<Rightarrow> jsval \<Rightarrow> infra_event vnode" where
  "infra_cell_row st cell =
   VEl ''TableRow'' [(''key'', opt_prop cell ''id'')] []
    [VEl ''TableCell'' [(''class'', jlit ''font-mono text-xs'')] []
       [VText (interp (opt_prop cell ''id''))],
      VEl ''TableCell'' [] []
       [VText (interp (js_or (opt_prop cell ''label'') (JStr em_dash)))],
      VEl ''TableCell'' [] []
       [VText (interp (js_or (opt_prop cell ''region'') (JStr em_dash)))],
      VEl ''TableCell'' [(''class'', jlit ''max-w-[16rem] truncate font-mono text-xs'')] []
       [VText (js '' '' @ interp (js_or (opt_prop cell ''controllerUrl'') (JStr em_dash)) @ js '' '')]]"

definition infra_cells_table :: "infra_view \<Rightarrow> infra_event vnode" where
  "infra_cells_table st =
   VEl ''Card'' [] []
    [VEl ''CardContent'' [(''class'', jlit ''pt-4'')] []
       [VEl ''Table'' [] []
          [VEl ''TableHeader'' [] []
             [VEl ''TableRow'' [] []
                [VEl ''TableHead'' [] []
                   [VText (js ''ID'')],
                  VEl ''TableHead'' [] []
                   [VText (js ''Label'')],
                  VEl ''TableHead'' [] []
                   [VText (js ''Region'')],
                  VEl ''TableHead'' [] []
                   [VText (js ''Controller'')]]],
            VEl ''TableBody'' [] []
             (map (infra_cell_row st) (listedCells st))]]]"

definition infra_cluster_card :: "infra_view \<Rightarrow> infra_event vnode" where
  "infra_cluster_card st =
   VEl ''Card'' [] []
    ([VEl ''CardHeader'' [] []
       [VEl ''CardTitle'' [] []
          [VText (js ''Cluster'')],
         VEl ''CardDescription'' [] []
          [VText (js ''Create a seed, then add brokers from Nodes.'')]],
      VEl ''CardContent'' [(''class'', jlit ''space-y-3'')] []
       [VEl ''p'' [(''class'', jlit ''text-sm text-muted-foreground'')] []
          ([VText (js '' Status: '' @ s_clusterLabel (session st) @ js '' '')] @
            (if truthy (currentCluster st) then
             [VEl ''span'' [] []
               [VText (js '' '' @ middle_dot @ js '' '' @ interp (js_or (opt_prop (currentCluster st) ''nodeCount'') (jint 0)) @ js '' nodes '' @ middle_dot @ js '' RF '' @ interp (js_or (opt_prop (currentCluster st) ''replicationFactor'') (JStr em_dash)) @ js '' '')]]
            else [])),
         VEl ''div'' [(''class'', jlit ''flex flex-wrap items-center gap-2'')] []
          [VEl ''Button'' [(''size'', jlit ''sm'')] [(''click'', On InfraCreateCluster)]
             [VText (js ''Create cluster'')],
            VEl ''Button''
             [(''size'', jlit ''sm''),
              (''variant'', jlit ''outline'')]
             [(''click'', On InfraSyncCluster)]
             [VText (js ''Re-sync'')],
            VEl ''ActionMessage''
             [(''error'', JStr (st_error (i_clusterStatus st))),
              (''ok'', JStr (st_ok (i_clusterStatus st)))] [] []]]] @
      (if i_joinToken st \<noteq> [] then
       [VEl ''CardFooter'' [(''class'', jlit ''block space-y-2'')] []
         [VEl ''p'' [(''class'', jlit ''text-sm font-medium'')] []
            [VText (js ''Join token '' @ em_dash @ js '' 1 hour'')],
           VEl ''pre''
            [(''class'', jlit ''overflow-x-auto rounded-2xl border bg-muted p-3 font-mono text-xs'')] []
            [VText (i_joinToken st)]]]
      else []))"

definition infra_this_node_card :: "infra_view \<Rightarrow> infra_event vnode" where
  "infra_this_node_card st =
   VEl ''Card'' [] []
    [VEl ''CardHeader'' [] []
       [VEl ''CardTitle'' [] []
          [VText (js ''This node'')],
         VEl ''CardDescription'' [] []
          [VText (js ''Name and URL other brokers use to reach this process'')]],
      VEl ''CardContent'' [(''class'', jlit ''grid gap-3'')] []
       [VEl ''Field'' [(''label'', jlit ''Node name'')] []
          [VEl ''Input''
             [(''modelValue'', JStr (i_node_name st)),
              (''placeholder'', jlit ''broker1'')]
             [(''update:modelValue'', OnValue InfraNodeName)] []],
         VEl ''Field'' [(''label'', jlit ''Public URL'')] []
          [VEl ''Input''
             [(''modelValue'', JStr (i_node_publicUrl st)),
              (''class'', jlit ''font-mono''),
              (''placeholder'', jlit ''http://localhost:8080'')]
             [(''update:modelValue'', OnValue InfraNodeUrl)] []]],
      VEl ''CardFooter'' [] []
       [VEl ''Button'' [(''size'', jlit ''sm'')] [(''click'', On InfraSaveNode)]
          [VText (js ''Save node'')],
         VEl ''ActionMessage''
          [(''error'', JStr (st_error (i_nodeStatus st))),
           (''ok'', JStr (st_ok (i_nodeStatus st)))] [] []]]"

definition infra_storage_card :: "infra_view \<Rightarrow> infra_event vnode" where
  "infra_storage_card st =
   VEl ''Card'' [] []
    [VEl ''CardHeader'' [] []
       [VEl ''CardTitle'' [] []
          [VText (js ''Storage'')],
         VEl ''CardDescription'' [] []
          [VText (js ''WAL backend for this broker'')]],
      VEl ''CardContent'' [(''class'', jlit ''grid gap-3'')] []
       ([VEl ''Field'' [(''label'', jlit ''Mode'')] []
          [VEl ''AppSelect''
             [(''modelValue'', JStr (i_st_mode st)),
              (''options'', storageOptions)]
             [(''update:modelValue'', OnValue InfraMode)] []]] @
         (if i_st_mode st = js ''slate'' then
          [VEl ''Field'' [(''label'', jlit ''Endpoint'')] []
            [VEl ''Input''
               [(''modelValue'', JStr (i_st_endpoint st)),
                (''class'', jlit ''font-mono text-xs'')]
               [(''update:modelValue'', OnValue InfraEndpoint)] []],
           VEl ''Field'' [(''label'', jlit ''Bucket'')] []
            [VEl ''Input''
               [(''modelValue'', JStr (i_st_bucket st)),
                (''class'', jlit ''font-mono'')]
               [(''update:modelValue'', OnValue InfraBucket)] []],
           VEl ''Field'' [(''label'', jlit ''Payload bucket'')] []
            [VEl ''Input''
               [(''modelValue'', JStr (i_st_payloadBucket st)),
                (''class'', jlit ''font-mono'')]
               [(''update:modelValue'', OnValue InfraPayloadBucket)] []],
           VEl ''Field'' [(''label'', jlit ''Access key'')] []
            [VEl ''Input''
               [(''modelValue'', JStr (i_st_accessKey st)),
                (''class'', jlit ''font-mono'')]
               [(''update:modelValue'', OnValue InfraAccessKey)] []],
           VEl ''Field'' [(''label'', jlit ''Secret key'')] []
            [VEl ''Input''
               [(''modelValue'', JStr (i_st_secretKey st)),
                (''type'', jlit ''password''),
                (''placeholder'', jlit ''leave blank to keep'')]
               [(''update:modelValue'', OnValue InfraSecretKey)] []],
           VEl ''Field'' [(''label'', jlit ''Region'')] []
            [VEl ''Input''
               [(''modelValue'', JStr (i_st_region st)),
                (''class'', jlit ''font-mono'')]
               [(''update:modelValue'', OnValue InfraRegion)] []]]
         else []) @
         (if i_st_test st \<noteq> [] then
          [VEl ''p'' [(''class'', jlit ''text-xs text-muted-foreground'')] []
            [VText (i_st_test st)]]
         else [])),
      VEl ''CardFooter'' [(''class'', jlit ''gap-2'')] []
       ((if i_st_mode st = js ''slate'' then
          [VEl ''Button''
            [(''variant'', jlit ''outline''),
             (''size'', jlit ''sm'')]
            [(''click'', On InfraTestS3)]
            [VText (js ''Test connection'')]]
         else []) @
         [VEl ''Button'' [(''size'', jlit ''sm'')] [(''click'', On InfraSaveStorage)]
          [VText (js ''Save storage'')],
         VEl ''ActionMessage''
          [(''error'', JStr (st_error (i_storageStatus st))),
           (''ok'', JStr (st_ok (i_storageStatus st)))] [] []])]"

definition infra_create_dialog :: "infra_view \<Rightarrow> infra_event vnode" where
  "infra_create_dialog st =
   VEl ''Dialog'' [(''open'', JBool (i_createOpen st))] [(''update:open'', OnValue InfraCreateOpen)]
    [VEl ''DialogContent'' [] []
       [VEl ''DialogHeader'' [] []
          [VEl ''DialogTitle'' [] []
             [VText (js ''Create cell'')],
            VEl ''DialogDescription'' [] []
             [VText (js '' Register another region'' @ apostrophe @ js ''s controller. This does not start VMs or join Raft. '')]],
         VEl ''div'' [(''class'', jlit ''grid gap-3'')] []
          [VEl ''Field'' [(''label'', jlit ''ID'')] []
             [VEl ''Input''
                [(''modelValue'', JStr (i_cell_id st)),
                 (''placeholder'', jlit ''eu-west'')]
                [(''update:modelValue'', OnValue InfraCellId)] []],
            VEl ''Field'' [(''label'', jlit ''Region'')] []
             [VEl ''Input''
                [(''modelValue'', JStr (i_cell_region st)),
                 (''placeholder'', jlit ''eu-west'')]
                [(''update:modelValue'', OnValue InfraCellRegion)] []],
            VEl ''Field'' [(''label'', jlit ''Controller URL'')] []
             [VEl ''Input''
                [(''modelValue'', JStr (i_cell_controllerUrl st)),
                 (''class'', jlit ''font-mono text-xs''),
                 (''placeholder'', jlit ''http://10.0.0.9:8090'')]
                [(''update:modelValue'', OnValue InfraCellUrl)] []],
            VEl ''Field'' [(''label'', jlit ''Label'')] []
             [VEl ''Input''
                [(''modelValue'', JStr (i_cell_label st)),
                 (''placeholder'', jlit ''EU'')]
                [(''update:modelValue'', OnValue InfraCellLabel)] []]],
         VEl ''DialogFooter'' [] []
          [VEl ''ActionMessage''
             [(''error'', JStr (st_error (i_cellStatus st))),
              (''ok'', JStr (st_ok (i_cellStatus st)))] [] [],
            VEl ''Button''
             [(''variant'', jlit ''outline''),
              (''size'', jlit ''sm'')]
             [(''click'', On (InfraCreateOpen (JBool False)))]
             [VText (js ''Cancel'')],
            VEl ''Button'' [(''size'', jlit ''sm'')] [(''click'', On InfraCreateCell)]
             [VText (js ''Register'')]]]]"

definition infra_attach_sheet :: "infra_view \<Rightarrow> infra_event vnode" where
  "infra_attach_sheet st =
   VEl ''Sheet'' [(''open'', JBool (i_attachOpen st))] [(''update:open'', OnValue InfraAttachOpen)]
    [VEl ''SheetContent'' [(''class'', jlit ''overflow-y-auto sm:max-w-md'')] []
       [VEl ''SheetHeader'' [] []
          [VEl ''SheetTitle'' [] []
             [VText (js ''Add node'')],
            VEl ''SheetDescription'' [] []
             [VText (js '' Start the new broker, then paste the URL this panel can open. '')]],
         VEl ''div'' [(''class'', jlit ''grid gap-3 px-4'')] []
          ([VEl ''Field'' [(''label'', jlit ''Role'')] []
             [VEl ''AppSelect''
                [(''modelValue'', JStr (i_attach_profile st)),
                 (''options'', profileOptions)]
                [(''update:modelValue'', OnValue InfraProfile)] []],
            VEl ''Field'' [(''label'', jlit ''Name'')] []
             [VEl ''Input''
                [(''modelValue'', JStr (i_attach_name st)),
                 (''placeholder'', jlit ''broker2'')]
                [(''update:modelValue'', OnValue InfraAttachName)] []],
            VEl ''Field'' [(''label'', jlit ''This panel connects here'')] []
             [VEl ''Input''
                [(''modelValue'', JStr (i_attach_reach st)),
                 (''class'', jlit ''font-mono text-xs''),
                 (''placeholder'', jlit ''http://127.0.0.1:8082'')]
                [(''update:modelValue'', OnValue InfraReach)] []],
            VEl ''div'' [(''class'', jlit ''flex items-start gap-2'')] []
             [VEl ''Checkbox''
                [(''id'', jlit ''attach-split''),
                 (''modelValue'', JBool (i_attach_split st))]
                [(''update:modelValue'', OnValue InfraSplit)] [],
               VEl ''Label''
                [(''for'', jlit ''attach-split''),
                 (''class'', jlit ''font-normal leading-5 text-foreground'')] []
                [VText (js '' Other brokers cannot use that URL '')]]] @
            (if i_attach_split st then
             [VEl ''Field''
               [(''label'', jlit ''Other brokers connect here''),
                (''hint'', jlit ''Compose DNS, not localhost.'')] []
               [VEl ''Input''
                  [(''modelValue'', JStr (i_attach_advertise st)),
                   (''class'', jlit ''font-mono text-xs''),
                   (''placeholder'', jlit ''http://broker2:8080'')]
                  [(''update:modelValue'', OnValue InfraAdvertise)] []]]
            else []) @
            (if needsToken st then
             [VEl ''Field'' [(''label'', jlit ''Join token'')] []
               [VEl ''Input''
                  [(''modelValue'', JStr (i_attach_token st)),
                   (''class'', jlit ''font-mono''),
                   (''placeholder'', jlit ''from Create cluster'')]
                  [(''update:modelValue'', OnValue InfraToken)] []]]
            else []) @
            [VEl ''p'' [(''class'', jlit ''text-xs text-muted-foreground'')] []
             [VText (profileHint st)],
            VEl ''ActionMessage''
             [(''error'', JStr (i_attach_error st)),
              (''ok'', JStr (i_attachOk st))] [] []]),
         VEl ''SheetFooter'' [] []
          [VEl ''Button''
             [(''variant'', jlit ''outline''),
              (''size'', jlit ''sm'')]
             [(''click'', On InfraProbe)]
             [VText (js ''Test connection'')],
            VEl ''Button'' [(''size'', jlit ''sm'')] [(''click'', On InfraAttach)]
             [VText (js ''Add node'')]]]]"

definition infra_template :: "infra_view \<Rightarrow> infra_event vnode list" where
  "infra_template st =
   [VEl ''div'' [(''class'', jlit ''space-y-4'')] []
     ([VEl ''div'' [] []
        [VEl ''h1'' [(''class'', jlit ''text-lg font-semibold tracking-tight'')] []
           [VText (js ''Infrastructure'')],
          VEl ''p'' [(''class'', jlit ''text-sm text-muted-foreground'')] []
           [VText (js ''Cells, brokers, storage, and replication'')]]] @
       (if i_restartMsg st \<noteq> [] then
        [VEl ''Alert'' [] []
          [VEl ''AlertTitle'' [] []
             [VText (js ''Restart required'')],
            VEl ''AlertDescription'' [] []
             [VText (i_restartMsg st)]]]
       else []) @
       (if rfBanner st \<noteq> [] \<or> i_rfMsg st \<noteq> [] then
        [VEl ''Alert'' [] []
          [VEl ''AlertTitle'' [] []
             [VText (js ''Replication'')],
            VEl ''AlertDescription'' [] []
             [VText (str_or (i_rfMsg st) (rfBanner st))]]]
       else []) @
       [VEl ''ActionMessage'' [(''error'', JStr (st_error (i_fedStatus st)))] [] [],
       VEl ''div'' [(''class'', jlit ''flex flex-col gap-6 lg:flex-row'')] []
        [VEl ''nav''
           [(''class'', jlit ''flex gap-1 overflow-x-auto lg:w-44 lg:shrink-0 lg:flex-col lg:overflow-visible'')] []
           (map (infra_section_button st) (sections)),
          VEl ''div'' [(''class'', jlit ''min-w-0 flex-1 space-y-4'')] []
           (if i_section st = SecOverview then
              [infra_kpis st,
               infra_overview_table st]
             else if i_section st = SecNodes then
              [infra_nodes_title st,
               VEl ''div'' [(''class'', jlit ''grid gap-4 xl:grid-cols-[minmax(0,1fr)_20rem]'')] []
                [infra_nodes_table st,
                  infra_detail_card st]]
             else if i_section st = SecCells then
              [VEl ''div''
                [(''class'', jlit ''flex flex-wrap items-center justify-between gap-2'')] []
                [VEl ''div'' [] []
                   [VEl ''h2'' [(''class'', jlit ''text-base font-medium'')] []
                      [VText (js ''Cells'')],
                     VEl ''p'' [(''class'', jlit ''text-sm text-muted-foreground'')] []
                      [VText (js ''Register another region'' @ apostrophe @ js ''s controller. This does not start VMs.'')]],
                  VEl ''Button''
                   [(''size'', jlit ''sm'')]
                   [(''click'', On (InfraCreateOpen (JBool True)))]
                   [VText (js ''Create cell'')]],
               infra_cells_table st]
             else if i_section st = SecCluster then
              [infra_cluster_card st]
             else if i_section st = SecThisNode then
              [infra_this_node_card st]
             else
              [infra_storage_card st])]]),
    infra_create_dialog st,
    infra_attach_sheet st]"

section \<open>Requests stay on the page's origin\<close>

lemmas infra_updates = upd_fed_def upd_cluster_def upd_cell_def upd_node_def upd_storage_def upd_detail_def
  cell_created_def attach_reset_def attach_fail_def probe_result_def attached_def note_restart_def
  cluster_created_def cluster_synced_def node_removed_def s3_tested_def s3_test_failed_def selectNode_def
  openAddNode_def drop_selection_def

text \<open>
  What the page stores of the answers is its own: the browser, the token and the theme of the session
  stay as they were.
\<close>

definition shared_part :: "infra_view \<Rightarrow> browser \<times> jstring \<times> jstring \<times> theme_mode" where
  "shared_part st = (win st, sync_part (session st))"

lemma shared_fields [simp]:
  "shared_part (st\<lparr>i_nodesByCell := m\<rparr>) = shared_part st" "shared_part (st\<lparr>i_shardsByCell := m\<rparr>) = shared_part st"
  "shared_part (st\<lparr>i_clusterByCell := m'\<rparr>) = shared_part st"
  "shared_part (clear_rf v st) = shared_part st" "shared_part (report_failed rows st) = shared_part st"
  "shared_part (upd_fed f st) = shared_part st"
  by (auto simp: shared_part_def clear_rf_def report_failed_def upd_fed_def Let_def split: list.split)

lemma shared_note_restart [simp]: "shared_part (note_restart res st) = shared_part st"
  by (simp add: note_restart_def shared_part_def)

lemma shared_refill:
  "(\<And>m st. shared_part (put m st) = shared_part st) \<Longrightarrow> shared_part (fst (refill put value res st)) = shared_part st"
  by (auto simp: refill_def split: sum.split prod.split)

lemma shared_and_then:
  "shared_part (fst x) = w \<Longrightarrow> (\<And>s. shared_part s = w \<Longrightarrow> shared_part (fst (f s)) = w) \<Longrightarrow>
   shared_part (fst (and_then x f)) = w"
  by (auto simp: and_then_def split: prod.split option.split)

lemma shared_store_fed: "shared_part (fst (store_fed nodes shards cluster st)) = shared_part st"
  unfolding store_fed_def
  by (intro shared_and_then) (auto simp: shared_refill)

lemma shared_apply_fed: "shared_part (apply_fed vs st) = shared_part st"
proof -
  have "shared_part (case x of (st1, None) \<Rightarrow> st1 | (st1, Some e) \<Rightarrow> upd_fed (fail_err e) st1) = shared_part (fst x)" for x
    by (simp split: prod.split option.split)
  then show ?thesis by (simp add: apply_fed_def shared_store_fed split: list.split)
qed

lemma win_infra [simp]:
  "win (note_restart res st) = win st" "win (apply_fed vs st) = win st"
  "win (store_status v st) = win st" "win (store_config v st) = win st"
  using shared_apply_fed [of vs st]
  by (simp_all add: note_restart_def shared_part_def store_status_def store_config_def Let_def)

lemma sync_infra [simp]:
  "sync_part (session (note_restart res st)) = sync_part (session st)"
  "sync_part (session (apply_fed vs st)) = sync_part (session st)"
  "sync_part (session (store_status v st)) = sync_part (session st)"
  "sync_part (session (store_config v st)) = sync_part (session st)"
  using shared_apply_fed [of vs st]
  by (simp_all add: note_restart_def shared_part_def store_status_def store_config_def Let_def)
    (simp add: sync_part_def)

lemma stays_loadFed [stays_intros]: "stays (on_page b0) (own_origin b0) loadFed"
  by (auto simp: loadFed_def infra_updates intro!: stays_intros)

lemma stays_loadInfra [stays_intros]: "stays (on_page b0) (own_origin b0) loadInfra"
  by (auto simp: loadInfra_def load_config_def intro!: stays_intros)

lemma stays_infra_load [stays_intros]: "stays (on_page b0) (own_origin b0) load"
  by (auto simp: load_def infra_updates intro!: stays_intros)

lemma stays_then_reload [stays_intros]:
  "stays (on_page b0) (own_origin b0) p \<Longrightarrow> (\<And>e s. win (report e s) = win s) \<Longrightarrow>
   stays (on_page b0) (own_origin b0) (then_reload p report)"
  by (auto simp: then_reload_def intro!: stays_intros)

lemmas infra_actions = createCell_def probe_def attachNode_def createCluster_def syncCluster_def
  removeNode_def saveNode_def testS3_def saveStorage_def

interpretation infra_page: page_script infra_handler
proof
  show "stays (on_page b0) (own_origin b0) (infra_handler e)" for b0 e
    by (cases e) (auto simp: infra_actions infra_updates Let_def intro!: stays_intros)
qed

lemma stays_infra_loads_sync [stays_intros]:
  "stays (synced b0) (\<lambda>_. True) loadFed" "stays (synced b0) (\<lambda>_. True) loadInfra"
  by (auto simp: loadFed_def loadInfra_def load_config_def infra_updates api_defs intro!: stays_intros)

lemma stays_infra_load_sync [stays_intros]: "stays (synced b0) (\<lambda>_. True) load"
  by (auto simp: load_def infra_updates api_defs intro!: stays_intros)

lemma stays_then_reload_sync [stays_intros]:
  "stays (synced b0) (\<lambda>_. True) p \<Longrightarrow>
   (\<And>e s. win (report e s) = win s \<and> sync_part (session (report e s)) = sync_part (session s)) \<Longrightarrow>
   stays (synced b0) (\<lambda>_. True) (then_reload p report)"
  by (auto simp: then_reload_def intro!: stays_intros)

interpretation infra_sync: synced_script infra_handler
proof
  show "stays (synced b0) (\<lambda>_. True) (infra_handler e)" for b0 e
    by (cases e) (auto simp: infra_actions infra_updates sync_simps Let_def intro!: stays_intros)
qed

section \<open>What the page writes\<close>

text \<open>
  The page posts to the admin API (cells, probes, attached nodes) and to the broker's infrastructure
  endpoints; the storage it saves is local or an object store with a secret key that is never empty.
\<close>

definition storage_ok :: "payload \<Rightarrow> bool" where
  "storage_ok pl \<longleftrightarrow>
     (\<exists>mode. obj_get pl (js ''mode'') = Some (JStr mode) \<and>
        (if mode = js ''slate''
         then (\<exists>s3 k. obj_get pl (js ''s3'') = Some (JObj s3) \<and> obj_get s3 (js ''secretKey'') = Some (JStr k) \<and> k \<noteq> [])
         else obj_get pl (js ''s3'') = None))"

definition infra_writes :: "browser \<Rightarrow> policy" where
  "infra_writes b m url body \<longleftrightarrow>
     (\<exists>pl. body = request_data (JObj pl) \<and>
        (m = POST \<and> url \<in> {adminUrl (js ''/cells'') b, adminUrl (js ''/probe'') b, adminUrl (js ''/attach'') b} \<or>
         m = POST \<and> url \<in> {publicUrl (js ''/v1/infra/cluster/create'') b, publicUrl (js ''/v1/infra/cluster/sync'') b,
            publicUrl (js ''/v1/infra/cluster/remove-node'') b, publicUrl (js ''/v1/infra/storage/test'') b} \<or>
         m = PUT \<and> url = publicUrl (js ''/v1/infra/node'') b \<or>
         m = PUT \<and> url = publicUrl (js ''/v1/infra/storage'') b \<and> storage_ok pl))"

lemma infra_writes_post:
  "path \<in> {js ''/cells'', js ''/probe'', js ''/attach''} \<Longrightarrow> infra_writes b POST (adminUrl path b) (request_data (JObj pl))"
  "path \<in> {js ''/v1/infra/cluster/create'', js ''/v1/infra/cluster/sync'', js ''/v1/infra/cluster/remove-node'',
      js ''/v1/infra/storage/test''} \<Longrightarrow> infra_writes b POST (publicUrl path b) (request_data (JObj pl))"
  unfolding infra_writes_def by blast+

lemma infra_writes_node: "infra_writes b PUT (publicUrl (js ''/v1/infra/node'') b) (request_data (JObj pl))"
  unfolding infra_writes_def by blast

lemma masked_secret_nonempty: "masked_secret \<noteq> []"
  by code_simp

lemma storage_body_ok: "storage_ok (storage_body st)"
  using masked_secret_nonempty
  by (auto simp: storage_ok_def storage_body_def secret_field_def str_or_def Let_def)

lemma infra_writes_storage:
  "infra_writes b PUT (publicUrl (js ''/v1/infra/storage'') b) (request_data (JObj (storage_body st)))"
  using storage_body_ok [of st] unfolding infra_writes_def by blast

lemma sends_infra_loads [stays_intros]: "sends_only b0 W loadFed" "sends_only b0 W loadInfra"
  by (auto simp: loadFed_def loadInfra_def load_config_def infra_updates intro!: stays_intros)

lemma sends_infra_load [stays_intros]: "sends_only b0 W load"
  by (auto simp: load_def infra_updates intro!: stays_intros)

lemma sends_then_reload [stays_intros]:
  "sends_only b0 W p \<Longrightarrow> (\<And>e s. win (report e s) = win s) \<Longrightarrow> sends_only b0 W (then_reload p report)"
  by (auto simp: then_reload_def intro!: stays_intros)

interpretation infra_policy: policed_script infra_writes infra_handler
proof
  show "sends_only b0 (infra_writes b0) (infra_handler e)" for b0 e
    by (cases e) (auto simp: infra_actions infra_updates Let_def
        intro!: stays_intros infra_writes_post infra_writes_node infra_writes_storage)
qed

section \<open>The table of the nodes\<close>

text \<open>The brokers that were reported for a cell.\<close>

definition brokers_at :: "infra_view \<Rightarrow> jsval \<Rightarrow> jsval list" where
  "brokers_at st i = elems (js_or (table_get (i_nodesByCell st) i) (JArr []))"

lemma plain_addr_or [simp]: "plain_addr (js_or a (JStr [])) = plain_addr a"
  by (simp add: plain_addr_def js_or_def)

lemma seen_iff:
  "\<not> (u \<noteq> [] \<and> u \<in> set (filter (\<lambda>a. a \<noteq> []) (map f ns))) \<longleftrightarrow> u = [] \<or> (\<forall>n\<in>set ns. f n \<noteq> u)"
  by auto

lemma set_cell_rows:
  "set (cell_rows st cell) =
     broker_row cell ` set (brokers_at st (opt_prop cell ''id'')) \<union>
     member_row cell ` {m \<in> set (s_members (session st)). strict_eq (opt_prop m ''cellId'') (opt_prop cell ''id'') \<and>
       (plain_addr (opt_prop m ''reachUrl'') = [] \<or>
        (\<forall>n\<in>set (brokers_at st (opt_prop cell ''id'')). plain_addr (opt_prop n ''addr'') \<noteq> plain_addr (opt_prop m ''reachUrl'')))}"
  unfolding cell_rows_def Let_def brokers_at_def [symmetric] seen_iff
  by (simp add: conj_assoc)

lemma broker_row_fields [simp]:
  "n_broker (broker_row cell n) = n" "n_member (broker_row cell n) = JUndef"
  "n_cellId (broker_row cell n) = opt_prop cell ''id''" "n_addr (broker_row cell n) = js_or (opt_prop n ''addr'') (JStr [])"
  by (simp_all add: broker_row_def)

lemma member_row_fields [simp]:
  "n_broker (member_row cell m) = JUndef" "n_member (member_row cell m) = m"
  "n_cellId (member_row cell m) = opt_prop cell ''id''" "n_addr (member_row cell m) = opt_prop m ''reachUrl''"
  by (simp_all add: member_row_def)

lemma nodeRows_iff: "row \<in> set (nodeRows st) \<longleftrightarrow> (\<exists>cell\<in>set (listedCells st). row \<in> set (cell_rows st cell))"
  by (simp add: nodeRows_def)

lemma member_row_apart:
  assumes "r \<in> set (nodeRows st)" and "n_member r \<noteq> JUndef" and "plain_addr (n_addr r) \<noteq> []"
    and "n \<in> set (brokers_at st (n_cellId r))"
  shows "plain_addr (opt_prop n ''addr'') \<noteq> plain_addr (n_addr r)"
  using assms by (auto simp: nodeRows_iff set_cell_rows)

lemma broker_row_from:
  assumes "r \<in> set (nodeRows st)" and "n_broker r \<noteq> JUndef"
  shows "n_broker r \<in> set (brokers_at st (n_cellId r)) \<and> plain_addr (n_addr r) = plain_addr (opt_prop (n_broker r) ''addr'')"
  using assms by (auto simp: nodeRows_iff set_cell_rows)

text \<open>
  C16: every process of a listed cell is in the table of the nodes, once. A broker that was reported for the
  cell has a row. A registered member of the cell has a row, or a broker of the cell has its address. And
  within a cell no row of a member has the address of a row of a broker.
\<close>

theorem node_rows_once:
  assumes "cell \<in> set (listedCells st)"
  shows "(\<forall>n\<in>set (brokers_at st (opt_prop cell ''id'')).
       \<exists>r\<in>set (nodeRows st). n_broker r = n \<and> n_cellId r = opt_prop cell ''id'') \<and>
     (\<forall>m\<in>set (s_members (session st)). strict_eq (opt_prop m ''cellId'') (opt_prop cell ''id'') \<longrightarrow>
       (\<exists>r\<in>set (nodeRows st). n_member r = m \<and> n_cellId r = opt_prop cell ''id'') \<or>
       (\<exists>n\<in>set (brokers_at st (opt_prop cell ''id'')). plain_addr (opt_prop n ''addr'') = plain_addr (opt_prop m ''reachUrl''))) \<and>
     (\<forall>r\<in>set (nodeRows st). \<forall>r'\<in>set (nodeRows st). n_cellId r = n_cellId r' \<and> n_broker r \<noteq> JUndef \<and>
       n_member r' \<noteq> JUndef \<and> plain_addr (n_addr r') \<noteq> [] \<longrightarrow> plain_addr (n_addr r) \<noteq> plain_addr (n_addr r'))"
proof (intro conjI ballI impI)
  fix n assume "n \<in> set (brokers_at st (opt_prop cell ''id''))"
  then show "\<exists>r\<in>set (nodeRows st). n_broker r = n \<and> n_cellId r = opt_prop cell ''id''"
    using assms by (intro bexI [of _ "broker_row cell n"]) (auto simp: nodeRows_iff set_cell_rows)
next
  fix m assume m: "m \<in> set (s_members (session st))" "strict_eq (opt_prop m ''cellId'') (opt_prop cell ''id'')"
  show "(\<exists>r\<in>set (nodeRows st). n_member r = m \<and> n_cellId r = opt_prop cell ''id'') \<or>
    (\<exists>n\<in>set (brokers_at st (opt_prop cell ''id'')). plain_addr (opt_prop n ''addr'') = plain_addr (opt_prop m ''reachUrl''))"
  proof (rule disjCI)
    assume "\<not> (\<exists>n\<in>set (brokers_at st (opt_prop cell ''id'')). plain_addr (opt_prop n ''addr'') = plain_addr (opt_prop m ''reachUrl''))"
    then have "member_row cell m \<in> set (cell_rows st cell)" using m by (auto simp: set_cell_rows)
    then show "\<exists>r\<in>set (nodeRows st). n_member r = m \<and> n_cellId r = opt_prop cell ''id''"
      using assms by (intro bexI [of _ "member_row cell m"]) (auto simp: nodeRows_iff)
  qed
next
  fix r r' assume "r \<in> set (nodeRows st)" "r' \<in> set (nodeRows st)"
    and "n_cellId r = n_cellId r' \<and> n_broker r \<noteq> JUndef \<and> n_member r' \<noteq> JUndef \<and> plain_addr (n_addr r') \<noteq> []"
  then show "plain_addr (n_addr r) \<noteq> plain_addr (n_addr r')"
    using broker_row_from [of r st] member_row_apart [of r' st "n_broker r"] by simp
qed
theorem node_rows_once_witness:
  "\<exists>r\<in>set (nodeRows ((infra_init (\<lambda>_. True) (panel_init (fresh_page (js ''http://a''))))
       \<lparr>i_nodesByCell := [(js ''local'', JArr [JObj [(js ''addr'', jlit ''http://b'')]])]\<rparr>)).
     n_broker r = JObj [(js ''addr'', jlit ''http://b'')]"
proof -
  let ?st = "(infra_init (\<lambda>_. True) (panel_init (fresh_page (js ''http://a''))))
       \<lparr>i_nodesByCell := [(js ''local'', JArr [JObj [(js ''addr'', jlit ''http://b'')]])]\<rparr>"
  have "listedCells ?st = [local_cell]"
    by (simp add: listedCells_def infra_init_def panel.defs panel_init_def session_init_def split: prod.split)
  moreover have "brokers_at ?st (opt_prop local_cell ''id'') = [JObj [(js ''addr'', jlit ''http://b'')]]"
  proof -
    have "to_string (opt_prop local_cell ''id'') = js ''local''" by code_simp
    then show ?thesis by (simp add: brokers_at_def table_get_def)
  qed
  ultimately show ?thesis using node_rows_once [of local_cell ?st] by auto
qed

end
