(* ===== verification/View_Http.thy ===== *)
theory View_Http
  imports Panel_Layout
begin

text \<open>
  \<open>views/HttpView.vue\<close>: the outbound defaults and the blocked destinations, with the text of the time a
  host stays blocked.
\<close>

section \<open>Script\<close>

record http_view = panel +
  h_host :: jstring
  h_minutes :: jsval
  h_blocked :: "jsval list"
  h_loadStatus :: action_status
  h_blockStatus :: action_status

definition http_init :: "panel \<Rightarrow> http_view" where
  "http_init p = panel.extend p (http_view.fields [] (jint 30) [] useActionStatus useActionStatus)"

definition upd_load :: "(action_status \<Rightarrow> action_status) \<Rightarrow> http_view \<Rightarrow> http_view" where
  "upd_load f st = st\<lparr>h_loadStatus := f (h_loadStatus st)\<rparr>"

definition upd_block :: "(action_status \<Rightarrow> action_status) \<Rightarrow> http_view \<Rightarrow> http_view" where
  "upd_block f st = st\<lparr>h_blockStatus := f (h_blockStatus st)\<rparr>"

definition hosts_of :: "jsval \<Rightarrow> jserr + jsval list" where
  "hosts_of d =
     (case d of
        JArr xs \<Rightarrow> Inr xs
      | _ \<Rightarrow> (case get_prop d ''hosts'' of
                Inl e \<Rightarrow> Inl e
              | Inr v \<Rightarrow> Inr (elems (js_or v (JArr [])))))"

definition load :: "http_view proc" where
  "load =
     Do (upd_load reset) (Read (\<lambda>st.
       try_await (apiGet (publicUrl (js ''/v1/destinations/blocked'') (win st)))
         (\<lambda>d. try_value (hosts_of d)
            (\<lambda>xs. Do (\<lambda>st. st\<lparr>h_blocked := xs\<rparr>) return_undef)
            (\<lambda>e. Do (upd_load (fail_err e)) return_undef))
         (\<lambda>e. Do (upd_load (fail_err e)) return_undef)))"

definition block_ms :: "jsval \<Rightarrow> jsnum" where
  "block_ms minutes = num_scale 1000 (num_scale 60 (number_or minutes 30))"

definition block_body :: "jstring \<Rightarrow> jsval \<Rightarrow> payload" where
  "block_body h minutes = [(js ''host'', JStr h), (js ''duration_ms'', JNum (block_ms minutes))]"

definition block :: "http_view proc" where
  "block =
     Do (upd_block reset) (Read (\<lambda>st.
       let h = trim (h_host st) in
       if h = [] then Do (upd_block (fail_msg (js ''Host or URL required''))) return_undef
       else try_await (apiPost (publicUrl (js ''/v1/destinations/block'') (win st))
              (JObj (block_body h (h_minutes st))))
         (\<lambda>res. try_value (get_prop res ''host'')
            (\<lambda>b. Read (\<lambda>st. Do (upd_block (succeed (js ''Blocked '' @ to_string (js_or b (JStr h)) @
                       js '' for '' @ to_string (h_minutes st) @ js ''m'')))
               (Do (\<lambda>st. st\<lparr>h_host := []\<rparr>)
                 (try_await load (\<lambda>_. return_undef)
                    (\<lambda>e. Do (upd_block (fail_err e)) return_undef)))))
            (\<lambda>e. Do (upd_block (fail_err e)) return_undef))
         (\<lambda>e. Do (upd_block (fail_err e)) return_undef)))"

definition unblock :: "jsval \<Rightarrow> http_view proc" where
  "unblock h =
     Do (upd_block reset) (Read (\<lambda>st.
       try_await (apiPost (publicUrl (js ''/v1/destinations/unblock'') (win st)) (JObj [(js ''host'', h)]))
         (\<lambda>_. Do (upd_block (succeed (js ''Unblocked '' @ to_string h)))
            (try_await load (\<lambda>_. return_undef)
               (\<lambda>e. Do (upd_block (fail_err e)) return_undef)))
         (\<lambda>e. Do (upd_block (fail_err e)) return_undef)))"

definition remaining_ms :: "jsval \<Rightarrow> jsval" where
  "remaining_ms h =
     js_coalesce (js_coalesce (opt_prop h ''remaining_ms'') (opt_prop h ''remaining'')) (jint 0)"

definition remaining :: "jsval \<Rightarrow> jstring" where
  "remaining h =
     (let v = remaining_ms h; ms = to_number v in
      if \<not> truthy v then em_dash
      else if num_less ms (Num 60000) then num_string (num_ceil (num_div ms 1000)) @ js ''s''
      else if num_less ms (Num 3600000) then num_string (num_ceil (num_div ms 60000)) @ js ''m''
      else to_fixed1 (num_div ms 3600000) @ js ''h'')"

definition method_options :: jsval where
  "method_options = JArr (map (\<lambda>m. JObj [(js ''value'', jlit m), (js ''label'', jlit m)])
     [''POST'', ''GET'', ''PUT'', ''PATCH'', ''DELETE''])"

datatype http_event =
    HttpMounted
  | HttpMethod jsval
  | HttpSign jsval
  | HttpHeaders jsval
  | HttpHost jsval
  | HttpMinutes jsval
  | HttpBlock
  | HttpLoad
  | HttpUnblock jsval

fun http_handler :: "http_event \<Rightarrow> http_view proc" where
  "http_handler HttpMounted = Spawn load return_undef"
| "http_handler (HttpMethod v) = Do (upd_outbound (\<lambda>b. b\<lparr>o_method := to_string v\<rparr>)) return_undef"
| "http_handler (HttpSign v) = Do (upd_outbound (\<lambda>b. b\<lparr>o_sign := truthy v\<rparr>)) return_undef"
| "http_handler (HttpHeaders v) = Do (upd_outbound (\<lambda>b. b\<lparr>o_headers := to_string v\<rparr>)) return_undef"
| "http_handler (HttpHost v) = Do (\<lambda>st. st\<lparr>h_host := to_string v\<rparr>) return_undef"
| "http_handler (HttpMinutes v) = Do (\<lambda>st. st\<lparr>h_minutes := v\<rparr>) return_undef"
| "http_handler HttpBlock = block"
| "http_handler HttpLoad = load"
| "http_handler (HttpUnblock h) = unblock h"

section \<open>Template\<close>

definition http_outbound_card :: "http_view \<Rightarrow> http_event vnode" where
  "http_outbound_card st =
   VEl ''Card'' [] []
    [VEl ''CardHeader'' [] []
       [VEl ''CardTitle'' [] []
          [VText (js ''Outbound defaults'')],
         VEl ''CardDescription'' [] []
          [VText (js ''Applied to publish & enqueue from the panel'')]],
      VEl ''CardContent'' [(''class'', jlit ''grid gap-3 sm:grid-cols-2'')] []
       [VEl ''Field'' [(''label'', jlit ''Method'')] []
          [VEl ''AppSelect''
             [(''modelValue'', JStr (o_method (outbound st))),
              (''options'', method_options)]
             [(''update:modelValue'', OnValue HttpMethod)] []],
         VEl ''div'' [(''class'', jlit ''flex items-center gap-2 self-end'')] []
          [VEl ''Checkbox''
             [(''id'', jlit ''hmac-sign''),
              (''modelValue'', JBool (o_sign (outbound st)))]
             [(''update:modelValue'', OnValue HttpSign)] [],
            VEl ''Label''
             [(''for'', jlit ''hmac-sign''),
              (''class'', jlit ''font-normal text-foreground'')] []
             [VText (js ''HMAC signature'')]],
         VEl ''Field''
          [(''label'', jlit ''Headers (JSON)''),
           (''class'', jlit ''sm:col-span-2'')] []
          [VEl ''Textarea''
             [(''modelValue'', JStr (o_headers (outbound st))),
              (''class'', jlit ''font-mono text-xs''),
              (''rows'', jlit ''5''),
              (''placeholder'', JStr (js ''{'' @ [0x22] @ js ''Authorization'' @ [0x22] @ js '':'' @ [0x22] @ js ''Bearer '' @ ellipsis @ [0x22] @ js ''}''))]
             [(''update:modelValue'', OnValue HttpHeaders)] []]]]"

definition http_row :: "http_view \<Rightarrow> jsval \<Rightarrow> http_event vnode" where
  "http_row st h =
   VEl ''TableRow'' [(''key'', opt_prop h ''host'')] []
    [VEl ''TableCell'' [(''class'', jlit ''font-mono text-xs'')] []
       [VText (interp (opt_prop h ''host''))],
      VEl ''TableCell'' [] []
       [VText (remaining h)],
      VEl ''TableCell'' [] []
       [VEl ''Button''
          [(''size'', jlit ''sm''),
           (''variant'', jlit ''success'')]
          [(''click'', On (HttpUnblock (opt_prop h ''host'')))]
          [VText (js ''Unblock'')]]]"

definition http_template :: "http_view \<Rightarrow> http_event vnode list" where
  "http_template st =
   [VEl ''div'' [(''class'', jlit ''space-y-4'')] []
     [VEl ''div'' [] []
        [VEl ''h1'' [(''class'', jlit ''text-lg font-semibold tracking-tight'')] []
           [VText (js ''HTTP'')],
          VEl ''p'' [(''class'', jlit ''text-sm text-muted-foreground'')] []
           [VText (js ''Outbound webhook defaults and delivery circuit-breaker controls.'')]],
       http_outbound_card st,
       VEl ''Card'' [] []
        [VEl ''CardHeader'' [] []
           [VEl ''CardTitle'' [] []
              [VText (js ''Blocked destinations'')],
             VEl ''CardDescription'' [] []
              [VText (js ''Hosts paused after transport failures'')]],
          VEl ''CardContent'' [(''class'', jlit ''space-y-4'')] []
           [VEl ''div'' [(''class'', jlit ''flex flex-wrap items-end gap-3'')] []
              [VEl ''Field''
                 [(''label'', jlit ''Host or URL''),
                  (''class'', jlit ''min-w-64 flex-1'')] []
                 [VEl ''Input''
                    [(''modelValue'', JStr (h_host st)),
                     (''class'', jlit ''font-mono text-xs''),
                     (''placeholder'', jlit ''https://api.example.com'')]
                    [(''update:modelValue'', OnValue HttpHost)] []],
                VEl ''Field'' [(''label'', jlit ''Minutes'')] []
                 [VEl ''Input''
                    [(''modelValue'', h_minutes st),
                     (''type'', jlit ''number''),
                     (''min'', jlit ''1'')]
                    [(''update:modelValue'', OnValue HttpMinutes)] []],
                VEl ''Button''
                 [(''variant'', jlit ''warning''),
                  (''size'', jlit ''sm'')]
                 [(''click'', On HttpBlock)]
                 [VText (js ''Block'')],
                VEl ''Button''
                 [(''variant'', jlit ''ghost''),
                  (''size'', jlit ''sm'')]
                 [(''click'', On HttpLoad)]
                 [VText (js ''Refresh'')],
                VEl ''ActionMessage''
                 [(''error'', JStr (str_or (st_error (h_blockStatus st)) (st_error (h_loadStatus st)))),
                  (''ok'', JStr (st_ok (h_blockStatus st)))] [] []],
             VEl ''Table'' [] []
              [VEl ''TableHeader'' [] []
                 [VEl ''TableRow'' [] []
                    [VEl ''TableHead'' [] []
                       [VText (js ''Host'')],
                      VEl ''TableHead'' [] []
                       [VText (js ''Remaining'')],
                      VEl ''TableHead'' [] [] []]],
                VEl ''TableBody'' [] []
                 (map (http_row st) (h_blocked st))]]]]]"

section \<open>Requests stay on the page's origin\<close>

lemmas http_updates = upd_load_def upd_block_def

lemma stays_http_load [stays_intros]: "stays (on_page b0) (own_origin b0) load"
  by (auto simp: load_def http_updates Let_def intro!: stays_intros)

interpretation http_page: page_script http_handler
proof
  show "stays (on_page b0) (own_origin b0) (http_handler e)" for b0 e
    by (cases e) (auto simp: block_def unblock_def http_updates Let_def intro!: stays_intros)
qed

lemma stays_http_load_sync [stays_intros]: "stays (synced b0) (\<lambda>_. True) load"
  by (auto simp: load_def http_updates Let_def sync_simps intro!: stays_intros)

interpretation http_sync: synced_script http_handler
proof
  show "stays (synced b0) (\<lambda>_. True) (http_handler e)" for b0 e
    by (cases e) (auto simp: sync_simps block_def unblock_def http_updates Let_def intro!: stays_intros)
qed

section \<open>What the page writes\<close>

text \<open>The page blocks a host that is named, for a time that is neither zero nor unreadable, and unblocks hosts.\<close>

definition http_writes :: "browser \<Rightarrow> policy" where
  "http_writes b m url body \<longleftrightarrow>
     m = POST \<and> url = publicUrl (js ''/v1/destinations/block'') b \<and>
       (\<exists>h n. h \<noteq> [] \<and> n \<notin> {NaN, Num 0} \<and>
          body = request_data (JObj [(js ''host'', JStr h), (js ''duration_ms'', JNum (num_scale 1000 (num_scale 60 n)))])) \<or>
     m = POST \<and> url = publicUrl (js ''/v1/destinations/unblock'') b \<and>
       (\<exists>h. body = request_data (JObj [(js ''host'', h)]))"

lemma http_writes_block:
  "trim h \<noteq> [] \<Longrightarrow>
   http_writes b POST (publicUrl (js ''/v1/destinations/block'') b) (request_data (JObj (block_body (trim h) v)))"
proof -
  assume h: "trim h \<noteq> []"
  have "number_or v 30 \<notin> {NaN, Num 0}" by (simp add: number_or_truthy)
  with h show ?thesis unfolding http_writes_def block_body_def block_ms_def by blast
qed

lemma http_writes_unblock:
  "http_writes b POST (publicUrl (js ''/v1/destinations/unblock'') b) (request_data (JObj [(js ''host'', h)]))"
  unfolding http_writes_def by blast

lemma sends_http_load [stays_intros]: "sends_only b0 W load"
  by (auto simp: load_def http_updates Let_def intro!: stays_intros)

interpretation http_policy: policed_script http_writes http_handler
proof
  show "sends_only b0 (http_writes b0) (http_handler e)" for b0 e
    by (cases e) (auto simp: block_def unblock_def http_updates Let_def
        intro!: stays_intros http_writes_block http_writes_unblock)
qed

section \<open>Properties\<close>

text \<open>A number of milliseconds in units of \<open>d\<close>, rounded up.\<close>

lemma ceil_units:
  assumes "0 < ms" and "ms < 3600000" and "d = 1000 \<or> d = 60000"
  shows "\<exists>m. num_string (num_ceil (num_div (Num (of_int ms)) d)) = show_int m \<and> 1 \<le> m \<and>
     ms \<le> int d * m \<and> int d * (m - 1) < ms"
proof -
  define m where "m = \<lceil>of_int ms / of_int (int d) :: rat\<rceil>"
  have d: "0 < d" "d \<le> 100000" using assms(3) by auto
  have q: "ms \<le> int d * m" "int d * (m - 1) < ms"
    unfolding m_def using ceil_quotient [of "int d" ms] d by simp_all
  have m1: "1 \<le> m"
  proof (rule ccontr)
    assume "\<not> 1 \<le> m"
    then have "int d * m \<le> 0" using d by (simp add: mult_le_0_iff)
    then show False using q(1) assms(1) by simp
  qed
  have m2: "m \<le> 2 ^ 53"
  proof -
    have "1 * (m - 1) \<le> int d * (m - 1)" using d m1 by (intro mult_right_mono) simp_all
    then show ?thesis using q(2) assms(2) by simp
  qed
  have "of_int ms / of_nat d < (2 ^ 30 :: rat)"
  proof -
    have "(of_int ms :: rat) < of_int 3600000" using assms(2) by (simp only: of_int_less_iff)
    then have "of_int ms / of_nat d < (3600000 :: rat)" using d assms(1)
      by (simp add: divide_less_eq)
    then show ?thesis by simp
  qed
  then have "num_ceil (num_div (Num (of_int ms)) d) = Num (of_int m)"
    using ceil_div_exact [of ms d] assms(1) d by (simp add: m_def)
  then have "num_string (num_ceil (num_div (Num (of_int ms)) d)) = show_int m"
    using m1 m2 by (simp del: of_int_le_iff)
  then show ?thesis using m1 q by blast
qed




text \<open>Loading the blocked hosts catches what goes wrong, and leaves the line of the block form alone.\<close>

lemma sequential_load [simp]: "sequential load"
  by (auto simp: load_def api_defs Let_def intro!: sequential_try_await sequential_try_value)

lemma run_load: "fst (run srv load s w) = Inr JUndef \<and> h_blockStatus (fst (snd (run srv load s w))) = h_blockStatus s"
proof -
  have "h_blockStatus (fst (snd (run srv load s w))) = h_blockStatus s"
    by (rule run_frames) (auto simp: load_def api_defs upd_load_def upd_win_def intro!: frames_try_await frames_try_value frames_request)
  moreover have "fst (run srv load s w) = Inr JUndef"
    by (auto simp: load_def run_try_await api_defs Let_def try_value_def split: prod.split sum.split)
  ultimately show ?thesis by simp
qed

lemma block_ms_default: "to_number v \<in> {NaN, Num 0} \<Longrightarrow> block_ms v = Num 1800000"
proof -
  have "num_scale 1000 (num_scale 60 (Num 30)) = Num 1800000"
    using fl_of_nat [of 1800] fl_of_nat [of 1800000] by simp
  then show "to_number v \<in> {NaN, Num 0} \<Longrightarrow> block_ms v = Num 1800000"
    by (auto simp: block_ms_def number_or_def Let_def)
qed

lemma block_adv:
  assumes "win st = fresh_page u" and "trim (h_host st) = h" and "h \<noteq> []"
  shows "\<exists>r s1 k. adv block st = (s1, Await (Fetch r) k, []) \<and>
     req_body r = request_data (JObj (block_body h (h_minutes st)))"
  using assms by (simp add: block_def apiPost_def api_request_def fresh_headers try_await_def upd_block_def Let_def)

lemma run_block:
  assumes "win st = fresh_page u" and "trim (h_host st) = h" and "h \<noteq> []"
    and ok: "\<And>r w. \<exists>w'. srv (Fetch r) w = (Response 200 [] (Inr (js ''{}'')), w')"
  shows "st_ok (h_blockStatus (fst (snd (run srv block st w)))) =
     js ''Blocked '' @ h @ js '' for '' @ to_string (h_minutes st) @ js ''m''"
proof -
  have f: "json_parse [123, 125] = Some (JObj [])" by code_simp
  have g: "get_prop (JObj []) ''host'' = Inr JUndef" by code_simp
  let ?s1 = "upd_block reset st"
  have s1: "win ?s1 = fresh_page u" "h_minutes ?s1 = h_minutes st" "trim (h_host ?s1) = h"
    using assms by (simp_all add: upd_block_def)
  let ?s2 = "upd_win (\<lambda>_. fresh_page u) ?s1"
  let ?b = "request_data (JObj (block_body h (h_minutes st)))"
  obtain w1 where w1: "srv (Fetch \<lparr>req_url = publicUrl (js ''/v1/destinations/block'') (fresh_page u), req_method = POST,
          req_headers = (if opt_or ?b [] \<noteq> [] then [(js ''Content-Type'', js ''application/json'')] else []),
          req_body = ?b\<rparr>) w = (Response 200 [] (Inr (js ''{}'')), w1)"
    using ok by blast
  have p: "run srv (apiPost (publicUrl (js ''/v1/destinations/block'') (win ?s1)) (JObj (block_body h (h_minutes ?s1)))) ?s1 w
     = (Inr (JObj []), ?s2, w1)"
    using w1 s1
    by (simp add: apiPost_def api_request_def fresh_headers settle_def status_ok_def parse_response_def f js_Cons Let_def)
  have m: "h_minutes ?s2 = h_minutes st" using s1 by (simp add: upd_win_def)
  let ?s3 = "(upd_block (succeed (js ''Blocked '' @ h @ js '' for '' @ to_string (h_minutes st) @ js ''m'')) ?s2)\<lparr>h_host := []\<rparr>"
  obtain s4 w4 where l: "run srv load ?s3 w1 = (Inr JUndef, s4, w4)" and h4: "h_blockStatus s4 = h_blockStatus ?s3"
    using run_load [of srv ?s3 w1] by (cases "run srv load ?s3 w1") auto
  have "run srv block st w = (Inr JUndef, s4, w4)"
    unfolding block_def run_simps Let_def s1(3)
    using assms(3) by (simp add: run_try_await p m l g js_or_def)
  then show ?thesis using h4 by (simp add: upd_block_def succeed_def)
qed

text \<open>
  C36: the confirmation of a block need not name the time that was asked for. With the minutes zero, empty or
  not a number the request blocks the host for thirty minutes (1800000 milliseconds), but the confirmation
  repeats the field.
\<close>

theorem block_minutes_misreported:
  assumes "win st = fresh_page u" and "trim (h_host st) = h" and "h \<noteq> []"
    and "to_number (h_minutes st) \<in> {NaN, Num 0}"
    and "\<And>r w. \<exists>w'. srv (Fetch r) w = (Response 200 [] (Inr (js ''{}'')), w')"
  shows "(\<exists>r s1 k. adv block st = (s1, Await (Fetch r) k, []) \<and>
       req_body r = request_data (JObj [(js ''host'', JStr h), (js ''duration_ms'', JNum (Num 1800000))])) \<and>
     st_ok (h_blockStatus (fst (snd (run srv block st w)))) =
       js ''Blocked '' @ h @ js '' for '' @ to_string (h_minutes st) @ js ''m''"
proof -
  have "block_body h (h_minutes st) = [(js ''host'', JStr h), (js ''duration_ms'', JNum (Num 1800000))]"
    using assms(4) by (simp only: block_body_def block_ms_default)
  then show ?thesis using block_adv [OF assms(1-3)] run_block [where srv = srv and w = w, OF assms(1-3,5)] by simp
qed
theorem block_minutes_misreported_witness:
  "let st = (http_init (panel_on (fresh_page (js ''http://a''))))\<lparr>h_host := js ''h'', h_minutes := JStr []\<rparr> in
   (\<exists>r s1 k. adv block st = (s1, Await (Fetch r) k, []) \<and>
      req_body r = request_data (JObj [(js ''host'', jlit ''h''), (js ''duration_ms'', JNum (Num 1800000))])) \<and>
   st_ok (h_blockStatus (fst (snd (run (\<lambda>_ n. (Response 200 [] (Inr (js ''{}'')), Suc n)) block st 0)))) =
     js ''Blocked h for m''"
proof -
  let ?st = "(http_init (panel_on (fresh_page (js ''http://a''))))\<lparr>h_host := js ''h'', h_minutes := JStr []\<rparr>"
  have "trim (js ''h'') = js ''h''" "to_number (JStr []) = Num 0" by code_simp+
  then have "trim (h_host ?st) = js ''h''" "to_number (h_minutes ?st) \<in> {NaN, Num 0}" by simp_all
  moreover have "win ?st = fresh_page (js ''http://a'')" by (simp add: http_init_def panel.defs)
  moreover have "js ''Blocked '' @ js ''h'' @ js '' for '' @ to_string (h_minutes ?st) @ js ''m'' = js ''Blocked h for m''"
    by (simp add: js_append [symmetric])
  ultimately show ?thesis
    using block_minutes_misreported [of ?st "js ''http://a''" "js ''h''"
        "\<lambda>_ n. (Response 200 [] (Inr (js ''{}'')), Suc n)" 0] unfolding Let_def by simp
qed

end
