(* ===== verification/View_Settings.thy ===== *)
theory View_Settings
  imports Panel_Layout
begin

text \<open>\<open>views/SettingsView.vue\<close> (a new token) and \<open>views/DocsView.vue\<close> (the broker's API reference).\<close>

section \<open>SettingsView.vue\<close>

record settings_view = panel +
  t_password :: jstring
  t_busy :: bool
  t_status :: action_status

definition settings_init :: "panel \<Rightarrow> settings_view" where
  "settings_init p = panel.extend p (settings_view.fields [] False useActionStatus)"

definition upd_status :: "(action_status \<Rightarrow> action_status) \<Rightarrow> settings_view \<Rightarrow> settings_view" where
  "upd_status f st = st\<lparr>t_status := f (t_status st)\<rparr>"

definition regen_token :: "settings_view proc" where
  "regen_token =
     Do (upd_status reset) (Do (\<lambda>st. st\<lparr>t_busy := True\<rparr>) (Read (\<lambda>st.
       try_await (regenerateToken (t_password st))
         (\<lambda>_. Do (\<lambda>st. st\<lparr>t_password := []\<rparr>)
            (Do (upd_status (succeed (js ''API token regenerated'')))
              (Do (\<lambda>st. st\<lparr>t_busy := False\<rparr>) return_undef)))
         (\<lambda>e. Do (upd_status (fail_err e)) (Do (\<lambda>st. st\<lparr>t_busy := False\<rparr>) return_undef)))))"

datatype settings_event = SettingsPassword jsval | SettingsRegen

fun settings_handler :: "settings_event \<Rightarrow> settings_view proc" where
  "settings_handler (SettingsPassword v) = Do (\<lambda>st. st\<lparr>t_password := to_string v\<rparr>) return_undef"
| "settings_handler SettingsRegen = regen_token"

definition settings_template :: "settings_view \<Rightarrow> settings_event vnode list" where
  "settings_template st =
   [VEl ''div'' [(''class'', jlit ''space-y-4'')] []
     [VEl ''div'' [] []
        [VEl ''h1'' [(''class'', jlit ''text-lg font-semibold tracking-tight'')] []
           [VText (js ''Settings'')],
          VEl ''p'' [(''class'', jlit ''text-sm text-muted-foreground'')] []
           [VText (js ''Local API token (standalone mode only)'')]],
       VEl ''Card'' [(''class'', jlit ''max-w-lg'')] []
        [VEl ''CardHeader'' [] []
           [VEl ''CardTitle'' [] []
              [VText (js ''Regenerate API token'')],
             VEl ''CardDescription'' [] []
              [VText (js '' Enter your panel password. The new token is shown once '' @ em_dash @ js '' copy it immediately. '')]],
          VEl ''CardContent'' [] []
           [VEl ''Field'' [(''label'', jlit ''Panel password'')] []
              [VEl ''Input''
                 [(''modelValue'', JStr (t_password st)),
                  (''type'', jlit ''password''),
                  (''autocomplete'', jlit ''current-password'')]
                 [(''update:modelValue'', OnValue SettingsPassword)] []]],
          VEl ''CardFooter'' [] []
           [VEl ''Button''
              [(''size'', jlit ''sm''),
               (''disabled'', JBool (t_busy st))]
              [(''click'', On SettingsRegen)]
              [VText (js ''Regenerate token'')],
             VEl ''ActionMessage''
              [(''error'', JStr (st_error (t_status st))),
               (''ok'', JStr (st_ok (t_status st)))] [] []]]]]"

section \<open>DocsView.vue\<close>

definition docsSrc :: "'a panel_scheme \<Rightarrow> jstring" where
  "docsSrc st = s_apiBase (session st) @ js ''/docs?embed=1''"

definition openapi :: "'a panel_scheme \<Rightarrow> jstring" where
  "openapi st = s_apiBase (session st) @ js ''/openapi.json''"

text \<open>\<open>s.replace(pat, '''')\<close> with a string pattern: the first occurrence goes.\<close>

fun drop_first :: "jstring \<Rightarrow> jstring \<Rightarrow> jstring" where
  "drop_first pat [] = []"
| "drop_first pat (c # s) =
     (if take (length pat) (c # s) = pat then drop (length pat) (c # s) else c # drop_first pat s)"

definition docs_template :: "'a panel_scheme \<Rightarrow> 'e vnode list" where
  "docs_template st =
   [VEl ''div'' [(''class'', jlit ''flex h-[calc(100svh-7rem)] flex-col gap-3'')] []
     [VEl ''div'' [(''class'', jlit ''flex items-end justify-between gap-3'')] []
        [VEl ''div'' [] []
           [VEl ''h1'' [(''class'', jlit ''text-lg font-semibold tracking-tight'')] []
              [VText (js ''API reference'')],
             VEl ''p'' [(''class'', jlit ''text-sm text-muted-foreground'')] []
              [VText (js '' OpenAPI 3.1 '' @ middle_dot @ js '' ''),
                VEl ''a''
                 [(''href'', JStr (drop_first (js ''?embed=1'') (docsSrc st))),
                  (''target'', jlit ''_blank''),
                  (''rel'', jlit ''noopener''),
                  (''class'', jlit ''underline'')] []
                 [VText (js ''/docs'')],
                VText (js '' '' @ middle_dot @ js '' ''),
                VEl ''a''
                 [(''href'', JStr (openapi st)),
                  (''target'', jlit ''_blank''),
                  (''rel'', jlit ''noopener''),
                  (''class'', jlit ''underline'')] []
                 [VText (js ''openapi.json'')]]]],
       VEl ''Card'' [(''class'', jlit ''min-h-0 flex-1 overflow-hidden p-0'')] []
        [VEl ''iframe''
           [(''src'', JStr (docsSrc st)),
            (''title'', jlit ''BetterMQ API reference''),
            (''class'', jlit ''h-full w-full border-0''),
            (''sandbox'', jlit ''allow-scripts allow-same-origin allow-forms allow-popups'')] [] []]]]"

section \<open>Requests stay on the page's origin\<close>

lemmas settings_updates = upd_status_def

interpretation settings_page: page_script settings_handler
proof
  show "stays (on_page b0) (own_origin b0) (settings_handler e)" for b0 e
    by (cases e) (auto simp: regen_token_def settings_updates Let_def intro!: stays_intros)
qed

interpretation settings_sync: synced_script settings_handler
proof
  show "stays (synced b0) (\<lambda>_. True) (settings_handler e)" for b0 e
    by (cases e) (auto simp: sync_simps regen_token_def settings_updates Let_def intro!: stays_intros)
qed

section \<open>What the page writes\<close>

interpretation settings_policy: policed_script regen_writes settings_handler
proof
  show "sends_only b0 (regen_writes b0) (settings_handler e)" for b0 e
    by (cases e) (auto simp: regen_token_def settings_updates Let_def regen_writes_def intro!: stays_intros)
qed

end
