(* ===== verification/Panel_App.thy ===== *)
theory Panel_App
  imports View_Auth View_Dlq View_Queues View_Flows View_Groups View_Publish View_Enqueue View_Schedules
    View_Overview View_Infra View_Http View_Settings
begin

text \<open>
  The whole panel: \<open>App.vue\<close>, \<open>components/layout/AppShell.vue\<close> and \<open>router/index.ts\<close> put the header, the
  sidebar and the pages together. All of them share one browser, session and catalog; what a page keeps
  in its own refs belongs to one mounted instance of it, and a call that is still waiting when its page
  is left goes on with the refs of that instance. A page's handlers are those of its theory, on the part
  of the state that is the page's. What the theories of the pages show of their handlers is shown here
  of the panel, with the handlers of all pages interleaved in any order.
\<close>

section \<open>State\<close>

text \<open>The route, the number of the next instance, and the refs of every instance.\<close>

record pages =
  pg_route :: jstring
  pg_next :: nat
  at_auth :: "nat \<Rightarrow> unit auth_view_ext"
  at_header :: "nat \<Rightarrow> unit header_view_ext"
  at_overview :: "nat \<Rightarrow> unit overview_view_ext"
  at_infra :: "nat \<Rightarrow> unit infra_view_ext"
  at_queues :: "nat \<Rightarrow> unit queues_view_ext"
  at_groups :: "nat \<Rightarrow> unit groups_view_ext"
  at_publish :: "nat \<Rightarrow> unit publish_view_ext"
  at_enqueue :: "nat \<Rightarrow> unit enqueue_view_ext"
  at_flows :: "nat \<Rightarrow> unit flows_view_ext"
  at_schedules :: "nat \<Rightarrow> unit schedules_view_ext"
  at_dlq :: "nat \<Rightarrow> unit dlq_view_ext"
  at_http :: "nat \<Rightarrow> unit http_view_ext"
  at_settings :: "nat \<Rightarrow> unit settings_view_ext"

type_synonym app_state = "pages panel_scheme"

text \<open>A page's state is the shared part with the refs of one instance.\<close>

definition view_of :: "('r \<Rightarrow> nat \<Rightarrow> 'v) \<Rightarrow> nat \<Rightarrow> 'r panel_scheme \<Rightarrow> 'v panel_scheme" where
  "view_of sel n s = panel.extend (panel.truncate s) (sel (panel.more s) n)"

definition put_view ::
    "(((nat \<Rightarrow> 'v) \<Rightarrow> nat \<Rightarrow> 'v) \<Rightarrow> 'r \<Rightarrow> 'r) \<Rightarrow> nat \<Rightarrow> 'v panel_scheme \<Rightarrow> 'r panel_scheme \<Rightarrow> 'r panel_scheme" where
  "put_view upd n v s =
     panel.extend (panel.truncate v) (upd (\<lambda>f. f(n := panel.more v)) (panel.more s))"

abbreviation on_view where
  "on_view sel upd n p \<equiv> focus (view_of sel n) (put_view upd n) p"

text \<open>
  The interface of a page's place in the state: the refs written are the refs read. A page that keeps
  to the page's origin, or the session in step with the stores, does so at its place.
\<close>

locale page_place =
  fixes sel :: "'r \<Rightarrow> nat \<Rightarrow> 'v" and upd :: "((nat \<Rightarrow> 'v) \<Rightarrow> nat \<Rightarrow> 'v) \<Rightarrow> 'r \<Rightarrow> 'r"
  assumes sel_upd: "sel (upd f r) = f (sel r)"

sublocale page_place \<subseteq> place: state_part "view_of sel n" "put_view upd n" for n
proof
  show "view_of sel n (put_view upd n v s) = v" for v s
    by (cases v; cases s) (simp add: view_of_def put_view_def panel.defs sel_upd)
qed

lemma view_of_panel [simp]:
  "win (view_of sel n s) = win s" "session (view_of sel n s) = session s"
  by (cases s; simp add: view_of_def panel.defs)+

context page_place
begin

lemma stays_on_page:
  assumes "stays (on_page b0) Q p"
  shows "stays (on_page b0) Q (on_view sel upd n p)"
proof -
  have "(\<lambda>s. on_page b0 (view_of sel n s)) = on_page b0" by (simp add: on_page_def fun_eq_iff)
  then show ?thesis using place.stays_focus [OF assms, of n] by simp
qed

lemma stays_synced:
  assumes "stays (synced b0) Q p"
  shows "stays (synced b0) Q (on_view sel upd n p)"
proof -
  have "(\<lambda>s. synced b0 (view_of sel n s)) = synced b0" by (rule ext, rule synced_cong) simp_all
  then show ?thesis using place.stays_focus [OF assms, of n] by simp
qed

end

interpretation auth_place: page_place at_auth at_auth_update by unfold_locales simp
interpretation header_place: page_place at_header at_header_update by unfold_locales simp
interpretation overview_place: page_place at_overview at_overview_update by unfold_locales simp
interpretation infra_place: page_place at_infra at_infra_update by unfold_locales simp
interpretation queues_place: page_place at_queues at_queues_update by unfold_locales simp
interpretation groups_place: page_place at_groups at_groups_update by unfold_locales simp
interpretation publish_place: page_place at_publish at_publish_update by unfold_locales simp
interpretation enqueue_place: page_place at_enqueue at_enqueue_update by unfold_locales simp
interpretation flows_place: page_place at_flows at_flows_update by unfold_locales simp
interpretation schedules_place: page_place at_schedules at_schedules_update by unfold_locales simp
interpretation dlq_place: page_place at_dlq at_dlq_update by unfold_locales simp
interpretation http_place: page_place at_http at_http_update by unfold_locales simp
interpretation settings_place: page_place at_settings at_settings_update by unfold_locales simp

section \<open>Navigation\<close>

text \<open>
  The router shows the page of the path; a path without a route is replaced by the first page's, and a
  push of the path that is shown does nothing. A page that comes up is a new instance and is mounted.
\<close>

definition resolve :: "jstring \<Rightarrow> jstring" where
  "resolve path = (if path \<in> fst ` set routes then path else js ''/'')"

definition show_route :: "jstring \<Rightarrow> app_state \<Rightarrow> app_state" where
  "show_route path s =
     panel.extend (panel.truncate s) ((panel.more s)\<lparr>pg_route := path, pg_next := Suc (pg_next (panel.more s))\<rparr>)"

fun mounted :: "page \<Rightarrow> nat \<Rightarrow> app_state proc" where
  "mounted OverviewPage n = on_view at_overview at_overview_update n (overview_handler OverviewMounted)"
| "mounted InfraPage n = on_view at_infra at_infra_update n (infra_handler InfraMounted)"
| "mounted QueuesPage n = on_view at_queues at_queues_update n (queues_handler QueuesMounted)"
| "mounted GroupsPage n = on_view at_groups at_groups_update n (groups_handler GroupsMounted)"
| "mounted PublishPage n = on_view at_publish at_publish_update n (publish_handler PublishMounted)"
| "mounted EnqueuePage n = on_view at_enqueue at_enqueue_update n (enqueue_handler EnqueueMounted)"
| "mounted FlowsPage n = on_view at_flows at_flows_update n (flows_handler FlowsMounted)"
| "mounted SchedulesPage n = on_view at_schedules at_schedules_update n (schedules_handler SchedulesMounted)"
| "mounted DlqPage n = on_view at_dlq at_dlq_update n (dlq_handler DlqMounted)"
| "mounted HttpPage n = on_view at_http at_http_update n (http_handler HttpMounted)"
| "mounted DocsPage n = return_undef"
| "mounted SettingsPage n = return_undef"

definition navigate :: "jstring \<Rightarrow> app_state proc" where
  "navigate path =
     Read (\<lambda>s. if resolve path = pg_route (panel.more s) then return_undef
       else Do (show_route (resolve path)) (mounted (route_page path) (pg_next (panel.more s))))"

section \<open>Events\<close>

text \<open>An event of a page names the instance it happens on.\<close>

datatype app_event =
    AuthEvent nat auth_event
  | HeaderEvent nat header_event
  | SwitcherEvent switcher_event
  | SidebarEvent sidebar_event
  | Navigate jstring
  | OverviewEvent nat overview_event
  | InfraEvent nat infra_event
  | QueuesEvent nat queues_event
  | GroupsEvent nat groups_event
  | PublishEvent nat publish_event
  | EnqueueEvent nat enqueue_event
  | FlowsEvent nat flows_event
  | SchedulesEvent nat schedules_event
  | DlqEvent nat dlq_event
  | HttpEvent nat http_event
  | SettingsEvent nat settings_event

fun app_handler :: "app_event \<Rightarrow> app_state proc" where
  "app_handler (AuthEvent n e) = on_view at_auth at_auth_update n (auth_handler e)"
| "app_handler (HeaderEvent n e) = on_view at_header at_header_update n (header_handler e)"
| "app_handler (SwitcherEvent e) = switcher_handler e"
| "app_handler (SidebarEvent e) = sidebar_handler e"
| "app_handler (Navigate path) = navigate path"
| "app_handler (OverviewEvent n e) = on_view at_overview at_overview_update n (overview_handler e)"
| "app_handler (InfraEvent n e) = on_view at_infra at_infra_update n (infra_handler e)"
| "app_handler (QueuesEvent n e) = on_view at_queues at_queues_update n (queues_handler e)"
| "app_handler (GroupsEvent n e) = on_view at_groups at_groups_update n (groups_handler e)"
| "app_handler (PublishEvent n e) = on_view at_publish at_publish_update n (publish_handler e)"
| "app_handler (EnqueueEvent n e) = on_view at_enqueue at_enqueue_update n (enqueue_handler e)"
| "app_handler (FlowsEvent n e) = on_view at_flows at_flows_update n (flows_handler e)"
| "app_handler (SchedulesEvent n e) = on_view at_schedules at_schedules_update n (schedules_handler e)"
| "app_handler (DlqEvent n e) = on_view at_dlq at_dlq_update n (dlq_handler e)"
| "app_handler (HttpEvent n e) = on_view at_http at_http_update n (http_handler e)"
| "app_handler (SettingsEvent n e) = on_view at_settings at_settings_update n (settings_handler e)"

text \<open>
  The panel when the page has loaded: no instance has been touched, so each holds the initial refs of its
  page. The clock and the answers to \<open>confirm\<close> that the instances see are arguments.
\<close>

definition pages_init :: "(nat \<Rightarrow> int) \<Rightarrow> (nat \<Rightarrow> jstring \<Rightarrow> bool) \<Rightarrow> panel \<Rightarrow> pages" where
  "pages_init clock answer p =
     \<lparr>pg_route = [], pg_next = 0,
      at_auth = (\<lambda>_. panel.more (auth_init p)),
      at_header = (\<lambda>_. panel.more (panel.extend p (header_view.fields useActionStatus))),
      at_overview = (\<lambda>n. panel.more (overview_init (clock n) p)),
      at_infra = (\<lambda>n. panel.more (infra_init (answer n) p)),
      at_queues = (\<lambda>_. panel.more (queues_init p)), at_groups = (\<lambda>_. panel.more (groups_init p)),
      at_publish = (\<lambda>_. panel.more (publish_init p)), at_enqueue = (\<lambda>_. panel.more (enqueue_init p)),
      at_flows = (\<lambda>_. panel.more (flows_init p)), at_schedules = (\<lambda>_. panel.more (schedules_init p)),
      at_dlq = (\<lambda>_. panel.more (dlq_init p)), at_http = (\<lambda>_. panel.more (http_init p)),
      at_settings = (\<lambda>_. panel.more (settings_init p))\<rparr>"

definition app_init :: "(nat \<Rightarrow> int) \<Rightarrow> (nat \<Rightarrow> jstring \<Rightarrow> bool) \<Rightarrow> browser \<Rightarrow> app_state" where
  "app_init clock answer b = panel.extend (panel_init b) (pages_init clock answer (panel_init b))"

lemma app_init_panel [simp]:
  "win (app_init clock answer b) = win (panel_init b)"
  "session (app_init clock answer b) = session (panel_init b)"
  by (simp_all add: app_init_def panel.defs)

section \<open>The panel keeps what its parts keep\<close>

lemma show_route_panel [simp]: "win (show_route path s) = win s" "session (show_route path s) = session s"
  by (cases s; simp add: show_route_def panel.defs)+

lemmas places_on_page = auth_place.stays_on_page header_place.stays_on_page overview_place.stays_on_page
  infra_place.stays_on_page queues_place.stays_on_page groups_place.stays_on_page publish_place.stays_on_page
  enqueue_place.stays_on_page flows_place.stays_on_page schedules_place.stays_on_page dlq_place.stays_on_page
  http_place.stays_on_page settings_place.stays_on_page

lemmas handlers_on_page = auth_page.handler_stays header_page.handler_stays overview_page.handler_stays
  infra_page.handler_stays queues_page.handler_stays groups_page.handler_stays publish_page.handler_stays
  enqueue_page.handler_stays flows_page.handler_stays schedules_page.handler_stays dlq_page.handler_stays
  http_page.handler_stays settings_page.handler_stays switcher_page.handler_stays sidebar_page.handler_stays

lemmas places_synced = auth_place.stays_synced header_place.stays_synced overview_place.stays_synced
  infra_place.stays_synced queues_place.stays_synced groups_place.stays_synced publish_place.stays_synced
  enqueue_place.stays_synced flows_place.stays_synced schedules_place.stays_synced dlq_place.stays_synced
  http_place.stays_synced settings_place.stays_synced

lemmas handlers_synced = auth_sync.handler_synced header_sync.handler_synced overview_sync.handler_synced
  infra_sync.handler_synced queues_sync.handler_synced groups_sync.handler_synced publish_sync.handler_synced
  enqueue_sync.handler_synced flows_sync.handler_synced schedules_sync.handler_synced dlq_sync.handler_synced
  http_sync.handler_synced settings_sync.handler_synced switcher_sync.handler_synced sidebar_sync.handler_synced

lemma mounted_on_page: "stays (on_page b0) (own_origin b0) (mounted pg n)"
  by (cases pg; simp only: mounted.simps; (rule places_on_page, rule handlers_on_page | rule stays_Ret))

lemma mounted_synced: "stays (synced b0) (\<lambda>_. True) (mounted pg n)"
  by (cases pg; simp only: mounted.simps; (rule places_synced, rule handlers_synced | rule stays_Ret))

lemma navigate_on_page: "stays (on_page b0) (own_origin b0) (navigate path)"
  unfolding navigate_def
  by (intro stays_Read stays_if stays_Ret stays_Do mounted_on_page) (simp add: on_page_def)

lemma navigate_synced: "stays (synced b0) (\<lambda>_. True) (navigate path)"
  unfolding navigate_def
  by (intro stays_Read stays_if stays_Ret stays_Do_sync mounted_synced) simp

interpretation app_page: page_script app_handler
proof
  show "stays (on_page b0) (own_origin b0) (app_handler e)" for b0 e
    by (cases e; simp only: app_handler.simps;
      (rule places_on_page, rule handlers_on_page | rule handlers_on_page | rule navigate_on_page))
qed

interpretation app_sync: synced_script app_handler
proof
  show "stays (synced b0) (\<lambda>_. True) (app_handler e)" for b0 e
    by (cases e; simp only: app_handler.simps;
      (rule places_synced, rule handlers_synced | rule handlers_synced | rule navigate_synced))
qed

section \<open>What the panel writes\<close>

text \<open>The writes of its pages, and no others.\<close>

definition panel_writes :: "browser \<Rightarrow> policy" where
  "panel_writes b m url body \<longleftrightarrow>
     auth_writes b m url body \<or> queues_writes b m url body \<or> groups_writes b m url body \<or>
     publish_writes b m url body \<or> enqueue_writes b m url body \<or> flows_writes b m url body \<or>
     schedules_writes b m url body \<or> dlq_writes b m url body \<or> http_writes b m url body \<or>
     infra_writes b m url body"

lemma sends_panel:
  "sends_only b (auth_writes b) p \<Longrightarrow> sends_only b (panel_writes b) p"
  "sends_only b (regen_writes b) p \<Longrightarrow> sends_only b (panel_writes b) p"
  "sends_only b (queues_writes b) p \<Longrightarrow> sends_only b (panel_writes b) p"
  "sends_only b (groups_writes b) p \<Longrightarrow> sends_only b (panel_writes b) p"
  "sends_only b (publish_writes b) p \<Longrightarrow> sends_only b (panel_writes b) p"
  "sends_only b (enqueue_writes b) p \<Longrightarrow> sends_only b (panel_writes b) p"
  "sends_only b (flows_writes b) p \<Longrightarrow> sends_only b (panel_writes b) p"
  "sends_only b (schedules_writes b) p \<Longrightarrow> sends_only b (panel_writes b) p"
  "sends_only b (dlq_writes b) p \<Longrightarrow> sends_only b (panel_writes b) p"
  "sends_only b (http_writes b) p \<Longrightarrow> sends_only b (panel_writes b) p"
  "sends_only b (infra_writes b) p \<Longrightarrow> sends_only b (panel_writes b) p"
  "sends_only b (\<lambda>_ _ _. False) p \<Longrightarrow> sends_only b (panel_writes b) p"
  by (erule sends_more, simp add: panel_writes_def auth_writes_def)+

lemmas handlers_send = sends_panel(1) [OF auth_policy.handler_sends] sends_panel(2) [OF settings_policy.handler_sends]
  sends_panel(3) [OF queues_policy.handler_sends] sends_panel(4) [OF groups_policy.handler_sends]
  sends_panel(5) [OF publish_policy.handler_sends] sends_panel(5) [OF overview_policy.handler_sends]
  sends_panel(6) [OF enqueue_policy.handler_sends] sends_panel(7) [OF flows_policy.handler_sends]
  sends_panel(8) [OF schedules_policy.handler_sends] sends_panel(9) [OF dlq_policy.handler_sends]
  sends_panel(10) [OF http_policy.handler_sends] sends_panel(11) [OF infra_policy.handler_sends]
  sends_panel(12) [OF header_policy.handler_sends] sends_panel(12) [OF switcher_policy.handler_sends]
  sends_panel(12) [OF sidebar_policy.handler_sends]

lemma mounted_sends: "sends_only b (panel_writes b) (mounted pg n)"
  by (cases pg; simp only: mounted.simps; (rule places_on_page, rule handlers_send | rule stays_Ret))

lemma navigate_sends: "sends_only b (panel_writes b) (navigate path)"
  unfolding navigate_def
  by (intro stays_Read stays_if stays_Ret stays_Do mounted_sends) (simp add: on_page_def)

interpretation app_policy: policed_script panel_writes app_handler
proof
  show "sends_only b0 (panel_writes b0) (app_handler e)" for b0 e
    by (cases e; simp only: app_handler.simps;
      (rule places_on_page, rule handlers_send | rule handlers_send | rule navigate_sends))
qed

section \<open>The start\<close>

lemma panel_init_on_page:
  assumes "served_over_http b" and "admin_relative b"
  shows "on_page b (panel_init b)" "on_page b (app_init clock answer b)"
proof -
  have "same_page b (snd (loadSavedToken base b))" for base
    by (rule same_page_loadSavedToken)
  then show "on_page b (panel_init b)"
    using assms by (simp add: on_page_def panel_init_def Let_def case_prod_unfold)
  then show "on_page b (app_init clock answer b)" by (simp add: on_page_def)
qed

lemma start_synced:
  assumes "served_over_http b" and "admin_relative b" and m: "migrated b"
    and n: "normalizeToken (tokens_of b (location_origin b)) = tokens_of b (location_origin b)"
  shows "synced b (begin_auth (app_init clock answer b))"
proof -
  have base: "loadSavedApiBase b = location_origin b"
    using assms(1) by (simp add: loadSavedApiBase_def allowlisted_http)
  have l: "loadSavedToken (location_origin b) b = (tokens_of b (location_origin b), b)"
    using m by (simp add: migrated_loadSavedToken tokens_of_def)
  have i: "win (panel_init b) = b" "s_token (session (panel_init b)) = tokens_of b (location_origin b)"
    "s_apiBase (session (panel_init b)) = location_origin b"
    by (simp_all add: panel_init_def session_init_def base l)
  have "on_page b (begin_auth (app_init clock answer b))"
    using on_page_win [OF panel_init_on_page(2) [OF assms(1,2)] same_page_session(2)] .
  then show ?thesis
    using m n by (simp add: synced_def) (simp add: begin_auth_def i theme_shown_applyTheme token_stored_def [of _ b])
qed

text \<open>The mounting of the application asks for the authentication settings.\<close>

lemma app_mounted_adv:
  "\<exists>s1 k. adv (app_handler (AuthEvent 0 AppMounted)) s =
     (s1, return_undef, [Await (Fetch (plain_get (publicUrl (js ''/v1/auth/config'') (win s1)))) k])"
  by (simp add: initAuth_def fetch_json_def try_await_def)


lemma fresh_page_relative [simp]: "admin_relative (fresh_page u)"
  by (simp add: admin_relative_def adminApiRoot_def opt_or_def js_Cons fresh_page_def)

lemma win_put_view [simp]: "win (put_view upd n v s) = win v"
  by (cases v) (simp add: put_view_def panel.defs)

lemma win_panel_init: "migrated b \<Longrightarrow> win (panel_init b) = b"
  by (simp add: panel_init_def migrated_loadSavedToken Let_def)

text \<open>Removing a queue sends the deletion at once.\<close>

lemma queue_remove_adv:
  assumes "win s = fresh_page u" and "encode_uri_component (to_string (queueId q)) = Inr enc"
  shows "\<exists>s1 k r. adv (app_handler (QueuesEvent n (QueuesRemove q))) s = (s1, Await (Fetch r) k, []) \<and>
     req_method r = DELETE"
  using assms
  by (simp add: View_Queues.remove_def queues_updates apiDelete_def api_request_def authHeaders_def
      migrated_loadSavedToken opt_or_def normalizeToken_def bearer_prefixed_def try_await_def)

end
