(* ===== verification/Ui_Kit.thy ===== *)
theory Ui_Kit
  imports Ui_Sidebar Panel_App
begin

text \<open>
  The kit as a whole: every component by its name, and what the pages of the panel show through it. An
  event of the shown tree is an event of the page or one of the two of the sidebar around it.
\<close>

definition kit :: "kit_env \<Rightarrow> 'e sidebar_ctx \<Rightarrow> string \<Rightarrow> 'e ui option" where
  "kit E C = map_of (content_kit E @ overlay_kit E @ sidebar_kit E C)"

definition kit_void :: "string \<Rightarrow> bool" where
  "kit_void tag \<longleftrightarrow> tag \<in> set (content_void @ overlay_void @ sidebar_void)"

lemma transparent_void: "transparent own w c \<Longrightarrow> (w \<Longrightarrow> v) \<Longrightarrow> transparent own v c"
  by (auto simp: transparent_def)

interpretation panel_kit: ui_kit "kit E C" "sidebar_own C" kit_void for E C
proof
  fix tag c
  assume "kit E C tag = Some c"
  then have "(tag, c) \<in> set (content_kit E) \<union> set (overlay_kit E) \<union> set (sidebar_kit E C)"
    unfolding kit_def by (auto dest!: map_of_SomeD)
  then show "transparent (sidebar_own C) (kit_void tag) c"
    using content_transparent [of "sidebar_own C" E] overlay_transparent [of "sidebar_own C" E] sidebar_transparent [of C E]
    by (fastforce simp: list_all_iff kit_void_def intro: transparent_void)
qed

datatype sidebar_ui_event = ToggleSidebar | SetOpenMobile jsval

fun sidebar_step :: "'m vmodel \<Rightarrow> sidebar_ui_event \<Rightarrow> 'm sidebar_provider \<Rightarrow> 'm sidebar_provider" where
  "sidebar_step V ToggleSidebar s = toggleSidebar V s"
| "sidebar_step V (SetOpenMobile v) s = setOpenMobile (truthy v) s"

definition shown ::
    "kit_env \<Rightarrow> 'm vmodel \<Rightarrow> 'm sidebar_provider \<Rightarrow> 'e vnode list \<Rightarrow> ('e + sidebar_ui_event) vnode list" where
  "shown E V s ts =
     expand_all (kit E (sidebarContext V s (Inr ToggleSidebar) (\<lambda>v. Inr (SetOpenMobile v)))) (map (map_vnode Inl) ts)"

lemma listens_map: "inj f \<Longrightarrow> listens (map_listener f l) (f e) = listens l e"
  by (cases l) (auto simp: inj_eq)

lemma offers_map: "inj f \<Longrightarrow> offers (map_vnode f t) (f e) = offers t e"
proof (induction t)
  case (VEl tag as ls cs)
  then have "\<And>c. c \<in> set cs \<Longrightarrow> offers (map_vnode f c) (f e) = offers c e" by simp
  then have "offered (map (map_vnode f) cs) (f e) = offered cs e" by (auto simp: offered_def)
  then show ?case using VEl.prems by (force simp: listens_map)
qed simp

lemma texts_map: "texts (map_vnode f t) = texts t"
  by (induction t) (auto simp: page_texts_def intro!: arg_cong [where f = concat])

lemma void_ok_map: "void_ok void (map_vnode f t) = void_ok void t"
  by (induction t) (auto simp: list_all_iff)

lemma shown_tree:
  fixes ts :: "'e vnode list"
  assumes "list_all (void_ok kit_void) ts"
  shows "offered (shown E V s ts) (Inl e) \<longleftrightarrow> offered ts e"
    and "subseq (page_texts ts) (page_texts (shown E V s ts))"
proof -
  let ?C = "sidebarContext V s (Inr ToggleSidebar) (\<lambda>v. Inr (SetOpenMobile v))"
  let ?ts = "map (map_vnode Inl) ts :: ('e + sidebar_ui_event) vnode list"
  have v: "list_all (void_ok kit_void) ?ts" using assms by (simp add: list_all_iff void_ok_map)
  have "\<not> sidebar_own ?C (Inl e)" by (simp add: sidebar_own_def sidebarContext_def)
  then have "offered (shown E V s ts) (Inl e) \<longleftrightarrow> offered ?ts (Inl e)"
    unfolding shown_def by (rule panel_kit.expand_tree(1) [OF v])
  then show "offered (shown E V s ts) (Inl e) \<longleftrightarrow> offered ts e"
    by (simp add: offers_map offered_def [of ts])
  have "page_texts ?ts = page_texts ts" by (simp add: page_texts_def texts_map comp_def)
  then show "subseq (page_texts ts) (page_texts (shown E V s ts))"
    using panel_kit.expand_tree(2) [OF v] unfolding shown_def by metis
qed

text \<open>On no page does a component without a slot have children.\<close>

lemma void_ok_VEl [simp]: "void_ok void (VEl tag as ls cs) \<longleftrightarrow> (void tag \<longrightarrow> cs = []) \<and> list_all (void_ok void) cs"
  by (simp add: list_all_iff)

lemma list_all_mapped: "list_all P (map f xs) \<longleftrightarrow> (\<forall>x\<in>set xs. P (f x))"
  by (simp add: list_all_iff)

declare void_ok.simps(2) [simp del]

lemmas void_simps = kit_void_def content_void_def overlay_void_def sidebar_void_def list_all_mapped

lemma void_ok_dlq: "list_all (void_ok kit_void) (dlq_template st)"
  by (simp add: void_simps dlq_template_def dlq_source_card_def dlq_message_row_def dlq_messages_card_def)

lemma void_ok_enqueue: "list_all (void_ok kit_void) (enqueue_template st)"
  by (simp add: void_simps enqueue_template_def)

lemma void_ok_flows: "list_all (void_ok kit_void) (flows_template st)"
  by (simp add: void_simps flows_template_def flows_form_def flows_row_def)

lemma void_ok_groups: "list_all (void_ok kit_void) (groups_template st)"
  by (simp add: void_simps groups_template_def groups_row_def groups_list_tab_def groups_member_row_def groups_members_tab_def)

lemma void_ok_http: "list_all (void_ok kit_void) (http_template st)"
  by (simp add: void_simps http_template_def http_outbound_card_def http_row_def)

lemma void_ok_infra_rows:
  "void_ok kit_void (infra_section_button st sec)" "void_ok kit_void (infra_overview_row st r)"
  "void_ok kit_void (infra_node_row st r)" "void_ok kit_void (infra_cell_row st c)"
  unfolding infra_section_button_def infra_overview_row_def infra_node_row_def infra_cell_row_def
    void_ok_VEl list.pred_inject
  by (simp_all add: void_simps)

lemma void_ok_infra_kpis: "void_ok kit_void (infra_kpis st)"
  unfolding infra_kpis_def void_ok_VEl list.pred_inject by (simp add: void_simps void_ok_infra_rows)

lemma void_ok_infra_overview_table: "void_ok kit_void (infra_overview_table st)"
  unfolding infra_overview_table_def void_ok_VEl list.pred_inject by (simp add: void_simps void_ok_infra_rows)

lemma void_ok_infra_nodes_title: "void_ok kit_void (infra_nodes_title st)"
  unfolding infra_nodes_title_def void_ok_VEl list.pred_inject by (simp add: void_simps void_ok_infra_rows)

lemma void_ok_infra_nodes_table: "void_ok kit_void (infra_nodes_table st)"
  unfolding infra_nodes_table_def void_ok_VEl list.pred_inject by (simp add: void_simps void_ok_infra_rows)

lemma void_ok_infra_detail_card: "void_ok kit_void (infra_detail_card st)"
  unfolding infra_detail_card_def void_ok_VEl list.pred_inject by (simp add: void_simps void_ok_infra_rows)

lemma void_ok_infra_cells_table: "void_ok kit_void (infra_cells_table st)"
  unfolding infra_cells_table_def void_ok_VEl list.pred_inject by (simp add: void_simps void_ok_infra_rows)

lemma void_ok_infra_cluster_card: "void_ok kit_void (infra_cluster_card st)"
  unfolding infra_cluster_card_def void_ok_VEl list.pred_inject by (simp add: void_simps void_ok_infra_rows)

lemma void_ok_infra_this_node_card: "void_ok kit_void (infra_this_node_card st)"
  unfolding infra_this_node_card_def void_ok_VEl list.pred_inject by (simp add: void_simps void_ok_infra_rows)

lemma void_ok_infra_storage_card: "void_ok kit_void (infra_storage_card st)"
  unfolding infra_storage_card_def void_ok_VEl list.pred_inject by (simp add: void_simps void_ok_infra_rows)

lemma void_ok_infra_create_dialog: "void_ok kit_void (infra_create_dialog st)"
  unfolding infra_create_dialog_def void_ok_VEl list.pred_inject by (simp add: void_simps void_ok_infra_rows)

lemma void_ok_infra_attach_sheet: "void_ok kit_void (infra_attach_sheet st)"
  unfolding infra_attach_sheet_def void_ok_VEl list.pred_inject by (simp add: void_simps void_ok_infra_rows)

lemma void_ok_infra: "list_all (void_ok kit_void) (infra_template st)"
  unfolding infra_template_def void_ok_VEl list.pred_inject
  by (simp add: void_simps void_ok_infra_rows void_ok_infra_kpis void_ok_infra_overview_table void_ok_infra_nodes_title void_ok_infra_nodes_table void_ok_infra_detail_card void_ok_infra_cells_table void_ok_infra_cluster_card void_ok_infra_this_node_card void_ok_infra_storage_card void_ok_infra_create_dialog void_ok_infra_attach_sheet)

lemma void_ok_overview: "list_all (void_ok kit_void) (overview_template st)"
  by (simp add: void_simps overview_template_def overview_counts_def overview_node_row_def overview_cluster_card_def overview_publish_cards_def)

lemma void_ok_publish: "list_all (void_ok kit_void) (publish_template st)"
  by (simp add: void_simps publish_template_def publish_destination_card_def publish_pacing_card_def publish_message_card_def)

lemma void_ok_queues: "list_all (void_ok kit_void) (queues_template st)"
  by (simp add: void_simps queues_template_def queues_form_def queues_row_def)

lemma void_ok_schedules: "list_all (void_ok kit_void) (schedules_template st)"
  by (simp add: void_simps schedules_template_def schedules_form_def delayed_row_def cron_row_def)

lemma void_ok_settings: "list_all (void_ok kit_void) (settings_template st)"
  by (simp add: void_simps settings_template_def)

lemma void_ok_docs: "list_all (void_ok kit_void) (docs_template st)"
  by (simp add: void_simps docs_template_def)

lemma void_ok_gate: "list_all (void_ok kit_void) (gate_template st)"
  by (simp add: void_simps gate_template_def)

lemma void_ok_setup: "list_all (void_ok kit_void) (setup_template st)"
  by (simp add: void_simps setup_template_def)

lemma void_ok_reveal: "list_all (void_ok kit_void) (reveal_template st)"
  by (simp add: void_simps reveal_template_def)

lemma void_ok_app_header: "list_all (void_ok kit_void) (app_header_template st)"
  by (simp add: void_simps app_header_template_def)

lemma void_ok_parts:
  "void_ok kit_void (sidebar_nav_item sd item)" "void_ok kit_void (sidebar_theme_button sd th)"
  "void_ok kit_void (switcher_item st c)"
  unfolding sidebar_nav_item_def sidebar_theme_button_def switcher_item_def void_ok_VEl list.pred_inject
  by (simp_all add: void_simps)

lemma void_ok_app_sidebar: "list_all (void_ok kit_void) (app_sidebar_template st)"
  unfolding app_sidebar_template_def void_ok_VEl list.pred_inject by (simp add: void_simps void_ok_parts)

lemma void_ok_cell_switcher: "list_all (void_ok kit_void) (cell_switcher_template st)"
  unfolding cell_switcher_template_def void_ok_VEl list.pred_inject by (simp add: void_simps void_ok_parts)

section \<open>Properties\<close>

definition shown_whole :: "kit_env \<Rightarrow> 'm vmodel \<Rightarrow> 'm sidebar_provider \<Rightarrow> 'e vnode list \<Rightarrow> bool" where
  "shown_whole E V s ts \<longleftrightarrow>
     (\<forall>e. offered (shown E V s ts) (Inl e) \<longleftrightarrow> offered ts e) \<and>
     subseq (page_texts ts) (page_texts (shown E V s ts))"

lemma shown_wholeI: "list_all (void_ok kit_void) ts \<Longrightarrow> shown_whole E V s ts"
  unfolding shown_whole_def by (intro conjI allI) (rule shown_tree; assumption)+


lemma camelize_class: "camelize ''class'' = ''class''"
  by code_simp

lemma ui_empty_description_class:
  "ui_empty_description E (inst [(''class'', v)] [] cs) =
   [VEl ''p'' [(''data-slot'', jlit ''empty-description''),
      (''class'', cn E [jlit ''text-sm/relaxed text-muted-foreground [&>a]:underline [&>a]:underline-offset-4 [&>a:hover]:text-primary'',
         JStr []])] [] cs]"
  by (simp add: camelize_class ui_empty_description_def root_def merge_attrs_def rest_def attr_def js_coalesce_def
      js_nullish_def)

lemma kit_empty_description:
  fixes C :: "'e sidebar_ctx"
  shows "kit E C ''EmptyDescription'' = Some (ui_empty_description E)"
proof -
  have "map_of (content_kit E) ''EmptyDescription'' = Some (ui_empty_description E :: 'e ui)"
    unfolding content_kit_def by simp
  then show ?thesis by (simp add: kit_def map_add_def)
qed

text \<open>
  The description of an empty state takes no class. It declares the class it is given as a property and
  then looks for it among the attributes that are not: whatever class is given, the class it has is the same.
\<close>

theorem empty_description_class:
  "\<exists>k. \<forall>v. expand (kit E C) (VEl ''EmptyDescription'' [(''class'', v)] [] cs) =
     [VEl ''p'' [(''data-slot'', jlit ''empty-description''), (''class'', k)] [] (expand_all (kit E C) cs)]"
  unfolding expand.simps Let_def kit_empty_description option.case ui_empty_description_class expand_all_def
  by (rule exI, rule allI, rule refl)

end
