(* ===== verification/Ui_Command.thy ===== *)
theory Ui_Command
  imports Ui_Overlay
begin

text \<open>
  The command menu of \<open>components/ui/command\<close>: items and groups register with the menu when they are
  mounted, and a search scores the items and selects the groups to show. Maps and sets of the language are
  lists in the order of insertion. The test whether a text contains another, \<open>useFilter\<close> of the package, is
  an argument; the ids, \<open>useId\<close> of the package, are arguments of the operations. The watcher of the search
  text runs before the menu is drawn again: a change of the text and the filtering are one step.
\<close>

section \<open>State\<close>

record command =
  allItems :: "(jstring \<times> jstring) list"
  allGroups :: "(jstring \<times> jstring list) list"
  search :: jstring
  filtered_count :: nat
  filtered_items :: "(jstring \<times> nat) list"
  filtered_groups :: "jstring list"

definition command_init :: command where
  "command_init = \<lparr>allItems = [], allGroups = [], search = [], filtered_count = 0, filtered_items = [], filtered_groups = []\<rparr>"

section \<open>Filtering\<close>

definition score_items ::
    "(jstring \<Rightarrow> jstring \<Rightarrow> bool) \<Rightarrow> jstring \<Rightarrow> (jstring \<times> jstring) list \<Rightarrow> (jstring \<times> nat) list \<Rightarrow> (jstring \<times> nat) list" where
  "score_items contains s items scores =
     foldl (\<lambda>m (i, value). map_set m i (if contains value s then 1 else 0)) scores items"

definition positive :: "(jstring \<times> nat) list \<Rightarrow> jstring \<Rightarrow> bool" where
  "positive scores i = (case map_of scores i of None \<Rightarrow> False | Some n \<Rightarrow> n > 0)"

definition filterItems :: "(jstring \<Rightarrow> jstring \<Rightarrow> bool) \<Rightarrow> command \<Rightarrow> command" where
  "filterItems contains st =
     (if search st = [] then st\<lparr>filtered_count := length (allItems st)\<rparr>
      else
        let scores = score_items contains (search st) (allItems st) (filtered_items st) in
        st\<lparr>filtered_items := scores,
           filtered_groups := foldl (\<lambda>gs (g, ids). if list_ex (positive scores) ids then set_add gs g else gs) [] (allGroups st),
           filtered_count := length (filter (\<lambda>(i, value). contains value (search st)) (allItems st))\<rparr>)"

definition set_search :: "(jstring \<Rightarrow> jstring \<Rightarrow> bool) \<Rightarrow> jstring \<Rightarrow> command \<Rightarrow> command" where
  "set_search contains s st = (if search st = s then st else filterItems contains (st\<lparr>search := s\<rparr>))"

section \<open>Registration\<close>

text \<open>An item with the text of its element, when it has one, and the id of the group around it, if any.\<close>

definition item_mounted :: "jstring \<Rightarrow> jstring option \<Rightarrow> jstring option \<Rightarrow> command \<Rightarrow> command" where
  "item_mounted i textContent grp st =
     (case textContent of
        None \<Rightarrow> st
      | Some t \<Rightarrow>
          let st1 = st\<lparr>allItems := map_set (allItems st) i t\<rparr> in
          (case grp of
             None \<Rightarrow> st1
           | Some g \<Rightarrow>
               if g = [] then st1
               else st1\<lparr>allGroups :=
                 (case map_of (allGroups st1) g of
                    None \<Rightarrow> map_set (allGroups st1) g [i]
                  | Some ids \<Rightarrow> map_set (allGroups st1) g (set_add ids i))\<rparr>))"

definition item_unmounted :: "jstring \<Rightarrow> command \<Rightarrow> command" where
  "item_unmounted i st = st\<lparr>allItems := map_delete (allItems st) i\<rparr>"

definition group_mounted :: "jstring \<Rightarrow> command \<Rightarrow> command" where
  "group_mounted i st =
     (if map_of (allGroups st) i = None then st\<lparr>allGroups := map_set (allGroups st) i []\<rparr> else st)"

definition group_unmounted :: "jstring \<Rightarrow> command \<Rightarrow> command" where
  "group_unmounted i st = st\<lparr>allGroups := map_delete (allGroups st) i\<rparr>"

section \<open>What is shown\<close>

definition item_isRender :: "jstring \<Rightarrow> command \<Rightarrow> bool" where
  "item_isRender i st =
     (if search st = [] then True
      else (case map_of (filtered_items st) i of None \<Rightarrow> True | Some n \<Rightarrow> n > 0))"

definition group_isRender :: "jstring \<Rightarrow> command \<Rightarrow> bool" where
  "group_isRender i st = (if search st = [] then True else i \<in> set (filtered_groups st))"

definition empty_isRender :: "command \<Rightarrow> bool" where
  "empty_isRender st \<longleftrightarrow> search st \<noteq> [] \<and> filtered_count st = 0"

section \<open>Components\<close>

text \<open>
  The components, those that register with their id. Typing into the input and selecting an item are events
  of the tree the menu is used in.
\<close>

definition ui_command :: "kit_env \<Rightarrow> 'e ui" where
  "ui_command E i =
     [root E ''ListboxRoot'' [''class'']
          [(''data-slot'', jlit ''command''),
           (''class'', cn E [jlit ''bg-popover text-popover-foreground rounded-xl! p-1 flex size-full flex-col overflow-hidden'', given i ''class'']),
           (''modelValue'', JStr []),
           (''highlight-on-hover'', JBool True)] i
          (i_slot i)]"

definition ui_command_dialog :: "kit_env \<Rightarrow> 'e ui" where
  "ui_command_dialog E i =
     ui_dialog E (passed E []
          [(''title'', jlit ''Command Palette''),
           (''description'', jlit ''Search for a command to run...''),
           (''show-close-button'', JBool False)] i
          (ui_dialog_content E (inst [(''class'', cn E [jlit ''rounded-xl! top-1/3 translate-y-0 overflow-hidden p-0'', given i ''class'']),
               (''show-close-button'', JBool (flag i ''showCloseButton'' False))] []
              (ui_dialog_header E (inst [(''class'', jlit ''sr-only'')] []
                  (ui_dialog_title E (inst [] []
                      [VText (interp (given_or i ''title'' (jlit ''Command Palette'')))]) @
                  ui_dialog_description E (inst [] []
                      [VText (interp (given_or i ''description'' (jlit ''Search for a command to run...'')))]))) @
              ui_command E (inst [] []
                  (i_slot i))))))"

definition ui_command_list :: "kit_env \<Rightarrow> 'e ui" where
  "ui_command_list E i =
     [root E ''ListboxContent'' [''class'']
          [(''data-slot'', jlit ''command-list''),
           (''class'', cn E [jlit ''no-scrollbar max-h-72 scroll-py-1 outline-none overflow-x-hidden overflow-y-auto'', given i ''class''])] i
          [VEl ''div'' [(''role'', jlit ''presentation'')] []
              (i_slot i)]]"

definition ui_command_separator :: "kit_env \<Rightarrow> 'e ui" where
  "ui_command_separator E i =
     [root E ''Separator'' [''class'']
          [(''data-slot'', jlit ''command-separator''),
           (''class'', cn E [jlit ''bg-border -mx-1 h-px'', given i ''class''])] i
          (i_slot i)]"

definition ui_command_shortcut :: "kit_env \<Rightarrow> 'e ui" where
  "ui_command_shortcut E i =
     [root E ''span'' [''class'']
          [(''data-slot'', jlit ''command-shortcut''),
           (''class'', cn E [jlit ''text-muted-foreground group-data-highlighted/command-item:text-foreground ml-auto text-xs tracking-widest'', given i ''class''])] i
          (i_slot i)]"

definition ui_command_empty :: "kit_env \<Rightarrow> command \<Rightarrow> 'e ui" where
  "ui_command_empty E st i =
     (if empty_isRender st then
        [root E ''Primitive'' [''class'']
          [(''data-slot'', jlit ''command-empty''),
           (''class'', cn E [jlit ''py-6 text-center text-sm'', given i ''class''])] i
          (i_slot i)]
      else [])"

definition ui_command_group :: "kit_env \<Rightarrow> jstring \<Rightarrow> command \<Rightarrow> 'e ui" where
  "ui_command_group E k st i =
     [root E ''ListboxGroup'' [''class'']
          [(''id'', JStr k),
           (''data-slot'', jlit ''command-group''),
           (''class'', cn E [JStr (js ''text-foreground **:['' @ js ''[cmdk-group-heading]]:text-muted-foreground overflow-hidden p-1 **:['' @ js ''[cmdk-group-heading]]:px-2 **:['' @ js ''[cmdk-group-heading]]:py-1.5 **:['' @ js ''[cmdk-group-heading]]:text-xs **:['' @ js ''[cmdk-group-heading]]:font-medium''), given i ''class'']),
           (''hidden'', (if group_isRender k st then JUndef else JBool True))] i
          ((if truthy (given i ''heading'') then
              [VEl ''ListboxGroupLabel'' [(''data-slot'', jlit ''command-group-heading''), (''class'', JStr [])] []
                 [VText (js '' '' @ interp (given i ''heading'') @ js '' '')]]
            else []) @ i_slot i)]"

definition ui_command_input :: "kit_env \<Rightarrow> (jsval \<Rightarrow> 'e) \<Rightarrow> command \<Rightarrow> 'e ui" where
  "ui_command_input E set_text st i =
     [VEl ''div'' [(''data-slot'', jlit ''command-input-wrapper''), (''class'', jlit ''p-1 pb-0'')] []
        (ui_input_group E (inst [(''class'', jlit ''bg-input/30 border-input/30 h-8! rounded-lg! shadow-none! *:data-[slot=input-group-addon]:pl-2!'')] []
           ([root E ''ListboxFilter'' [''class'']
               [(''modelValue'', JStr (search st)),
                (''data-slot'', jlit ''command-input''),
                (''auto-focus'', JStr []),
                (''class'', cn E [jlit ''w-full text-sm outline-hidden disabled:cursor-not-allowed disabled:opacity-50'', given i ''class''])]
               (i\<lparr>i_on := i_on i @ [(''update:modelValue'', OnValue set_text)]\<rparr>)
               []] @
            ui_input_group_addon E (inst [] []
              [VEl ''Search'' [(''class'', jlit ''size-4 shrink-0 opacity-50'')] [] []]))))]"

definition ui_command_item :: "kit_env \<Rightarrow> jstring \<Rightarrow> 'e \<Rightarrow> command \<Rightarrow> 'e ui" where
  "ui_command_item E k clear st i =
     (if item_isRender k st then
        [root E ''ListboxItem'' [''class'']
          [(''id'', JStr k),
           (''data-slot'', jlit ''command-item''),
           (''class'', cn E [jlit ''data-highlighted:bg-muted data-highlighted:text-foreground data-highlighted:*:[svg]:text-foreground relative flex cursor-default items-center gap-2 rounded-sm px-2 py-1.5 text-sm outline-hidden select-none in-data-[slot=dialog-content]:rounded-lg! [&_svg:not([class*=size-])]:size-4 group/command-item data-[disabled=true]:pointer-events-none data-[disabled=true]:opacity-50 [&_svg]:pointer-events-none [&_svg]:shrink-0'', given i ''class''])]
          (i\<lparr>i_on := i_on i @ [(''select'', On clear)]\<rparr>)
          (i_slot i @
           [VEl ''Check'' [(''class'', jlit ''ml-auto opacity-0 group-has-data-[slot=command-shortcut]/command-item:hidden group-data-[checked=true]/command-item:opacity-100'')] [] []])]
      else [])"

section \<open>Events\<close>

datatype command_event =
    ItemMounted jstring "jstring option" "jstring option"
  | ItemUnmounted jstring
  | GroupMounted jstring
  | GroupUnmounted jstring
  | Search jstring
  | SelectItem

fun command_step :: "(jstring \<Rightarrow> jstring \<Rightarrow> bool) \<Rightarrow> command_event \<Rightarrow> command \<Rightarrow> command" where
  "command_step contains (ItemMounted i t g) st = item_mounted i t g st"
| "command_step contains (ItemUnmounted i) st = item_unmounted i st"
| "command_step contains (GroupMounted i) st = group_mounted i st"
| "command_step contains (GroupUnmounted i) st = group_unmounted i st"
| "command_step contains (Search s) st = set_search contains s st"
| "command_step contains SelectItem st = set_search contains [] st"

definition command_run :: "(jstring \<Rightarrow> jstring \<Rightarrow> bool) \<Rightarrow> command_event list \<Rightarrow> command" where
  "command_run contains es = foldl (\<lambda>st e. command_step contains e st) command_init es"

section \<open>Well-formedness\<close>

text \<open>
  The maps have one entry per key. A score is fresh when its item is still registered, which holds until an
  item with a score is unmounted.
\<close>

definition command_wf :: "command \<Rightarrow> bool" where
  "command_wf st \<longleftrightarrow> distinct (map fst (allItems st)) \<and> distinct (map fst (allGroups st))"

definition scores_fresh :: "command \<Rightarrow> bool" where
  "scores_fresh st \<longleftrightarrow> dom (map_of (filtered_items st)) \<subseteq> dom (map_of (allItems st))"

lemma map_of_score_items:
  "distinct (map fst items) \<Longrightarrow>
   map_of (score_items c s items scores) k =
     (case map_of items k of Some v \<Rightarrow> Some (if c v s then 1 else 0) | None \<Rightarrow> map_of scores k)"
proof (induction items arbitrary: scores)
  case (Cons x items)
  obtain j v where x: "x = (j, v)" by (cases x)
  have n: "map_of items j = None" using Cons.prems by (simp add: x map_of_eq_None_iff)
  have "map_of (score_items c s (x # items) scores) k =
      map_of (score_items c s items (map_set scores j (if c v s then 1 else 0))) k"
    by (simp add: score_items_def x)
  also have "\<dots> = (case map_of items k of Some v \<Rightarrow> Some (if c v s then 1 else 0)
      | None \<Rightarrow> map_of (map_set scores j (if c v s then 1 else 0)) k)"
    using Cons.prems by (intro Cons.IH) simp
  finally show ?case using n by (cases "k = j"; cases "map_of items k") (simp_all add: x)
qed (simp add: score_items_def)

lemma set_selected_groups:
  "set (foldl (\<lambda>gs (g, ids). if P ids then set_add gs g else gs) acc groups) =
     set acc \<union> {g. \<exists>ids. (g, ids) \<in> set groups \<and> P ids}"
  by (induction groups arbitrary: acc) (auto simp: set_add_def)

lemma command_wf_step: "command_wf st \<Longrightarrow> command_wf (command_step c e st)"
  by (cases e) (auto simp: command_wf_def item_mounted_def item_unmounted_def group_mounted_def group_unmounted_def
      set_search_def filterItems_def map_delete_def Let_def distinct_map_filter intro: distinct_map_set split: option.split)

lemma command_wf_run: "command_wf (command_run c es)"
proof -
  have "command_wf st \<Longrightarrow> command_wf (foldl (\<lambda>st e. command_step c e st) st es)" for st
    by (induction es arbitrary: st) (simp_all add: command_wf_step)
  then show ?thesis by (simp add: command_run_def command_init_def command_wf_def)
qed

lemma scores_fresh_filter:
  "command_wf st \<Longrightarrow> scores_fresh st \<Longrightarrow> scores_fresh (filterItems c st)"
  by (auto simp: scores_fresh_def filterItems_def Let_def command_wf_def dom_def map_of_score_items split: option.splits)

lemma scores_fresh_step:
  assumes "command_wf st" and "scores_fresh st" and "\<And>i. e \<noteq> ItemUnmounted i"
  shows "scores_fresh (command_step c e st)"
proof (cases e)
  case (ItemMounted i t g)
  then show ?thesis using assms(2)
    by (auto simp: item_mounted_def scores_fresh_def Let_def split: option.split)
next
  case (Search s)
  then show ?thesis using assms(1,2) scores_fresh_filter [of "st\<lparr>search := s\<rparr>" c]
    by (simp add: set_search_def command_wf_def scores_fresh_def)
next
  case SelectItem
  then show ?thesis using assms(1,2) scores_fresh_filter [of "st\<lparr>search := []\<rparr>" c]
    by (simp add: set_search_def command_wf_def scores_fresh_def)
qed (use assms in \<open>auto simp: group_mounted_def group_unmounted_def scores_fresh_def\<close>)

lemma scores_fresh_run:
  assumes "\<And>i. ItemUnmounted i \<notin> set es"
  shows "scores_fresh (command_run c es)"
proof -
  have "command_wf st \<Longrightarrow> scores_fresh st \<Longrightarrow> (\<And>i. ItemUnmounted i \<notin> set es) \<Longrightarrow>
      scores_fresh (foldl (\<lambda>st e. command_step c e st) st es)" for st
  proof (induction es arbitrary: st)
    case (Cons e es)
    then have "\<And>i. e \<noteq> ItemUnmounted i" by auto
    then show ?case using Cons by (simp add: command_wf_step scores_fresh_step)
  qed simp
  then show ?thesis using assms by (simp add: command_run_def command_init_def command_wf_def scores_fresh_def)
qed

section \<open>Properties\<close>

text \<open>What a new search shows, in terms of the items that are registered.\<close>

lemma search_shows:
  fixes c :: "jstring \<Rightarrow> jstring \<Rightarrow> bool"
  assumes "command_wf st" and "scores_fresh st" and "s \<noteq> []" and "s \<noteq> search st"
  defines "st1 \<equiv> set_search c s st"
  shows "(i, v) \<in> set (allItems st) \<Longrightarrow> item_isRender i st1 \<longleftrightarrow> c v s"
    and "(g, ids) \<in> set (allGroups st) \<Longrightarrow>
      group_isRender g st1 \<longleftrightarrow> (\<exists>j\<in>set ids. \<exists>w. (j, w) \<in> set (allItems st) \<and> c w s)"
    and "empty_isRender st1 \<longleftrightarrow> \<not> (\<exists>(i, v)\<in>set (allItems st). c v s)"
proof -
  let ?scores = "score_items c s (allItems st) (filtered_items st)"
  have st1: "st1 = filterItems c (st\<lparr>search := s\<rparr>)" using assms(4) by (simp add: st1_def set_search_def)
  have d: "distinct (map fst (allItems st))" "distinct (map fst (allGroups st))" using assms(1) by (simp_all add: command_wf_def)
  have sc: "map_of ?scores k = map_option (\<lambda>v. if c v s then 1 else 0) (map_of (allItems st) k)" for k
    using assms(2) by (auto simp: map_of_score_items [OF d(1)] scores_fresh_def domIff split: option.split)
  have pos: "positive ?scores k \<longleftrightarrow> (\<exists>w. (k, w) \<in> set (allItems st) \<and> c w s)" for k
    using d(1) by (auto simp: positive_def sc split: option.split dest: eq_key_imp_eq_value)
  show "(i, v) \<in> set (allItems st) \<Longrightarrow> item_isRender i st1 \<longleftrightarrow> c v s"
    using assms(3) d(1) by (simp add: st1 filterItems_def item_isRender_def Let_def sc)
  show "(g, ids) \<in> set (allGroups st) \<Longrightarrow>
      group_isRender g st1 \<longleftrightarrow> (\<exists>j\<in>set ids. \<exists>w. (j, w) \<in> set (allItems st) \<and> c w s)"
  proof -
    assume g: "(g, ids) \<in> set (allGroups st)"
    have "group_isRender g st1 \<longleftrightarrow> (\<exists>ids'. (g, ids') \<in> set (allGroups st) \<and> list_ex (positive ?scores) ids')"
      using assms(3) by (simp add: st1 filterItems_def group_isRender_def Let_def set_selected_groups)
    also have "\<dots> \<longleftrightarrow> list_ex (positive ?scores) ids" using g eq_key_imp_eq_value [OF d(2)] by blast
    finally show ?thesis by (simp add: list_ex_iff pos)
  qed
  show "empty_isRender st1 \<longleftrightarrow> \<not> (\<exists>(i, v)\<in>set (allItems st). c v s)"
    using assms(3) by (auto simp: st1 filterItems_def empty_isRender_def Let_def filter_empty_conv)
qed

text \<open>
  C20: a search shows what it should. However items and groups were registered and whatever was searched for
  before, as long as no item was removed, a new search shows exactly the registered items whose text contains
  the search text, exactly the groups with such an item, and the text for no results exactly when there is none.
\<close>

theorem command_search:
  assumes "\<And>i. ItemUnmounted i \<notin> set es" and "s \<noteq> []" and "s \<noteq> search (command_run c es)"
  shows "let st = command_run c es; st1 = command_run c (es @ [Search s]) in
     (\<forall>(i, v)\<in>set (allItems st). item_isRender i st1 \<longleftrightarrow> c v s) \<and>
     (\<forall>(g, ids)\<in>set (allGroups st). group_isRender g st1 \<longleftrightarrow>
        (\<exists>j\<in>set ids. \<exists>w. (j, w) \<in> set (allItems st) \<and> c w s)) \<and>
     (empty_isRender st1 \<longleftrightarrow> \<not> (\<exists>(i, v)\<in>set (allItems st). c v s))"
proof -
  have st1: "command_run c (es @ [Search s]) = set_search c s (command_run c es)" by (simp add: command_run_def)
  note sh = search_shows [where c = c, OF command_wf_run scores_fresh_run [OF assms(1)] assms(2,3)]
  show ?thesis unfolding Let_def st1
  proof (intro conjI ballI)
    show "case x of (i, v) \<Rightarrow> item_isRender i (set_search c s (command_run c es)) = c v s"
      if "x \<in> set (allItems (command_run c es))" for x
      using sh(1) that by (cases x) simp
    show "case x of (g, ids) \<Rightarrow> group_isRender g (set_search c s (command_run c es)) =
        (\<exists>j\<in>set ids. \<exists>w. (j, w) \<in> set (allItems (command_run c es)) \<and> c w s)"
      if "x \<in> set (allGroups (command_run c es))" for x
      using sh(2) that by (cases x) simp
  qed (rule sh(3))
qed

theorem command_search_witness:
  "let st = command_run (\<lambda>v s. sublist s v)
       [GroupMounted (js ''g''), ItemMounted (js ''a'') (Some (js ''Queues'')) (Some (js ''g'')),
        ItemMounted (js ''b'') (Some (js ''Flows'')) None, Search (js ''low'')]
   in item_isRender (js ''b'') st \<and> \<not> item_isRender (js ''a'') st \<and> \<not> group_isRender (js ''g'') st \<and>
      \<not> empty_isRender st"
proof -
  let ?c = "\<lambda>v s. sublist s v :: bool" and ?s = "js ''low''"
  let ?es = "[GroupMounted (js ''g''), ItemMounted (js ''a'') (Some (js ''Queues'')) (Some (js ''g'')),
        ItemMounted (js ''b'') (Some (js ''Flows'')) None]"
  have st: "allItems (command_run ?c ?es) = [(js ''a'', js ''Queues''), (js ''b'', js ''Flows'')]"
    "allGroups (command_run ?c ?es) = [(js ''g'', [js ''a''])]" "search (command_run ?c ?es) = []"
    by code_simp+
  have c: "sublist ?s (js ''Flows'')" "\<not> sublist ?s (js ''Queues'')" "?s \<noteq> []" "js ''a'' \<noteq> js ''b''" by code_simp+
  show ?thesis using command_search [of ?es ?s ?c] c by (simp add: st Let_def)
qed

text \<open>
  C38: a group stays on the screen after its items are gone. The score of an item outlives the item, and its id
  stays in its group: after an item that matched is removed, the next search shows the group, whatever is
  searched for, together with the text for no results.
\<close>

theorem command_stale_group:
  assumes "c v s1" and "s1 \<noteq> []" and "s2 \<noteq> []" and "s1 \<noteq> s2" and "g \<noteq> []"
  shows "let st = command_run c [GroupMounted g, ItemMounted i (Some v) (Some g), Search s1, ItemUnmounted i, Search s2]
     in allItems st = [] \<and> group_isRender g st \<and> empty_isRender st"
  using assms
  by (simp add: command_run_def command_init_def group_mounted_def item_mounted_def item_unmounted_def set_search_def
      filterItems_def score_items_def positive_def set_add_def map_delete_def group_isRender_def empty_isRender_def Let_def)

theorem command_stale_group_witness:
  "let st = command_run (\<lambda>v s. sublist s v)
       [GroupMounted (js ''g''), ItemMounted (js ''a'') (Some (js ''Queues'')) (Some (js ''g'')), Search (js ''Que''),
        ItemUnmounted (js ''a''), Search (js ''x'')]
   in group_isRender (js ''g'') st \<and> empty_isRender st"
proof -
  have "sublist (js ''Que'') (js ''Queues'')" "js ''Que'' \<noteq> []" "js ''x'' \<noteq> []" "js ''Que'' \<noteq> js ''x''" "js ''g'' \<noteq> []"
    by code_simp+
  then show ?thesis
    using command_stale_group [of "\<lambda>v s. sublist s v" "js ''Queues''" "js ''Que''" "js ''x''" "js ''g''" "js ''a''"]
    by (simp add: Let_def)
qed

text \<open>
  C39: an item that appears while a search is active is shown whether it matches or not, and is not counted:
  one that does not match is shown beside the text for no results, until the search text changes.
\<close>

theorem command_late_item:
  assumes "\<not> c v s" and "s \<noteq> []"
  shows "let st = command_run c [Search s, ItemMounted i (Some v) None] in
     (i, v) \<in> set (allItems st) \<and> item_isRender i st \<and> empty_isRender st"
  using assms
  by (simp add: command_run_def command_init_def item_mounted_def set_search_def filterItems_def score_items_def
      item_isRender_def empty_isRender_def Let_def)

theorem command_late_item_witness:
  "let st = command_run (\<lambda>v s. sublist s v) [Search (js ''x''), ItemMounted (js ''a'') (Some (js ''Queues'')) None]
   in item_isRender (js ''a'') st \<and> empty_isRender st"
proof -
  have "\<not> sublist (js ''x'') (js ''Queues'')" "js ''x'' \<noteq> []" by code_simp+
  then show ?thesis using command_late_item [of "\<lambda>v s. sublist s v" "js ''Queues''" "js ''x''" "js ''a''"]
    by (simp add: Let_def)
qed

end
