(* ===== verification/Ui_Chart.thy ===== *)
theory Ui_Chart
  imports Ui_Content "HOL-Library.List_Lexorder"
begin

text \<open>
  The chart components of \<open>components/ui/chart\<close>: the container with its id and style sheet, the legend, the
  content of the tooltip, and the rendering of a component to a string with a cache. The ids, \<open>useId\<close> of the
  package, the rendering of the framework and the locale's form of a value are arguments; a formatter of
  labels is an optional argument of the tooltip.
\<close>

section \<open>Objects\<close>

definition entries :: "jsval \<Rightarrow> (jstring \<times> jsval) list" where
  "entries v = (case v of JObj kvs \<Rightarrow> kvs | _ \<Rightarrow> [])"

definition index_prop :: "jsval \<Rightarrow> jstring \<Rightarrow> jsval" where
  "index_prop v k = (case v of JObj kvs \<Rightarrow> (case obj_get kvs k of None \<Rightarrow> JUndef | Some w \<Rightarrow> w) | _ \<Rightarrow> JUndef)"

section \<open>Container and style\<close>

definition THEMES :: "(jstring \<times> jstring) list" where
  "THEMES = [(js ''light'', []), (js ''dark'', js ''.dark'')]"

definition chartId :: "jsval \<Rightarrow> jstring \<Rightarrow> jstring" where
  "chartId ident uniqueId =
     js ''chart-'' @ (if truthy ident then to_string ident else filter (\<lambda>u. u \<noteq> 0x3A) uniqueId)"

definition colorConfig :: "jsval \<Rightarrow> (jstring \<times> jsval) list" where
  "colorConfig config =
     filter (\<lambda>(k, c). truthy (js_or (opt_prop c ''theme'') (opt_prop c ''color''))) (entries config)"

definition color_line :: "jstring \<Rightarrow> jstring \<times> jsval \<Rightarrow> jsval" where
  "color_line theme kc =
     (let color = js_or (index_prop (opt_prop (snd kc) ''theme'') theme) (opt_prop (snd kc) ''color'')
      in if truthy color then JStr (js ''  --color-'' @ fst kc @ js '': '' @ to_string color @ js '';'') else JNull)"

definition theme_rule :: "jsval \<Rightarrow> jsval \<Rightarrow> jstring \<times> jstring \<Rightarrow> jstring" where
  "theme_rule ident config tp =
     [0x0A] @ snd tp @ js '' [data-chart='' @ to_string ident @ js ''] {'' @ [0x0A] @
     js_join (map (color_line (fst tp)) (colorConfig config)) [0x0A] @ [0x0A] @ js ''}'' @ [0x0A]"

definition ui_chart_style :: "kit_env \<Rightarrow> jsval \<Rightarrow> 'e ui" where
  "ui_chart_style E config i =
     (if colorConfig config = [] then []
      else [root E ''Primitive'' [''id''] [(''as'', jlit ''style'')] i
             [VText (js '' '' @ js_join (map (\<lambda>tp. JStr (theme_rule (given i ''id'') config tp)) THEMES) [0x0A] @ js '' '')]])"

definition ui_chart_container :: "kit_env \<Rightarrow> jstring \<Rightarrow> 'e ui" where
  "ui_chart_container E uniqueId i =
     [root E ''div'' [''id'', ''class'', ''config'', ''cursor'']
        [(''data-slot'', jlit ''chart''),
         (''data-chart'', JStr (chartId (given i ''id'') uniqueId)),
         (''class'', cn E [JStr (js ''cn-chart [&_.tick_text]:!fill-muted-foreground [&_.tick_line]:!stroke-border/50 [&_.recharts-curve.recharts-tooltip-cursor]:stroke-border [&_.recharts-polar-grid_[stroke='' @ [0x27] @ js ''#ccc'' @ [0x27] @ js '']]:stroke-border [&_.recharts-radial-bar-background-sector]:fill-muted [&_.recharts-rectangle.recharts-tooltip-cursor]:fill-muted [&_.recharts-reference-line_[stroke='' @ [0x27] @ js ''#ccc'' @ [0x27] @ js '']]:stroke-border flex flex-col aspect-video justify-center text-xs [&_.recharts-dot[stroke='' @ [0x27] @ js ''#fff'' @ [0x27] @ js '']]:stroke-transparent [&_.recharts-layer]:outline-hidden [&_.recharts-sector]:outline-hidden [&_.recharts-sector[stroke='' @ [0x27] @ js ''#fff'' @ [0x27] @ js '']]:stroke-transparent [&_.recharts-surface]:outline-hidden [&_[data-vis-xy-container]]:h-full [&_[data-vis-single-container]]:h-full h-full [&_[data-vis-xy-container]]:w-full [&_[data-vis-single-container]]:w-full w-full ''), given i ''class'']),
         (''style'', JObj
           [(js ''--vis-tooltip-padding'', jlit ''0px''),
            (js ''--vis-tooltip-background-color'', jlit ''transparent''),
            (js ''--vis-tooltip-border-color'', jlit ''transparent''),
            (js ''--vis-tooltip-text-color'', jlit ''none''),
            (js ''--vis-tooltip-shadow-color'', jlit ''none''),
            (js ''--vis-tooltip-backdrop-filter'', jlit ''none''),
            (js ''--vis-crosshair-circle-stroke-color'', jlit ''#0000''),
            (js ''--vis-crosshair-line-stroke-width'', (if flag i ''cursor'' False then jlit ''1px'' else jlit ''0px'')),
            (js ''--vis-font-family'', jlit ''var(--font-sans)'')])] i
        (i_slot i @
         ui_chart_style E (given i ''config'') (inst [(''id'', JStr (chartId (given i ''id'') uniqueId))] [] []))]"

section \<open>Legend\<close>

definition legend_payload :: "jsval \<Rightarrow> jsval \<Rightarrow> (jsval \<times> jsval) list" where
  "legend_payload nameKey config = map (\<lambda>(k, v). (js_or nameKey (JStr k), index_prop config k)) (entries config)"

definition containerSelector :: "bool \<Rightarrow> jstring \<Rightarrow> jstring" where
  "containerSelector mounted ident =
     (if mounted then js ''[data-chart='' @ [0x22] @ js ''chart-'' @ ident @ [0x22] @ js '']>[data-vis-xy-container]'' else [])"

definition ui_chart_legend_content :: "kit_env \<Rightarrow> jstring \<Rightarrow> jsval \<Rightarrow> bool \<Rightarrow> 'e ui" where
  "ui_chart_legend_content E ident config mounted i =
     (if containerSelector mounted ident = [] then []
      else [root E ''div'' [''hideIcon'', ''nameKey'', ''verticalAlign'', ''class'']
        [(''class'', cn E [jlit ''flex items-center justify-center gap-4'',
           (if given_or i ''verticalAlign'' (jlit ''bottom'') = jlit ''top'' then jlit ''pb-3'' else jlit ''pt-3''),
           given i ''class''])] i
        (map (\<lambda>(key, itemConfig). VEl ''div''
           [(''key'', key),
            (''class'', cn E [jlit ''[&>svg]:text-muted-foreground flex items-center gap-1.5 [&>svg]:h-3 [&>svg]:w-3''])] []
           ((if truthy (opt_prop itemConfig ''icon'')
             then [VEl ''component'' [(''is'', opt_prop itemConfig ''icon'')] [] []]
             else [VEl ''div'' [(''class'', jlit ''h-2 w-2 shrink-0 rounded-xs''),
                (''style'', JObj [(js ''backgroundColor'', opt_prop itemConfig ''color'')])] [] []]) @
            [VText (js '' '' @ interp (opt_prop itemConfig ''label'') @ js '' '')]))
          (legend_payload (given i ''nameKey'') config))])"

section \<open>Tooltip\<close>

record tip_item =
  tip_key :: jstring
  tip_value :: jsval
  tip_config :: jsval
  tip_color :: jsval

definition tip_payload :: "jsval \<Rightarrow> jsval \<Rightarrow> tip_item list" where
  "tip_payload payload config =
     filter (\<lambda>t. truthy (tip_config t))
       (map (\<lambda>(k, v). \<lparr>tip_key = k, tip_value = v, tip_config = index_prop config k,
               tip_color = js_coalesce (opt_prop (index_prop config k) ''color'') (opt_prop payload ''fill'')\<rparr>)
          (entries payload))"

definition nestLabel :: "jsval \<Rightarrow> jsval \<Rightarrow> bool" where
  "nestLabel payload indicator \<longleftrightarrow> length (entries payload) = 1 \<and> indicator \<noteq> jlit ''dot''"

definition tooltipLabel :: "bool \<Rightarrow> (jsval \<Rightarrow> jsval) option \<Rightarrow> jsval \<Rightarrow> jsval \<Rightarrow> jsval \<Rightarrow> jsval \<Rightarrow> jsval" where
  "tooltipLabel hideLabel labelFormatter labelKey payload config x =
     (if hideLabel then JNull
      else
        case (labelFormatter, x = JUndef) of
          (Some f, False) \<Rightarrow> f x
        | _ \<Rightarrow>
            if truthy labelKey
            then js_or (opt_prop (index_prop config (to_string labelKey)) ''label'') (index_prop payload (to_string labelKey))
            else x)"

definition ui_chart_tooltip_item :: "kit_env \<Rightarrow> (jsval \<Rightarrow> jstring) \<Rightarrow> jsval \<Rightarrow> bool \<Rightarrow> bool \<Rightarrow> jsval \<Rightarrow> tip_item \<Rightarrow> 'e vnode" where
  "ui_chart_tooltip_item E toLocaleString indicator hideIndicator nested label t =
     VEl ''div''
       [(''key'', JStr (tip_key t)),
        (''class'', cn E [jlit ''[&>svg]:text-muted-foreground flex w-full flex-wrap items-stretch gap-2 [&>svg]:h-2.5 [&>svg]:w-2.5'',
           (if indicator = jlit ''dot'' then jlit ''items-center'' else JBool False)])] []
       ((if truthy (opt_prop (tip_config t) ''icon'')
         then [VEl ''component'' [(''is'', opt_prop (tip_config t) ''icon'')] [] []]
         else if \<not> hideIndicator
         then [VEl ''div''
            [(''class'', cn E [jlit ''shrink-0 rounded-xs border-(--color-border) bg-(--color-bg)'',
                JObj [(js ''h-2.5 w-2.5'', JBool (indicator = jlit ''dot'')),
                      (js ''w-1'', JBool (indicator = jlit ''line'')),
                      (js ''w-0 border-[1.5px] border-dashed bg-transparent'', JBool (indicator = jlit ''dashed'')),
                      (js ''my-0.5'', JBool (nested \<and> indicator = jlit ''dashed''))]]),
             (''style'', JObj [(js ''--color-bg'', tip_color t), (js ''--color-border'', tip_color t)])] [] []]
         else []) @
        [VEl ''div'' [(''class'', cn E [jlit ''flex flex-1 justify-between leading-none'',
             (if nested then jlit ''items-end'' else jlit ''items-center'')])] []
           ([VEl ''div'' [(''class'', jlit ''grid gap-1.5'')] []
              ((if nested then [VEl ''div'' [(''class'', jlit ''font-medium'')] [] [VText (js '' '' @ interp label @ js '' '')]] else []) @
               [VEl ''span'' [(''class'', jlit ''text-muted-foreground'')] []
                  [VText (js '' '' @ interp (js_or (opt_prop (tip_config t) ''label'') (tip_value t)) @ js '' '')]])] @
            (if truthy (tip_value t)
             then [VEl ''span'' [(''class'', jlit ''text-foreground font-mono font-medium tabular-nums'')] []
                     [VText (js '' '' @ toLocaleString (tip_value t) @ js '' '')]]
             else []))])"

definition ui_chart_tooltip_content :: "kit_env \<Rightarrow> (jsval \<Rightarrow> jstring) \<Rightarrow> (jsval \<Rightarrow> jsval) option \<Rightarrow> 'e ui" where
  "ui_chart_tooltip_content E toLocaleString labelFormatter i =
     (let payload = given_or i ''payload'' (JObj []);
          config = given_or i ''config'' (JObj []);
          indicator = given_or i ''indicator'' (jlit ''dot'');
          nested = nestLabel payload indicator;
          label = tooltipLabel (flag i ''hideLabel'' False) labelFormatter (given i ''labelKey'') payload config (given i ''x'')
      in [root E ''div'' [''hideLabel'', ''hideIndicator'', ''indicator'', ''nameKey'', ''labelKey'', ''labelFormatter'',
             ''payload'', ''config'', ''class'', ''color'', ''x'']
            [(''class'', cn E [jlit ''border-border/50 bg-background gap-1.5 rounded-lg border px-2.5 py-1.5 text-xs shadow-xl grid min-w-32 items-start'', given i ''class''])] i
            (slot_or i
              ((if \<not> nested \<and> truthy label
                then [VEl ''div'' [(''class'', jlit ''font-medium'')] [] [VText (js '' '' @ interp label @ js '' '')]] else []) @
               [VEl ''div'' [(''class'', jlit ''grid gap-1.5'')] []
                  (map (ui_chart_tooltip_item E toLocaleString indicator (flag i ''hideIndicator'' False) nested label)
                     (tip_payload payload config))]))])"

section \<open>Rendering to a string\<close>

definition own_keys :: "jsval \<Rightarrow> jstring list" where
  "own_keys v =
     (case v of
        JObj kvs \<Rightarrow> obj_keys kvs
      | JArr xs \<Rightarrow> map (\<lambda>n. show_int (int n)) [0..<length xs]
      | JStr s \<Rightarrow> map (\<lambda>n. show_int (int n)) [0..<length s]
      | _ \<Rightarrow> [])"

text \<open>\<open>JSON.stringify\<close> with a list of names keeps the properties of that list, in its order, at every depth.\<close>

fun json_select :: "jstring list \<Rightarrow> jsval \<Rightarrow> jsval" where
  "json_select ks (JObj kvs) =
     (let m = map (\<lambda>(k, v). (k, json_select ks v)) kvs
      in JObj (List.map_filter (\<lambda>k. map_option (Pair k) (obj_get m k)) ks))"
| "json_select ks (JArr xs) = JArr (map (json_select ks) xs)"
| "json_select ks v = v"

definition serializeKey :: "jsval \<Rightarrow> jserr + jstring" where
  "serializeKey key =
     (if js_nullish key then Inl (type_error (js ''Cannot convert undefined or null to object''))
      else Inr (case json_stringify (json_select (sort (own_keys key)) key) of None \<Rightarrow> js ''undefined'' | Some t \<Rightarrow> t))"

definition point_data :: "jsval \<Rightarrow> jserr + jsval" where
  "point_data d =
     (case d of
        JObj kvs \<Rightarrow> Inr (case obj_get kvs (js ''data'') of None \<Rightarrow> d | Some v \<Rightarrow> v)
      | JArr xs \<Rightarrow> Inr d
      | _ \<Rightarrow> Inl (type_error (js ''Cannot use '' @ [0x27] @ js ''in'' @ [0x27] @ js '' operator to search for '' @ [0x27] @ js ''data'' @ [0x27] @ js '' in '' @ to_string d)))"

type_synonym chart_cache = "(jstring \<times> jstring) list"

definition chart_props :: "(jstring \<times> jsval) list \<Rightarrow> jsval \<Rightarrow> jsval \<Rightarrow> jsval \<Rightarrow> jsval" where
  "chart_props props config d x =
     JObj (obj_set (obj_set (obj_set props (js ''payload'') d) (js ''config'') config) (js ''x'') x)"

definition chart_string ::
    "(jsval \<Rightarrow> jstring) \<Rightarrow> jstring \<Rightarrow> jsval \<Rightarrow> (jstring \<times> jsval) list \<Rightarrow> jsval \<Rightarrow> jsval \<Rightarrow> chart_cache \<Rightarrow>
     (jserr + jstring) \<times> chart_cache" where
  "chart_string render ident config props point x cache =
     (case point_data point of
        Inl e \<Rightarrow> (Inl e, cache)
      | Inr d \<Rightarrow>
          (case serializeKey d of
             Inl e \<Rightarrow> (Inl e, cache)
           | Inr key \<Rightarrow>
               let k = ident @ js ''-'' @ key in
               (case map_of cache k of
                  Some c \<Rightarrow> if c \<noteq> [] then (Inr c, cache)
                    else (let html = render (chart_props props config d x) in (Inr html, map_set cache k html))
                | None \<Rightarrow> let html = render (chart_props props config d x) in (Inr html, map_set cache k html))))"

section \<open>Properties\<close>

text \<open>The same without the cache, and a sequence of calls with it.\<close>

definition chart_view ::
    "(jsval \<Rightarrow> jstring) \<Rightarrow> jsval \<Rightarrow> (jstring \<times> jsval) list \<Rightarrow> jsval \<times> jsval \<Rightarrow> jserr + jstring" where
  "chart_view render config props px =
     (case point_data (fst px) of
        Inl e \<Rightarrow> Inl e
      | Inr d \<Rightarrow> (case serializeKey d of Inl e \<Rightarrow> Inl e | Inr key \<Rightarrow> Inr (render (chart_props props config d (snd px)))))"

fun chart_calls ::
    "(jsval \<Rightarrow> jstring) \<Rightarrow> jstring \<Rightarrow> jsval \<Rightarrow> (jstring \<times> jsval) list \<Rightarrow> (jsval \<times> jsval) list \<Rightarrow> chart_cache \<Rightarrow>
     (jserr + jstring) list" where
  "chart_calls render ident config props [] cache = []"
| "chart_calls render ident config props ((point, x) # calls) cache =
     (let (r, cache1) = chart_string render ident config props point x cache
      in r # chart_calls render ident config props calls cache1)"

definition chart_key :: "jsval \<times> jsval \<Rightarrow> jstring option" where
  "chart_key px =
     (case point_data (fst px) of
        Inl e \<Rightarrow> None
      | Inr d \<Rightarrow> (case serializeKey d of Inl e \<Rightarrow> None | Inr key \<Rightarrow> Some key))"

text \<open>A cache is valid for a set of calls when what it holds for the key of one of them is what that call shows.\<close>

definition cache_valid ::
    "(jsval \<Rightarrow> jstring) \<Rightarrow> jstring \<Rightarrow> jsval \<Rightarrow> (jstring \<times> jsval) list \<Rightarrow> (jsval \<times> jsval) set \<Rightarrow> chart_cache \<Rightarrow> bool" where
  "cache_valid render ident config props A cache \<longleftrightarrow>
     (\<forall>px\<in>A. \<forall>key h. chart_key px = Some key \<longrightarrow> map_of cache (ident @ js ''-'' @ key) = Some h \<longrightarrow>
        chart_view render config props px = Inr h)"

lemma chart_string_cases:
  "chart_key px = None \<Longrightarrow>
     chart_string render ident config props (fst px) (snd px) cache = (chart_view render config props px, cache)"
  "chart_key px = Some key \<Longrightarrow>
     chart_string render ident config props (fst px) (snd px) cache =
       (case map_of cache (ident @ js ''-'' @ key) of
          Some (c # cs) \<Rightarrow> (Inr (c # cs), cache)
        | _ \<Rightarrow> (chart_view render config props px,
                 map_set cache (ident @ js ''-'' @ key) (case chart_view render config props px of Inl e \<Rightarrow> [] | Inr h \<Rightarrow> h)))"
  by (auto simp: chart_key_def chart_string_def chart_view_def Let_def split: sum.splits option.splits list.splits)

lemma chart_view_key: "chart_key px = Some key \<Longrightarrow> \<exists>h. chart_view render config props px = Inr h"
  by (auto simp: chart_key_def chart_view_def split: sum.splits)

lemma chart_string_valid:
  assumes "px \<in> A" and "cache_valid render ident config props A cache"
    and "\<And>py. py \<in> A \<Longrightarrow> chart_key py = chart_key px \<Longrightarrow> chart_key px \<noteq> None \<Longrightarrow>
      chart_view render config props py = chart_view render config props px"
  shows "fst (chart_string render ident config props (fst px) (snd px) cache) = chart_view render config props px \<and>
     cache_valid render ident config props A (snd (chart_string render ident config props (fst px) (snd px) cache))"
proof (cases "chart_key px")
  case None
  then show ?thesis using assms(2) by (simp add: chart_string_cases)
next
  case (Some key)
  obtain h where h: "chart_view render config props px = Inr h" using chart_view_key [OF Some] by blast
  have new: "cache_valid render ident config props A (map_set cache (ident @ js ''-'' @ key) h)"
    using assms(2,3) Some h unfolding cache_valid_def by auto
  show ?thesis
  proof (cases "\<exists>c cs. map_of cache (ident @ js ''-'' @ key) = Some (c # cs)")
    case True
    then show ?thesis using assms(1,2) Some by (auto simp: chart_string_cases(2) cache_valid_def)
  next
    case False
    then have "chart_string render ident config props (fst px) (snd px) cache =
        (chart_view render config props px, map_set cache (ident @ js ''-'' @ key) h)"
      by (auto simp: chart_string_cases(2) [OF Some] h split: option.split list.split)
    then show ?thesis using new by simp
  qed
qed



text \<open>
  C40: the cache shows the wrong label. Its key has the data of a point but not the point's place on the axis,
  which is the label of a tooltip by default: of two points with the same data, the second is shown as the first.
\<close>

theorem chart_cache_stale:
  assumes "chart_view render config props (point, x1) = Inr (c # cs)"
  shows "chart_calls render ident config props [(point, x1), (point, x2)] [] = [Inr (c # cs), Inr (c # cs)]"
proof -
  have k: "chart_key (point, x2) = chart_key (point, x1)" by (simp add: chart_key_def)
  obtain key where key: "chart_key (point, x1) = Some key"
    using assms by (auto simp: chart_view_def chart_key_def split: sum.splits)
  show ?thesis
    using chart_string_cases(2) [OF key] chart_string_cases(2) [of "(point, x2)" key] k key assms by simp
qed

theorem chart_cache_stale_witness:
  "let render = (\<lambda>v. interp (tooltipLabel False None JUndef (opt_prop v ''payload'') (opt_prop v ''config'') (opt_prop v ''x'')))
   in chart_calls render (js ''c'') (JObj []) [] [(JObj [(js ''n'', jint 7)], jint 1), (JObj [(js ''n'', jint 7)], jint 2)] [] =
      [Inr (js ''1''), Inr (js ''1'')]"
proof -
  let ?r = "\<lambda>v. interp (tooltipLabel False None JUndef (opt_prop v ''payload'') (opt_prop v ''config'') (opt_prop v ''x''))"
  have "chart_view ?r (JObj []) [] (JObj [(js ''n'', jint 7)], jint 1) = Inr (0x31 # [])" by code_simp
  from chart_cache_stale [OF this, of "js ''c''" "jint 2"] show ?thesis unfolding Let_def by (simp add: js_Cons)
qed

text \<open>
  The key of a point forgets what is inside of it. The names that are kept are those of the point itself,
  also inside of its values: points that differ in a property of a value, of another name, have the same key.
\<close>

theorem nested_key_collides:
  assumes "a \<noteq> b"
  shows "serializeKey (JObj [(a, JObj [(b, v)])]) = serializeKey (JObj [(a, JObj [(b, w)])])"
proof -
  have "json_select [a] (JObj [(a, JObj [(b, u)])]) = JObj [(a, JObj [])]" for u
    using assms by (simp add: List.map_filter_simps)
  then show ?thesis by (simp add: serializeKey_def own_keys_def obj_keys_def js_nullish_def)
qed

theorem nested_key_collides_witness:
  "serializeKey (JObj [(js ''p'', JObj [(js ''x'', jint 1)])]) = serializeKey (JObj [(js ''p'', JObj [(js ''x'', jint 2)])])"
proof -
  have "js ''p'' \<noteq> js ''x''" by code_simp
  then show ?thesis by (rule nested_key_collides)
qed

end
