(* ===== verification/Ui_Form.thy ===== *)
theory Ui_Form
  imports Ui_Content
begin

text \<open>
  The form components of \<open>components/ui/form\<close>. The context of a field is an object of the validation
  package and an argument, absent outside of a field; so is the id that \<open>FormItem\<close> provides, which is
  undefined outside of one.
\<close>

section \<open>The field\<close>

record form_field =
  ff_id :: jsval
  ff_name :: jsval
  ff_formItemId :: jstring
  ff_formDescriptionId :: jstring
  ff_formMessageId :: jstring
  ff_valid :: jsval
  ff_isDirty :: jsval
  ff_isTouched :: jsval
  ff_error :: jsval

definition useFormField :: "jsval option \<Rightarrow> jsval \<Rightarrow> jserr + form_field" where
  "useFormField fieldContext fieldItemContext =
     (case fieldContext of
        None \<Rightarrow> Inl (Exn (js ''Error'') (js ''useFormField should be used within <FormField>''))
      | Some c \<Rightarrow>
          let meta = opt_prop c ''meta''; ident = fieldItemContext in
          Inr \<lparr>ff_id = ident, ff_name = opt_prop c ''name'',
               ff_formItemId = to_string ident @ js ''-form-item'',
               ff_formDescriptionId = to_string ident @ js ''-form-item-description'',
               ff_formMessageId = to_string ident @ js ''-form-item-message'',
               ff_valid = opt_prop meta ''valid'', ff_isDirty = opt_prop meta ''dirty'',
               ff_isTouched = opt_prop meta ''touched'', ff_error = opt_prop c ''errorMessage''\<rparr>)"

section \<open>Components\<close>

definition ui_form_item :: "kit_env \<Rightarrow> 'e ui" where
  "ui_form_item E i =
     [root E ''div'' [''class'']
        [(''data-slot'', jlit ''form-item''), (''class'', cn E [jlit ''grid gap-2'', given i ''class''])] i (i_slot i)]"

definition ui_form_control :: "kit_env \<Rightarrow> form_field \<Rightarrow> 'e ui" where
  "ui_form_control E f i =
     [root E ''Slot'' []
        [(''id'', JStr (ff_formItemId f)),
         (''data-slot'', jlit ''form-control''),
         (''aria-describedby'', JStr (if \<not> truthy (ff_error f) then ff_formDescriptionId f
            else ff_formDescriptionId f @ js '' '' @ ff_formMessageId f)),
         (''aria-invalid'', JBool (truthy (ff_error f)))] i (i_slot i)]"

definition ui_form_description :: "kit_env \<Rightarrow> form_field \<Rightarrow> 'e ui" where
  "ui_form_description E f i =
     [root E ''p'' [''class'']
        [(''id'', JStr (ff_formDescriptionId f)),
         (''data-slot'', jlit ''form-description''),
         (''class'', cn E [jlit ''text-muted-foreground text-sm'', given i ''class''])] i (i_slot i)]"

definition ui_form_label :: "kit_env \<Rightarrow> form_field \<Rightarrow> 'e ui" where
  "ui_form_label E f i =
     ui_label E (passed E ([''class''] @ lib_props E ''LabelProps'')
        [(''data-slot'', jlit ''form-label''),
         (''data-error'', JBool (truthy (ff_error f))),
         (''class'', cn E [jlit ''data-[error=true]:text-destructive'', given i ''class'']),
         (''for'', JStr (ff_formItemId f))] i (i_slot i))"

definition ui_form_message :: "kit_env \<Rightarrow> form_field \<Rightarrow> 'e ui" where
  "ui_form_message E f i =
     [root E ''ErrorMessage'' [''class'']
        [(''id'', JStr (ff_formMessageId f)),
         (''data-slot'', jlit ''form-message''),
         (''as'', jlit ''p''),
         (''name'', ff_name f),
         (''class'', cn E [jlit ''text-destructive text-sm'', given i ''class''])] i []]"

section \<open>Properties\<close>

fun node_attr :: "'e vnode list \<Rightarrow> string \<Rightarrow> jsval" where
  "node_attr [VEl tag as ls cs] k = (case map_of as k of None \<Rightarrow> JUndef | Some v \<Rightarrow> v)"
| "node_attr _ k = JUndef"

text \<open>The ids that a form item gives to its parts, read from the parts.\<close>

definition part_ids :: "kit_env \<Rightarrow> form_field \<Rightarrow> jsval list" where
  "part_ids E f =
     map (\<lambda>c. node_attr (c E f (inst [] [] []) :: unit vnode list) ''id'')
       [ui_form_control, ui_form_description, ui_form_message]"

lemma part_ids_simp:
  "part_ids E f = [JStr (ff_formItemId f), JStr (ff_formDescriptionId f), JStr (ff_formMessageId f)]"
  by (simp add: part_ids_def ui_form_control_def ui_form_description_def ui_form_message_def root_def merge_attrs_def
      rest_def)

lemma camelize_for: "camelize ''for'' = ''for''" "camelize ''data-slot'' = ''dataSlot''" "camelize ''data-error'' = ''dataError''"
  by code_simp+

lemma append_last_neq: "s \<noteq> [] \<Longrightarrow> t \<noteq> [] \<Longrightarrow> last s \<noteq> last t \<Longrightarrow> a @ s \<noteq> b @ t"
  by (metis last_appendR)

text \<open>
  C28: the parts of a form refer to each other and to no other form item. The control, the description and the
  message of two items have an id in common exactly when the items have the same id, and the three of one item
  differ; the label is for the control of its item; and what describes the control is the description of its
  item, and its message exactly when there is an error.
\<close>

theorem form_parts_linked:
  assumes "useFormField (Some fc) (JStr k) = Inr f" and "useFormField (Some fc') (JStr k') = Inr f'"
  shows "(set (part_ids E f) \<inter> set (part_ids E f') \<noteq> {} \<longleftrightarrow> k = k') \<and> distinct (part_ids E f) \<and>
     node_attr (ui_form_label E f (inst [] [] cs)) ''for'' = part_ids E f ! 0 \<and>
     node_attr (ui_form_control E f (inst [] [] cs)) ''aria-describedby'' = JStr (ff_formDescriptionId f @
       (if truthy (opt_prop fc ''errorMessage'') then js '' '' @ ff_formMessageId f else []))"
proof -
  let ?i = "js ''-form-item''" and ?d = "js ''-form-item-description''" and ?m = "js ''-form-item-message''"
  have f: "ff_formItemId f = k @ ?i" "ff_formDescriptionId f = k @ ?d" "ff_formMessageId f = k @ ?m"
    "ff_error f = opt_prop fc ''errorMessage''"
    "ff_formItemId f' = k' @ ?i" "ff_formDescriptionId f' = k' @ ?d" "ff_formMessageId f' = k' @ ?m"
    using assms by (auto simp: useFormField_def Let_def)
  have n: "?i \<noteq> []" "?d \<noteq> []" "?m \<noteq> []" "last ?i \<noteq> last ?d" "last ?i \<noteq> last ?m" "last ?d \<noteq> last ?m" by code_simp+
  note neq = append_last_neq [OF n(1,2,4)] append_last_neq [OF n(1,3,5)] append_last_neq [OF n(2,3,6)]
  have "set (part_ids E f) \<inter> set (part_ids E f') \<noteq> {} \<longleftrightarrow> k = k'"
    unfolding part_ids_simp f using neq neq [symmetric] by auto
  moreover have "distinct (part_ids E f)" unfolding part_ids_simp f using neq by simp
  moreover have "node_attr (ui_form_label E f (inst [] [] cs)) ''for'' = part_ids E f ! 0"
    by (simp add: part_ids_simp ui_form_label_def ui_label_def root_def passed_def merge_attrs_def rest_def camelize_for)
  moreover have "node_attr (ui_form_control E f (inst [] [] cs)) ''aria-describedby'' = JStr (ff_formDescriptionId f @
       (if truthy (opt_prop fc ''errorMessage'') then js '' '' @ ff_formMessageId f else []))"
    by (simp add: ui_form_control_def root_def merge_attrs_def rest_def f(4))
  ultimately show ?thesis by (intro conjI)
qed

theorem form_parts_linked_witness:
  "\<exists>f g. useFormField (Some (JObj [(js ''errorMessage'', jlit ''Required'')])) (jlit ''v-1'') = Inr f \<and>
     useFormField (Some (JObj [])) (jlit ''v-2'') = Inr g \<and> (\<forall>E. set (part_ids E f) \<inter> set (part_ids E g) = {})"
proof -
  obtain f where f: "useFormField (Some (JObj [(js ''errorMessage'', jlit ''Required'')])) (jlit ''v-1'') = Inr f"
    by (simp add: useFormField_def Let_def)
  obtain g where g: "useFormField (Some (JObj [])) (jlit ''v-2'') = Inr g" by (simp add: useFormField_def Let_def)
  have "js ''v-1'' \<noteq> js ''v-2''" by code_simp
  then have "\<forall>E. set (part_ids E f) \<inter> set (part_ids E g) = {}"
    using form_parts_linked [OF f g, where cs = "[] :: unit vnode list"] by simp
  then show ?thesis using f g by (intro exI [of _ f] exI [of _ g] conjI)
qed

end
