(* ===== verification/Spec2Isabelle.thy ===== *)
theory Spec2Isabelle
  imports Ui_Kit Ui_Command Ui_Chart Ui_Form
begin

text \<open>
  The administration panel of BetterMQ, \<open>src/engine/panel/src\<close>: a single-page browser program (TypeScript,
  Vue) that talks to a message broker over HTTP. This development models its library, its pages with their
  templates, its router and shell, and the component kit they are drawn with.

  \<^bold>\<open>The parts and how they interact.\<close> \<open>App.vue\<close> runs \<open>initAuth\<close> of \<open>lib/session.ts\<close>, which asks the broker how
  it authenticates and decides between the pages before sign-in and the shell. The shell shows a header, a
  sidebar and the page of the current route. A page calls the client \<open>lib/api.ts\<close>, which takes the base URL and
  the token from \<open>lib/storage.ts\<close>; it shares the lists of \<open>lib/catalog.ts\<close>, the session and the outbound defaults
  of \<open>lib/payload.ts\<close> with the other pages. The templates are written with the components of \<open>components/ui\<close>.

  \<^bold>\<open>The language.\<close> \<open>Js_Base\<close> (the prelude: strings of 16-bit code units, dynamic values, property access, the
  collections of lemmas), \<open>Js_Number\<close> (doubles: a finite number is its exact value, and every operation that
  could leave the doubles rounds), \<open>Js_Text\<close> and \<open>Js_Format\<close> (JSON, URL components, query strings, and what holds
  of them), \<open>Js_Async\<close> (asynchronous functions as processes that stop at every \<open>await\<close>; the event loop as the
  inductive relations \<open>loop_step\<close> and \<open>loop_reach\<close>; the locale \<open>event_loop\<close>, in which invariants and promises
  about requests are proved once by rule induction).

  \<^bold>\<open>The library.\<close>
  \<^item> \<open>Panel_Storage\<close>: \<open>lib/config.ts\<close> and \<open>lib/storage.ts\<close>, on a record of the browser. A locale \<open>token_store\<close> states
    the contract of the token functions; they refine a table from base URLs to tokens.
  \<^item> \<open>Panel_Api\<close>: the shared state \<open>panel\<close> and \<open>lib/api.ts\<close>. What a request returns or throws for every reply, and
    that it carries the saved token.
  \<^item> \<open>Panel_Payload\<close>: \<open>lib/payload.ts\<close> and \<open>composables/useActionStatus.ts\<close>. Payload building on every branch, and
    that a request body reads back as the payload.
  \<^item> \<open>Panel_Catalog\<close>: \<open>lib/catalog.ts\<close>, \<open>lib/federation.ts\<close>, \<open>lib/avatar.ts\<close>.
  \<^item> \<open>Panel_Session\<close>: \<open>lib/session.ts\<close>. Where signing in ends for every answer, that a refused token is forgotten,
    and that the selected cell is a registered one.

  \<^bold>\<open>The pages.\<close> \<open>Vue_Template\<close> has the trees that templates denote and what a tree offers to click and to read.
  \<open>Panel_Layout\<close> (\<open>components/form\<close>, \<open>components/layout\<close>, the table of \<open>router/index.ts\<close>), \<open>View_Auth\<close> (\<open>App.vue\<close> and
  the pages before sign-in) and one theory per page: \<open>View_Dlq\<close>, \<open>View_Queues\<close>, \<open>View_Flows\<close>, \<open>View_Groups\<close>,
  \<open>View_Publish\<close>, \<open>View_Enqueue\<close>, \<open>View_Schedules\<close>, \<open>View_Overview\<close>, \<open>View_Infra\<close>, \<open>View_Http\<close>, \<open>View_Settings\<close> (with the
  API reference). Each has the record of the page's refs on top of \<open>panel\<close>, a definition per function of the
  script, a handler from the page's events to processes, and the template. Each handler interprets three
  locales: \<open>page_script\<close> (the page stays on its origin and so do its requests), \<open>synced_script\<close> of
  \<open>Panel_Invariant\<close> (the session and the browser agree) and \<open>policed_script\<close> of \<open>Panel_Requests\<close> (the requests that
  are not reads have one of the listed forms). The pages' own lemmas are about what they send for which
  contents of their fields and about what they show.

  \<^bold>\<open>The whole.\<close> \<open>Panel_App\<close> composes all pages over one browser, session and catalog, with an instance of the refs
  per mounted page, and carries the three locales over to the interleaving of all handlers (\<open>app_handler\<close>). This
  theory states the results for the panel.

  \<^bold>\<open>The component kit, \<open>components/ui\<close>.\<close> \<open>Ui_Base\<close>: a component is a function of the attributes, listeners and slots it
  is handed, with the framework's rules for attributes that fall through; \<open>cn\<close> of \<open>lib/utils.ts\<close>; the expansion of
  a template; and the locale \<open>ui_kit\<close> with what holds of every kit of transparent components. \<open>Ui_Content\<close>,
  \<open>Ui_Overlay\<close> and \<open>Ui_Sidebar\<close> have the components, a definition per file. \<open>Ui_Kit\<close> interprets \<open>ui_kit\<close> on all of them:
  every page offers the same events and shows the same texts expanded as in its template. \<open>Ui_Sidebar\<close> also has
  the state of the sidebar and its cookie, \<open>Ui_Command\<close> the search of the command menu, \<open>Ui_Chart\<close> the cache of the
  tooltips and \<open>Ui_Form\<close> the ids that link the parts of a form.

  \<^bold>\<open>Parameters.\<close> What is not in the sources is an argument: the broker's replies (an argument of every schedule,
  unrestricted), the origin of a parsed URL, the text of a date, the URL of an asset and the avatar picture
  (fields of the browser), the user's answer to \<open>confirm\<close> and the clock (fields of the pages' state), the
  packages behind the kit (the record \<open>kit_env\<close>, the two-way binding of the sidebar with its two documented
  modes, the text search of the command menu, the rendering of the charts).

  \<^bold>\<open>Bounds.\<close> Only the JSON parser recurses on fuel: a text of \<open>n\<close> units gets \<open>2 * n + 2\<close>, which \<open>parseBody_fuel\<close> shows
  to be enough, and every larger amount gives the same. All other definitions are total without a bound (the
  digits of an integer by a measure). A timer's ticks are calls of the polls at any time.

  \<^bold>\<open>Simplifications.\<close> A path is matched exactly, without the router's optional trailing slash and letter case.
  \<open>toLowerCase\<close> is that of ASCII letters. A number has no negative zero. In the kit, a property of the package
  that is not given is left out. The map of the definitions names operations, components and data; a
  definition that is one expression of a listed operation stands beside it and is not listed again.

  \<^bold>\<open>Not modelled.\<close>
  \<^item> The broker itself, \<open>src/engine/broker-*\<close>: Rust crates (storage, replication, dispatch, schedules, HTTP
    server). The panel only meets it through replies, which are unrestricted here.
  \<^item> \<open>src/engine/panel/dist\<close> and the bundle of the API reference that the broker serves: generated or vendored code.
  \<^item> \<open>main.ts\<close>, which hands \<open>App.vue\<close> to the framework, and style sheets.
  \<^item> \<open>components/ui/sonner\<close>, which only configures a component of a package and is used by no page.
  \<^item> The click handler of \<open>InputGroupAddon.vue\<close> (it moves the focus of the page) and the handler of
    \<open>DialogScrollContent.vue\<close> (it prevents a default action of the package): focus and default actions are not
    part of the browser's model.
  \<^item> What opens, closes and takes the focus inside of the elements of the component package.
  \<^item> \<open>install.sh\<close>, \<open>install.ps1\<close>, \<open>selfhost\<close>, \<open>scripts\<close>, \<open>tools\<close>: installation and deployment scripts.
\<close>

section \<open>The panel as a whole\<close>

text \<open>
  C1: the panel talks to its own broker only. Loaded over HTTP with a relative admin API root, whatever
  the user does on whichever page, in whatever order the answers arrive and whatever they contain, every
  request that is ever pending goes to the origin the page was loaded from.
\<close>

theorem panel_own_origin:
  assumes "served_over_http b" and "admin_relative b"
    and "loop_reach (\<lambda>_ _. True) app_handler (app_init clock answer b) (s, pool)"
    and "p \<in> set pool" and "Fetch r \<in> set (pending p)"
  shows "own_url b (req_url r)"
  using app_page.page_loop.reach_queries [OF assms(3) panel_init_on_page(2) [OF assms(1,2)] assms(4,5)]
  by (simp add: own_origin_def)

theorem panel_own_origin_witness:
  "\<exists>s pool p r. loop_reach (\<lambda>_ _. True) app_handler
       (app_init (\<lambda>_. 0) (\<lambda>_ _. True) (fresh_page (js ''http://a''))) (s, pool) \<and>
     p \<in> set pool \<and> Fetch r \<in> set (pending p) \<and> own_url (fresh_page (js ''http://a'')) (req_url r)"
proof -
  let ?b = "fresh_page (js ''http://a'')"
  let ?s = "app_init (\<lambda>_. 0) (\<lambda>_ _. True) ?b"
  obtain s1 k where a: "adv (app_handler (AuthEvent 0 AppMounted)) ?s =
      (s1, return_undef, [Await (Fetch (plain_get (publicUrl (js ''/v1/auth/config'') (win s1)))) k])"
    using app_mounted_adv by blast
  let ?r = "plain_get (publicUrl (js ''/v1/auth/config'') (win s1))"
  have r: "loop_reach (\<lambda>_ _. True) app_handler ?s (s1, [return_undef, Await (Fetch ?r) k])"
    by (rule reach_event [where handler = app_handler, OF a]) simp
  have "own_url ?b (req_url ?r)"
    by (rule panel_own_origin [OF _ _ r, of "Await (Fetch ?r) k"]) simp_all
  then show ?thesis
    using r by (intro exI [of _ s1] exI [of _ "[return_undef, Await (Fetch ?r) k]"] exI [of _ "Await (Fetch ?r) k"]
        exI [of _ ?r]) simp
qed





end
